(* ===== verification/Prelude.thy ===== *)
theory Prelude
  imports
    Main
    "HOL-Library.Word"
    "HOL-Library.Finite_Map"
    "HOL-Library.Multiset"
    "HOL-Library.Char_ord"
    "HOL-Library.Sublist"
begin

text \<open>
  Shared vocabulary of the development: how Go values are written in HOL, the loops the
  components share, and the lemma collections their proofs draw from.

  \<^item> A Go string or byte slice is a \<^typ>\<open>string\<close>: a HOL character is one byte.
  \<^item> A pointer \<open>*T\<close> is a \<open>T option\<close>: \<open>nil\<close> is \<open>None\<close>. The code never compares two
    non-nil pointers and never aliases one it writes through.
  \<^item> A slice whose nil-ness is observed is an optional list, a map whose nil-ness is
    observed an optional finite map.
  \<^item> A map that the code ranges over, with results that could depend on the order, is the
    list of its entries in the order of that range loop; its keys are distinct.
  \<^item> An \<open>error\<close> is the message of \<open>errors.New\<close>, or \<open>None\<close> for \<open>nil\<close>.
\<close>

named_theorems go_equal
  \<open>generated comparison functions that decide equality\<close>
named_theorems go_eval
  \<open>definitions unfolded when a concrete request is evaluated\<close>

type_synonym error = "string option"
type_synonym 'a slice = "'a list option"
type_synonym 'v gomap = "(string, 'v) fmap option"
type_synonym 'v entries = "(string \<times> 'v) list"

type_synonym byte = "8 word"
type_synonym uint32 = "32 word"
type_synonym uint64 = "64 word"
type_synonym int64 = "64 word"


section \<open>Slices, maps and pointers\<close>

definition elems :: "'a slice \<Rightarrow> 'a list" where
  "elems s = (case s of None \<Rightarrow> [] | Some xs \<Rightarrow> xs)"

definition go_len :: "'a slice \<Rightarrow> nat" where
  "go_len s = length (elems s)"

definition map_content :: "'v gomap \<Rightarrow> (string, 'v) fmap" where
  "map_content m = (case m of None \<Rightarrow> fmempty | Some f \<Rightarrow> f)"

definition map_len :: "'v gomap \<Rightarrow> nat" where
  "map_len m = fcard (fmdom (map_content m))"

definition map_get :: "'v gomap \<Rightarrow> string \<Rightarrow> 'v option" where
  "map_get m k = fmlookup (map_content m) k"

lemma elems_simps [simp]: "elems None = []" "elems (Some xs) = xs"
  by (simp_all add: elems_def)

lemma map_content_simps [simp]: "map_content None = fmempty" "map_content (Some f) = f"
  by (simp_all add: map_content_def)

lemma map_get_simps [simp]:
  "map_get None k = None" "map_get (Some f) k = fmlookup f k"
  by (simp_all add: map_get_def)

text \<open>
  The three shapes of comparison that the generated code uses for composite types: a
  pointer, a slice and a map. Both sides must agree on being nil.
\<close>

definition ptr_equal :: "('a \<Rightarrow> 'a \<Rightarrow> bool) \<Rightarrow> 'a option \<Rightarrow> 'a option \<Rightarrow> bool" where
  "ptr_equal eq a b =
     (case a of
        None \<Rightarrow> b = None
      | Some x \<Rightarrow> (case b of None \<Rightarrow> False | Some y \<Rightarrow> eq x y))"

definition slice_equal :: "('a \<Rightarrow> 'a \<Rightarrow> bool) \<Rightarrow> 'a slice \<Rightarrow> 'a slice \<Rightarrow> bool" where
  "slice_equal eq a b =
     (if (a = None) \<noteq> (b = None) \<or> go_len a \<noteq> go_len b then False
      else list_all (\<lambda>(x, y). eq x y) (zip (elems a) (elems b)))"

definition map_equal :: "('v \<Rightarrow> 'v \<Rightarrow> bool) \<Rightarrow> 'v gomap \<Rightarrow> 'v gomap \<Rightarrow> bool" where
  "map_equal eq a b =
     (if (a = None) \<noteq> (b = None) \<or> map_len a \<noteq> map_len b then False
      else fmpred (\<lambda>k v. case map_get b k of None \<Rightarrow> False | Some other \<Rightarrow> eq v other)
             (map_content a))"

lemma ptr_equal_eq [go_equal]: "ptr_equal (=) = (=)"
  by (intro ext) (auto simp: ptr_equal_def split: option.splits)

lemma list_all_zip_eq:
  "length xs = length ys \<Longrightarrow> list_all (\<lambda>(x, y). x = y) (zip xs ys) \<longleftrightarrow> xs = ys"
  by (induction xs ys rule: list_induct2) auto

lemma slice_equal_eq [go_equal]: "slice_equal (=) = (=)"
proof (intro ext)
  fix a b :: "'a slice"
  show "slice_equal (=) a b = (a = b)"
    by (cases a; cases b) (auto simp: slice_equal_def go_len_def list_all_zip_eq)
qed

lemma fmap_eq_if_sub_card:
  assumes sub: "\<And>k v. fmlookup f k = Some v \<Longrightarrow> fmlookup g k = Some v"
    and card: "fcard (fmdom f) = fcard (fmdom g)"
  shows "f = g"
proof -
  have "fmdom f |\<subseteq>| fmdom g"
    using sub by (auto simp: fmlookup_dom_iff)
  with card have dom: "fmdom f = fmdom g"
    by (intro fcard_seteq) auto
  show ?thesis
  proof (rule fmap_ext)
    fix k
    show "fmlookup f k = fmlookup g k"
    proof (cases "fmlookup f k")
      case None
      then have "k |\<notin>| fmdom g" using dom by (simp add: fmdom_notI flip: dom)
      then show ?thesis using None by (simp add: fmdom_notD)
    next
      case (Some v)
      then show ?thesis using sub by simp
    qed
  qed
qed

lemma map_equal_eq [go_equal]: "map_equal (=) = (=)"
proof (intro ext)
  fix a b :: "'v gomap"
  have loop: "fmpred (\<lambda>k v. case fmlookup g k of None \<Rightarrow> False | Some other \<Rightarrow> v = other) f
      \<longleftrightarrow> (\<forall>k v. fmlookup f k = Some v \<longrightarrow> fmlookup g k = Some v)" for f g :: "(string, 'v) fmap"
    by (auto simp: fmpred_iff split: option.splits)
  show "map_equal (=) a b = (a = b)"
    by (cases a; cases b) (auto simp: map_equal_def map_len_def loop intro: fmap_eq_if_sub_card)
qed


section \<open>Early-return loops\<close>

text \<open>
  \<open>for x := range xs { if err := f(x); err != nil { return err } }\<close>: the first error of
  the loop.
\<close>

fun first_error :: "('a \<Rightarrow> error) \<Rightarrow> 'a list \<Rightarrow> error" where
  "first_error f [] = None"
| "first_error f (x # xs) = (case f x of Some e \<Rightarrow> Some e | None \<Rightarrow> first_error f xs)"

lemma case_error_None_iff [simp]:
  "(case x of Some e \<Rightarrow> Some e | None \<Rightarrow> y) = None \<longleftrightarrow> x = None \<and> y = None"
  by (simp split: option.split)

text \<open>An early return of an error, and an error passed on, as seen from the success result.\<close>

lemma guard_Inr_iff: "(if b then Inl e else x) = Inr y \<longleftrightarrow> \<not> b \<and> x = Inr y"
  by simp

lemma bind_Inr_iff:
  "(case x of Inl e \<Rightarrow> Inl (g e) | Inr a \<Rightarrow> f a) = Inr y \<longleftrightarrow> (\<exists>a. x = Inr a \<and> f a = Inr y)"
  by (cases x) auto

lemma check_Inr_iff:
  "(case x of Some e \<Rightarrow> Inl (g e) | None \<Rightarrow> y) = Inr z \<longleftrightarrow> x = None \<and> y = Inr z"
  by (cases x) auto

lemmas result_Inr_iffs = guard_Inr_iff bind_Inr_iff check_Inr_iff

lemma first_error_None_iff [simp]:
  "first_error f xs = None \<longleftrightarrow> (\<forall>x \<in> set xs. f x = None)"
  by (induction xs) (auto split: option.splits)

lemma first_error_SomeD:
  "first_error f xs = Some e \<Longrightarrow> \<exists>x \<in> set xs. f x = Some e"
  by (induction xs) (auto split: option.splits)

lemma first_error_cong [fundef_cong]:
  "xs = ys \<Longrightarrow> (\<And>x. x \<in> set ys \<Longrightarrow> f x = g x) \<Longrightarrow> first_error f xs = first_error g ys"
  by (induction ys arbitrary: xs) (auto split: option.split)

lemma first_error_cong_set:
  "set xs = set ys \<Longrightarrow> first_error f xs = None \<longleftrightarrow> first_error f ys = None"
  by simp


section \<open>Readers\<close>

text \<open>A reader: the bytes it yields, then an end of input or a failure.\<close>

record reader =
  ReaderBytes :: string
  ReaderFails :: bool

text \<open>\<open>io.ReadAll(io.LimitReader(r, n))\<close>: a failure after the first \<open>n\<close> bytes is not seen.\<close>

definition read_limited :: "nat \<Rightarrow> reader \<Rightarrow> string option" where
  "read_limited n r =
     (if ReaderFails r \<and> length (ReaderBytes r) < n then None else Some (take n (ReaderBytes r)))"

lemma read_limited_within:
  "read_limited (n + 1) r = Some data \<and> length data \<le> n \<longleftrightarrow>
     \<not> ReaderFails r \<and> length (ReaderBytes r) \<le> n \<and> data = ReaderBytes r"
  by (auto simp: read_limited_def)

end
