(* ===== verification/Identity.thy ===== *)
theory Identity
  imports Prelude
begin

text \<open>
  \<open>internal/identity\<close>: the client identity of a request, read from the authentication that
  Docker performed. The request envelope is the \<open>authorization.Request\<close> of Docker's plugin
  helper package, with the fields that the program reads; of a peer certificate it reads the
  subject's common name only.
\<close>

record PeerCertificate =
  SubjectCommonName :: string

record Request =
  User :: string
  UserAuthNMethod :: string
  RequestMethod :: string
  RequestURI :: string
  RequestBody :: string
  RequestHeaders :: "string entries"
  RequestPeerCertificates :: "PeerCertificate option list"

text \<open>
  \<open>CommonName\<close> returns \<open>Inr ''''\<close> for a request without any authentication, \<open>Inr cn\<close> for an
  authenticated leaf certificate and \<open>Inl\<close> the error otherwise.
\<close>

definition CommonName :: "Request \<Rightarrow> string + string" where
  "CommonName req =
     (if UserAuthNMethod req = '''' \<and> User req = '''' \<and> RequestPeerCertificates req = []
      then Inr ''''
      else case RequestPeerCertificates req of
          Some leaf # _ \<Rightarrow>
            if UserAuthNMethod req \<noteq> ''TLS'' then Inl ''invalid authentication context''
            else let cn = SubjectCommonName leaf in
              if cn = '''' \<or> (User req \<noteq> '''' \<and> User req \<noteq> cn)
              then Inl ''ambiguous authenticated identity''
              else Inr cn
        | _ \<Rightarrow> Inl ''invalid authentication context'')"

text \<open>The request carries no authentication context at all.\<close>

definition anonymous :: "Request \<Rightarrow> bool" where
  "anonymous req \<longleftrightarrow>
     UserAuthNMethod req = '''' \<and> User req = '''' \<and> RequestPeerCertificates req = []"

text \<open>
  Docker authenticated the peer over TLS, its leaf certificate names \<open>cn\<close>, and the user
  name that Docker reports does not contradict it.
\<close>

definition authenticated_as :: "Request \<Rightarrow> string \<Rightarrow> bool" where
  "authenticated_as req cn \<longleftrightarrow>
     cn \<noteq> '''' \<and> UserAuthNMethod req = ''TLS'' \<and>
     (\<exists>leaf rest. RequestPeerCertificates req = Some leaf # rest \<and> SubjectCommonName leaf = cn) \<and>
     (User req = '''' \<or> User req = cn)"

lemma CommonName_anonymous_iff: "CommonName req = Inr '''' \<longleftrightarrow> anonymous req"
  by (auto simp: CommonName_def anonymous_def Let_def split: list.splits option.splits if_splits)

lemma CommonName_Inr_iff:
  "cn \<noteq> '''' \<Longrightarrow> CommonName req = Inr cn \<longleftrightarrow> authenticated_as req cn"
  by (auto simp: CommonName_def authenticated_as_def Let_def
      split: list.splits option.splits if_splits)

lemma CommonName_headers_irrelevant:
  "CommonName (req\<lparr>RequestHeaders := hs, RequestMethod := m, RequestURI := u, RequestBody := b\<rparr>)
   = CommonName req"
  by (simp add: CommonName_def split: list.splits option.splits)

end
