(* ===== verification/Go_Strings.thy ===== *)
theory Go_Strings
  imports Prelude
begin

text \<open>
  The functions of Go's \<open>strings\<close>, \<open>bytes\<close> and \<open>strconv\<close> packages that the program calls,
  on byte strings. Where Go decodes UTF-8 (white space, case folding) the byte sequences of
  the runes that matter are spelled out.
\<close>

section \<open>Searching and splitting\<close>

definition trim_prefix :: "string \<Rightarrow> string \<Rightarrow> string" where
  "trim_prefix s p = (if prefix p s then drop (length p) s else s)"

definition trim_suffix :: "string \<Rightarrow> string \<Rightarrow> string" where
  "trim_suffix s p = (if suffix p s then take (length s - length p) s else s)"

definition contains_any :: "string \<Rightarrow> string \<Rightarrow> bool" where
  "contains_any s chars = list_ex (\<lambda>c. c \<in> set chars) s"

text \<open>\<open>strings.Cut\<close> at a single byte, without its \<open>found\<close> result.\<close>

definition cut :: "char \<Rightarrow> string \<Rightarrow> string \<times> string" where
  "cut c s = (takeWhile (\<lambda>x. x \<noteq> c) s, drop 1 (dropWhile (\<lambda>x. x \<noteq> c) s))"

text \<open>\<open>strings.Split\<close> at a single byte, and its inverse \<open>strings.Join\<close>.\<close>

fun split_on :: "char \<Rightarrow> string \<Rightarrow> string list" where
  "split_on c [] = [[]]"
| "split_on c (x # xs) =
     (if x = c then [] # split_on c xs
      else case split_on c xs of [] \<Rightarrow> [[x]] | p # ps \<Rightarrow> (x # p) # ps)"

fun join_on :: "char \<Rightarrow> string list \<Rightarrow> string" where
  "join_on c [] = []"
| "join_on c [p] = p"
| "join_on c (p # q # ps) = p @ c # join_on c (q # ps)"

lemma split_on_not_Nil [simp]: "split_on c s \<noteq> []"
  by (induction s) (auto split: list.splits)

lemma split_on_clean: "p \<in> set (split_on c s) \<Longrightarrow> c \<notin> set p"
  by (induction s arbitrary: p) (auto split: list.splits if_splits)

lemma join_on_push: "join_on c ((x # p) # ps) = x # join_on c (p # ps)"
  by (cases ps) auto

lemma join_split_on [simp]: "join_on c (split_on c s) = s"
proof (induction s)
  case Nil
  show ?case by simp
next
  case (Cons x xs)
  obtain p ps where ps: "split_on c xs = p # ps"
    by (cases "split_on c xs") auto
  show ?case using Cons ps by (cases "x = c") (auto simp: join_on_push)
qed

lemma split_on_clean_append:
  "c \<notin> set p \<Longrightarrow> split_on c (p @ c # s) = p # split_on c s"
  by (induction p) auto

lemma split_on_clean_string: "c \<notin> set p \<Longrightarrow> split_on c p = [p]"
  by (induction p) auto

lemma split_join_on:
  "ps \<noteq> [] \<Longrightarrow> (\<forall>p \<in> set ps. c \<notin> set p) \<Longrightarrow> split_on c (join_on c ps) = ps"
  by (induction c ps rule: join_on.induct)
    (auto simp: split_on_clean_string split_on_clean_append)

lemma set_join_on: "set (join_on c ps) \<subseteq> insert c (\<Union>p \<in> set ps. set p)"
  by (induction c ps rule: join_on.induct) auto

lemma cut_clean_append:
  "c \<notin> set p \<Longrightarrow> cut c (p @ c # s) = (p, s)"
  by (induction p) (auto simp: cut_def)

lemma cut_clean: "c \<notin> set p \<Longrightarrow> cut c p = (p, [])"
  by (induction p) (auto simp: cut_def)


section \<open>White space\<close>

text \<open>
  \<open>strings.TrimSpace\<close> and \<open>bytes.TrimSpace\<close> remove the runes of \<open>unicode.IsSpace\<close>; these
  are their UTF-8 encodings.
\<close>

definition space_runes :: "string list" where
  "space_runes =
     [[CHR 0x20], [CHR 0x09], [CHR 0x0A], [CHR 0x0B], [CHR 0x0C], [CHR 0x0D],
      [CHR 0xC2, CHR 0x85], [CHR 0xC2, CHR 0xA0], [CHR 0xE1, CHR 0x9A, CHR 0x80],
      [CHR 0xE2, CHR 0x80, CHR 0x80], [CHR 0xE2, CHR 0x80, CHR 0x81],
      [CHR 0xE2, CHR 0x80, CHR 0x82], [CHR 0xE2, CHR 0x80, CHR 0x83],
      [CHR 0xE2, CHR 0x80, CHR 0x84], [CHR 0xE2, CHR 0x80, CHR 0x85],
      [CHR 0xE2, CHR 0x80, CHR 0x86], [CHR 0xE2, CHR 0x80, CHR 0x87],
      [CHR 0xE2, CHR 0x80, CHR 0x88], [CHR 0xE2, CHR 0x80, CHR 0x89],
      [CHR 0xE2, CHR 0x80, CHR 0x8A], [CHR 0xE2, CHR 0x80, CHR 0xA8],
      [CHR 0xE2, CHR 0x80, CHR 0xA9], [CHR 0xE2, CHR 0x80, CHR 0xAF],
      [CHR 0xE2, CHR 0x81, CHR 0x9F], [CHR 0xE3, CHR 0x80, CHR 0x80]]"

definition strip_width :: "string list \<Rightarrow> string \<Rightarrow> nat" where
  "strip_width rs s = (case find (\<lambda>r. prefix r s) rs of None \<Rightarrow> 0 | Some r \<Rightarrow> length r)"

lemma strip_width_le: "strip_width rs s \<le> length s"
proof (cases "find (\<lambda>r. prefix r s) rs")
  case None
  then show ?thesis by (simp add: strip_width_def)
next
  case (Some r)
  then have "prefix r s" by (auto simp: find_Some_iff)
  with Some show ?thesis by (simp add: strip_width_def prefix_length_le)
qed

function strip_left :: "string list \<Rightarrow> string \<Rightarrow> string" where
  "strip_left rs s =
     (if strip_width rs s = 0 then s else strip_left rs (drop (strip_width rs s) s))"
  by pat_completeness auto
termination
proof (relation "measure (\<lambda>(rs, s). length s)")
  fix rs s assume "strip_width rs s \<noteq> 0"
  with strip_width_le [of rs s]
  show "((rs, drop (strip_width rs s) s), rs, s) \<in> measure (\<lambda>(rs, s). length s)"
    by simp
qed simp

declare strip_left.simps [simp del]

definition trim_space :: "string \<Rightarrow> string" where
  "trim_space s = rev (strip_left (map rev space_runes) (rev (strip_left space_runes s)))"

lemma strip_left_suffix: "suffix (strip_left rs s) s"
proof (induction rs s rule: strip_left.induct)
  case (1 rs s)
  show ?case
  proof (cases "strip_width rs s = 0")
    case True
    then show ?thesis by (subst strip_left.simps) simp
  next
    case False
    with 1 have "suffix (strip_left rs (drop (strip_width rs s) s)) s"
      by (meson suffix_drop suffix_order.trans)
    with False show ?thesis by (subst strip_left.simps) simp
  qed
qed

lemma set_trim_space: "set (trim_space s) \<subseteq> set s"
  using strip_left_suffix [of "map rev space_runes" "rev (strip_left space_runes s)"]
    strip_left_suffix [of space_runes s]
  unfolding trim_space_def by (fastforce dest: set_mono_suffix)


section \<open>Case folding\<close>

text \<open>
  \<open>strings.EqualFold\<close> compares under Unicode simple case folding. The program only compares
  with constant ASCII header names, so the runes that matter are those whose folding orbit
  holds an ASCII letter: the letters themselves, the Kelvin sign (\<open>k\<close>) and the long s.
\<close>

definition to_lower_ascii :: "char \<Rightarrow> char" where
  "to_lower_ascii c = (if CHR ''A'' \<le> c \<and> c \<le> CHR ''Z'' then char_of (of_char c + (32::nat)) else c)"

fun fold_runes :: "string \<Rightarrow> string" where
  "fold_runes [] = []"
| "fold_runes [a] = [to_lower_ascii a]"
| "fold_runes [a, b] =
     (if a = CHR 0xC5 \<and> b = CHR 0xBF then [CHR ''s''] else to_lower_ascii a # fold_runes [b])"
| "fold_runes (a # b # c # r) =
     (if a = CHR 0xE2 \<and> b = CHR 0x84 \<and> c = CHR 0xAA then CHR ''k'' # fold_runes r
      else if a = CHR 0xC5 \<and> b = CHR 0xBF then CHR ''s'' # fold_runes (c # r)
      else to_lower_ascii a # fold_runes (b # c # r))"

definition equal_fold :: "string \<Rightarrow> string \<Rightarrow> bool" where
  "equal_fold s t \<longleftrightarrow> fold_runes s = fold_runes t"


section \<open>Unsigned integers\<close>

definition is_digit :: "char \<Rightarrow> bool" where
  "is_digit c \<longleftrightarrow> CHR ''0'' \<le> c \<and> c \<le> CHR ''9''"

definition digit_val :: "char \<Rightarrow> nat" where
  "digit_val c = of_char c - 48"

text \<open>
  \<open>strconv.ParseUint(s, 10, 64)\<close>: the accumulator is a 64-bit word and overflow is caught
  before the multiplication (\<open>cutoff\<close>) and after the addition (wrap-around). \<open>None\<close> stands
  for a syntax or range error.
\<close>

definition cutoff :: uint64 where
  "cutoff = 1844674407370955162"

fun parse_uint_loop :: "uint64 \<Rightarrow> string \<Rightarrow> uint64 option" where
  "parse_uint_loop n [] = Some n"
| "parse_uint_loop n (c # cs) =
     (if \<not> is_digit c then None
      else if cutoff \<le> n then None
      else let m = n * 10; n1 = m + of_nat (digit_val c)
           in if n1 < m then None else parse_uint_loop n1 cs)"

definition parse_uint :: "string \<Rightarrow> uint64 option" where
  "parse_uint s = (if s = [] then None else parse_uint_loop 0 s)"

text \<open>The number that a string of decimal digits denotes.\<close>

definition digits_value :: "nat \<Rightarrow> string \<Rightarrow> nat" where
  "digits_value n s = foldl (\<lambda>n c. 10 * n + digit_val c) n s"

lemma digits_value_simps [simp]:
  "digits_value n [] = n" "digits_value n (c # cs) = digits_value (10 * n + digit_val c) cs"
  by (simp_all add: digits_value_def)

lemma digits_value_ge: "n \<le> digits_value n s"
  by (induction s arbitrary: n) (simp, metis digits_value_simps(2) le_trans le_add1 mult_le_mono1
      one_le_numeral mult_1)

lemma is_digit_iff: "is_digit c \<longleftrightarrow> 48 \<le> (of_char c :: nat) \<and> (of_char c :: nat) \<le> 57"
  by (simp add: is_digit_def less_eq_char_def)

lemma is_digit_val: "is_digit c \<Longrightarrow> digit_val c < 10"
  unfolding is_digit_iff digit_val_def by linarith

lemma cutoff_exact: "n < cutoff \<longleftrightarrow> unat n * 10 < 2 ^ 64"
  by (simp add: cutoff_def word_less_nat_alt) linarith

lemma parse_uint_step:
  assumes "n < cutoff" and "d < 10"
  shows "n * 10 + of_nat d < n * 10 \<longleftrightarrow> \<not> unat n * 10 + d < 2 ^ 64"
    and "unat n * 10 + d < 2 ^ 64 \<Longrightarrow> unat (n * 10 + of_nat d) = unat n * 10 + d"
proof -
  have m: "unat (n * 10) = unat n * 10"
    using assms(1) by (simp add: cutoff_exact unat_word_ariths)
  have d: "unat (of_nat d :: uint64) = d"
    using assms(2) by (simp add: unat_of_nat)
  have s: "unat (n * 10 + of_nat d) = (unat n * 10 + d) mod 2 ^ 64"
    by (simp add: unat_word_ariths(1) m d)
  from assms(1) have b: "unat n * 10 < 2 ^ 64" by (simp add: cutoff_exact)
  show "n * 10 + of_nat d < n * 10 \<longleftrightarrow> \<not> unat n * 10 + d < 2 ^ 64"
  proof (cases "unat n * 10 + d < 2 ^ 64")
    case True
    then show ?thesis by (simp add: word_less_nat_alt s m)
  next
    case False
    then have "(unat n * 10 + d) mod 2 ^ 64 = unat n * 10 + d - 2 ^ 64"
      using b assms(2) by (simp add: le_mod_geq)
    then show ?thesis using False b assms(2) by (simp add: word_less_nat_alt s m)
  qed
  show "unat n * 10 + d < 2 ^ 64 \<Longrightarrow> unat (n * 10 + of_nat d) = unat n * 10 + d"
    by (simp add: s)
qed

lemma parse_uint_loop_correct:
  "parse_uint_loop n s = Some v \<longleftrightarrow>
     list_all is_digit s \<and> digits_value (unat n) s < 2 ^ 64 \<and> unat v = digits_value (unat n) s"
proof (induction s arbitrary: n)
  case Nil
  show ?case using unsigned_less [of n, where ?'a = nat] by (auto simp: word_unat_eq_iff)
next
  case (Cons c cs)
  show ?case
  proof (cases "is_digit c \<and> n < cutoff")
    case True
    then have d: "digit_val c < 10" by (simp add: is_digit_val)
    note step = parse_uint_step [OF conjunct2 [OF True] d]
    show ?thesis
    proof (cases "unat n * 10 + digit_val c < 2 ^ 64")
      case small: True
      then show ?thesis using True Cons step by (auto simp: Let_def mult.commute not_le)
    next
      case big: False
      then have "\<not> digits_value (10 * unat n + digit_val c) cs < 2 ^ 64"
        using digits_value_ge [of "10 * unat n + digit_val c" cs] by (simp add: mult.commute)
      then show ?thesis using True big step by (auto simp: Let_def)
    qed
  next
    case False
    have "\<not> digits_value (10 * unat n + digit_val c) cs < 2 ^ 64" if "\<not> n < cutoff"
      using digits_value_ge [of "10 * unat n + digit_val c" cs] that
      by (simp add: cutoff_exact mult.commute)
    then show ?thesis using False by (auto simp: not_less)
  qed
qed

text \<open>\<open>ParseUint\<close> succeeds exactly on the decimal numerals below \<open>2 ^ 64\<close>, with their value.\<close>

lemma parse_uint_correct:
  "parse_uint s = Some v \<longleftrightarrow>
     s \<noteq> [] \<and> list_all is_digit s \<and> digits_value 0 s < 2 ^ 64 \<and> unat v = digits_value 0 s"
  by (simp add: parse_uint_def parse_uint_loop_correct)

end
