(* ===== verification/Go_Url.thy ===== *)
theory Go_Url
  imports Go_Strings
begin

text \<open>
  The part of Go's \<open>net/url\<close> that the operation resolver uses: \<open>ParseRequestURI\<close>,
  \<open>EscapedPath\<close> and \<open>ParseQuery\<close>. The authority of an absolute URI is kept as it stands and
  not validated: the resolver refuses every absolute URI, whatever its authority is.
\<close>

section \<open>Percent encoding\<close>

datatype encoding = EncodePath | EncodeQueryComponent

definition is_alnum :: "char \<Rightarrow> bool" where
  "is_alnum c \<longleftrightarrow>
     (CHR ''a'' \<le> c \<and> c \<le> CHR ''z'') \<or> (CHR ''A'' \<le> c \<and> c \<le> CHR ''Z'') \<or> is_digit c"

definition ishex :: "char \<Rightarrow> bool" where
  "ishex c \<longleftrightarrow>
     is_digit c \<or> (CHR ''a'' \<le> c \<and> c \<le> CHR ''f'') \<or> (CHR ''A'' \<le> c \<and> c \<le> CHR ''F'')"

definition unhex :: "char \<Rightarrow> nat" where
  "unhex c =
     (if is_digit c then of_char c - 48
      else if CHR ''a'' \<le> c then of_char c - 97 + 10
      else of_char c - 65 + 10)"

definition shouldEscape :: "char \<Rightarrow> encoding \<Rightarrow> bool" where
  "shouldEscape c mode =
     (if is_alnum c then False
      else if c \<in> set ''-_.~'' then False
      else if c \<in> set ''$&+,/:;=?@'' then
        (case mode of EncodePath \<Rightarrow> c = CHR ''?'' | EncodeQueryComponent \<Rightarrow> True)
      else True)"

definition upperhex :: "nat \<Rightarrow> char" where
  "upperhex n = ''0123456789ABCDEF'' ! n"

fun escape :: "encoding \<Rightarrow> string \<Rightarrow> string" where
  "escape mode [] = []"
| "escape mode (c # s) =
     (if shouldEscape c mode
      then (if c = CHR '' '' \<and> mode = EncodeQueryComponent then [CHR ''+'']
            else [CHR ''%'', upperhex (of_char c div 16), upperhex (of_char c mod 16)])
           @ escape mode s
      else c # escape mode s)"

fun unescape :: "encoding \<Rightarrow> string \<Rightarrow> string option" where
  "unescape mode [] = Some []"
| "unescape mode (c # s) =
     (if c = CHR ''%'' then
        (case s of
           a # b # r \<Rightarrow>
             if ishex a \<and> ishex b
             then map_option (Cons (char_of (16 * unhex a + unhex b))) (unescape mode r)
             else None
         | _ \<Rightarrow> None)
      else map_option
             (Cons (if c = CHR ''+'' \<and> mode = EncodeQueryComponent then CHR '' '' else c))
             (unescape mode s))"

definition validEncoded :: "string \<Rightarrow> bool" where
  "validEncoded s =
     list_all (\<lambda>c. c \<in> set ''!$&'' \<or> c = CHR 0x27 \<or> c \<in> set ''()*+,;=:@[]%'' \<or>
                   \<not> shouldEscape c EncodePath) s"


section \<open>Parsing a request URI\<close>

record URL =
  Scheme :: string
  Opaque :: string
  Host :: string
  Path :: string
  RawPath :: string
  RawQuery :: string
  Fragment :: string

definition empty_url :: URL where
  "empty_url = \<lparr>Scheme = [], Opaque = [], Host = [], Path = [], RawPath = [],
                RawQuery = [], Fragment = []\<rparr>"

definition is_ctl :: "char \<Rightarrow> bool" where
  "is_ctl c \<longleftrightarrow> c < CHR '' '' \<or> c = CHR 0x7F"

text \<open>
  \<open>getScheme\<close>: \<open>None\<close> is the error \<open>missing protocol scheme\<close>. The accumulator holds the bytes
  read so far.
\<close>

fun getScheme_loop :: "string \<Rightarrow> string \<Rightarrow> string \<Rightarrow> (string \<times> string) option" where
  "getScheme_loop raw acc [] = Some ([], raw)"
| "getScheme_loop raw acc (c # s) =
     (if (CHR ''a'' \<le> c \<and> c \<le> CHR ''z'') \<or> (CHR ''A'' \<le> c \<and> c \<le> CHR ''Z'')
      then getScheme_loop raw (acc @ [c]) s
      else if is_digit c \<or> c \<in> set ''+-.''
      then (if acc = [] then Some ([], raw) else getScheme_loop raw (acc @ [c]) s)
      else if c = CHR '':''
      then (if acc = [] then None else Some (acc, s))
      else Some ([], raw))"

definition getScheme :: "string \<Rightarrow> (string \<times> string) option" where
  "getScheme raw = getScheme_loop raw [] raw"

definition setPath :: "URL \<Rightarrow> string \<Rightarrow> URL option" where
  "setPath u p =
     (case unescape EncodePath p of
        None \<Rightarrow> None
      | Some path \<Rightarrow>
          Some (u\<lparr>Path := path, RawPath := (if p = escape EncodePath path then [] else p)\<rparr>))"

definition split_query :: "string \<Rightarrow> string \<times> string" where
  "split_query rest =
     (if suffix ''?'' rest \<and> count_list rest (CHR ''?'') = 1
      then (take (length rest - 1) rest, [])
      else cut (CHR ''?'') rest)"

definition ParseRequestURI :: "string \<Rightarrow> URL option" where
  "ParseRequestURI raw =
     (if list_ex is_ctl raw then None
      else if raw = [] then None
      else if raw = ''*'' then Some (empty_url\<lparr>Path := ''*''\<rparr>)
      else case getScheme raw of
        None \<Rightarrow> None
      | Some (scheme, rest0) \<Rightarrow>
          let (rest, query) = split_query rest0;
              u = empty_url\<lparr>Scheme := map to_lower_ascii scheme, RawQuery := query\<rparr>
          in if \<not> prefix ''/'' rest then
               (if scheme \<noteq> [] then Some (u\<lparr>Opaque := rest\<rparr>) else None)
             else if scheme \<noteq> [] \<and> prefix ''//'' rest then
               (let authority = takeWhile (\<lambda>c. c \<noteq> CHR ''/'') (drop 2 rest);
                    path = dropWhile (\<lambda>c. c \<noteq> CHR ''/'') (drop 2 rest)
                in setPath (u\<lparr>Host := authority\<rparr>) path)
             else setPath u rest)"

definition EscapedPath :: "URL \<Rightarrow> string" where
  "EscapedPath u =
     (if RawPath u \<noteq> [] \<and> validEncoded (RawPath u) \<and>
         unescape EncodePath (RawPath u) = Some (Path u)
      then RawPath u
      else if Path u = ''*'' then ''*''
      else escape EncodePath (Path u))"


section \<open>Parsing a query\<close>

text \<open>
  \<open>url.Values\<close> is a map from keys to the list of their values; the model keeps its entries in
  insertion order. A query with more than \<open>urlmaxqueryparams\<close> parameters is an error, as is a
  semicolon or a malformed escape in any parameter.
\<close>

definition urlmaxqueryparams :: nat where
  "urlmaxqueryparams = 10000"

fun values_append :: "string list entries \<Rightarrow> string \<Rightarrow> string \<Rightarrow> string list entries" where
  "values_append [] k v = [(k, [v])]"
| "values_append ((k', vs) # m) k v =
     (if k' = k then (k', vs @ [v]) # m else (k', vs) # values_append m k v)"

definition values_get :: "string list entries \<Rightarrow> string \<Rightarrow> string list" where
  "values_get m k = (case map_of m k of None \<Rightarrow> [] | Some vs \<Rightarrow> vs)"

definition parse_param :: "string \<Rightarrow> (string \<times> string) option" where
  "parse_param p =
     (if CHR '';'' \<in> set p then None
      else let (k, v) = cut (CHR ''='') p in
        case unescape EncodeQueryComponent k of
          None \<Rightarrow> None
        | Some k' \<Rightarrow>
            (case unescape EncodeQueryComponent v of None \<Rightarrow> None | Some v' \<Rightarrow> Some (k', v')))"

fun parse_params :: "string list entries \<Rightarrow> string list \<Rightarrow> string list entries option" where
  "parse_params m [] = Some m"
| "parse_params m (p # ps) =
     (if p = [] then parse_params m ps
      else case parse_param p of
        None \<Rightarrow> None
      | Some (k, v) \<Rightarrow> parse_params (values_append m k v) ps)"

definition ParseQuery :: "string \<Rightarrow> string list entries option" where
  "ParseQuery q =
     (if count_list q (CHR ''&'') + 1 > urlmaxqueryparams then None
      else parse_params [] (split_on (CHR ''&'') q))"

lemma values_append_keys [simp]:
  "set (map fst (values_append m k v)) = insert k (set (map fst m))"
  by (induction m k v rule: values_append.induct) auto

lemma values_append_distinct:
  "distinct (map fst m) \<Longrightarrow> distinct (map fst (values_append m k v))"
  by (induction m k v rule: values_append.induct)
    (auto simp del: set_map)

lemma parse_params_distinct:
  "parse_params m ps = Some q \<Longrightarrow> distinct (map fst m) \<Longrightarrow> distinct (map fst q)"
  by (induction m ps rule: parse_params.induct)
    (auto simp: values_append_distinct split: if_splits option.splits)

lemma ParseQuery_distinct: "ParseQuery q = Some m \<Longrightarrow> distinct (map fst m)"
  by (auto simp: ParseQuery_def split: if_splits dest: parse_params_distinct)

lemma values_append_get:
  "values_get (values_append m k v) k' = (if k' = k then values_get m k @ [v] else values_get m k')"
  by (induction m k v rule: values_append.induct) (auto simp: values_get_def)


section \<open>Rooted request URIs\<close>

text \<open>
  For a URI that starts with a slash the parser never sees a scheme or an authority, and if
  the escaped path holds no percent sign then the parsed path is the text up to the question
  mark, byte for byte.
\<close>

lemma ishex_alnum: "ishex c \<Longrightarrow> is_alnum c"
  by (auto simp: ishex_def is_alnum_def less_eq_char_def)

lemma shouldEscape_not_hex: "shouldEscape c mode \<Longrightarrow> \<not> ishex c"
  by (auto simp: shouldEscape_def dest: ishex_alnum)

lemma shouldEscape_percent [simp]: "shouldEscape (CHR ''%'') mode"
  by (simp add: shouldEscape_def is_alnum_def is_digit_def)

lemma escape_clean: "list_all (\<lambda>c. \<not> shouldEscape c mode) s \<Longrightarrow> escape mode s = s"
  by (induction s) auto

lemma escape_no_percent:
  "CHR ''%'' \<notin> set (escape EncodePath s) \<Longrightarrow> list_all (\<lambda>c. \<not> shouldEscape c EncodePath) s"
  by (induction s) (auto split: if_splits)

lemma unescape_plain: "CHR ''%'' \<notin> set s \<Longrightarrow> unescape EncodePath s = Some s"
  by (induction s) auto

lemma unescape_keeps:
  assumes "unescape EncodePath s = Some t" "c \<in> set s" "c \<noteq> CHR ''%''" "\<not> ishex c"
  shows "c \<in> set t"
  using assms
proof (induction s arbitrary: t rule: length_induct)
  case (1 s)
  then obtain x r where s: "s = x # r" by (cases s) auto
  show ?case
  proof (cases "x = CHR ''%''")
    case False
    then obtain t' where "unescape EncodePath r = Some t'" "t = x # t'"
      using 1(2) s by (auto split: if_splits)
    then show ?thesis using 1 s by auto
  next
    case True
    then obtain a b r' t' where r: "r = a # b # r'" "ishex a" "ishex b"
      and t': "unescape EncodePath r' = Some t'" "t = char_of (16 * unhex a + unhex b) # t'"
      using 1(2) s by (auto split: list.splits if_splits)
    then have "c \<in> set r'" using 1(3-5) s True by auto
    moreover have "length r' < length s" using s r by simp
    ultimately have "c \<in> set t'" using 1(1,4,5) t'(1) by blast
    then show ?thesis using t'(2) by auto
  qed
qed

lemma split_query_cut: "split_query s = cut (CHR ''?'') s"
proof (cases "suffix ''?'' s \<and> count_list s (CHR ''?'') = 1")
  case True
  then obtain p where p: "s = p @ ''?''" by (auto simp: suffix_def)
  with True have "CHR ''?'' \<notin> set p" by (simp add: count_list_0_iff)
  then show ?thesis using True p by (simp add: split_query_def cut_clean_append)
next
  case False
  then show ?thesis by (auto simp: split_query_def)
qed

lemma getScheme_rooted: "prefix ''/'' s \<Longrightarrow> getScheme s = Some ([], s)"
  by (auto simp: getScheme_def is_digit_def prefix_def)

definition rooted_url :: "string \<Rightarrow> string \<Rightarrow> URL" where
  "rooted_url path query =
     empty_url\<lparr>RawQuery := query, Path := path,
               RawPath := (if path = escape EncodePath path then [] else path)\<rparr>"

lemma prefix_slash_cut: "prefix ''/'' s \<Longrightarrow> prefix ''/'' (fst (cut (CHR ''?'') s))"
  by (cases s) (auto simp: cut_def)

lemma ParseRequestURI_rooted:
  assumes "prefix ''/'' raw"
  shows "ParseRequestURI raw =
     (if list_ex is_ctl raw then None
      else setPath (empty_url\<lparr>RawQuery := snd (cut (CHR ''?'') raw)\<rparr>) (fst (cut (CHR ''?'') raw)))"
  using assms prefix_slash_cut [OF assms]
  by (auto simp: ParseRequestURI_def getScheme_rooted split_query_cut empty_url_def
      split: prod.splits)

lemma setPath_escaped:
  assumes set: "setPath u p = Some u'" and slash: "prefix ''/'' p"
    and clean: "CHR ''%'' \<notin> set (EscapedPath u')"
  shows "CHR ''%'' \<notin> set p"
proof -
  from set obtain path where path: "unescape EncodePath p = Some path"
    and u': "u' = u\<lparr>Path := path, RawPath := (if p = escape EncodePath path then [] else p)\<rparr>"
    by (auto simp: setPath_def split: option.splits)
  consider (default) "p = escape EncodePath path" | (raw) "p \<noteq> escape EncodePath path" "validEncoded p"
    | (odd) "p \<noteq> escape EncodePath path" "\<not> validEncoded p" by blast
  then show ?thesis
  proof cases
    case default
    with slash have "path \<noteq> ''*''"
      by (auto simp: shouldEscape_def is_alnum_def is_digit_def)
    then show ?thesis using clean default u' by (simp add: EscapedPath_def)
  next
    case raw
    moreover have "p \<noteq> []" using slash by auto
    ultimately show ?thesis using clean u' path by (simp add: EscapedPath_def)
  next
    case odd
    then obtain c where c: "c \<in> set p" "shouldEscape c EncodePath" "c \<noteq> CHR ''%''" "c \<noteq> CHR ''*''"
      by (auto simp: validEncoded_def list_all_iff)
    then have in_path: "c \<in> set path"
      using unescape_keeps [OF path] shouldEscape_not_hex by blast
    then have "path \<noteq> ''*''" using c(4) by auto
    then have "CHR ''%'' \<notin> set (escape EncodePath path)"
      using clean odd u' by (simp add: EscapedPath_def)
    then have "\<not> shouldEscape c EncodePath"
      using escape_no_percent in_path by (auto simp: list_all_iff)
    with c(2) show ?thesis by simp
  qed
qed

lemma rooted_path_literal:
  assumes root: "prefix ''/'' raw" and parse: "ParseRequestURI raw = Some u"
    and clean: "CHR ''%'' \<notin> set (EscapedPath u)"
  shows "u = rooted_url (fst (cut (CHR ''?'') raw)) (snd (cut (CHR ''?'') raw))"
    and "\<not> list_ex is_ctl raw"
proof -
  let ?p = "fst (cut (CHR ''?'') raw)"
  from parse root have set: "setPath (empty_url\<lparr>RawQuery := snd (cut (CHR ''?'') raw)\<rparr>) ?p = Some u"
    and ctl: "\<not> list_ex is_ctl raw"
    by (auto simp: ParseRequestURI_rooted split: if_splits)
  have "CHR ''%'' \<notin> set ?p"
    using setPath_escaped [OF set prefix_slash_cut [OF root] clean] .
  then show "u = rooted_url ?p (snd (cut (CHR ''?'') raw))"
    using set by (simp add: setPath_def unescape_plain rooted_url_def)
  show "\<not> list_ex is_ctl raw" by (rule ctl)
qed

lemma ParseRequestURI_literal:
  assumes "prefix ''/'' raw" and "\<not> list_ex is_ctl raw"
    and "CHR ''%'' \<notin> set (fst (cut (CHR ''?'') raw))"
  shows "ParseRequestURI raw = Some (rooted_url (fst (cut (CHR ''?'') raw)) (snd (cut (CHR ''?'') raw)))"
  using assms
  by (simp add: ParseRequestURI_rooted setPath_def unescape_plain rooted_url_def)

lemma rooted_url_sel [simp]:
  "Scheme (rooted_url p q) = []" "Host (rooted_url p q) = []" "Fragment (rooted_url p q) = []"
  "Path (rooted_url p q) = p" "RawQuery (rooted_url p q) = q"
  by (simp_all add: rooted_url_def empty_url_def)

lemma EscapedPath_rooted:
  "list_all (\<lambda>c. \<not> shouldEscape c EncodePath) p \<Longrightarrow> EscapedPath (rooted_url p q) = p"
  by (simp add: EscapedPath_def rooted_url_def escape_clean empty_url_def)

end
