(* ===== verification/Operation.thy ===== *)
theory Operation
  imports Go_Url
begin

text \<open>
  \<open>internal/operation\<close>: the resolver that turns a request method and URI into one of the
  supported Docker operations. \<open>Resource\<close> and \<open>Action\<close> are string types in the source and
  the configuration converts arbitrary strings to them, so they are strings here too.
\<close>

type_synonym Resource = string
type_synonym Action = string

abbreviation (input) "ResourceUnknown \<equiv> ''unknown''"
abbreviation (input) "ResourceService \<equiv> ''service''"
abbreviation (input) "ResourceSecret \<equiv> ''secret''"
abbreviation (input) "ResourceTask \<equiv> ''task''"
abbreviation (input) "ResourceNode \<equiv> ''node''"
abbreviation (input) "ActionUnknown \<equiv> ''unknown''"
abbreviation (input) "ActionList \<equiv> ''list''"
abbreviation (input) "ActionInspect \<equiv> ''inspect''"
abbreviation (input) "ActionCreate \<equiv> ''create''"
abbreviation (input) "ActionUpdate \<equiv> ''update''"
abbreviation (input) "ActionDelete \<equiv> ''delete''"

record Operation =
  OpResource :: Resource
  OpAction :: Action
  OpID :: string
  OpVersion :: string
  OpQuery :: "string list entries"

text \<open>\<open>^v[1-9][0-9]*\.[0-9]+$\<close>\<close>

definition apiVersion_match :: "string \<Rightarrow> bool" where
  "apiVersion_match s =
     (case s of
        v # d # r \<Rightarrow>
          v = CHR ''v'' \<and> CHR ''1'' \<le> d \<and> d \<le> CHR ''9'' \<and>
          (case dropWhile is_digit r of
             [] \<Rightarrow> False
           | p # minor \<Rightarrow> p = CHR ''.'' \<and> minor \<noteq> [] \<and> list_all is_digit minor)
      | _ \<Rightarrow> False)"

text \<open>\<open>^[a-zA-Z0-9][a-zA-Z0-9_.-]*$\<close>\<close>

definition identifier_match :: "string \<Rightarrow> bool" where
  "identifier_match s =
     (case s of
        [] \<Rightarrow> False
      | c # r \<Rightarrow> is_alnum c \<and> list_all (\<lambda>c. is_alnum c \<or> c \<in> set ''_.-'') r)"

definition Supports :: "Resource \<Rightarrow> Action \<Rightarrow> bool" where
  "Supports resource action =
     (if resource = ResourceService then
        action = ActionList \<or> action = ActionInspect \<or> action = ActionCreate \<or>
        action = ActionUpdate \<or> action = ActionDelete
      else if resource = ResourceSecret then
        action = ActionList \<or> action = ActionInspect \<or> action = ActionCreate \<or>
        action = ActionDelete
      else if resource = ResourceTask \<or> resource = ResourceNode then
        action = ActionList \<or> action = ActionInspect
      else False)"

text \<open>The two \<open>switch\<close> statements of \<open>Resolve\<close>.\<close>

definition resolve_resource :: "string \<Rightarrow> Resource option" where
  "resolve_resource part =
     (if part = ''services'' then Some ResourceService
      else if part = ''secrets'' then Some ResourceSecret
      else if part = ''tasks'' then Some ResourceTask
      else if part = ''nodes'' then Some ResourceNode
      else None)"

definition resolve_action :: "string \<Rightarrow> string list \<Rightarrow> (Action \<times> string) option" where
  "resolve_action verb parts =
     (case parts of
        [_] \<Rightarrow> if verb = ''GET'' then Some (ActionList, []) else None
      | [_, p1] \<Rightarrow>
          if p1 = ''create'' \<and> verb = ''POST'' then Some (ActionCreate, [])
          else if verb = ''GET'' then Some (ActionInspect, p1)
          else if verb = ''DELETE'' then Some (ActionDelete, p1)
          else None
      | [_, p1, p2] \<Rightarrow>
          if p2 = ''update'' \<and> verb = ''POST'' then Some (ActionUpdate, p1) else None
      | _ \<Rightarrow> None)"

definition split_version :: "string list \<Rightarrow> string \<times> string list" where
  "split_version parts =
     (case parts of
        [] \<Rightarrow> ([], [])
      | p # ps \<Rightarrow> if apiVersion_match p then (tl p, ps) else ([], p # ps))"

text \<open>The second half of \<open>Resolve\<close>, on the path and the parsed query.\<close>

definition resolve_path :: "string \<Rightarrow> string \<Rightarrow> string list entries \<Rightarrow> Operation option" where
  "resolve_path verb path query =
     (let (version, parts) = split_version (split_on (CHR ''/'') (trim_prefix path ''/''))
      in if length parts < 1 \<or> length parts > 3 then None
         else case resolve_resource (hd parts) of
           None \<Rightarrow> None
         | Some res \<Rightarrow>
             (case resolve_action verb parts of
                None \<Rightarrow> None
              | Some (act, ident) \<Rightarrow>
                  if \<not> Supports res act \<or>
                     (act \<noteq> ActionList \<and> act \<noteq> ActionCreate \<and> \<not> identifier_match ident)
                  then None
                  else Some \<lparr>OpResource = res, OpAction = act, OpID = ident,
                             OpVersion = version, OpQuery = query\<rparr>))"

text \<open>
  \<open>Resolve\<close>: \<open>None\<close> is its only error. The forbidden bytes are \<open>#\<close>, backslash, carriage return,
  line feed, tab and space.
\<close>

definition forbidden_bytes :: string where
  "forbidden_bytes = [CHR ''#'', CHR 0x5C, CHR 0x0D, CHR 0x0A, CHR 0x09, CHR '' '']"

definition Resolve :: "string \<Rightarrow> string \<Rightarrow> Operation option" where
  "Resolve verb uri =
     (case ParseRequestURI uri of
        None \<Rightarrow> None
      | Some u \<Rightarrow>
          if \<not> prefix ''/'' uri \<or> prefix ''//'' uri \<or> Scheme u \<noteq> [] \<or> Host u \<noteq> [] \<or>
             Fragment u \<noteq> [] \<or> contains_any uri forbidden_bytes \<or>
             CHR ''%'' \<in> set (EscapedPath u)
          then None
          else case ParseQuery (RawQuery u) of
            None \<Rightarrow> None
          | Some query \<Rightarrow> resolve_path verb (Path u) query)"


section \<open>The routes as an abstract specification\<close>

text \<open>
  What the resolver promises: an operation has exactly one request line. \<open>route_verb\<close> and
  \<open>route_path\<close> print it; \<open>wf_operation\<close> describes the operations that exist.
\<close>

definition route_verb :: "Action \<Rightarrow> string" where
  "route_verb act =
     (if act = ActionList \<or> act = ActionInspect then ''GET''
      else if act = ActionDelete then ''DELETE'' else ''POST'')"

definition action_parts :: "Action \<Rightarrow> string \<Rightarrow> string list" where
  "action_parts act ident =
     (if act = ActionList then []
      else if act = ActionCreate then [''create'']
      else if act = ActionUpdate then [ident, ''update'']
      else [ident])"

definition version_parts :: "string \<Rightarrow> string list" where
  "version_parts version = (if version = [] then [] else [CHR ''v'' # version])"

definition route_parts :: "Operation \<Rightarrow> string list" where
  "route_parts op =
     version_parts (OpVersion op) @ (OpResource op @ ''s'') # action_parts (OpAction op) (OpID op)"

definition route_path :: "Operation \<Rightarrow> string" where
  "route_path op = CHR ''/'' # join_on (CHR ''/'') (route_parts op)"

definition wf_operation :: "Operation \<Rightarrow> bool" where
  "wf_operation op \<longleftrightarrow>
     Supports (OpResource op) (OpAction op) \<and>
     (OpVersion op = [] \<or> apiVersion_match (CHR ''v'' # OpVersion op)) \<and>
     (if OpAction op = ActionList \<or> OpAction op = ActionCreate then OpID op = []
      else identifier_match (OpID op))"

text \<open>Bytes that may occur in a request URI at all.\<close>

definition uri_byte :: "char \<Rightarrow> bool" where
  "uri_byte c \<longleftrightarrow> \<not> is_ctl c \<and> c \<notin> set forbidden_bytes"


section \<open>The resolver implements the routes\<close>

lemma Supports_cases:
  "Supports res act \<Longrightarrow> res \<in> {ResourceService, ResourceSecret, ResourceTask, ResourceNode}"
  "Supports res act \<Longrightarrow>
   act \<in> {ActionList, ActionInspect, ActionCreate, ActionUpdate, ActionDelete}"
  by (auto simp: Supports_def split: if_splits)

lemma resolve_resource_iff:
  "resolve_resource part = Some res \<longleftrightarrow>
     part = res @ ''s'' \<and> res \<in> {ResourceService, ResourceSecret, ResourceTask, ResourceNode}"
  by (auto simp: resolve_resource_def)

lemma resolve_action_iff:
  "resolve_action verb (p # ps) = Some (act, ident) \<longleftrightarrow>
     act \<in> {ActionList, ActionInspect, ActionCreate, ActionUpdate, ActionDelete} \<and>
     verb = route_verb act \<and> ps = action_parts act ident \<and>
     (act \<in> {ActionList, ActionCreate} \<longrightarrow> ident = [])"
  by (auto simp: resolve_action_def route_verb_def action_parts_def split: list.splits if_splits)

lemma action_parts_length: "length (action_parts act ident) \<le> 2"
  by (simp add: action_parts_def)

lemma apiVersion_match_Cons:
  "apiVersion_match p \<Longrightarrow> \<exists>v. p = CHR ''v'' # v \<and> v \<noteq> []"
  by (auto simp: apiVersion_match_def split: list.splits)

lemma split_version_iff:
  assumes "\<not> apiVersion_match (hd parts)" and "parts \<noteq> []"
  shows "split_version ps = (version, parts) \<longleftrightarrow>
     ps = version_parts version @ parts \<and>
     (version = [] \<or> apiVersion_match (CHR ''v'' # version))"
  using assms apiVersion_match_Cons
  by (cases ps)
    (force simp: split_version_def version_parts_def split: if_splits)+

lemma not_apiVersion_resource:
  "res \<in> {ResourceService, ResourceSecret, ResourceTask, ResourceNode} \<Longrightarrow>
   \<not> apiVersion_match (res @ ''s'')"
  by (auto simp: apiVersion_match_def)

text \<open>Bytes of a route: none is escaped, none separates.\<close>

definition route_byte :: "char \<Rightarrow> bool" where
  "route_byte c \<longleftrightarrow> is_alnum c \<or> c \<in> set ''_.-''"

lemma route_byte_props:
  assumes "route_byte c"
  shows "\<not> shouldEscape c EncodePath" "c \<noteq> CHR ''/''" "c \<noteq> CHR ''?''" "c \<noteq> CHR ''%''"
  using assms
  by (auto simp: route_byte_def shouldEscape_def is_alnum_def is_digit_def)

lemma is_digit_route_byte: "is_digit c \<Longrightarrow> route_byte c"
  by (simp add: route_byte_def is_alnum_def)

lemma apiVersion_match_bytes: "apiVersion_match p \<Longrightarrow> list_all route_byte p"
proof -
  assume m: "apiVersion_match p"
  then obtain d r q where p: "p = CHR ''v'' # d # r" "CHR ''1'' \<le> d" "d \<le> CHR ''9''"
    and q: "dropWhile is_digit r = CHR ''.'' # q" "list_all is_digit q"
    by (auto simp: apiVersion_match_def split: list.splits)
  have "is_digit d" using p(2,3) by (auto simp: is_digit_iff less_eq_char_def)
  moreover have "list_all route_byte r"
  proof -
    have "r = takeWhile is_digit r @ CHR ''.'' # q" by (simp flip: q(1))
    moreover have "list_all is_digit (takeWhile is_digit r)"
      by (auto simp: list_all_iff dest: set_takeWhileD)
    ultimately show ?thesis
      using q(2) by (metis (no_types, lifting) is_digit_route_byte list.pred_inject(2)
          list.pred_mono_strong list_all_append route_byte_def list.set_intros(1) list.set_intros(2))
  qed
  ultimately show ?thesis
    using p(1) by (auto simp: is_digit_route_byte) (simp add: route_byte_def is_alnum_def)
qed

lemma identifier_match_bytes: "identifier_match p \<Longrightarrow> list_all route_byte p"
  by (auto simp: identifier_match_def route_byte_def list_all_iff split: list.splits)

lemma route_parts_bytes:
  assumes "wf_operation op" and "p \<in> set (route_parts op)"
  shows "list_all route_byte p"
proof -
  have "list_all route_byte (OpResource op @ ''s'')" "list_all route_byte ''update''"
    "list_all route_byte ''create''"
    using assms(1) Supports_cases(1) [of "OpResource op" "OpAction op"]
    by (auto simp: wf_operation_def route_byte_def is_alnum_def)
  then show ?thesis
    using assms apiVersion_match_bytes identifier_match_bytes
    by (auto simp: route_parts_def version_parts_def action_parts_def wf_operation_def
        split: if_splits)
qed

lemma route_path_bytes:
  assumes "wf_operation op" and "c \<in> set (route_path op)"
  shows "c = CHR ''/'' \<or> route_byte c"
  using assms set_join_on [of "CHR ''/''" "route_parts op"] route_parts_bytes
  by (fastforce simp: route_path_def list_all_iff)

lemma route_path_clean:
  assumes "wf_operation op"
  shows "list_all (\<lambda>c. \<not> shouldEscape c EncodePath) (route_path op)"
    and "CHR ''%'' \<notin> set (route_path op)"
proof -
  have "\<not> shouldEscape (CHR ''/'') EncodePath" by (simp add: shouldEscape_def)
  then have "\<not> shouldEscape c EncodePath" if "c \<in> set (route_path op)" for c
    using route_path_bytes [OF assms that] route_byte_props(1) by auto
  then show "list_all (\<lambda>c. \<not> shouldEscape c EncodePath) (route_path op)"
    "CHR ''%'' \<notin> set (route_path op)"
    using shouldEscape_percent [of EncodePath] by (fastforce simp: list_all_iff)+
qed

lemma route_parts_not_Nil [simp]: "route_parts op \<noteq> []"
  by (simp add: route_parts_def)

lemma split_route_path:
  assumes "wf_operation op"
  shows "split_on (CHR ''/'') (tl (route_path op)) = route_parts op"
proof -
  have "\<forall>p \<in> set (route_parts op). CHR ''/'' \<notin> set p"
    using route_parts_bytes [OF assms] route_byte_props(2) by (fastforce simp: list_all_iff)
  then show ?thesis unfolding route_path_def list.sel by (intro split_join_on) simp_all
qed

lemma resolve_path_sound:
  assumes "resolve_path verb (CHR ''/'' # r) query = Some op"
  shows "wf_operation op \<and> verb = route_verb (OpAction op) \<and> CHR ''/'' # r = route_path op \<and>
         query = OpQuery op"
proof -
  let ?ps = "split_on (CHR ''/'') r"
  obtain version parts where sv: "split_version ?ps = (version, parts)"
    by (cases "split_version ?ps") auto
  with assms obtain p ps where parts: "parts = p # ps"
    by (cases parts) (auto simp: resolve_path_def trim_prefix_def)
  with assms sv obtain res act ident where
    res: "resolve_resource p = Some res" and act: "resolve_action verb (p # ps) = Some (act, ident)"
    and sup: "Supports res act" "act = ActionList \<or> act = ActionCreate \<or> identifier_match ident"
    and op: "op = \<lparr>OpResource = res, OpAction = act, OpID = ident, OpVersion = version,
                   OpQuery = query\<rparr>"
    by (auto simp: resolve_path_def trim_prefix_def split: option.splits if_splits)
  from res have p: "p = res @ ''s''" "\<not> apiVersion_match p"
    by (auto simp: resolve_resource_iff not_apiVersion_resource)
  have ps: "?ps = version_parts version @ parts" "version = [] \<or> apiVersion_match (CHR ''v'' # version)"
    using sv parts p(2) by (simp_all add: split_version_iff)
  have "route_parts op = ?ps"
    using ps(1) parts p(1) act op by (simp add: route_parts_def resolve_action_iff)
  then have "CHR ''/'' # r = route_path op" by (simp add: route_path_def)
  then show ?thesis
    using ps(2) sup act op by (auto simp: wf_operation_def resolve_action_iff)
qed

lemma resolve_path_complete:
  assumes wf: "wf_operation op"
  shows "resolve_path (route_verb (OpAction op)) (route_path op) (OpQuery op) = Some op"
proof -
  let ?parts = "(OpResource op @ ''s'') # action_parts (OpAction op) (OpID op)"
  have trim: "trim_prefix (route_path op) ''/'' = tl (route_path op)"
    by (simp add: trim_prefix_def route_path_def)
  have res: "resolve_resource (OpResource op @ ''s'') = Some (OpResource op)"
    "\<not> apiVersion_match (OpResource op @ ''s'')"
    using wf Supports_cases(1) not_apiVersion_resource
    by (auto simp: wf_operation_def resolve_resource_iff)
  have sv: "split_version (split_on (CHR ''/'') (tl (route_path op))) = (OpVersion op, ?parts)"
    using wf res(2) by (simp add: split_route_path split_version_iff route_parts_def wf_operation_def)
  have act: "resolve_action (route_verb (OpAction op)) ?parts = Some (OpAction op, OpID op)"
    using wf Supports_cases(2) [of "OpResource op" "OpAction op"]
    by (auto simp: resolve_action_iff wf_operation_def)
  have "length (action_parts (OpAction op) (OpID op)) \<le> 2" by (rule action_parts_length)
  then show ?thesis
    using wf by (auto simp: resolve_path_def trim sv res act wf_operation_def split: if_splits)
qed

lemma route_path_first: "wf_operation op \<Longrightarrow> \<exists>c r. route_path op = CHR ''/'' # c # r \<and> c \<noteq> CHR ''/''"
proof -
  assume wf: "wf_operation op"
  obtain p ps where ps: "route_parts op = p # ps" by (cases "route_parts op") auto
  then have "p \<noteq> []" by (auto simp: route_parts_def version_parts_def split: if_splits)
  then obtain c q where p: "p = c # q" by (cases p) auto
  then have "route_byte c" using route_parts_bytes [OF wf, of p] ps by simp
  then show ?thesis using p ps route_byte_props(2) by (simp add: route_path_def join_on_push)
qed

lemma cut_fst_prefix: "prefix (fst (cut c s)) s"
  unfolding cut_def fst_conv prefix_def by (metis takeWhile_dropWhile_id)

text \<open>
  The resolver in one equivalence: a request line resolves to \<open>op\<close> exactly when its method and
  its path are those of the route of \<open>op\<close>, literally, and its query parses to the query of \<open>op\<close>.
\<close>

lemma Resolve_iff:
  "Resolve verb uri = Some op \<longleftrightarrow>
     wf_operation op \<and> verb = route_verb (OpAction op) \<and> list_all uri_byte uri \<and>
     fst (cut (CHR ''?'') uri) = route_path op \<and>
     ParseQuery (snd (cut (CHR ''?'') uri)) = Some (OpQuery op)"
  (is "?lhs \<longleftrightarrow> ?rhs")
proof
  assume ?lhs
  then obtain u query where u: "ParseRequestURI uri = Some u" "prefix ''/'' uri"
    "CHR ''%'' \<notin> set (EscapedPath u)" "\<not> contains_any uri forbidden_bytes"
    and query: "ParseQuery (RawQuery u) = Some query"
    and path: "resolve_path verb (Path u) query = Some op"
    by (auto simp: Resolve_def split: option.splits if_splits)
  note lit = rooted_path_literal [OF u(2,1,3)]
  obtain r where r: "fst (cut (CHR ''?'') uri) = CHR ''/'' # r"
    using prefix_slash_cut [OF u(2)] by (auto simp: prefix_def)
  have "wf_operation op \<and> verb = route_verb (OpAction op) \<and> CHR ''/'' # r = route_path op \<and>
        query = OpQuery op"
    using path lit(1) r by (intro resolve_path_sound) simp
  moreover have "list_all uri_byte uri"
    using lit(2) u(4) by (auto simp: uri_byte_def contains_any_def list_all_iff list_ex_iff)
  ultimately show ?rhs using query lit(1) r by simp
next
  assume rhs: ?rhs
  then have wf: "wf_operation op" by simp
  obtain c r where path: "route_path op = CHR ''/'' # c # r" "c \<noteq> CHR ''/''"
    using route_path_first [OF wf] by auto
  have pre: "prefix (route_path op) uri" using rhs cut_fst_prefix by metis
  then have slash: "prefix ''/'' uri" "\<not> prefix ''//'' uri" using path by (auto simp: prefix_def)
  have bytes: "\<not> list_ex is_ctl uri" "\<not> contains_any uri forbidden_bytes"
    using rhs by (auto simp: uri_byte_def contains_any_def list_all_iff list_ex_iff)
  note clean = route_path_clean [OF wf]
  have parse: "ParseRequestURI uri = Some (rooted_url (route_path op) (snd (cut (CHR ''?'') uri)))"
    using ParseRequestURI_literal [OF slash(1) bytes(1)] clean(2) rhs by simp
  show ?lhs
    using rhs slash bytes clean
    by (simp add: Resolve_def parse EscapedPath_rooted resolve_path_complete)
qed

section \<open>Properties\<close>

text \<open>
  C7: the resolver accepts exactly the request lines of the existing operations. A request
  line resolves to \<open>op\<close> iff \<open>op\<close> exists, the method is the one of its action, the URI consists
  of plain bytes, its path is literally the one path of \<open>op\<close>, and its query parses to the
  query of \<open>op\<close>.
\<close>

theorem resolve_exact:
  "Resolve verb uri = Some op \<longleftrightarrow>
     wf_operation op \<and> verb = route_verb (OpAction op) \<and> list_all uri_byte uri \<and>
     fst (cut (CHR ''?'') uri) = route_path op \<and>
     ParseQuery (snd (cut (CHR ''?'') uri)) = Some (OpQuery op)"
  by (rule Resolve_iff)

text \<open>
  No path confusion. Two request lines that resolve to the same operation have the same
  method and the same path; no encoding, alternative spelling or version trick names a
  resource twice.
\<close>

theorem resolve_unambiguous:
  assumes "Resolve verb uri = Some op" and "Resolve verb' uri' = Some op"
  shows "verb = verb' \<and> fst (cut (CHR ''?'') uri) = fst (cut (CHR ''?'') uri')"
  using assms by (simp add: Resolve_iff)

theorem resolve_unambiguous_witness:
  "(''GET'' :: string) = ''GET'' \<and>
   fst (cut (CHR ''?'') ''/services/web?a=b'') = fst (cut (CHR ''?'') ''/services/web?a=b&'')"
proof (rule resolve_unambiguous)
  let ?op = "\<lparr>OpResource = ''service'', OpAction = ''inspect'', OpID = ''web'', OpVersion = [],
              OpQuery = [(''a'', [''b''])]\<rparr>"
  show "Resolve ''GET'' ''/services/web?a=b'' = Some ?op" by code_simp
  show "Resolve ''GET'' ''/services/web?a=b&'' = Some ?op" by code_simp
qed

end
