(* ===== verification/Go_Duration.thy ===== *)
theory Go_Duration
  imports Complex_Main Go_Strings
begin

text \<open>
  Further standard-library functions, used by the configuration: floating point values,
  \<open>time.ParseDuration\<close>, \<open>strconv.Atoi\<close> and \<open>net.SplitHostPort\<close>.
\<close>

section \<open>Floating point values\<close>

text \<open>A \<open>float64\<close> as far as comparisons see it: the two zeros are the same value.\<close>

datatype float64 = NaN | PosInf | NegInf | Finite rat

definition f64_less :: "float64 \<Rightarrow> float64 \<Rightarrow> bool" where
  "f64_less a b =
     (case (a, b) of
        (NaN, _) \<Rightarrow> False
      | (_, NaN) \<Rightarrow> False
      | (NegInf, y) \<Rightarrow> y \<noteq> NegInf
      | (x, PosInf) \<Rightarrow> x \<noteq> PosInf
      | (Finite x, Finite y) \<Rightarrow> x < y
      | _ \<Rightarrow> False)"

text \<open>
  Rounding of a positive fraction \<open>p / q\<close> to the nearest value with a 53-bit significand,
  ties to even. The exponent range is not bounded: the one use below ends in a truncation to
  an integer, which is zero for every value that an exponent limit would touch.
\<close>

definition round_half_even :: "int \<Rightarrow> int \<Rightarrow> int" where
  "round_half_even p q =
     (let n = p div q; r = p mod q
      in if 2 * r < q \<or> (2 * r = q \<and> even n) then n else n + 1)"

function bit_length :: "int \<Rightarrow> nat" where
  "bit_length n = (if n \<le> 0 then 0 else Suc (bit_length (n div 2)))"
  by pat_completeness auto
termination
  by (relation "measure nat") auto

declare bit_length.simps [simp del]

type_synonym frac = "int \<times> int"

definition round53 :: "frac \<Rightarrow> frac" where
  "round53 x =
     (let (p, q) = x; k = bit_length p; l = bit_length q in
      if p \<le> 0 then (0, 1)
      else if k \<ge> l + 53 then
        (let s = k - l - 53; e = (if p div (q * 2 ^ s) \<ge> 2 ^ 53 then s + 1 else s)
         in (round_half_even p (q * 2 ^ e) * 2 ^ e, 1))
      else
        (let s = l + 53 - k
         in if p * 2 ^ s div q \<ge> 2 ^ 53
            then (round_half_even (p * 2 ^ (s - 1)) q, 2 ^ (s - 1))
            else (round_half_even (p * 2 ^ s) q, 2 ^ s)))"


section \<open>Durations\<close>

text \<open>\<open>1 << 63\<close>\<close>

definition two63 :: int where
  "two63 = 9223372036854775808"

definition digit_int :: "char \<Rightarrow> int" where
  "digit_int c = int (digit_val c)"

definition unit_map :: "(string \<times> int) list" where
  "unit_map =
     [(''ns'', 1), (''us'', 1000), ([CHR 0xC2, CHR 0xB5, CHR ''s''], 1000),
      ([CHR 0xCE, CHR 0xBC, CHR ''s''], 1000), (''ms'', 1000000), (''s'', 1000000000),
      (''m'', 60000000000), (''h'', 3600000000000)]"

text \<open>\<open>leadingInt\<close>: \<open>None\<close> on overflow beyond \<open>1 << 63\<close>.\<close>

fun leadingInt :: "int \<Rightarrow> string \<Rightarrow> (int \<times> string) option" where
  "leadingInt x [] = Some (x, [])"
| "leadingInt x (c # s) =
     (if \<not> is_digit c then Some (x, c # s)
      else if x > two63 div 10 then None
      else if x * 10 + digit_int c > two63 then None
      else leadingInt (x * 10 + digit_int c) s)"

text \<open>
  \<open>leadingFraction\<close>: digits beyond the 63-bit range are skipped. The scale is a float that is
  multiplied by ten per digit.
\<close>

fun leadingFraction :: "int \<Rightarrow> frac \<Rightarrow> bool \<Rightarrow> string \<Rightarrow> int \<times> frac \<times> string" where
  "leadingFraction x scale overflow [] = (x, scale, [])"
| "leadingFraction x scale overflow (c # s) =
     (if \<not> is_digit c then (x, scale, c # s)
      else if overflow \<or> x > (two63 - 1) div 10 \<or> x * 10 + digit_int c > two63
      then leadingFraction x scale True s
      else leadingFraction (x * 10 + digit_int c) (round53 (fst scale * 10, snd scale)) False s)"

text \<open>\<open>uint64(float64(f) * (float64(unit) / scale))\<close>\<close>

definition fraction_ns :: "int \<Rightarrow> int \<Rightarrow> frac \<Rightarrow> int" where
  "fraction_ns f unit scale =
     (let (a, b) = round53 (f, 1);
          (c, d) = round53 (unit * snd scale, fst scale);
          (p, q) = round53 (a * c, b * d)
      in p div q)"

definition is_unit_byte :: "char \<Rightarrow> bool" where
  "is_unit_byte c \<longleftrightarrow> c \<noteq> CHR ''.'' \<and> \<not> is_digit c"

text \<open>\<open>(\.[0-9]* )?\<close>: the fraction, its scale, the rest and whether a digit was consumed.\<close>

definition fraction_part :: "string \<Rightarrow> int \<times> frac \<times> string \<times> bool" where
  "fraction_part s =
     (case s of
        [] \<Rightarrow> (0, (1, 1), s, False)
      | d # r \<Rightarrow>
          if d = CHR ''.'' then
            (let (f, scale, r') = leadingFraction 0 (1, 1) False r
             in (f, scale, r', length r \<noteq> length r'))
          else (0, (1, 1), s, False))"

text \<open>The value of a number \<open>v + f / scale\<close> of the unit \<open>u\<close>, \<open>None\<close> for an unknown unit or overflow.\<close>

definition segment_value :: "int \<Rightarrow> int \<Rightarrow> frac \<Rightarrow> string \<Rightarrow> int option" where
  "segment_value v f scale u =
     (if u = [] then None
      else case map_of unit_map u of
        None \<Rightarrow> None
      | Some unit \<Rightarrow>
          if v > two63 div unit then None
          else if f > 0 then
            (if v * unit + fraction_ns f unit scale > two63 then None
             else Some (v * unit + fraction_ns f unit scale))
          else Some (v * unit))"

text \<open>
  One round of the parsing loop: a number and its unit. The result is the value in
  nanoseconds and the remaining input.
\<close>

definition parse_segment :: "string \<Rightarrow> (int \<times> string) option" where
  "parse_segment s =
     (case s of
        [] \<Rightarrow> None
      | c # _ \<Rightarrow>
          if c \<noteq> CHR ''.'' \<and> \<not> is_digit c then None
          else case leadingInt 0 s of
            None \<Rightarrow> None
          | Some (v, s1) \<Rightarrow>
              (case fraction_part s1 of
                 (f, scale, s2, post) \<Rightarrow>
                   if length s = length s1 \<and> \<not> post then None
                   else map_option (\<lambda>n. (n, dropWhile is_unit_byte s2))
                          (segment_value v f scale (takeWhile is_unit_byte s2))))"

lemma leadingInt_length: "leadingInt x s = Some (v, r) \<Longrightarrow> length r \<le> length s"
  by (induction x s rule: leadingInt.induct) (auto split: if_splits)

lemma leadingFraction_length: "leadingFraction x sc ov s = (f, sc', r) \<Longrightarrow> length r \<le> length s"
  by (induction x sc ov s rule: leadingFraction.induct) (auto split: if_splits)

lemma fraction_part_length: "fraction_part s = (f, sc, r, b) \<Longrightarrow> length r \<le> length s"
  by (auto simp: fraction_part_def dest: leadingFraction_length
      split: list.splits if_splits prod.splits)

lemma dropWhile_shorter: "takeWhile P s \<noteq> [] \<Longrightarrow> length (dropWhile P s) < length s"
  by (cases s) (auto simp: le_imp_less_Suc length_dropWhile_le split: if_splits)

lemma parse_segment_shorter:
  assumes "parse_segment s = Some (v, r)"
  shows "length r < length s"
proof -
  from assms obtain n s1 f sc s2 b where "leadingInt 0 s = Some (n, s1)"
    and "fraction_part s1 = (f, sc, s2, b)" and r: "r = dropWhile is_unit_byte s2"
    and "segment_value n f sc (takeWhile is_unit_byte s2) = Some v"
    by (auto simp: parse_segment_def split: list.splits if_splits option.splits prod.splits)
  then have "length s2 \<le> length s" "takeWhile is_unit_byte s2 \<noteq> []"
    by (auto simp: segment_value_def dest!: leadingInt_length fraction_part_length)
  then show ?thesis using dropWhile_shorter [of is_unit_byte s2] r by simp
qed

text \<open>The sum is a 64-bit word: it wraps before it is compared with \<open>1 << 63\<close>.\<close>

function parse_segments :: "int \<Rightarrow> string \<Rightarrow> int option" where
  "parse_segments d s =
     (if s = [] then Some d
      else case parse_segment s of
        None \<Rightarrow> None
      | Some (v, r) \<Rightarrow>
          if (d + v) mod (2 * two63) > two63 then None
          else parse_segments ((d + v) mod (2 * two63)) r)"
  by pat_completeness auto
termination
  by (relation "measure (\<lambda>(d, s). length s)") (auto simp: parse_segment_shorter)

declare parse_segments.simps [simp del]

definition ParseDuration :: "string \<Rightarrow> int option" where
  "ParseDuration s =
     (let neg = prefix ''-'' s;
          body = (if prefix ''-'' s \<or> prefix ''+'' s then tl s else s)
      in if body = ''0'' then Some 0
         else if body = [] then None
         else case parse_segments 0 body of
           None \<Rightarrow> None
         | Some d \<Rightarrow>
             if neg then Some (- d)
             else if d > two63 - 1 then None else Some d)"


section \<open>Host and port\<close>

definition Atoi :: "string \<Rightarrow> int option" where
  "Atoi s =
     (let neg = prefix ''-'' s;
          body = (if prefix ''-'' s \<or> prefix ''+'' s then tl s else s);
          n = foldl (\<lambda>n c. 10 * n + digit_int c) 0 body
      in if body = [] \<or> \<not> list_all is_digit body then None
         else if neg then (if n > two63 then None else Some (- n))
         else if n \<ge> two63 then None else Some n)"

text \<open>
  \<open>net.SplitHostPort\<close>: the port starts after the last colon; a host in brackets may hold
  colons. \<open>None\<close> stands for each of its errors.
\<close>

definition last_colon :: "string \<Rightarrow> (string \<times> string) option" where
  "last_colon s =
     (if CHR '':'' \<in> set s
      then Some (rev (drop 1 (dropWhile (\<lambda>c. c \<noteq> CHR '':'') (rev s))),
                 rev (takeWhile (\<lambda>c. c \<noteq> CHR '':'') (rev s)))
      else None)"

definition SplitHostPort :: "string \<Rightarrow> (string \<times> string) option" where
  "SplitHostPort hostport =
     (case last_colon hostport of
        None \<Rightarrow> None
      | Some (front, port) \<Rightarrow>
          if prefix ''['' hostport then
            (if CHR '']'' \<notin> set hostport then None
             else let host = takeWhile (\<lambda>c. c \<noteq> CHR '']'') (tl hostport)
                  in if length host + 2 \<noteq> length front then None
                     else if CHR ''['' \<in> set (tl hostport) then None
                     else if CHR '']'' \<in> set (drop (length host + 2) hostport) then None
                     else Some (host, port))
          else if CHR '':'' \<in> set front then None
          else if CHR ''['' \<in> set hostport \<or> CHR '']'' \<in> set hostport then None
          else Some (front, port))"

end
