(* ===== verification/Config.thy ===== *)
theory Config
  imports Operation Go_Duration
begin

text \<open>
  \<open>internal/config\<close>: the administrative policy document, its checks and its defaults.

  The maps that \<open>Validate\<close> ranges over (clients, resources, actions, telemetry attributes and
  headers) are lists of entries in the order of the range loop, because which error it
  reports depends on that order. Label constraints are finite maps.
\<close>

section \<open>The document\<close>

record LabelConstraint =
  Labels :: "string gomap"

record MutationRule =
  Only :: "string list"

record Permission =
  Selector :: "LabelConstraint option"
  Request :: "LabelConstraint option"
  Mutation :: "MutationRule option"

record Certificate =
  CertificateCommonName :: string

record ClientIdentity =
  Certificate :: Certificate

record ClientConfig =
  Identity :: ClientIdentity
  Permissions :: "Permission entries entries"

record OTLP =
  Endpoint :: string
  Protocol :: string
  Insecure :: bool
  Headers :: "string entries"

record Traces =
  Enabled :: bool
  SampleRatio :: "float64 option"

record Metrics =
  Enabled :: bool
  ExportInterval :: string

record Telemetry =
  ServiceName :: string
  Resource :: "string entries"
  Otlp :: OTLP
  Traces :: Traces
  Metrics :: Metrics

record Authentication =
  Unidentified :: string

record Config =
  Authentication :: Authentication
  Telemetry :: "Telemetry option"
  Clients :: "ClientConfig entries"

abbreviation IdentityCommonName :: "ClientConfig \<Rightarrow> string" where
  "IdentityCommonName client \<equiv> CertificateCommonName (Certificate (ClientConfig.Identity client))"

abbreviation unidentified_of :: "Config \<Rightarrow> string" where
  "unidentified_of c \<equiv> Unidentified (Config.Authentication c)"

definition Unconditional :: "Permission \<Rightarrow> bool" where
  "Unconditional p \<longleftrightarrow>
     Permission.Selector p = None \<and> Permission.Request p = None \<and> Permission.Mutation p = None"


section \<open>Checking a permission\<close>

text \<open>The innermost loop body of \<open>Config.Validate\<close>: one resource that the permission covers.\<close>

definition validate_actual :: "Action \<Rightarrow> Permission \<Rightarrow> Resource \<Rightarrow> error" where
  "validate_actual action permission actual =
     (if \<not> Supports actual action then Some ''unsupported permission action for resource''
      else if Permission.Selector permission \<noteq> None \<and> action \<noteq> ''inspect'' \<and>
              action \<noteq> ''update'' \<and> action \<noteq> ''delete''
      then Some ''selector requires an existing individual resource''
      else if Permission.Request permission \<noteq> None \<and> action \<noteq> ''create'' \<and> action \<noteq> ''update''
      then Some ''request requires create or update''
      else if Permission.Mutation permission \<noteq> None \<and> (actual \<noteq> ''service'' \<or> action \<noteq> ''update'')
      then Some ''mutation is supported only for service.update''
      else None)"

definition validate_labels :: "LabelConstraint option \<Rightarrow> error" where
  "validate_labels labels =
     (case labels of
        None \<Rightarrow> None
      | Some l \<Rightarrow>
          if map_len (LabelConstraint.Labels l) = 0
          then Some ''label constraints must be nonempty'' else None)"

fun validate_only :: "string list \<Rightarrow> string list \<Rightarrow> error" where
  "validate_only seen [] = None"
| "validate_only seen (field # rest) =
     (if (field \<noteq> ''container.secrets'' \<and> field \<noteq> ''container.image'' \<and> field \<noteq> ''replicas'') \<or>
         field \<in> set seen
      then Some ''unsupported or duplicate mutation field''
      else validate_only (field # seen) rest)"

definition validate_mutation :: "MutationRule option \<Rightarrow> error" where
  "validate_mutation m =
     (case m of
        None \<Rightarrow> None
      | Some rule \<Rightarrow>
          if MutationRule.Only rule = [] then Some ''mutation.only must be nonempty''
          else validate_only [] (MutationRule.Only rule))"

text \<open>The resources that a permission on \<open>resource\<close> and \<open>action\<close> covers.\<close>

definition covered_resources :: "string \<Rightarrow> Action \<Rightarrow> Resource list" where
  "covered_resources resource action =
     (if resource = ''*''
      then filter (\<lambda>candidate. Supports candidate action) [''service'', ''secret'', ''task'', ''node'']
      else [resource])"

definition validate_action :: "string \<Rightarrow> Action \<times> Permission \<Rightarrow> error" where
  "validate_action resource entry =
     (let (action, permission) = entry in
      if action = ''*'' then
        (if \<not> Unconditional permission
         then Some ''wildcard actions cannot have constraints'' else None)
      else let resources = covered_resources resource action in
        if resources = [] then Some ''unsupported permission action''
        else case first_error (validate_actual action permission) resources of
            Some e \<Rightarrow> Some e
          | None \<Rightarrow>
              (case first_error validate_labels
                      [Permission.Selector permission, Permission.Request permission] of
                 Some e \<Rightarrow> Some e
               | None \<Rightarrow> validate_mutation (Permission.Mutation permission)))"

definition validate_resource :: "string \<times> Permission entries \<Rightarrow> error" where
  "validate_resource entry =
     (let (resource, actions) = entry in
      if resource \<noteq> ''*'' \<and> \<not> Supports resource ActionInspect
      then Some ''unsupported permission resource''
      else first_error (validate_action resource) actions)"


section \<open>Checking the document\<close>

text \<open>The loop over the clients; \<open>cns\<close> are the common names seen so far.\<close>

fun validate_clients :: "string list \<Rightarrow> ClientConfig entries \<Rightarrow> error" where
  "validate_clients cns [] = None"
| "validate_clients cns ((name, client) # rest) =
     (let cn = IdentityCommonName client in
      if trim_space name = [] \<or> trim_space cn = [] \<or> cn \<in> set cns
      then Some ''client names and certificate CNs must be nonempty; certificate CNs must be unique''
      else if name = ''unknown'' \<or> name = ''unidentified'' \<or> name = ''internal''
      then Some ''client name is reserved for audit attribution''
      else case first_error validate_resource (ClientConfig.Permissions client) of
          Some e \<Rightarrow> Some e
        | None \<Rightarrow> validate_clients (cn # cns) rest)"

text \<open>
  \<open>Telemetry.Validate\<close> fills in defaults and checks the result; on success the updated
  settings are returned, on an error the caller drops them, so the defaults can be filled in
  before the first check. A header name with bytes outside ASCII is reported with the message
  of the second check even where Go's \<open>ToLower\<close> would already change it in the first.
\<close>

definition sample_ratio_bad :: "float64 \<Rightarrow> bool" where
  "sample_ratio_bad r \<longleftrightarrow>
     r = NaN \<or> r = PosInf \<or> r = NegInf \<or> f64_less r (Finite 0) \<or> f64_less (Finite 1) r"

definition endpoint_bad :: "string \<Rightarrow> bool" where
  "endpoint_bad endpoint =
     (case SplitHostPort endpoint of
        None \<Rightarrow> True
      | Some (host, port) \<Rightarrow>
          (case Atoi port of
             None \<Rightarrow> True
           | Some n \<Rightarrow>
               host = [] \<or> n < 1 \<or> n > 65535 \<or>
               contains_any host (''/@?# '' @ [CHR 0x0D, CHR 0x0A, CHR 0x09])))"

definition validate_header :: "string \<times> string \<Rightarrow> error" where
  "validate_header entry =
     (let (key, v) = entry in
      if key = [] \<or> map to_lower_ascii key \<noteq> key then Some ''OTLP header names must be lowercase''
      else if list_ex (\<lambda>c. c \<notin> set ''abcdefghijklmnopqrstuvwxyz0123456789-_.'') key
      then Some ''invalid OTLP header name''
      else if list_ex (\<lambda>c. c < CHR 0x20 \<or> CHR 0x7E < c) v
      then Some ''invalid OTLP header value''
      else None)"

definition telemetry_defaults :: "Telemetry \<Rightarrow> Telemetry" where
  "telemetry_defaults t =
     t\<lparr>ServiceName := (if ServiceName t = [] then ''dockauthz'' else ServiceName t),
       Telemetry.Traces := (Telemetry.Traces t)\<lparr>SampleRatio :=
         (case SampleRatio (Telemetry.Traces t) of
            None \<Rightarrow> Some (Finite 1) | Some r \<Rightarrow> Some r)\<rparr>,
       Telemetry.Metrics := (Telemetry.Metrics t)\<lparr>ExportInterval :=
         (if ExportInterval (Telemetry.Metrics t) = [] then ''30s''
          else ExportInterval (Telemetry.Metrics t))\<rparr>\<rparr>"

definition validate_telemetry :: "Telemetry \<Rightarrow> string + Telemetry" where
  "validate_telemetry t0 =
     (let t = telemetry_defaults t0 in
      if map_of (Telemetry.Resource t) ''service.name'' \<noteq> None
      then Inl ''telemetry.resource cannot override service.name''
      else if map_of (Telemetry.Resource t) ''service.version'' \<noteq> None
      then Inl ''telemetry.resource cannot override service.version''
      else if (case SampleRatio (Telemetry.Traces t) of None \<Rightarrow> True | Some r \<Rightarrow> sample_ratio_bad r)
      then Inl ''telemetry sampleRatio must be between 0 and 1''
      else if (case ParseDuration (ExportInterval (Telemetry.Metrics t)) of
                 None \<Rightarrow> True | Some d \<Rightarrow> d \<le> 0)
      then Inl ''telemetry exportInterval must be a positive duration''
      else let otlp = Otlp t in
        if Protocol otlp \<noteq> [] \<and> Protocol otlp \<noteq> ''grpc'' \<and> Protocol otlp \<noteq> ''http''
        then Inl ''telemetry protocol must be grpc or http''
        else if (Traces.Enabled (Telemetry.Traces t) \<or> Metrics.Enabled (Telemetry.Metrics t)) \<and>
                (Endpoint otlp = [] \<or> Protocol otlp = [])
        then Inl ''enabled telemetry requires explicit OTLP endpoint and protocol''
        else if Endpoint otlp \<noteq> [] \<and> endpoint_bad (Endpoint otlp)
        then Inl ''telemetry endpoint must be host:port''
        else case first_error validate_header (Headers otlp) of
            Some e \<Rightarrow> Inl e
          | None \<Rightarrow> Inr t)"

definition validate_config :: "Config \<Rightarrow> string + Config" where
  "validate_config c =
     (if unidentified_of c \<noteq> ''allow'' \<and> unidentified_of c \<noteq> ''deny''
      then Inl ''authentication.unidentified must explicitly be allow or deny''
      else case validate_clients [] (Clients c) of
          Some e \<Rightarrow> Inl e
        | None \<Rightarrow>
            (case Config.Telemetry c of
               None \<Rightarrow> Inr c
             | Some t \<Rightarrow>
                 (case validate_telemetry t of
                    Inl e \<Rightarrow> Inl e
                  | Inr t' \<Rightarrow> Inr (c\<lparr>Config.Telemetry := Some t'\<rparr>))))"


section \<open>What an accepted document looks like\<close>

definition supported_mutations :: "string set" where
  "supported_mutations = {''container.secrets'', ''container.image'', ''replicas''}"

definition labels_ok :: "LabelConstraint option \<Rightarrow> bool" where
  "labels_ok = pred_option (\<lambda>l. map_len (LabelConstraint.Labels l) \<noteq> 0)"

definition mutation_ok :: "MutationRule option \<Rightarrow> bool" where
  "mutation_ok = pred_option (\<lambda>rule. MutationRule.Only rule \<noteq> [] \<and>
     set (MutationRule.Only rule) \<subseteq> supported_mutations \<and> distinct (MutationRule.Only rule))"

text \<open>
  A grant: the permission \<open>p\<close> that a client holds for \<open>resource\<close> and \<open>action\<close>, either of which
  may be a wildcard.
\<close>

definition grant_ok :: "string \<Rightarrow> Action \<Rightarrow> Permission \<Rightarrow> bool" where
  "grant_ok resource action p \<longleftrightarrow>
     (resource = ''*'' \<or> Supports resource ActionInspect) \<and>
     (if action = ''*'' then Unconditional p
      else
        (\<exists>r. r \<in> set (covered_resources resource action) \<and> Supports r action) \<and>
        (Permission.Selector p \<noteq> None \<longrightarrow> action \<in> {''inspect'', ''update'', ''delete''}) \<and>
        (Permission.Request p \<noteq> None \<longrightarrow> action \<in> {''create'', ''update''}) \<and>
        (Permission.Mutation p \<noteq> None \<longrightarrow> resource \<in> {''*'', ''service''} \<and> action = ''update'') \<and>
        labels_ok (Permission.Selector p) \<and> labels_ok (Permission.Request p) \<and>
        mutation_ok (Permission.Mutation p))"

definition grants :: "ClientConfig \<Rightarrow> (string \<times> Action \<times> Permission) set" where
  "grants client =
     {(r, a, p). \<exists>actions. (r, actions) \<in> set (ClientConfig.Permissions client) \<and> (a, p) \<in> set actions}"

definition resources_of :: "ClientConfig \<Rightarrow> string set" where
  "resources_of client = fst ` set (ClientConfig.Permissions client)"

definition client_ok :: "string \<Rightarrow> ClientConfig \<Rightarrow> bool" where
  "client_ok name client \<longleftrightarrow>
     trim_space name \<noteq> [] \<and> trim_space (IdentityCommonName client) \<noteq> [] \<and>
     name \<notin> {''unknown'', ''unidentified'', ''internal''} \<and>
     (\<forall>r \<in> resources_of client. r = ''*'' \<or> Supports r ActionInspect) \<and>
     (\<forall>(r, a, p) \<in> grants client. grant_ok r a p)"

lemma validate_only_None_iff:
  "validate_only seen fs = None \<longleftrightarrow>
     set fs \<subseteq> supported_mutations \<and> distinct fs \<and> set fs \<inter> set seen = {}"
  by (induction seen fs rule: validate_only.induct) (auto simp: supported_mutations_def)

lemma validate_mutation_None_iff: "validate_mutation m = None \<longleftrightarrow> mutation_ok m"
  by (simp add: validate_mutation_def mutation_ok_def validate_only_None_iff split: option.splits)

lemma validate_labels_None_iff: "validate_labels l = None \<longleftrightarrow> labels_ok l"
  by (simp add: validate_labels_def labels_ok_def split: option.splits)

lemma validate_actual_None_iff:
  "validate_actual action p actual = None \<longleftrightarrow>
     Supports actual action \<and>
     (Permission.Selector p \<noteq> None \<longrightarrow> action \<in> {''inspect'', ''update'', ''delete''}) \<and>
     (Permission.Request p \<noteq> None \<longrightarrow> action \<in> {''create'', ''update''}) \<and>
     (Permission.Mutation p \<noteq> None \<longrightarrow> actual = ''service'' \<and> action = ''update'')"
  by (auto simp: validate_actual_def)

text \<open>Only services can be updated, so a wildcard over updates covers services.\<close>

lemma Supports_update_iff: "Supports r ''update'' \<longleftrightarrow> r = ''service''"
  by (simp add: Supports_def)

lemma all_covered_iff:
  assumes "\<And>r. r \<in> C \<Longrightarrow> S r" and "\<And>r. u \<Longrightarrow> r \<in> C \<Longrightarrow> r = s"
  shows "(\<exists>r. r \<in> C) \<and> (\<forall>r \<in> C. S r \<and> A \<and> B \<and> (M \<longrightarrow> r = s \<and> u)) \<longleftrightarrow>
         (\<exists>r. r \<in> C \<and> S r) \<and> A \<and> B \<and> (M \<longrightarrow> u)"
  using assms by blast

lemma covered_valid_iff:
  "(covered_resources resource action \<noteq> [] \<and>
     (\<forall>r \<in> set (covered_resources resource action). validate_actual action p r = None)) \<longleftrightarrow>
   (\<exists>r. r \<in> set (covered_resources resource action) \<and> Supports r action) \<and>
     (Permission.Selector p \<noteq> None \<longrightarrow> action \<in> {''inspect'', ''update'', ''delete''}) \<and>
     (Permission.Request p \<noteq> None \<longrightarrow> action \<in> {''create'', ''update''}) \<and>
     (Permission.Mutation p \<noteq> None \<longrightarrow> resource \<in> {''*'', ''service''} \<and> action = ''update'')"
proof (cases "resource = ''*''")
  case True
  then have "r \<in> set (covered_resources resource action) \<longleftrightarrow>
      r \<in> {''service'', ''secret'', ''task'', ''node''} \<and> Supports r action" for r
    by (auto simp: covered_resources_def)
  then have sup: "r \<in> set (covered_resources resource action) \<Longrightarrow> Supports r action" for r
    by blast
  have ne: "covered_resources resource action \<noteq> [] \<longleftrightarrow>
      (\<exists>r. r \<in> set (covered_resources resource action))"
    by (cases "covered_resources resource action") auto
  have upd: "action = ''update'' \<Longrightarrow> r \<in> set (covered_resources resource action) \<Longrightarrow> r = ''service''"
    for r using sup Supports_update_iff by simp
  show ?thesis
    unfolding validate_actual_None_iff ne
    using True all_covered_iff [where C = "set (covered_resources resource action)" and
        S = "\<lambda>r. Supports r action" and u = "action = ''update''" and s = "''service''",
        OF sup upd]
    by simp
next
  case False
  then have "covered_resources resource action = [resource]" by (simp add: covered_resources_def)
  then show ?thesis using False by (auto simp: validate_actual_None_iff)
qed

lemma validate_action_None_iff:
  "(resource = ''*'' \<or> Supports resource ActionInspect) \<and> validate_action resource (action, p) = None
   \<longleftrightarrow> grant_ok resource action p"
proof (cases "action = ''*''")
  case True
  then show ?thesis by (simp add: validate_action_def grant_ok_def)
next
  case False
  then have "validate_action resource (action, p) = None \<longleftrightarrow>
      (covered_resources resource action \<noteq> [] \<and>
       (\<forall>r \<in> set (covered_resources resource action). validate_actual action p r = None)) \<and>
      (validate_labels (Permission.Selector p) = None \<and> validate_labels (Permission.Request p) = None) \<and>
      validate_mutation (Permission.Mutation p) = None"
    by (simp add: validate_action_def Let_def)
  then show ?thesis
    unfolding grant_ok_def covered_valid_iff validate_labels_None_iff validate_mutation_None_iff
    using False by (simp only: if_False conj_assoc)
qed

lemma validate_resource_None_iff:
  "validate_resource (resource, actions) = None \<longleftrightarrow>
     (resource = ''*'' \<or> Supports resource ActionInspect) \<and>
     (\<forall>(action, p) \<in> set actions. grant_ok resource action p)"
  unfolding validate_action_None_iff [symmetric]
  by (auto simp: validate_resource_def)

lemma nested_entries_iff:
  "(\<forall>(r, actions) \<in> set xs. P r \<and> (\<forall>(a, p) \<in> set actions. Q r a p)) \<longleftrightarrow>
     (\<forall>r \<in> fst ` set xs. P r) \<and>
     (\<forall>(r, a, p) \<in> {(r, a, p). \<exists>actions. (r, actions) \<in> set xs \<and> (a, p) \<in> set actions}. Q r a p)"
  unfolding Ball_def split_paired_All image_iff Bex_def split_paired_Ex mem_Collect_eq
    split_conv fst_conv by blast

lemma validate_permissions_None_iff:
  "first_error validate_resource (ClientConfig.Permissions client) = None \<longleftrightarrow>
     (\<forall>r \<in> resources_of client. r = ''*'' \<or> Supports r ActionInspect) \<and>
     (\<forall>(r, a, p) \<in> grants client. grant_ok r a p)"
  unfolding resources_of_def grants_def nested_entries_iff [symmetric] first_error_None_iff
  by (intro ball_cong refl) (simp only: validate_resource_None_iff split_paired_all split_conv)

definition common_names :: "ClientConfig entries \<Rightarrow> string list" where
  "common_names cs = map (\<lambda>(name, client). IdentityCommonName client) cs"

lemma validate_clients_None_iff:
  "validate_clients cns cs = None \<longleftrightarrow>
     (\<forall>(name, client) \<in> set cs. client_ok name client) \<and>
     distinct (common_names cs) \<and> set (common_names cs) \<inter> set cns = {}"
proof (induction cns cs rule: validate_clients.induct)
  case (2 cns name client rest)
  have "validate_clients cns ((name, client) # rest) = None \<longleftrightarrow>
      client_ok name client \<and> IdentityCommonName client \<notin> set cns \<and>
      validate_clients (IdentityCommonName client # cns) rest = None"
    by (auto simp: Let_def client_ok_def validate_permissions_None_iff simp del: first_error_None_iff)
  then show ?case
    using 2 by (cases "client_ok name client \<and> IdentityCommonName client \<notin> set cns")
      (auto simp: common_names_def client_ok_def validate_permissions_None_iff
        simp del: first_error_None_iff)
qed (simp add: common_names_def)


section \<open>What accepted telemetry settings look like\<close>

definition endpoint_ok :: "string \<Rightarrow> bool" where
  "endpoint_ok endpoint \<longleftrightarrow>
     (\<exists>host port n. SplitHostPort endpoint = Some (host, port) \<and> Atoi port = Some n \<and>
        host \<noteq> [] \<and> 1 \<le> n \<and> n \<le> 65535 \<and>
        set host \<inter> set (''/@?# '' @ [CHR 0x0D, CHR 0x0A, CHR 0x09]) = {})"

definition header_ok :: "string \<times> string \<Rightarrow> bool" where
  "header_ok entry \<longleftrightarrow>
     fst entry \<noteq> [] \<and> set (fst entry) \<subseteq> set ''abcdefghijklmnopqrstuvwxyz0123456789-_.'' \<and>
     (\<forall>c \<in> set (snd entry). CHR 0x20 \<le> c \<and> c \<le> CHR 0x7E)"

definition telemetry_ok :: "Telemetry \<Rightarrow> bool" where
  "telemetry_ok t \<longleftrightarrow>
     {''service.name'', ''service.version''} \<inter> fst ` set (Telemetry.Resource t) = {} \<and>
     (\<exists>q. SampleRatio (Telemetry.Traces t) = Some (Finite q) \<and> 0 \<le> q \<and> q \<le> 1) \<and>
     (\<exists>d > 0. ParseDuration (ExportInterval (Telemetry.Metrics t)) = Some d) \<and>
     Protocol (Otlp t) \<in> {[], ''grpc'', ''http''} \<and>
     (Traces.Enabled (Telemetry.Traces t) \<or> Metrics.Enabled (Telemetry.Metrics t) \<longrightarrow>
        Endpoint (Otlp t) \<noteq> [] \<and> Protocol (Otlp t) \<noteq> []) \<and>
     (Endpoint (Otlp t) \<noteq> [] \<longrightarrow> endpoint_ok (Endpoint (Otlp t))) \<and>
     (\<forall>h \<in> set (Headers (Otlp t)). header_ok h)"

lemma endpoint_bad_iff: "endpoint_bad endpoint \<longleftrightarrow> \<not> endpoint_ok endpoint"
  by (auto simp: endpoint_bad_def endpoint_ok_def contains_any_def list_ex_iff not_le
      split: option.splits)

lemma sample_ratio_bad_iff: "sample_ratio_bad r \<longleftrightarrow> (\<nexists>q. r = Finite q \<and> 0 \<le> q \<and> q \<le> 1)"
  by (cases r) (auto simp: sample_ratio_bad_def f64_less_def not_le)

lemma header_byte_lower:
  "list_all (\<lambda>c. to_lower_ascii c = c) ''abcdefghijklmnopqrstuvwxyz0123456789-_.''"
  by code_simp

lemma header_name_lower:
  assumes "set key \<subseteq> set ''abcdefghijklmnopqrstuvwxyz0123456789-_.''"
  shows "map to_lower_ascii key = key"
  using header_byte_lower assms unfolding list_all_iff by (intro map_idI) blast

lemma validate_header_None_iff: "validate_header h = None \<longleftrightarrow> header_ok h"
proof (cases h)
  case (Pair key v)
  have "list_ex (\<lambda>c. c \<notin> set ''abcdefghijklmnopqrstuvwxyz0123456789-_.'') key \<longleftrightarrow>
      \<not> set key \<subseteq> set ''abcdefghijklmnopqrstuvwxyz0123456789-_.''"
    unfolding list_ex_iff by blast
  moreover have "list_ex (\<lambda>c. c < CHR 0x20 \<or> CHR 0x7E < c) v \<longleftrightarrow>
      \<not> (\<forall>c \<in> set v. CHR 0x20 \<le> c \<and> c \<le> CHR 0x7E)"
    unfolding list_ex_iff by (auto simp: not_le)
  ultimately show ?thesis
    using header_name_lower [of key] unfolding Pair validate_header_def header_ok_def
    by (simp only: split_conv Let_def fst_conv snd_conv split: if_split) blast
qed

lemma validate_telemetry_Inr_iff:
  "validate_telemetry t0 = Inr t \<longleftrightarrow> t = telemetry_defaults t0 \<and> telemetry_ok t"
proof -
  let ?t = "telemetry_defaults t0"
  have res: "map_of m k \<noteq> None \<longleftrightarrow> k \<in> fst ` set m" for m :: "string entries" and k
    by (metis map_of_eq_None_iff)
  have ratio: "\<not> (case SampleRatio (Telemetry.Traces ?t) of None \<Rightarrow> True | Some r \<Rightarrow> sample_ratio_bad r) \<longleftrightarrow>
      (\<exists>q. SampleRatio (Telemetry.Traces ?t) = Some (Finite q) \<and> 0 \<le> q \<and> q \<le> 1)"
    by (auto simp: sample_ratio_bad_iff split: option.splits)
  have interval: "\<not> (case ParseDuration (ExportInterval (Telemetry.Metrics ?t)) of
        None \<Rightarrow> True | Some d \<Rightarrow> d \<le> 0) \<longleftrightarrow>
      (\<exists>d > 0. ParseDuration (ExportInterval (Telemetry.Metrics ?t)) = Some d)"
    by (auto split: option.splits)
  have hd: "first_error validate_header (Headers (Otlp ?t)) = None \<longleftrightarrow>
      (\<forall>h \<in> set (Headers (Otlp ?t)). header_ok h)"
    by (simp add: validate_header_None_iff)
  show ?thesis
    unfolding validate_telemetry_def Let_def telemetry_ok_def result_Inr_iffs
      res ratio interval hd endpoint_bad_iff
    by blast
qed


section \<open>Accepted documents\<close>

definition config_defaults :: "Config \<Rightarrow> Config" where
  "config_defaults c = c\<lparr>Config.Telemetry := map_option telemetry_defaults (Config.Telemetry c)\<rparr>"

definition config_ok :: "Config \<Rightarrow> bool" where
  "config_ok c \<longleftrightarrow>
     unidentified_of c \<in> {''allow'', ''deny''} \<and>
     (\<forall>(name, client) \<in> set (Clients c). client_ok name client) \<and>
     distinct (common_names (Clients c)) \<and>
     pred_option (\<lambda>t. telemetry_ok (telemetry_defaults t)) (Config.Telemetry c)"

lemma validate_config_Inr_iff:
  "validate_config c = Inr c' \<longleftrightarrow> config_ok c \<and> c' = config_defaults c"
proof -
  have "(case Config.Telemetry c of None \<Rightarrow> Inr c
         | Some t \<Rightarrow> (case validate_telemetry t of Inl e \<Rightarrow> Inl e
             | Inr t' \<Rightarrow> Inr (c\<lparr>Config.Telemetry := Some t'\<rparr>))) = Inr c' \<longleftrightarrow>
      pred_option (\<lambda>t. telemetry_ok (telemetry_defaults t)) (Config.Telemetry c) \<and>
      c' = config_defaults c"
    by (cases "Config.Telemetry c")
      (auto simp: config_defaults_def bind_Inr_iff validate_telemetry_Inr_iff)
  then show ?thesis
    unfolding validate_config_def result_Inr_iffs config_ok_def validate_clients_None_iff
    by auto
qed

lemma telemetry_defaults_idem [simp]:
  "telemetry_defaults (telemetry_defaults t) = telemetry_defaults t"
  by (simp add: telemetry_defaults_def split: option.split)

lemma config_defaults_idem [simp]: "config_defaults (config_defaults c) = config_defaults c"
  by (simp add: config_defaults_def option.map_comp comp_def)

lemma config_defaults_sels [simp]:
  "Config.Authentication (config_defaults c) = Config.Authentication c"
  "Clients (config_defaults c) = Clients c"
  by (simp_all add: config_defaults_def)

lemma config_ok_defaults [simp]: "config_ok (config_defaults c) \<longleftrightarrow> config_ok c"
  by (simp add: config_ok_def config_defaults_def option.pred_map comp_def)

text \<open>
  What a grant of an accepted document can look like. The evaluation of permissions relies on
  these facts: a request constraint is only ever checked against the body of a create or an
  update, and a mutation rule only against a service.
\<close>

lemma config_ok_client: "config_ok c \<Longrightarrow> (name, client) \<in> set (Clients c) \<Longrightarrow> client_ok name client"
  by (auto simp: config_ok_def)

lemma client_ok_grant: "client_ok name client \<Longrightarrow> (r, a, p) \<in> grants client \<Longrightarrow> grant_ok r a p"
  by (auto simp: client_ok_def)

lemma grant_ok_request:
  "grant_ok r a p \<Longrightarrow> Permission.Request p \<noteq> None \<Longrightarrow> a = ''create'' \<or> a = ''update''"
  unfolding grant_ok_def Unconditional_def by (simp split: if_splits)

lemma grant_ok_mutation:
  "grant_ok r a p \<Longrightarrow> Permission.Mutation p \<noteq> None \<Longrightarrow> a = ''update''"
  unfolding grant_ok_def Unconditional_def by (simp split: if_splits)

text \<open>What the maps of a client hold, whatever the order of their entries.\<close>

definition client_view :: "string \<times> ClientConfig \<Rightarrow> string \<times> string \<times> string set \<times> (string \<times> Action \<times> Permission) set" where
  "client_view entry =
     (fst entry, IdentityCommonName (snd entry), resources_of (snd entry), grants (snd entry))"

definition view_ok :: "string \<times> string \<times> string set \<times> (string \<times> Action \<times> Permission) set \<Rightarrow> bool" where
  "view_ok v \<longleftrightarrow>
     (case v of (name, cn, rs, gs) \<Rightarrow>
        trim_space name \<noteq> [] \<and> trim_space cn \<noteq> [] \<and>
        name \<notin> {''unknown'', ''unidentified'', ''internal''} \<and>
        (\<forall>r \<in> rs. r = ''*'' \<or> Supports r ActionInspect) \<and>
        (\<forall>(r, a, p) \<in> gs. grant_ok r a p))"

lemma client_ok_view: "client_ok name client \<longleftrightarrow> view_ok (client_view (name, client))"
  by (simp add: client_ok_def view_ok_def client_view_def)

lemma config_ok_view:
  "config_ok c \<longleftrightarrow>
     unidentified_of c \<in> {''allow'', ''deny''} \<and>
     (\<forall>v \<in># mset (map client_view (Clients c)). view_ok v) \<and>
     (\<forall>cn. count (image_mset (fst \<circ> snd) (mset (map client_view (Clients c)))) cn \<le> 1) \<and>
     pred_option (\<lambda>t. telemetry_ok (telemetry_defaults t)) (Config.Telemetry c)"
proof -
  have "image_mset (fst \<circ> snd) (mset (map client_view (Clients c))) = mset (common_names (Clients c))"
    unfolding mset_map [symmetric] map_map common_names_def
    by (intro arg_cong [of _ _ mset] map_cong refl) (simp add: client_view_def split_beta)
  moreover have "distinct xs \<longleftrightarrow> (\<forall>x. count (mset xs) x \<le> 1)" for xs :: "string list"
    by (auto simp: distinct_count_atmost_1 count_eq_zero_iff le_Suc_eq)
  ultimately show ?thesis
    unfolding config_ok_def by (auto simp: client_ok_view)
qed


text \<open>A document for the concrete instances: two clients and telemetry with defaults.\<close>

definition example_grant :: Permission where
  "example_grant = \<lparr>Permission.Selector = None, Permission.Request = None, Permission.Mutation = None\<rparr>"

definition example_client :: "string \<Rightarrow> ClientConfig" where
  "example_client cn =
     \<lparr>ClientConfig.Identity = \<lparr>Certificate = \<lparr>CertificateCommonName = cn\<rparr>\<rparr>,
      ClientConfig.Permissions = [(''service'', [(''list'', example_grant), (''inspect'', example_grant)])]\<rparr>"

definition example_telemetry :: Telemetry where
  "example_telemetry =
     \<lparr>ServiceName = [], Telemetry.Resource = [],
      Otlp = \<lparr>Endpoint = ''collector:4317'', Protocol = ''grpc'', Insecure = False, Headers = []\<rparr>,
      Telemetry.Traces = \<lparr>Traces.Enabled = True, SampleRatio = None\<rparr>,
      Telemetry.Metrics = \<lparr>Metrics.Enabled = False, ExportInterval = []\<rparr>\<rparr>"

definition example_config :: "ClientConfig entries \<Rightarrow> Config" where
  "example_config cs =
     \<lparr>Config.Authentication = \<lparr>Unidentified = ''deny''\<rparr>,
      Config.Telemetry = Some example_telemetry, Clients = cs\<rparr>"

abbreviation "example_ci \<equiv> (''ci'', example_client ''ci.example'')"
abbreviation "example_ops \<equiv> (''ops'', example_client ''ops.example'')"


section \<open>Properties\<close>

text \<open>
  C8: the validation accepts exactly the well-formed documents, and its result is the
  document with the telemetry defaults filled in. Well-formed means: an explicit policy for
  unidentified requests, nonblank and unreserved client names, nonblank and pairwise distinct
  common names, grants that only constrain what their operations have, and sound telemetry
  settings.
\<close>

theorem config_accept_exact:
  "validate_config c = Inr c' \<longleftrightarrow> config_ok c \<and> c' = config_defaults c"
  by (rule validate_config_Inr_iff)

text \<open>
  Whether a document is accepted does not depend on the order in which the maps of
  clients, resources and actions are ranged over.
\<close>

theorem config_order_irrelevant:
  assumes "mset (map client_view (Clients c)) = mset (map client_view (Clients c'))"
    and "Config.Authentication c = Config.Authentication c'"
    and "Config.Telemetry c = Config.Telemetry c'"
  shows "(\<exists>r. validate_config c = Inr r) \<longleftrightarrow> (\<exists>r. validate_config c' = Inr r)"
  using assms by (simp add: validate_config_Inr_iff config_ok_view)

theorem config_order_irrelevant_witness:
  "(\<exists>r. validate_config (example_config [example_ci, example_ops]) = Inr r) \<longleftrightarrow>
   (\<exists>r. validate_config (example_config [example_ops, example_ci]) = Inr r)"
  by (rule config_order_irrelevant) (simp_all add: example_config_def)

text \<open>
  Validation is idempotent. \<open>Parse\<close> validates the document and the plugin validates it
  again; the second time nothing is rejected and nothing changes.
\<close>

theorem config_validate_idempotent:
  assumes "validate_config c = Inr c'"
  shows "validate_config c' = Inr c'"
  using assms by (simp add: validate_config_Inr_iff)

theorem config_validate_idempotent_witness:
  "validate_config (config_defaults (example_config [example_ci, example_ops])) =
     Inr (config_defaults (example_config [example_ci, example_ops]))"
proof (rule config_validate_idempotent)
  show "validate_config (example_config [example_ci, example_ops]) =
      Inr (config_defaults (example_config [example_ci, example_ops]))"
    by code_simp
qed

text \<open>
  Accepted telemetry settings are the given ones with defaults, and they are in range: a
  sample ratio in [0,1], a positive export interval, a known protocol, an endpoint with a
  nonempty host and a port in 1..65535 wherever a signal is enabled, lower case header names
  and printable header values.
\<close>

theorem telemetry_accept_exact:
  "validate_telemetry t0 = Inr t \<longleftrightarrow> t = telemetry_defaults t0 \<and> telemetry_ok t"
  by (rule validate_telemetry_Inr_iff)

end
