(* ===== verification/Swarm_Types.thy ===== *)
theory Swarm_Types
  imports Prelude
begin

unbundle bit_operations_syntax

text \<open>
  The type graph of Docker's \<open>swarm.ServiceSpec\<close>, as the schema guards of
  \<open>internal/mutation/equal_generated.go\<close> spell it out (each guard is a conversion that only
  compiles while the struct has exactly these fields). One record per struct, with the
  struct's field names; a struct without fields is a datatype with one value. Named string
  types of the Docker API are strings, \<open>time.Duration\<close>, \<open>int64\<close> and \<open>int\<close> are 64-bit words,
  file modes and ports 32-bit words.
\<close>

section \<open>Basic values\<close>

text \<open>
  A \<open>float32\<close> is its IEEE 754 bit pattern. Go's \<open>==\<close> on floats is not equality of bits: a NaN
  equals nothing, and the two zeros are equal.
\<close>

type_synonym float32 = "32 word"

definition float32_mag :: "float32 \<Rightarrow> float32" where
  "float32_mag x = x AND 0x7FFFFFFF"

definition float32_nan :: "float32 \<Rightarrow> bool" where
  "float32_nan x \<longleftrightarrow> 0x7F800000 < float32_mag x"

definition float32_eq :: "float32 \<Rightarrow> float32 \<Rightarrow> bool" where
  "float32_eq a b \<longleftrightarrow>
     \<not> float32_nan a \<and> \<not> float32_nan b \<and> (a = b \<or> float32_mag a = 0 \<and> float32_mag b = 0)"

text \<open>
  \<open>netip.Addr\<close>: 128 address bits and a canonical handle on the address family and the IPv6
  zone (\<open>None\<close> for the zero \<open>Addr\<close>). Its documented equality is equality of the value.
\<close>

datatype addr_detail = Addr_v4 | Addr_v6 string

record Addr =
  addr_hi :: uint64
  addr_lo :: uint64
  addr_z :: "addr_detail option"


section \<open>The structs\<close>

record Annotations =
  Name :: string
  Labels :: "string gomap"

record CredentialSpec =
  Config :: string
  File :: string
  Registry :: string

record SELinuxContext =
  Disable :: bool
  User :: string
  Role :: string
  Type :: string
  Level :: string

record SeccompOpts =
  Mode :: string
  Profile :: "byte slice"

record AppArmorOpts =
  Mode :: string

record Privileges =
  CredentialSpec :: "CredentialSpec option"
  SELinuxContext :: "SELinuxContext option"
  Seccomp :: "SeccompOpts option"
  AppArmor :: "AppArmorOpts option"
  NoNewPrivileges :: bool

record BindOptions =
  Propagation :: string
  NonRecursive :: bool
  CreateMountpoint :: bool
  ReadOnlyNonRecursive :: bool
  ReadOnlyForceRecursive :: bool

record MountDriver =
  Name :: string
  Options :: "string gomap"

record VolumeOptions =
  NoCopy :: bool
  Labels :: "string gomap"
  Subpath :: string
  DriverConfig :: "MountDriver option"

record ImageOptions =
  Subpath :: string

record TmpfsOptions =
  SizeBytes :: int64
  Mode :: uint32
  Options :: "(string slice) slice"

datatype ClusterOptions = ClusterOptions

record Mount =
  Type :: string
  Source :: string
  Target :: string
  ReadOnly :: bool
  Consistency :: string
  BindOptions :: "BindOptions option"
  VolumeOptions :: "VolumeOptions option"
  ImageOptions :: "ImageOptions option"
  TmpfsOptions :: "TmpfsOptions option"
  ClusterOptions :: "ClusterOptions option"

record HealthcheckConfig =
  Test :: "string slice"
  Interval :: int64
  Timeout :: int64
  StartPeriod :: int64
  StartInterval :: int64
  Retries :: int64

record DNSConfig =
  Nameservers :: "Addr slice"
  Search :: "string slice"
  Options :: "string slice"

record SecretReferenceFileTarget =
  Name :: string
  UID :: string
  GID :: string
  Mode :: uint32

record SecretReference =
  File :: "SecretReferenceFileTarget option"
  SecretID :: string
  SecretName :: string

record ConfigReferenceFileTarget =
  Name :: string
  UID :: string
  GID :: string
  Mode :: uint32

datatype ConfigReferenceRuntimeTarget = ConfigReferenceRuntimeTarget

record ConfigReference =
  File :: "ConfigReferenceFileTarget option"
  Runtime :: "ConfigReferenceRuntimeTarget option"
  ConfigID :: string
  ConfigName :: string

record Ulimit =
  Name :: string
  Hard :: int64
  Soft :: int64

record ContainerSpec =
  Image :: string
  Labels :: "string gomap"
  Command :: "string slice"
  Args :: "string slice"
  Hostname :: string
  Env :: "string slice"
  Dir :: string
  User :: string
  Groups :: "string slice"
  Privileges :: "Privileges option"
  Init :: "bool option"
  StopSignal :: string
  TTY :: bool
  OpenStdin :: bool
  ReadOnly :: bool
  Mounts :: "Mount slice"
  StopGracePeriod :: "int64 option"
  Healthcheck :: "HealthcheckConfig option"
  Hosts :: "string slice"
  DNSConfig :: "DNSConfig option"
  Secrets :: "(SecretReference option) slice"
  Configs :: "(ConfigReference option) slice"
  Isolation :: string
  Sysctls :: "string gomap"
  CapabilityAdd :: "string slice"
  CapabilityDrop :: "string slice"
  Ulimits :: "(Ulimit option) slice"
  OomScoreAdj :: int64

record RuntimePrivilege =
  Name :: string
  Description :: string
  Value :: "string slice"

record RuntimeSpec =
  Name :: string
  Remote :: string
  Privileges :: "(RuntimePrivilege option) slice"
  Disabled :: bool
  Env :: "string slice"

record NetworkAttachmentSpec =
  ContainerID :: string

record Limit =
  NanoCPUs :: int64
  MemoryBytes :: int64
  Pids :: int64

record NamedGenericResource =
  Kind :: string
  Value :: string

record DiscreteGenericResource =
  Kind :: string
  Value :: int64

record GenericResource =
  NamedResourceSpec :: "NamedGenericResource option"
  DiscreteResourceSpec :: "DiscreteGenericResource option"

record Resources =
  NanoCPUs :: int64
  MemoryBytes :: int64
  GenericResources :: "GenericResource slice"

record ResourceRequirements =
  Limits :: "Limit option"
  Reservations :: "Resources option"
  SwapBytes :: "int64 option"
  MemorySwappiness :: "int64 option"

record RestartPolicy =
  Condition :: string
  Delay :: "int64 option"
  MaxAttempts :: "uint64 option"
  Window :: "int64 option"

record SpreadOver =
  SpreadDescriptor :: string

record PlacementPreference =
  Spread :: "SpreadOver option"

record Platform =
  Architecture :: string
  OS :: string

record Placement =
  Constraints :: "string slice"
  Preferences :: "PlacementPreference slice"
  MaxReplicas :: uint64
  Platforms :: "Platform slice"

record NetworkAttachmentConfig =
  Target :: string
  Aliases :: "string slice"
  DriverOpts :: "string gomap"

record Driver =
  Name :: string
  Options :: "string gomap"

record TaskSpec =
  ContainerSpec :: "ContainerSpec option"
  PluginSpec :: "RuntimeSpec option"
  NetworkAttachmentSpec :: "NetworkAttachmentSpec option"
  Resources :: "ResourceRequirements option"
  RestartPolicy :: "RestartPolicy option"
  Placement :: "Placement option"
  Networks :: "NetworkAttachmentConfig slice"
  LogDriver :: "Driver option"
  ForceUpdate :: uint64
  Runtime :: string

record ReplicatedService =
  Replicas :: "uint64 option"

datatype GlobalService = GlobalService

record ReplicatedJob =
  MaxConcurrent :: "uint64 option"
  TotalCompletions :: "uint64 option"

datatype GlobalJob = GlobalJob

record ServiceMode =
  Replicated :: "ReplicatedService option"
  Global :: "GlobalService option"
  ReplicatedJob :: "ReplicatedJob option"
  GlobalJob :: "GlobalJob option"

record UpdateConfig =
  Parallelism :: uint64
  Delay :: int64
  FailureAction :: string
  Monitor :: int64
  MaxFailureRatio :: float32
  Order :: string

record PortConfig =
  Name :: string
  Protocol :: string
  TargetPort :: uint32
  PublishedPort :: uint32
  PublishMode :: string

record EndpointSpec =
  Mode :: string
  Ports :: "PortConfig slice"

record ServiceSpec =
  Annotations :: Annotations
  TaskTemplate :: TaskSpec
  Mode :: ServiceMode
  UpdateConfig :: "UpdateConfig option"
  RollbackConfig :: "UpdateConfig option"
  EndpointSpec :: "EndpointSpec option"

end
