(* ===== verification/Equal_Generated.thy ===== *)
theory Equal_Generated
  imports Swarm_Types
begin

text \<open>
  \<open>internal/mutation/equal_generated.go\<close>: the generated comparison of two service
  specifications, function by function under the generated names. The comparison never uses
  reflection: each function compares one type, field by field, through the functions of the
  field types. The lemmas of the collection \<open>go_equal\<close> say that each of them decides equality
  of its type (nil and empty collections stay apart), up to the one floating point field.
\<close>

section \<open>Annotations\<close>

definition equal2 :: "string \<Rightarrow> string \<Rightarrow> bool" where
  "equal2 a b \<longleftrightarrow> a = b"

definition equal3 :: "(string gomap) \<Rightarrow> (string gomap) \<Rightarrow> bool" where
  "equal3 a b \<longleftrightarrow> map_equal equal2 a b"

lemma equal2_eqs [go_equal]:
  "equal2 = (=)" "equal3 = (=)"
  by (simp_all add: go_equal equal2_def [abs_def] equal3_def [abs_def])

definition equal1 :: "Annotations \<Rightarrow> Annotations \<Rightarrow> bool" where
  "equal1 a b \<longleftrightarrow>
     equal2 (Annotations.Name a) (Annotations.Name b) \<and>
     equal3 (Annotations.Labels a) (Annotations.Labels b)"

lemma equal1_eq [go_equal]: "equal1 = (=)"
  by (intro ext) (auto simp: equal1_def go_equal intro!: Annotations.equality)


section \<open>Container: command line and environment\<close>

definition equal7 :: "(string gomap) \<Rightarrow> (string gomap) \<Rightarrow> bool" where
  "equal7 a b \<longleftrightarrow> map_equal equal2 a b"

definition equal8 :: "(string slice) \<Rightarrow> (string slice) \<Rightarrow> bool" where
  "equal8 a b \<longleftrightarrow> slice_equal equal2 a b"

definition equal9 :: "(string slice) \<Rightarrow> (string slice) \<Rightarrow> bool" where
  "equal9 a b \<longleftrightarrow> slice_equal equal2 a b"

definition equal10 :: "(string slice) \<Rightarrow> (string slice) \<Rightarrow> bool" where
  "equal10 a b \<longleftrightarrow> slice_equal equal2 a b"

definition equal11 :: "(string slice) \<Rightarrow> (string slice) \<Rightarrow> bool" where
  "equal11 a b \<longleftrightarrow> slice_equal equal2 a b"

lemma equal7_eqs [go_equal]:
  "equal7 = (=)" "equal8 = (=)" "equal9 = (=)" "equal10 = (=)" "equal11 = (=)"
  by (simp_all add: go_equal equal7_def [abs_def] equal8_def [abs_def] equal9_def [abs_def] equal10_def [abs_def]
      equal11_def [abs_def])


section \<open>Container: privileges\<close>

definition equal15 :: "CredentialSpec \<Rightarrow> CredentialSpec \<Rightarrow> bool" where
  "equal15 a b \<longleftrightarrow>
     equal2 (CredentialSpec.Config a) (CredentialSpec.Config b) \<and>
     equal2 (CredentialSpec.File a) (CredentialSpec.File b) \<and>
     equal2 (CredentialSpec.Registry a) (CredentialSpec.Registry b)"

lemma equal15_eq [go_equal]: "equal15 = (=)"
  by (intro ext) (auto simp: equal15_def go_equal intro!: CredentialSpec.equality)

definition equal14 :: "(CredentialSpec option) \<Rightarrow> (CredentialSpec option) \<Rightarrow> bool" where
  "equal14 a b \<longleftrightarrow> ptr_equal equal15 a b"

definition equal18 :: "bool \<Rightarrow> bool \<Rightarrow> bool" where
  "equal18 a b \<longleftrightarrow> a = b"

lemma equal14_eqs [go_equal]:
  "equal14 = (=)" "equal18 = (=)"
  by (simp_all add: go_equal equal14_def [abs_def] equal18_def [abs_def])

definition equal17 :: "SELinuxContext \<Rightarrow> SELinuxContext \<Rightarrow> bool" where
  "equal17 a b \<longleftrightarrow>
     equal18 (SELinuxContext.Disable a) (SELinuxContext.Disable b) \<and>
     equal2 (SELinuxContext.User a) (SELinuxContext.User b) \<and>
     equal2 (SELinuxContext.Role a) (SELinuxContext.Role b) \<and>
     equal2 (SELinuxContext.Type a) (SELinuxContext.Type b) \<and>
     equal2 (SELinuxContext.Level a) (SELinuxContext.Level b)"

lemma equal17_eq [go_equal]: "equal17 = (=)"
  by (intro ext) (auto simp: equal17_def go_equal intro!: SELinuxContext.equality)

definition equal16 :: "(SELinuxContext option) \<Rightarrow> (SELinuxContext option) \<Rightarrow> bool" where
  "equal16 a b \<longleftrightarrow> ptr_equal equal17 a b"

definition equal21 :: "string \<Rightarrow> string \<Rightarrow> bool" where
  "equal21 a b \<longleftrightarrow> a = b"

definition equal23 :: "byte \<Rightarrow> byte \<Rightarrow> bool" where
  "equal23 a b \<longleftrightarrow> a = b"

definition equal22 :: "(byte slice) \<Rightarrow> (byte slice) \<Rightarrow> bool" where
  "equal22 a b \<longleftrightarrow> slice_equal equal23 a b"

lemma equal16_eqs [go_equal]:
  "equal16 = (=)" "equal21 = (=)" "equal23 = (=)" "equal22 = (=)"
  by (simp_all add: go_equal equal16_def [abs_def] equal21_def [abs_def] equal23_def [abs_def]
      equal22_def [abs_def])

definition equal20 :: "SeccompOpts \<Rightarrow> SeccompOpts \<Rightarrow> bool" where
  "equal20 a b \<longleftrightarrow>
     equal21 (SeccompOpts.Mode a) (SeccompOpts.Mode b) \<and>
     equal22 (SeccompOpts.Profile a) (SeccompOpts.Profile b)"

lemma equal20_eq [go_equal]: "equal20 = (=)"
  by (intro ext) (auto simp: equal20_def go_equal intro!: SeccompOpts.equality)

definition equal19 :: "(SeccompOpts option) \<Rightarrow> (SeccompOpts option) \<Rightarrow> bool" where
  "equal19 a b \<longleftrightarrow> ptr_equal equal20 a b"

definition equal26 :: "string \<Rightarrow> string \<Rightarrow> bool" where
  "equal26 a b \<longleftrightarrow> a = b"

lemma equal19_eqs [go_equal]:
  "equal19 = (=)" "equal26 = (=)"
  by (simp_all add: go_equal equal19_def [abs_def] equal26_def [abs_def])

definition equal25 :: "AppArmorOpts \<Rightarrow> AppArmorOpts \<Rightarrow> bool" where
  "equal25 a b \<longleftrightarrow> equal26 (AppArmorOpts.Mode a) (AppArmorOpts.Mode b)"

lemma equal25_eq [go_equal]: "equal25 = (=)"
  by (intro ext) (auto simp: equal25_def go_equal intro!: AppArmorOpts.equality)

definition equal24 :: "(AppArmorOpts option) \<Rightarrow> (AppArmorOpts option) \<Rightarrow> bool" where
  "equal24 a b \<longleftrightarrow> ptr_equal equal25 a b"

lemma equal24_eqs [go_equal]:
  "equal24 = (=)"
  by (simp add: go_equal equal24_def [abs_def])

definition equal13 :: "Privileges \<Rightarrow> Privileges \<Rightarrow> bool" where
  "equal13 a b \<longleftrightarrow>
     equal14 (Privileges.CredentialSpec a) (Privileges.CredentialSpec b) \<and>
     equal16 (Privileges.SELinuxContext a) (Privileges.SELinuxContext b) \<and>
     equal19 (Privileges.Seccomp a) (Privileges.Seccomp b) \<and>
     equal24 (Privileges.AppArmor a) (Privileges.AppArmor b) \<and>
     equal18 (Privileges.NoNewPrivileges a) (Privileges.NoNewPrivileges b)"

lemma equal13_eq [go_equal]: "equal13 = (=)"
  by (intro ext) (auto simp: equal13_def go_equal intro!: Privileges.equality)

definition equal12 :: "(Privileges option) \<Rightarrow> (Privileges option) \<Rightarrow> bool" where
  "equal12 a b \<longleftrightarrow> ptr_equal equal13 a b"

lemma equal12_eqs [go_equal]:
  "equal12 = (=)"
  by (simp add: go_equal equal12_def [abs_def])


section \<open>Container: mounts\<close>

definition equal27 :: "(bool option) \<Rightarrow> (bool option) \<Rightarrow> bool" where
  "equal27 a b \<longleftrightarrow> ptr_equal equal18 a b"

definition equal30 :: "string \<Rightarrow> string \<Rightarrow> bool" where
  "equal30 a b \<longleftrightarrow> a = b"

definition equal31 :: "string \<Rightarrow> string \<Rightarrow> bool" where
  "equal31 a b \<longleftrightarrow> a = b"

definition equal34 :: "string \<Rightarrow> string \<Rightarrow> bool" where
  "equal34 a b \<longleftrightarrow> a = b"

lemma equal27_eqs [go_equal]:
  "equal27 = (=)" "equal30 = (=)" "equal31 = (=)" "equal34 = (=)"
  by (simp_all add: go_equal equal27_def [abs_def] equal30_def [abs_def] equal31_def [abs_def]
      equal34_def [abs_def])

definition equal33 :: "BindOptions \<Rightarrow> BindOptions \<Rightarrow> bool" where
  "equal33 a b \<longleftrightarrow>
     equal34 (BindOptions.Propagation a) (BindOptions.Propagation b) \<and>
     equal18 (BindOptions.NonRecursive a) (BindOptions.NonRecursive b) \<and>
     equal18 (BindOptions.CreateMountpoint a) (BindOptions.CreateMountpoint b) \<and>
     equal18 (BindOptions.ReadOnlyNonRecursive a) (BindOptions.ReadOnlyNonRecursive b) \<and>
     equal18 (BindOptions.ReadOnlyForceRecursive a) (BindOptions.ReadOnlyForceRecursive b)"

lemma equal33_eq [go_equal]: "equal33 = (=)"
  by (intro ext) (auto simp: equal33_def go_equal intro!: BindOptions.equality)

definition equal32 :: "(BindOptions option) \<Rightarrow> (BindOptions option) \<Rightarrow> bool" where
  "equal32 a b \<longleftrightarrow> ptr_equal equal33 a b"

definition equal37 :: "(string gomap) \<Rightarrow> (string gomap) \<Rightarrow> bool" where
  "equal37 a b \<longleftrightarrow> map_equal equal2 a b"

definition equal40 :: "(string gomap) \<Rightarrow> (string gomap) \<Rightarrow> bool" where
  "equal40 a b \<longleftrightarrow> map_equal equal2 a b"

lemma equal32_eqs [go_equal]:
  "equal32 = (=)" "equal37 = (=)" "equal40 = (=)"
  by (simp_all add: go_equal equal32_def [abs_def] equal37_def [abs_def] equal40_def [abs_def])

definition equal39 :: "MountDriver \<Rightarrow> MountDriver \<Rightarrow> bool" where
  "equal39 a b \<longleftrightarrow>
     equal2 (MountDriver.Name a) (MountDriver.Name b) \<and>
     equal40 (MountDriver.Options a) (MountDriver.Options b)"

lemma equal39_eq [go_equal]: "equal39 = (=)"
  by (intro ext) (auto simp: equal39_def go_equal intro!: MountDriver.equality)

definition equal38 :: "(MountDriver option) \<Rightarrow> (MountDriver option) \<Rightarrow> bool" where
  "equal38 a b \<longleftrightarrow> ptr_equal equal39 a b"

lemma equal38_eqs [go_equal]:
  "equal38 = (=)"
  by (simp add: go_equal equal38_def [abs_def])

definition equal36 :: "VolumeOptions \<Rightarrow> VolumeOptions \<Rightarrow> bool" where
  "equal36 a b \<longleftrightarrow>
     equal18 (VolumeOptions.NoCopy a) (VolumeOptions.NoCopy b) \<and>
     equal37 (VolumeOptions.Labels a) (VolumeOptions.Labels b) \<and>
     equal2 (VolumeOptions.Subpath a) (VolumeOptions.Subpath b) \<and>
     equal38 (VolumeOptions.DriverConfig a) (VolumeOptions.DriverConfig b)"

lemma equal36_eq [go_equal]: "equal36 = (=)"
  by (intro ext) (auto simp: equal36_def go_equal intro!: VolumeOptions.equality)

definition equal35 :: "(VolumeOptions option) \<Rightarrow> (VolumeOptions option) \<Rightarrow> bool" where
  "equal35 a b \<longleftrightarrow> ptr_equal equal36 a b"

lemma equal35_eqs [go_equal]:
  "equal35 = (=)"
  by (simp add: go_equal equal35_def [abs_def])

definition equal42 :: "ImageOptions \<Rightarrow> ImageOptions \<Rightarrow> bool" where
  "equal42 a b \<longleftrightarrow> equal2 (ImageOptions.Subpath a) (ImageOptions.Subpath b)"

lemma equal42_eq [go_equal]: "equal42 = (=)"
  by (intro ext) (auto simp: equal42_def go_equal intro!: ImageOptions.equality)

definition equal41 :: "(ImageOptions option) \<Rightarrow> (ImageOptions option) \<Rightarrow> bool" where
  "equal41 a b \<longleftrightarrow> ptr_equal equal42 a b"

definition equal45 :: "int64 \<Rightarrow> int64 \<Rightarrow> bool" where
  "equal45 a b \<longleftrightarrow> a = b"

definition equal46 :: "uint32 \<Rightarrow> uint32 \<Rightarrow> bool" where
  "equal46 a b \<longleftrightarrow> a = b"

definition equal48 :: "(string slice) \<Rightarrow> (string slice) \<Rightarrow> bool" where
  "equal48 a b \<longleftrightarrow> slice_equal equal2 a b"

definition equal47 :: "((string slice) slice) \<Rightarrow> ((string slice) slice) \<Rightarrow> bool" where
  "equal47 a b \<longleftrightarrow> slice_equal equal48 a b"

lemma equal41_eqs [go_equal]:
  "equal41 = (=)" "equal45 = (=)" "equal46 = (=)" "equal48 = (=)" "equal47 = (=)"
  by (simp_all add: go_equal equal41_def [abs_def] equal45_def [abs_def] equal46_def [abs_def]
      equal48_def [abs_def] equal47_def [abs_def])

definition equal44 :: "TmpfsOptions \<Rightarrow> TmpfsOptions \<Rightarrow> bool" where
  "equal44 a b \<longleftrightarrow>
     equal45 (TmpfsOptions.SizeBytes a) (TmpfsOptions.SizeBytes b) \<and>
     equal46 (TmpfsOptions.Mode a) (TmpfsOptions.Mode b) \<and>
     equal47 (TmpfsOptions.Options a) (TmpfsOptions.Options b)"

lemma equal44_eq [go_equal]: "equal44 = (=)"
  by (intro ext) (auto simp: equal44_def go_equal intro!: TmpfsOptions.equality)

definition equal43 :: "(TmpfsOptions option) \<Rightarrow> (TmpfsOptions option) \<Rightarrow> bool" where
  "equal43 a b \<longleftrightarrow> ptr_equal equal44 a b"

lemma equal43_eqs [go_equal]:
  "equal43 = (=)"
  by (simp add: go_equal equal43_def [abs_def])

definition equal50 :: "ClusterOptions \<Rightarrow> ClusterOptions \<Rightarrow> bool" where
  "equal50 a b \<longleftrightarrow> True"

lemma equal50_eq [go_equal]: "equal50 = (=)"
  by (intro ext) (metis ClusterOptions.exhaust equal50_def)

definition equal49 :: "(ClusterOptions option) \<Rightarrow> (ClusterOptions option) \<Rightarrow> bool" where
  "equal49 a b \<longleftrightarrow> ptr_equal equal50 a b"

lemma equal49_eqs [go_equal]:
  "equal49 = (=)"
  by (simp add: go_equal equal49_def [abs_def])

definition equal29 :: "Mount \<Rightarrow> Mount \<Rightarrow> bool" where
  "equal29 a b \<longleftrightarrow>
     equal30 (Mount.Type a) (Mount.Type b) \<and>
     equal2 (Mount.Source a) (Mount.Source b) \<and>
     equal2 (Mount.Target a) (Mount.Target b) \<and>
     equal18 (Mount.ReadOnly a) (Mount.ReadOnly b) \<and>
     equal31 (Mount.Consistency a) (Mount.Consistency b) \<and>
     equal32 (Mount.BindOptions a) (Mount.BindOptions b) \<and>
     equal35 (Mount.VolumeOptions a) (Mount.VolumeOptions b) \<and>
     equal41 (Mount.ImageOptions a) (Mount.ImageOptions b) \<and>
     equal43 (Mount.TmpfsOptions a) (Mount.TmpfsOptions b) \<and>
     equal49 (Mount.ClusterOptions a) (Mount.ClusterOptions b)"

lemma equal29_eq [go_equal]: "equal29 = (=)"
  by (intro ext) (auto simp: equal29_def go_equal intro!: Mount.equality)

definition equal28 :: "(Mount slice) \<Rightarrow> (Mount slice) \<Rightarrow> bool" where
  "equal28 a b \<longleftrightarrow> slice_equal equal29 a b"

lemma equal28_eqs [go_equal]:
  "equal28 = (=)"
  by (simp add: go_equal equal28_def [abs_def])


section \<open>Container: lifecycle and DNS\<close>

definition equal52 :: "int64 \<Rightarrow> int64 \<Rightarrow> bool" where
  "equal52 a b \<longleftrightarrow> a = b"

definition equal51 :: "(int64 option) \<Rightarrow> (int64 option) \<Rightarrow> bool" where
  "equal51 a b \<longleftrightarrow> ptr_equal equal52 a b"

definition equal55 :: "(string slice) \<Rightarrow> (string slice) \<Rightarrow> bool" where
  "equal55 a b \<longleftrightarrow> slice_equal equal2 a b"

definition equal56 :: "int64 \<Rightarrow> int64 \<Rightarrow> bool" where
  "equal56 a b \<longleftrightarrow> a = b"

lemma equal52_eqs [go_equal]:
  "equal52 = (=)" "equal51 = (=)" "equal55 = (=)" "equal56 = (=)"
  by (simp_all add: go_equal equal52_def [abs_def] equal51_def [abs_def] equal55_def [abs_def]
      equal56_def [abs_def])

definition equal54 :: "HealthcheckConfig \<Rightarrow> HealthcheckConfig \<Rightarrow> bool" where
  "equal54 a b \<longleftrightarrow>
     equal55 (HealthcheckConfig.Test a) (HealthcheckConfig.Test b) \<and>
     equal52 (HealthcheckConfig.Interval a) (HealthcheckConfig.Interval b) \<and>
     equal52 (HealthcheckConfig.Timeout a) (HealthcheckConfig.Timeout b) \<and>
     equal52 (HealthcheckConfig.StartPeriod a) (HealthcheckConfig.StartPeriod b) \<and>
     equal52 (HealthcheckConfig.StartInterval a) (HealthcheckConfig.StartInterval b) \<and>
     equal56 (HealthcheckConfig.Retries a) (HealthcheckConfig.Retries b)"

lemma equal54_eq [go_equal]: "equal54 = (=)"
  by (intro ext) (auto simp: equal54_def go_equal intro!: HealthcheckConfig.equality)

definition equal53 :: "(HealthcheckConfig option) \<Rightarrow> (HealthcheckConfig option) \<Rightarrow> bool" where
  "equal53 a b \<longleftrightarrow> ptr_equal equal54 a b"

definition equal57 :: "(string slice) \<Rightarrow> (string slice) \<Rightarrow> bool" where
  "equal57 a b \<longleftrightarrow> slice_equal equal2 a b"

definition equal61 :: "Addr \<Rightarrow> Addr \<Rightarrow> bool" where
  "equal61 a b \<longleftrightarrow> a = b"

definition equal60 :: "(Addr slice) \<Rightarrow> (Addr slice) \<Rightarrow> bool" where
  "equal60 a b \<longleftrightarrow> slice_equal equal61 a b"

definition equal62 :: "(string slice) \<Rightarrow> (string slice) \<Rightarrow> bool" where
  "equal62 a b \<longleftrightarrow> slice_equal equal2 a b"

definition equal63 :: "(string slice) \<Rightarrow> (string slice) \<Rightarrow> bool" where
  "equal63 a b \<longleftrightarrow> slice_equal equal2 a b"

lemma equal53_eqs [go_equal]:
  "equal53 = (=)" "equal57 = (=)" "equal61 = (=)" "equal60 = (=)" "equal62 = (=)"
  "equal63 = (=)"
  by (simp_all add: go_equal equal53_def [abs_def] equal57_def [abs_def] equal61_def [abs_def]
      equal60_def [abs_def] equal62_def [abs_def] equal63_def [abs_def])

definition equal59 :: "DNSConfig \<Rightarrow> DNSConfig \<Rightarrow> bool" where
  "equal59 a b \<longleftrightarrow>
     equal60 (DNSConfig.Nameservers a) (DNSConfig.Nameservers b) \<and>
     equal62 (DNSConfig.Search a) (DNSConfig.Search b) \<and>
     equal63 (DNSConfig.Options a) (DNSConfig.Options b)"

lemma equal59_eq [go_equal]: "equal59 = (=)"
  by (intro ext) (auto simp: equal59_def go_equal intro!: DNSConfig.equality)

definition equal58 :: "(DNSConfig option) \<Rightarrow> (DNSConfig option) \<Rightarrow> bool" where
  "equal58 a b \<longleftrightarrow> ptr_equal equal59 a b"

lemma equal58_eqs [go_equal]:
  "equal58 = (=)"
  by (simp add: go_equal equal58_def [abs_def])


section \<open>Container: secrets and configs\<close>

definition equal68 :: "SecretReferenceFileTarget \<Rightarrow> SecretReferenceFileTarget \<Rightarrow> bool" where
  "equal68 a b \<longleftrightarrow>
     equal2 (SecretReferenceFileTarget.Name a) (SecretReferenceFileTarget.Name b) \<and>
     equal2 (SecretReferenceFileTarget.UID a) (SecretReferenceFileTarget.UID b) \<and>
     equal2 (SecretReferenceFileTarget.GID a) (SecretReferenceFileTarget.GID b) \<and>
     equal46 (SecretReferenceFileTarget.Mode a) (SecretReferenceFileTarget.Mode b)"

lemma equal68_eq [go_equal]: "equal68 = (=)"
  by (intro ext) (auto simp: equal68_def go_equal intro!: SecretReferenceFileTarget.equality)

definition equal67 :: "(SecretReferenceFileTarget option) \<Rightarrow> (SecretReferenceFileTarget option) \<Rightarrow> bool" where
  "equal67 a b \<longleftrightarrow> ptr_equal equal68 a b"

lemma equal67_eqs [go_equal]:
  "equal67 = (=)"
  by (simp add: go_equal equal67_def [abs_def])

definition equal66 :: "SecretReference \<Rightarrow> SecretReference \<Rightarrow> bool" where
  "equal66 a b \<longleftrightarrow>
     equal67 (SecretReference.File a) (SecretReference.File b) \<and>
     equal2 (SecretReference.SecretID a) (SecretReference.SecretID b) \<and>
     equal2 (SecretReference.SecretName a) (SecretReference.SecretName b)"

lemma equal66_eq [go_equal]: "equal66 = (=)"
  by (intro ext) (auto simp: equal66_def go_equal intro!: SecretReference.equality)

definition equal65 :: "(SecretReference option) \<Rightarrow> (SecretReference option) \<Rightarrow> bool" where
  "equal65 a b \<longleftrightarrow> ptr_equal equal66 a b"

definition equal64 :: "((SecretReference option) slice) \<Rightarrow> ((SecretReference option) slice) \<Rightarrow> bool" where
  "equal64 a b \<longleftrightarrow> slice_equal equal65 a b"

lemma equal65_eqs [go_equal]:
  "equal65 = (=)" "equal64 = (=)"
  by (simp_all add: go_equal equal65_def [abs_def] equal64_def [abs_def])

definition equal73 :: "ConfigReferenceFileTarget \<Rightarrow> ConfigReferenceFileTarget \<Rightarrow> bool" where
  "equal73 a b \<longleftrightarrow>
     equal2 (ConfigReferenceFileTarget.Name a) (ConfigReferenceFileTarget.Name b) \<and>
     equal2 (ConfigReferenceFileTarget.UID a) (ConfigReferenceFileTarget.UID b) \<and>
     equal2 (ConfigReferenceFileTarget.GID a) (ConfigReferenceFileTarget.GID b) \<and>
     equal46 (ConfigReferenceFileTarget.Mode a) (ConfigReferenceFileTarget.Mode b)"

lemma equal73_eq [go_equal]: "equal73 = (=)"
  by (intro ext) (auto simp: equal73_def go_equal intro!: ConfigReferenceFileTarget.equality)

definition equal72 :: "(ConfigReferenceFileTarget option) \<Rightarrow> (ConfigReferenceFileTarget option) \<Rightarrow> bool" where
  "equal72 a b \<longleftrightarrow> ptr_equal equal73 a b"

lemma equal72_eqs [go_equal]:
  "equal72 = (=)"
  by (simp add: go_equal equal72_def [abs_def])

definition equal75 :: "ConfigReferenceRuntimeTarget \<Rightarrow> ConfigReferenceRuntimeTarget \<Rightarrow> bool" where
  "equal75 a b \<longleftrightarrow> True"

lemma equal75_eq [go_equal]: "equal75 = (=)"
  by (intro ext) (metis ConfigReferenceRuntimeTarget.exhaust equal75_def)

definition equal74 :: "(ConfigReferenceRuntimeTarget option) \<Rightarrow> (ConfigReferenceRuntimeTarget option) \<Rightarrow> bool" where
  "equal74 a b \<longleftrightarrow> ptr_equal equal75 a b"

lemma equal74_eqs [go_equal]:
  "equal74 = (=)"
  by (simp add: go_equal equal74_def [abs_def])

definition equal71 :: "ConfigReference \<Rightarrow> ConfigReference \<Rightarrow> bool" where
  "equal71 a b \<longleftrightarrow>
     equal72 (ConfigReference.File a) (ConfigReference.File b) \<and>
     equal74 (ConfigReference.Runtime a) (ConfigReference.Runtime b) \<and>
     equal2 (ConfigReference.ConfigID a) (ConfigReference.ConfigID b) \<and>
     equal2 (ConfigReference.ConfigName a) (ConfigReference.ConfigName b)"

lemma equal71_eq [go_equal]: "equal71 = (=)"
  by (intro ext) (auto simp: equal71_def go_equal intro!: ConfigReference.equality)

definition equal70 :: "(ConfigReference option) \<Rightarrow> (ConfigReference option) \<Rightarrow> bool" where
  "equal70 a b \<longleftrightarrow> ptr_equal equal71 a b"

definition equal69 :: "((ConfigReference option) slice) \<Rightarrow> ((ConfigReference option) slice) \<Rightarrow> bool" where
  "equal69 a b \<longleftrightarrow> slice_equal equal70 a b"

lemma equal70_eqs [go_equal]:
  "equal70 = (=)" "equal69 = (=)"
  by (simp_all add: go_equal equal70_def [abs_def] equal69_def [abs_def])


section \<open>Container: isolation, capabilities and limits\<close>

definition equal76 :: "string \<Rightarrow> string \<Rightarrow> bool" where
  "equal76 a b \<longleftrightarrow> a = b"

definition equal77 :: "(string gomap) \<Rightarrow> (string gomap) \<Rightarrow> bool" where
  "equal77 a b \<longleftrightarrow> map_equal equal2 a b"

definition equal78 :: "(string slice) \<Rightarrow> (string slice) \<Rightarrow> bool" where
  "equal78 a b \<longleftrightarrow> slice_equal equal2 a b"

definition equal79 :: "(string slice) \<Rightarrow> (string slice) \<Rightarrow> bool" where
  "equal79 a b \<longleftrightarrow> slice_equal equal2 a b"

lemma equal76_eqs [go_equal]:
  "equal76 = (=)" "equal77 = (=)" "equal78 = (=)" "equal79 = (=)"
  by (simp_all add: go_equal equal76_def [abs_def] equal77_def [abs_def] equal78_def [abs_def]
      equal79_def [abs_def])

definition equal82 :: "Ulimit \<Rightarrow> Ulimit \<Rightarrow> bool" where
  "equal82 a b \<longleftrightarrow>
     equal2 (Ulimit.Name a) (Ulimit.Name b) \<and>
     equal45 (Ulimit.Hard a) (Ulimit.Hard b) \<and>
     equal45 (Ulimit.Soft a) (Ulimit.Soft b)"

lemma equal82_eq [go_equal]: "equal82 = (=)"
  by (intro ext) (auto simp: equal82_def go_equal intro!: Ulimit.equality)

definition equal81 :: "(Ulimit option) \<Rightarrow> (Ulimit option) \<Rightarrow> bool" where
  "equal81 a b \<longleftrightarrow> ptr_equal equal82 a b"

definition equal80 :: "((Ulimit option) slice) \<Rightarrow> ((Ulimit option) slice) \<Rightarrow> bool" where
  "equal80 a b \<longleftrightarrow> slice_equal equal81 a b"

lemma equal81_eqs [go_equal]:
  "equal81 = (=)" "equal80 = (=)"
  by (simp_all add: go_equal equal81_def [abs_def] equal80_def [abs_def])

definition equal6 :: "ContainerSpec \<Rightarrow> ContainerSpec \<Rightarrow> bool" where
  "equal6 a b \<longleftrightarrow>
     equal2 (ContainerSpec.Image a) (ContainerSpec.Image b) \<and>
     equal7 (ContainerSpec.Labels a) (ContainerSpec.Labels b) \<and>
     equal8 (ContainerSpec.Command a) (ContainerSpec.Command b) \<and>
     equal9 (ContainerSpec.Args a) (ContainerSpec.Args b) \<and>
     equal2 (ContainerSpec.Hostname a) (ContainerSpec.Hostname b) \<and>
     equal10 (ContainerSpec.Env a) (ContainerSpec.Env b) \<and>
     equal2 (ContainerSpec.Dir a) (ContainerSpec.Dir b) \<and>
     equal2 (ContainerSpec.User a) (ContainerSpec.User b) \<and>
     equal11 (ContainerSpec.Groups a) (ContainerSpec.Groups b) \<and>
     equal12 (ContainerSpec.Privileges a) (ContainerSpec.Privileges b) \<and>
     equal27 (ContainerSpec.Init a) (ContainerSpec.Init b) \<and>
     equal2 (ContainerSpec.StopSignal a) (ContainerSpec.StopSignal b) \<and>
     equal18 (ContainerSpec.TTY a) (ContainerSpec.TTY b) \<and>
     equal18 (ContainerSpec.OpenStdin a) (ContainerSpec.OpenStdin b) \<and>
     equal18 (ContainerSpec.ReadOnly a) (ContainerSpec.ReadOnly b) \<and>
     equal28 (ContainerSpec.Mounts a) (ContainerSpec.Mounts b) \<and>
     equal51 (ContainerSpec.StopGracePeriod a) (ContainerSpec.StopGracePeriod b) \<and>
     equal53 (ContainerSpec.Healthcheck a) (ContainerSpec.Healthcheck b) \<and>
     equal57 (ContainerSpec.Hosts a) (ContainerSpec.Hosts b) \<and>
     equal58 (ContainerSpec.DNSConfig a) (ContainerSpec.DNSConfig b) \<and>
     equal64 (ContainerSpec.Secrets a) (ContainerSpec.Secrets b) \<and>
     equal69 (ContainerSpec.Configs a) (ContainerSpec.Configs b) \<and>
     equal76 (ContainerSpec.Isolation a) (ContainerSpec.Isolation b) \<and>
     equal77 (ContainerSpec.Sysctls a) (ContainerSpec.Sysctls b) \<and>
     equal78 (ContainerSpec.CapabilityAdd a) (ContainerSpec.CapabilityAdd b) \<and>
     equal79 (ContainerSpec.CapabilityDrop a) (ContainerSpec.CapabilityDrop b) \<and>
     equal80 (ContainerSpec.Ulimits a) (ContainerSpec.Ulimits b) \<and>
     equal45 (ContainerSpec.OomScoreAdj a) (ContainerSpec.OomScoreAdj b)"

lemma equal6_eq [go_equal]: "equal6 = (=)"
  by (intro ext) (auto simp: equal6_def go_equal intro!: ContainerSpec.equality)

definition equal5 :: "(ContainerSpec option) \<Rightarrow> (ContainerSpec option) \<Rightarrow> bool" where
  "equal5 a b \<longleftrightarrow> ptr_equal equal6 a b"

lemma equal5_eqs [go_equal]:
  "equal5 = (=)"
  by (simp add: go_equal equal5_def [abs_def])


section \<open>Plugin and network attachment runtimes\<close>

definition equal88 :: "(string slice) \<Rightarrow> (string slice) \<Rightarrow> bool" where
  "equal88 a b \<longleftrightarrow> slice_equal equal2 a b"

lemma equal88_eqs [go_equal]:
  "equal88 = (=)"
  by (simp add: go_equal equal88_def [abs_def])

definition equal87 :: "RuntimePrivilege \<Rightarrow> RuntimePrivilege \<Rightarrow> bool" where
  "equal87 a b \<longleftrightarrow>
     equal2 (RuntimePrivilege.Name a) (RuntimePrivilege.Name b) \<and>
     equal2 (RuntimePrivilege.Description a) (RuntimePrivilege.Description b) \<and>
     equal88 (RuntimePrivilege.Value a) (RuntimePrivilege.Value b)"

lemma equal87_eq [go_equal]: "equal87 = (=)"
  by (intro ext) (auto simp: equal87_def go_equal intro!: RuntimePrivilege.equality)

definition equal86 :: "(RuntimePrivilege option) \<Rightarrow> (RuntimePrivilege option) \<Rightarrow> bool" where
  "equal86 a b \<longleftrightarrow> ptr_equal equal87 a b"

definition equal85 :: "((RuntimePrivilege option) slice) \<Rightarrow> ((RuntimePrivilege option) slice) \<Rightarrow> bool" where
  "equal85 a b \<longleftrightarrow> slice_equal equal86 a b"

definition equal89 :: "(string slice) \<Rightarrow> (string slice) \<Rightarrow> bool" where
  "equal89 a b \<longleftrightarrow> slice_equal equal2 a b"

lemma equal86_eqs [go_equal]:
  "equal86 = (=)" "equal85 = (=)" "equal89 = (=)"
  by (simp_all add: go_equal equal86_def [abs_def] equal85_def [abs_def] equal89_def [abs_def])

definition equal84 :: "RuntimeSpec \<Rightarrow> RuntimeSpec \<Rightarrow> bool" where
  "equal84 a b \<longleftrightarrow>
     equal2 (RuntimeSpec.Name a) (RuntimeSpec.Name b) \<and>
     equal2 (RuntimeSpec.Remote a) (RuntimeSpec.Remote b) \<and>
     equal85 (RuntimeSpec.Privileges a) (RuntimeSpec.Privileges b) \<and>
     equal18 (RuntimeSpec.Disabled a) (RuntimeSpec.Disabled b) \<and>
     equal89 (RuntimeSpec.Env a) (RuntimeSpec.Env b)"

lemma equal84_eq [go_equal]: "equal84 = (=)"
  by (intro ext) (auto simp: equal84_def go_equal intro!: RuntimeSpec.equality)

definition equal83 :: "(RuntimeSpec option) \<Rightarrow> (RuntimeSpec option) \<Rightarrow> bool" where
  "equal83 a b \<longleftrightarrow> ptr_equal equal84 a b"

lemma equal83_eqs [go_equal]:
  "equal83 = (=)"
  by (simp add: go_equal equal83_def [abs_def])

definition equal91 :: "NetworkAttachmentSpec \<Rightarrow> NetworkAttachmentSpec \<Rightarrow> bool" where
  "equal91 a b \<longleftrightarrow> equal2 (NetworkAttachmentSpec.ContainerID a) (NetworkAttachmentSpec.ContainerID b)"

lemma equal91_eq [go_equal]: "equal91 = (=)"
  by (intro ext) (auto simp: equal91_def go_equal intro!: NetworkAttachmentSpec.equality)

definition equal90 :: "(NetworkAttachmentSpec option) \<Rightarrow> (NetworkAttachmentSpec option) \<Rightarrow> bool" where
  "equal90 a b \<longleftrightarrow> ptr_equal equal91 a b"

lemma equal90_eqs [go_equal]:
  "equal90 = (=)"
  by (simp add: go_equal equal90_def [abs_def])


section \<open>Resources\<close>

definition equal95 :: "Limit \<Rightarrow> Limit \<Rightarrow> bool" where
  "equal95 a b \<longleftrightarrow>
     equal45 (Limit.NanoCPUs a) (Limit.NanoCPUs b) \<and>
     equal45 (Limit.MemoryBytes a) (Limit.MemoryBytes b) \<and>
     equal45 (Limit.Pids a) (Limit.Pids b)"

lemma equal95_eq [go_equal]: "equal95 = (=)"
  by (intro ext) (auto simp: equal95_def go_equal intro!: Limit.equality)

definition equal94 :: "(Limit option) \<Rightarrow> (Limit option) \<Rightarrow> bool" where
  "equal94 a b \<longleftrightarrow> ptr_equal equal95 a b"

lemma equal94_eqs [go_equal]:
  "equal94 = (=)"
  by (simp add: go_equal equal94_def [abs_def])

definition equal101 :: "NamedGenericResource \<Rightarrow> NamedGenericResource \<Rightarrow> bool" where
  "equal101 a b \<longleftrightarrow>
     equal2 (NamedGenericResource.Kind a) (NamedGenericResource.Kind b) \<and>
     equal2 (NamedGenericResource.Value a) (NamedGenericResource.Value b)"

lemma equal101_eq [go_equal]: "equal101 = (=)"
  by (intro ext) (auto simp: equal101_def go_equal intro!: NamedGenericResource.equality)

definition equal100 :: "(NamedGenericResource option) \<Rightarrow> (NamedGenericResource option) \<Rightarrow> bool" where
  "equal100 a b \<longleftrightarrow> ptr_equal equal101 a b"

lemma equal100_eqs [go_equal]:
  "equal100 = (=)"
  by (simp add: go_equal equal100_def [abs_def])

definition equal103 :: "DiscreteGenericResource \<Rightarrow> DiscreteGenericResource \<Rightarrow> bool" where
  "equal103 a b \<longleftrightarrow>
     equal2 (DiscreteGenericResource.Kind a) (DiscreteGenericResource.Kind b) \<and>
     equal45 (DiscreteGenericResource.Value a) (DiscreteGenericResource.Value b)"

lemma equal103_eq [go_equal]: "equal103 = (=)"
  by (intro ext) (auto simp: equal103_def go_equal intro!: DiscreteGenericResource.equality)

definition equal102 :: "(DiscreteGenericResource option) \<Rightarrow> (DiscreteGenericResource option) \<Rightarrow> bool" where
  "equal102 a b \<longleftrightarrow> ptr_equal equal103 a b"

lemma equal102_eqs [go_equal]:
  "equal102 = (=)"
  by (simp add: go_equal equal102_def [abs_def])

definition equal99 :: "GenericResource \<Rightarrow> GenericResource \<Rightarrow> bool" where
  "equal99 a b \<longleftrightarrow>
     equal100 (GenericResource.NamedResourceSpec a) (GenericResource.NamedResourceSpec b) \<and>
     equal102 (GenericResource.DiscreteResourceSpec a) (GenericResource.DiscreteResourceSpec b)"

lemma equal99_eq [go_equal]: "equal99 = (=)"
  by (intro ext) (auto simp: equal99_def go_equal intro!: GenericResource.equality)

definition equal98 :: "(GenericResource slice) \<Rightarrow> (GenericResource slice) \<Rightarrow> bool" where
  "equal98 a b \<longleftrightarrow> slice_equal equal99 a b"

lemma equal98_eqs [go_equal]:
  "equal98 = (=)"
  by (simp add: go_equal equal98_def [abs_def])

definition equal97 :: "Resources \<Rightarrow> Resources \<Rightarrow> bool" where
  "equal97 a b \<longleftrightarrow>
     equal45 (Resources.NanoCPUs a) (Resources.NanoCPUs b) \<and>
     equal45 (Resources.MemoryBytes a) (Resources.MemoryBytes b) \<and>
     equal98 (Resources.GenericResources a) (Resources.GenericResources b)"

lemma equal97_eq [go_equal]: "equal97 = (=)"
  by (intro ext) (auto simp: equal97_def go_equal intro!: Resources.equality)

definition equal96 :: "(Resources option) \<Rightarrow> (Resources option) \<Rightarrow> bool" where
  "equal96 a b \<longleftrightarrow> ptr_equal equal97 a b"

definition equal104 :: "(int64 option) \<Rightarrow> (int64 option) \<Rightarrow> bool" where
  "equal104 a b \<longleftrightarrow> ptr_equal equal45 a b"

definition equal105 :: "(int64 option) \<Rightarrow> (int64 option) \<Rightarrow> bool" where
  "equal105 a b \<longleftrightarrow> ptr_equal equal45 a b"

lemma equal96_eqs [go_equal]:
  "equal96 = (=)" "equal104 = (=)" "equal105 = (=)"
  by (simp_all add: go_equal equal96_def [abs_def] equal104_def [abs_def] equal105_def [abs_def])

definition equal93 :: "ResourceRequirements \<Rightarrow> ResourceRequirements \<Rightarrow> bool" where
  "equal93 a b \<longleftrightarrow>
     equal94 (ResourceRequirements.Limits a) (ResourceRequirements.Limits b) \<and>
     equal96 (ResourceRequirements.Reservations a) (ResourceRequirements.Reservations b) \<and>
     equal104 (ResourceRequirements.SwapBytes a) (ResourceRequirements.SwapBytes b) \<and>
     equal105 (ResourceRequirements.MemorySwappiness a) (ResourceRequirements.MemorySwappiness b)"

lemma equal93_eq [go_equal]: "equal93 = (=)"
  by (intro ext) (auto simp: equal93_def go_equal intro!: ResourceRequirements.equality)

definition equal92 :: "(ResourceRequirements option) \<Rightarrow> (ResourceRequirements option) \<Rightarrow> bool" where
  "equal92 a b \<longleftrightarrow> ptr_equal equal93 a b"

lemma equal92_eqs [go_equal]:
  "equal92 = (=)"
  by (simp add: go_equal equal92_def [abs_def])


section \<open>Restart policy and placement\<close>

definition equal108 :: "string \<Rightarrow> string \<Rightarrow> bool" where
  "equal108 a b \<longleftrightarrow> a = b"

definition equal109 :: "(int64 option) \<Rightarrow> (int64 option) \<Rightarrow> bool" where
  "equal109 a b \<longleftrightarrow> ptr_equal equal52 a b"

definition equal111 :: "uint64 \<Rightarrow> uint64 \<Rightarrow> bool" where
  "equal111 a b \<longleftrightarrow> a = b"

definition equal110 :: "(uint64 option) \<Rightarrow> (uint64 option) \<Rightarrow> bool" where
  "equal110 a b \<longleftrightarrow> ptr_equal equal111 a b"

definition equal112 :: "(int64 option) \<Rightarrow> (int64 option) \<Rightarrow> bool" where
  "equal112 a b \<longleftrightarrow> ptr_equal equal52 a b"

lemma equal108_eqs [go_equal]:
  "equal108 = (=)" "equal109 = (=)" "equal111 = (=)" "equal110 = (=)" "equal112 = (=)"
  by (simp_all add: go_equal equal108_def [abs_def] equal109_def [abs_def] equal111_def [abs_def]
      equal110_def [abs_def] equal112_def [abs_def])

definition equal107 :: "RestartPolicy \<Rightarrow> RestartPolicy \<Rightarrow> bool" where
  "equal107 a b \<longleftrightarrow>
     equal108 (RestartPolicy.Condition a) (RestartPolicy.Condition b) \<and>
     equal109 (RestartPolicy.Delay a) (RestartPolicy.Delay b) \<and>
     equal110 (RestartPolicy.MaxAttempts a) (RestartPolicy.MaxAttempts b) \<and>
     equal112 (RestartPolicy.Window a) (RestartPolicy.Window b)"

lemma equal107_eq [go_equal]: "equal107 = (=)"
  by (intro ext) (auto simp: equal107_def go_equal intro!: RestartPolicy.equality)

definition equal106 :: "(RestartPolicy option) \<Rightarrow> (RestartPolicy option) \<Rightarrow> bool" where
  "equal106 a b \<longleftrightarrow> ptr_equal equal107 a b"

definition equal115 :: "(string slice) \<Rightarrow> (string slice) \<Rightarrow> bool" where
  "equal115 a b \<longleftrightarrow> slice_equal equal2 a b"

lemma equal106_eqs [go_equal]:
  "equal106 = (=)" "equal115 = (=)"
  by (simp_all add: go_equal equal106_def [abs_def] equal115_def [abs_def])

definition equal119 :: "SpreadOver \<Rightarrow> SpreadOver \<Rightarrow> bool" where
  "equal119 a b \<longleftrightarrow> equal2 (SpreadOver.SpreadDescriptor a) (SpreadOver.SpreadDescriptor b)"

lemma equal119_eq [go_equal]: "equal119 = (=)"
  by (intro ext) (auto simp: equal119_def go_equal intro!: SpreadOver.equality)

definition equal118 :: "(SpreadOver option) \<Rightarrow> (SpreadOver option) \<Rightarrow> bool" where
  "equal118 a b \<longleftrightarrow> ptr_equal equal119 a b"

lemma equal118_eqs [go_equal]:
  "equal118 = (=)"
  by (simp add: go_equal equal118_def [abs_def])

definition equal117 :: "PlacementPreference \<Rightarrow> PlacementPreference \<Rightarrow> bool" where
  "equal117 a b \<longleftrightarrow> equal118 (PlacementPreference.Spread a) (PlacementPreference.Spread b)"

lemma equal117_eq [go_equal]: "equal117 = (=)"
  by (intro ext) (auto simp: equal117_def go_equal intro!: PlacementPreference.equality)

definition equal116 :: "(PlacementPreference slice) \<Rightarrow> (PlacementPreference slice) \<Rightarrow> bool" where
  "equal116 a b \<longleftrightarrow> slice_equal equal117 a b"

lemma equal116_eqs [go_equal]:
  "equal116 = (=)"
  by (simp add: go_equal equal116_def [abs_def])

definition equal121 :: "Platform \<Rightarrow> Platform \<Rightarrow> bool" where
  "equal121 a b \<longleftrightarrow>
     equal2 (Platform.Architecture a) (Platform.Architecture b) \<and>
     equal2 (Platform.OS a) (Platform.OS b)"

lemma equal121_eq [go_equal]: "equal121 = (=)"
  by (intro ext) (auto simp: equal121_def go_equal intro!: Platform.equality)

definition equal120 :: "(Platform slice) \<Rightarrow> (Platform slice) \<Rightarrow> bool" where
  "equal120 a b \<longleftrightarrow> slice_equal equal121 a b"

lemma equal120_eqs [go_equal]:
  "equal120 = (=)"
  by (simp add: go_equal equal120_def [abs_def])

definition equal114 :: "Placement \<Rightarrow> Placement \<Rightarrow> bool" where
  "equal114 a b \<longleftrightarrow>
     equal115 (Placement.Constraints a) (Placement.Constraints b) \<and>
     equal116 (Placement.Preferences a) (Placement.Preferences b) \<and>
     equal111 (Placement.MaxReplicas a) (Placement.MaxReplicas b) \<and>
     equal120 (Placement.Platforms a) (Placement.Platforms b)"

lemma equal114_eq [go_equal]: "equal114 = (=)"
  by (intro ext) (auto simp: equal114_def go_equal intro!: Placement.equality)

definition equal113 :: "(Placement option) \<Rightarrow> (Placement option) \<Rightarrow> bool" where
  "equal113 a b \<longleftrightarrow> ptr_equal equal114 a b"

lemma equal113_eqs [go_equal]:
  "equal113 = (=)"
  by (simp add: go_equal equal113_def [abs_def])


section \<open>Networks, log driver and the task template\<close>

definition equal124 :: "(string slice) \<Rightarrow> (string slice) \<Rightarrow> bool" where
  "equal124 a b \<longleftrightarrow> slice_equal equal2 a b"

definition equal125 :: "(string gomap) \<Rightarrow> (string gomap) \<Rightarrow> bool" where
  "equal125 a b \<longleftrightarrow> map_equal equal2 a b"

lemma equal124_eqs [go_equal]:
  "equal124 = (=)" "equal125 = (=)"
  by (simp_all add: go_equal equal124_def [abs_def] equal125_def [abs_def])

definition equal123 :: "NetworkAttachmentConfig \<Rightarrow> NetworkAttachmentConfig \<Rightarrow> bool" where
  "equal123 a b \<longleftrightarrow>
     equal2 (NetworkAttachmentConfig.Target a) (NetworkAttachmentConfig.Target b) \<and>
     equal124 (NetworkAttachmentConfig.Aliases a) (NetworkAttachmentConfig.Aliases b) \<and>
     equal125 (NetworkAttachmentConfig.DriverOpts a) (NetworkAttachmentConfig.DriverOpts b)"

lemma equal123_eq [go_equal]: "equal123 = (=)"
  by (intro ext) (auto simp: equal123_def go_equal intro!: NetworkAttachmentConfig.equality)

definition equal122 :: "(NetworkAttachmentConfig slice) \<Rightarrow> (NetworkAttachmentConfig slice) \<Rightarrow> bool" where
  "equal122 a b \<longleftrightarrow> slice_equal equal123 a b"

definition equal128 :: "(string gomap) \<Rightarrow> (string gomap) \<Rightarrow> bool" where
  "equal128 a b \<longleftrightarrow> map_equal equal2 a b"

lemma equal122_eqs [go_equal]:
  "equal122 = (=)" "equal128 = (=)"
  by (simp_all add: go_equal equal122_def [abs_def] equal128_def [abs_def])

definition equal127 :: "Driver \<Rightarrow> Driver \<Rightarrow> bool" where
  "equal127 a b \<longleftrightarrow>
     equal2 (Driver.Name a) (Driver.Name b) \<and>
     equal128 (Driver.Options a) (Driver.Options b)"

lemma equal127_eq [go_equal]: "equal127 = (=)"
  by (intro ext) (auto simp: equal127_def go_equal intro!: Driver.equality)

definition equal126 :: "(Driver option) \<Rightarrow> (Driver option) \<Rightarrow> bool" where
  "equal126 a b \<longleftrightarrow> ptr_equal equal127 a b"

definition equal129 :: "string \<Rightarrow> string \<Rightarrow> bool" where
  "equal129 a b \<longleftrightarrow> a = b"

lemma equal126_eqs [go_equal]:
  "equal126 = (=)" "equal129 = (=)"
  by (simp_all add: go_equal equal126_def [abs_def] equal129_def [abs_def])

definition equal4 :: "TaskSpec \<Rightarrow> TaskSpec \<Rightarrow> bool" where
  "equal4 a b \<longleftrightarrow>
     equal5 (TaskSpec.ContainerSpec a) (TaskSpec.ContainerSpec b) \<and>
     equal83 (TaskSpec.PluginSpec a) (TaskSpec.PluginSpec b) \<and>
     equal90 (TaskSpec.NetworkAttachmentSpec a) (TaskSpec.NetworkAttachmentSpec b) \<and>
     equal92 (TaskSpec.Resources a) (TaskSpec.Resources b) \<and>
     equal106 (TaskSpec.RestartPolicy a) (TaskSpec.RestartPolicy b) \<and>
     equal113 (TaskSpec.Placement a) (TaskSpec.Placement b) \<and>
     equal122 (TaskSpec.Networks a) (TaskSpec.Networks b) \<and>
     equal126 (TaskSpec.LogDriver a) (TaskSpec.LogDriver b) \<and>
     equal111 (TaskSpec.ForceUpdate a) (TaskSpec.ForceUpdate b) \<and>
     equal129 (TaskSpec.Runtime a) (TaskSpec.Runtime b)"

lemma equal4_eq [go_equal]: "equal4 = (=)"
  by (intro ext) (auto simp: equal4_def go_equal intro!: TaskSpec.equality)


section \<open>Service mode\<close>

definition equal133 :: "(uint64 option) \<Rightarrow> (uint64 option) \<Rightarrow> bool" where
  "equal133 a b \<longleftrightarrow> ptr_equal equal111 a b"

lemma equal133_eqs [go_equal]:
  "equal133 = (=)"
  by (simp add: go_equal equal133_def [abs_def])

definition equal132 :: "ReplicatedService \<Rightarrow> ReplicatedService \<Rightarrow> bool" where
  "equal132 a b \<longleftrightarrow> equal133 (ReplicatedService.Replicas a) (ReplicatedService.Replicas b)"

lemma equal132_eq [go_equal]: "equal132 = (=)"
  by (intro ext) (auto simp: equal132_def go_equal intro!: ReplicatedService.equality)

definition equal131 :: "(ReplicatedService option) \<Rightarrow> (ReplicatedService option) \<Rightarrow> bool" where
  "equal131 a b \<longleftrightarrow> ptr_equal equal132 a b"

lemma equal131_eqs [go_equal]:
  "equal131 = (=)"
  by (simp add: go_equal equal131_def [abs_def])

definition equal135 :: "GlobalService \<Rightarrow> GlobalService \<Rightarrow> bool" where
  "equal135 a b \<longleftrightarrow> True"

lemma equal135_eq [go_equal]: "equal135 = (=)"
  by (intro ext) (metis GlobalService.exhaust equal135_def)

definition equal134 :: "(GlobalService option) \<Rightarrow> (GlobalService option) \<Rightarrow> bool" where
  "equal134 a b \<longleftrightarrow> ptr_equal equal135 a b"

definition equal138 :: "(uint64 option) \<Rightarrow> (uint64 option) \<Rightarrow> bool" where
  "equal138 a b \<longleftrightarrow> ptr_equal equal111 a b"

definition equal139 :: "(uint64 option) \<Rightarrow> (uint64 option) \<Rightarrow> bool" where
  "equal139 a b \<longleftrightarrow> ptr_equal equal111 a b"

lemma equal134_eqs [go_equal]:
  "equal134 = (=)" "equal138 = (=)" "equal139 = (=)"
  by (simp_all add: go_equal equal134_def [abs_def] equal138_def [abs_def] equal139_def [abs_def])

definition equal137 :: "ReplicatedJob \<Rightarrow> ReplicatedJob \<Rightarrow> bool" where
  "equal137 a b \<longleftrightarrow>
     equal138 (ReplicatedJob.MaxConcurrent a) (ReplicatedJob.MaxConcurrent b) \<and>
     equal139 (ReplicatedJob.TotalCompletions a) (ReplicatedJob.TotalCompletions b)"

lemma equal137_eq [go_equal]: "equal137 = (=)"
  by (intro ext) (auto simp: equal137_def go_equal intro!: ReplicatedJob.equality)

definition equal136 :: "(ReplicatedJob option) \<Rightarrow> (ReplicatedJob option) \<Rightarrow> bool" where
  "equal136 a b \<longleftrightarrow> ptr_equal equal137 a b"

lemma equal136_eqs [go_equal]:
  "equal136 = (=)"
  by (simp add: go_equal equal136_def [abs_def])

definition equal141 :: "GlobalJob \<Rightarrow> GlobalJob \<Rightarrow> bool" where
  "equal141 a b \<longleftrightarrow> True"

lemma equal141_eq [go_equal]: "equal141 = (=)"
  by (intro ext) (metis GlobalJob.exhaust equal141_def)

definition equal140 :: "(GlobalJob option) \<Rightarrow> (GlobalJob option) \<Rightarrow> bool" where
  "equal140 a b \<longleftrightarrow> ptr_equal equal141 a b"

lemma equal140_eqs [go_equal]:
  "equal140 = (=)"
  by (simp add: go_equal equal140_def [abs_def])

definition equal130 :: "ServiceMode \<Rightarrow> ServiceMode \<Rightarrow> bool" where
  "equal130 a b \<longleftrightarrow>
     equal131 (ServiceMode.Replicated a) (ServiceMode.Replicated b) \<and>
     equal134 (ServiceMode.Global a) (ServiceMode.Global b) \<and>
     equal136 (ServiceMode.ReplicatedJob a) (ServiceMode.ReplicatedJob b) \<and>
     equal140 (ServiceMode.GlobalJob a) (ServiceMode.GlobalJob b)"

lemma equal130_eq [go_equal]: "equal130 = (=)"
  by (intro ext) (auto simp: equal130_def go_equal intro!: ServiceMode.equality)


section \<open>Update and rollback configuration\<close>

definition equal144 :: "string \<Rightarrow> string \<Rightarrow> bool" where
  "equal144 a b \<longleftrightarrow> a = b"

definition equal145 :: "float32 \<Rightarrow> float32 \<Rightarrow> bool" where
  "equal145 a b \<longleftrightarrow> float32_eq a b"

definition equal146 :: "string \<Rightarrow> string \<Rightarrow> bool" where
  "equal146 a b \<longleftrightarrow> a = b"

definition equal143 :: "UpdateConfig \<Rightarrow> UpdateConfig \<Rightarrow> bool" where
  "equal143 a b \<longleftrightarrow>
     equal111 (UpdateConfig.Parallelism a) (UpdateConfig.Parallelism b) \<and>
     equal52 (UpdateConfig.Delay a) (UpdateConfig.Delay b) \<and>
     equal144 (UpdateConfig.FailureAction a) (UpdateConfig.FailureAction b) \<and>
     equal52 (UpdateConfig.Monitor a) (UpdateConfig.Monitor b) \<and>
     equal145 (UpdateConfig.MaxFailureRatio a) (UpdateConfig.MaxFailureRatio b) \<and>
     equal146 (UpdateConfig.Order a) (UpdateConfig.Order b)"

definition equal142 :: "(UpdateConfig option) \<Rightarrow> (UpdateConfig option) \<Rightarrow> bool" where
  "equal142 a b \<longleftrightarrow> ptr_equal equal143 a b"

definition equal147 :: "(UpdateConfig option) \<Rightarrow> (UpdateConfig option) \<Rightarrow> bool" where
  "equal147 a b \<longleftrightarrow> ptr_equal equal143 a b"

lemma equal144_eqs [go_equal]:
  "equal144 = (=)" "equal146 = (=)"
  by (simp_all add: go_equal equal144_def [abs_def] equal146_def [abs_def])


section \<open>Endpoint\<close>

definition equal150 :: "string \<Rightarrow> string \<Rightarrow> bool" where
  "equal150 a b \<longleftrightarrow> a = b"

definition equal153 :: "string \<Rightarrow> string \<Rightarrow> bool" where
  "equal153 a b \<longleftrightarrow> a = b"

definition equal154 :: "uint32 \<Rightarrow> uint32 \<Rightarrow> bool" where
  "equal154 a b \<longleftrightarrow> a = b"

definition equal155 :: "string \<Rightarrow> string \<Rightarrow> bool" where
  "equal155 a b \<longleftrightarrow> a = b"

lemma equal150_eqs [go_equal]:
  "equal150 = (=)" "equal153 = (=)" "equal154 = (=)" "equal155 = (=)"
  by (simp_all add: go_equal equal150_def [abs_def] equal153_def [abs_def] equal154_def [abs_def]
      equal155_def [abs_def])

definition equal152 :: "PortConfig \<Rightarrow> PortConfig \<Rightarrow> bool" where
  "equal152 a b \<longleftrightarrow>
     equal2 (PortConfig.Name a) (PortConfig.Name b) \<and>
     equal153 (PortConfig.Protocol a) (PortConfig.Protocol b) \<and>
     equal154 (PortConfig.TargetPort a) (PortConfig.TargetPort b) \<and>
     equal154 (PortConfig.PublishedPort a) (PortConfig.PublishedPort b) \<and>
     equal155 (PortConfig.PublishMode a) (PortConfig.PublishMode b)"

lemma equal152_eq [go_equal]: "equal152 = (=)"
  by (intro ext) (auto simp: equal152_def go_equal intro!: PortConfig.equality)

definition equal151 :: "(PortConfig slice) \<Rightarrow> (PortConfig slice) \<Rightarrow> bool" where
  "equal151 a b \<longleftrightarrow> slice_equal equal152 a b"

lemma equal151_eqs [go_equal]:
  "equal151 = (=)"
  by (simp add: go_equal equal151_def [abs_def])

definition equal149 :: "EndpointSpec \<Rightarrow> EndpointSpec \<Rightarrow> bool" where
  "equal149 a b \<longleftrightarrow>
     equal150 (EndpointSpec.Mode a) (EndpointSpec.Mode b) \<and>
     equal151 (EndpointSpec.Ports a) (EndpointSpec.Ports b)"

lemma equal149_eq [go_equal]: "equal149 = (=)"
  by (intro ext) (auto simp: equal149_def go_equal intro!: EndpointSpec.equality)

definition equal148 :: "(EndpointSpec option) \<Rightarrow> (EndpointSpec option) \<Rightarrow> bool" where
  "equal148 a b \<longleftrightarrow> ptr_equal equal149 a b"

lemma equal148_eqs [go_equal]:
  "equal148 = (=)"
  by (simp add: go_equal equal148_def [abs_def])


section \<open>The service specification\<close>

definition equal0 :: "ServiceSpec \<Rightarrow> ServiceSpec \<Rightarrow> bool" where
  "equal0 a b \<longleftrightarrow>
     equal1 (ServiceSpec.Annotations a) (ServiceSpec.Annotations b) \<and>
     equal4 (ServiceSpec.TaskTemplate a) (ServiceSpec.TaskTemplate b) \<and>
     equal130 (ServiceSpec.Mode a) (ServiceSpec.Mode b) \<and>
     equal142 (ServiceSpec.UpdateConfig a) (ServiceSpec.UpdateConfig b) \<and>
     equal147 (ServiceSpec.RollbackConfig a) (ServiceSpec.RollbackConfig b) \<and>
     equal148 (ServiceSpec.EndpointSpec a) (ServiceSpec.EndpointSpec b)"

definition equalSpec :: "ServiceSpec \<Rightarrow> ServiceSpec \<Rightarrow> bool" where
  "equalSpec a b \<longleftrightarrow> equal0 a b"

end
