(* ===== verification/Spec_Equality.thy ===== *)
theory Spec_Equality
  imports Equal_Generated
begin

text \<open>
  What the generated comparison decides about two whole service specifications.
  \<open>MaxFailureRatio\<close>, a \<open>float32\<close> in the update and the rollback configuration, is the only
  field whose comparison is not equality of the stored value.
\<close>

definition float32_canon :: "float32 \<Rightarrow> float32" where
  "float32_canon x = (if float32_mag x = 0 then 0 else x)"

lemma float32_eq_iff:
  "float32_eq a b \<longleftrightarrow>
     \<not> float32_nan a \<and> \<not> float32_nan b \<and> float32_canon a = float32_canon b"
proof -
  have "float32_mag 0 = 0" by (simp add: float32_mag_def)
  then show ?thesis by (auto simp: float32_eq_def float32_canon_def)
qed

text \<open>Both zeros become the positive zero; nothing else changes.\<close>

definition canon_update :: "UpdateConfig \<Rightarrow> UpdateConfig" where
  "canon_update c =
     c\<lparr>UpdateConfig.MaxFailureRatio := float32_canon (UpdateConfig.MaxFailureRatio c)\<rparr>"

definition ratio_ok :: "UpdateConfig option \<Rightarrow> bool" where
  "ratio_ok c = pred_option (\<lambda>c. \<not> float32_nan (UpdateConfig.MaxFailureRatio c)) c"

definition canon_spec :: "ServiceSpec \<Rightarrow> ServiceSpec" where
  "canon_spec s =
     s\<lparr>ServiceSpec.UpdateConfig := map_option canon_update (ServiceSpec.UpdateConfig s),
       ServiceSpec.RollbackConfig := map_option canon_update (ServiceSpec.RollbackConfig s)\<rparr>"

definition ratios_ok :: "ServiceSpec \<Rightarrow> bool" where
  "ratios_ok s \<longleftrightarrow> ratio_ok (ServiceSpec.UpdateConfig s) \<and> ratio_ok (ServiceSpec.RollbackConfig s)"

lemma canon_update_eq_iff:
  "canon_update a = canon_update b \<longleftrightarrow>
     UpdateConfig.Parallelism a = UpdateConfig.Parallelism b \<and>
     UpdateConfig.Delay a = UpdateConfig.Delay b \<and>
     UpdateConfig.FailureAction a = UpdateConfig.FailureAction b \<and>
     UpdateConfig.Monitor a = UpdateConfig.Monitor b \<and>
     float32_canon (UpdateConfig.MaxFailureRatio a) = float32_canon (UpdateConfig.MaxFailureRatio b) \<and>
     UpdateConfig.Order a = UpdateConfig.Order b"
  by (cases a; cases b) (simp add: canon_update_def)

lemma equal143_iff:
  "equal143 a b \<longleftrightarrow> ratio_ok (Some a) \<and> ratio_ok (Some b) \<and> canon_update a = canon_update b"
  by (auto simp: equal143_def equal145_def go_equal float32_eq_iff canon_update_eq_iff ratio_ok_def)

lemma update_ptr_iff:
  "ptr_equal equal143 a b \<longleftrightarrow>
     ratio_ok a \<and> ratio_ok b \<and> map_option canon_update a = map_option canon_update b"
  by (cases a; cases b) (auto simp: ptr_equal_def equal143_iff ratio_ok_def)

lemma canon_spec_eq_iff:
  "canon_spec a = canon_spec b \<longleftrightarrow>
     ServiceSpec.Annotations a = ServiceSpec.Annotations b \<and>
     ServiceSpec.TaskTemplate a = ServiceSpec.TaskTemplate b \<and>
     ServiceSpec.Mode a = ServiceSpec.Mode b \<and>
     map_option canon_update (ServiceSpec.UpdateConfig a)
       = map_option canon_update (ServiceSpec.UpdateConfig b) \<and>
     map_option canon_update (ServiceSpec.RollbackConfig a)
       = map_option canon_update (ServiceSpec.RollbackConfig b) \<and>
     ServiceSpec.EndpointSpec a = ServiceSpec.EndpointSpec b"
  by (cases a; cases b) (simp add: canon_spec_def)

lemma equalSpec_iff:
  "equalSpec a b \<longleftrightarrow> ratios_ok a \<and> ratios_ok b \<and> canon_spec a = canon_spec b"
  by (auto simp: equalSpec_def equal0_def equal142_def equal147_def update_ptr_iff go_equal
      ratios_ok_def canon_spec_eq_iff)

text \<open>Without NaN and negative zero the comparison is plain equality.\<close>

definition plain_ratios :: "ServiceSpec \<Rightarrow> bool" where
  "plain_ratios s \<longleftrightarrow> ratios_ok s \<and> canon_spec s = s"

lemma equalSpec_plain:
  "plain_ratios a \<Longrightarrow> plain_ratios b \<Longrightarrow> equalSpec a b \<longleftrightarrow> a = b"
  by (auto simp: equalSpec_iff plain_ratios_def)

lemma equalSpec_refl_iff: "equalSpec a a \<longleftrightarrow> ratios_ok a"
  by (simp add: equalSpec_iff)

lemma equalSpec_sym: "equalSpec a b \<Longrightarrow> equalSpec b a"
  by (simp add: equalSpec_iff)

lemma equalSpec_trans: "equalSpec a b \<Longrightarrow> equalSpec b c \<Longrightarrow> equalSpec a c"
  by (simp add: equalSpec_iff)

section \<open>Properties\<close>

text \<open>
  C17: the generated comparison of service specifications, 157 functions over all nested
  types, decides equality up to what \<open>==\<close> does on floating point numbers: no failure ratio is
  NaN and the specifications are the same once negative zero is written as zero. In
  particular a nil slice, map or pointer differs from an empty one, and no field of any type
  is skipped.
\<close>

theorem equal_spec_exact:
  "equalSpec a b \<longleftrightarrow> ratios_ok a \<and> ratios_ok b \<and> canon_spec a = canon_spec b"
  by (rule equalSpec_iff)

end
