(* ===== verification/Spec_Json.thy ===== *)
theory Spec_Json
  imports Go_Strings
begin

text \<open>
  \<open>internal/specjson\<close>: the strict decoding of one JSON object into a Docker type.

  The Docker types and their JSON decoding are not part of the repository, so the typed
  decoding of one value is a parameter: \<open>decode_value input\<close> is \<open>d.Decode(target)\<close> of a
  \<open>json.Decoder\<close> that disallows unknown fields, \<open>None\<close> for any error, otherwise the value and
  the input it did not consume. What \<open>Decode\<close> does around it is modelled.
\<close>

type_synonym 'a json_decoder = "string \<Rightarrow> ('a \<times> string) option"

text \<open>White space between JSON values: a second \<open>Decode\<close> reports \<open>io.EOF\<close> iff nothing else is left.\<close>

definition json_space :: "char \<Rightarrow> bool" where
  "json_space c \<longleftrightarrow> c = CHR '' '' \<or> c = CHR 0x09 \<or> c = CHR 0x0D \<or> c = CHR 0x0A"

definition at_eof :: "string \<Rightarrow> bool" where
  "at_eof rest = list_all json_space rest"

definition Decode :: "'a json_decoder \<Rightarrow> string \<Rightarrow> string + 'a" where
  "Decode decode_value input =
     (case trim_space input of
        [] \<Rightarrow> Inl ''missing or invalid JSON object''
      | c # cs \<Rightarrow>
          if c \<noteq> CHR ''{'' then Inl ''missing or invalid JSON object''
          else case decode_value (c # cs) of
              None \<Rightarrow> Inl ''invalid JSON or unsupported Docker field''
            | Some (v, rest) \<Rightarrow>
                if \<not> at_eof rest then Inl ''multiple or invalid JSON values'' else Inr v)"

lemma Decode_Inr_iff:
  "Decode dec input = Inr v \<longleftrightarrow>
     prefix ''{'' (trim_space input) \<and>
     (\<exists>rest. dec (trim_space input) = Some (v, rest) \<and> at_eof rest)"
  by (auto simp: Decode_def split: list.splits option.splits if_splits)

text \<open>Every failure is one of three constant messages: no part of the input reaches them.\<close>

lemma Decode_Inl_redacted:
  "Decode dec input = Inl e \<Longrightarrow>
   e \<in> {''missing or invalid JSON object'', ''invalid JSON or unsupported Docker field'',
        ''multiple or invalid JSON values''}"
  by (auto simp: Decode_def split: list.splits option.splits if_splits)

text \<open>
  Strict decoding succeeds with a value iff the input, without surrounding white space,
  starts an object, the typed decoder reads that value from it, and nothing but white space
  is left.
\<close>

theorem decode_exact:
  "Decode dec input = Inr v \<longleftrightarrow>
     prefix ''{'' (trim_space input) \<and>
     (\<exists>rest. dec (trim_space input) = Some (v, rest) \<and> at_eof rest)"
  by (rule Decode_Inr_iff)

end
