(* ===== verification/Mutation.thy ===== *)
theory Mutation
  imports Spec_Equality Spec_Json
begin

text \<open>
  \<open>internal/mutation/mutation.go\<close>: the check that an update changes only permitted parts of a
  service specification. Permitted parts of the current specification are copied over a fresh
  decode of the request, and the result must equal the current specification.
\<close>

section \<open>The code\<close>

abbreviation container_of :: "ServiceSpec \<Rightarrow> ContainerSpec option" where
  "container_of s \<equiv> TaskSpec.ContainerSpec (ServiceSpec.TaskTemplate s)"

abbreviation replicated_of :: "ServiceSpec \<Rightarrow> ReplicatedService option" where
  "replicated_of s \<equiv> ServiceMode.Replicated (ServiceSpec.Mode s)"

abbreviation set_container :: "ServiceSpec \<Rightarrow> ContainerSpec option \<Rightarrow> ServiceSpec" where
  "set_container s c \<equiv>
     s\<lparr>ServiceSpec.TaskTemplate := (ServiceSpec.TaskTemplate s)\<lparr>TaskSpec.ContainerSpec := c\<rparr>\<rparr>"

abbreviation set_replicated :: "ServiceSpec \<Rightarrow> ReplicatedService option \<Rightarrow> ServiceSpec" where
  "set_replicated s r \<equiv>
     s\<lparr>ServiceSpec.Mode := (ServiceSpec.Mode s)\<lparr>ServiceMode.Replicated := r\<rparr>\<rparr>"

definition other_mode :: "ServiceSpec \<Rightarrow> bool" where
  "other_mode s \<longleftrightarrow>
     ServiceMode.Global (ServiceSpec.Mode s) \<noteq> None \<or>
     ServiceMode.ReplicatedJob (ServiceSpec.Mode s) \<noteq> None \<or>
     ServiceMode.GlobalJob (ServiceSpec.Mode s) \<noteq> None"

text \<open>One iteration of the loop over the permitted fields, as a function of \<open>next\<close>.\<close>

definition restore_field :: "ServiceSpec \<Rightarrow> ServiceSpec \<Rightarrow> string \<Rightarrow> string + ServiceSpec" where
  "restore_field current new field =
     (if field = ''container.secrets'' \<or> field = ''container.image'' then
        (case (container_of current, container_of new) of
           (Some before, Some after) \<Rightarrow>
             Inr (set_container new
               (Some (if field = ''container.secrets''
                      then after\<lparr>ContainerSpec.Secrets := ContainerSpec.Secrets before\<rparr>
                      else after\<lparr>ContainerSpec.Image := ContainerSpec.Image before\<rparr>)))
         | _ \<Rightarrow> Inl ''mutation requires container specs on both sides'')
      else if field = ''replicas'' then
        (case (replicated_of current, replicated_of new) of
           (Some before, Some after) \<Rightarrow>
             if other_mode current \<or> other_mode new
             then Inl ''replicas mutation requires replicated service mode''
             else Inr (set_replicated new
               (Some (after\<lparr>ReplicatedService.Replicas := ReplicatedService.Replicas before\<rparr>)))
         | _ \<Rightarrow> Inl ''replicas mutation requires replicated service mode'')
      else Inl ''unsupported mutation field'')"

fun restore_fields :: "ServiceSpec \<Rightarrow> ServiceSpec \<Rightarrow> string list \<Rightarrow> string + ServiceSpec" where
  "restore_fields current new [] = Inr new"
| "restore_fields current new (field # rest) =
     (case restore_field current new field of
        Inl e \<Rightarrow> Inl e
      | Inr new' \<Rightarrow> restore_fields current new' rest)"

definition Validate ::
    "ServiceSpec json_decoder \<Rightarrow> ServiceSpec \<Rightarrow> string \<Rightarrow> string list \<Rightarrow> error" where
  "Validate dec current requested allowed =
     (case Decode dec requested of
        Inl e \<Rightarrow> Some e
      | Inr new \<Rightarrow>
          if allowed = [] then Some ''empty mutation field set''
          else case restore_fields current new allowed of
              Inl e \<Rightarrow> Some e
            | Inr new' \<Rightarrow>
                if \<not> equalSpec current new'
                then Some ''mutation contains fields outside allowed set'' else None)"


section \<open>The abstract specification\<close>

text \<open>
  \<open>mask F\<close> forgets the permitted parts of a specification. Two specifications differ in
  permitted parts only iff they agree once masked.
\<close>

definition supported_fields :: "string set" where
  "supported_fields = {''container.secrets'', ''container.image'', ''replicas''}"

definition mask_container :: "string set \<Rightarrow> ContainerSpec \<Rightarrow> ContainerSpec" where
  "mask_container F c =
     c\<lparr>ContainerSpec.Secrets := (if ''container.secrets'' \<in> F then None else ContainerSpec.Secrets c),
       ContainerSpec.Image := (if ''container.image'' \<in> F then [] else ContainerSpec.Image c)\<rparr>"

definition mask_replicated :: "string set \<Rightarrow> ReplicatedService \<Rightarrow> ReplicatedService" where
  "mask_replicated F r =
     r\<lparr>ReplicatedService.Replicas :=
         (if ''replicas'' \<in> F then None else ReplicatedService.Replicas r)\<rparr>"

definition mask :: "string set \<Rightarrow> ServiceSpec \<Rightarrow> ServiceSpec" where
  "mask F s =
     set_replicated (set_container s (map_option (mask_container F) (container_of s)))
       (map_option (mask_replicated F) (replicated_of s))"

text \<open>The structure that the permitted fields presuppose on both sides.\<close>

definition applicable :: "string set \<Rightarrow> ServiceSpec \<Rightarrow> bool" where
  "applicable F s \<longleftrightarrow>
     (''container.secrets'' \<in> F \<or> ''container.image'' \<in> F \<longrightarrow> container_of s \<noteq> None) \<and>
     (''replicas'' \<in> F \<longrightarrow> replicated_of s \<noteq> None \<and> \<not> other_mode s)"

text \<open>
  \<open>confined F current new\<close>: the promise of the component. The change from \<open>current\<close> to \<open>new\<close>
  stays within the fields \<open>F\<close>.
\<close>

definition confined :: "string set \<Rightarrow> ServiceSpec \<Rightarrow> ServiceSpec \<Rightarrow> bool" where
  "confined F current new \<longleftrightarrow>
     F \<noteq> {} \<and> F \<subseteq> supported_fields \<and> applicable F current \<and> applicable F new \<and>
     equalSpec (mask F current) (mask F new)"


section \<open>Refinement\<close>

text \<open>What the loop computes: \<open>new\<close> with the fields \<open>F\<close> taken from \<open>current\<close>.\<close>

definition merge_container :: "string set \<Rightarrow> ContainerSpec \<Rightarrow> ContainerSpec \<Rightarrow> ContainerSpec" where
  "merge_container F b a =
     a\<lparr>ContainerSpec.Secrets :=
         (if ''container.secrets'' \<in> F then ContainerSpec.Secrets b else ContainerSpec.Secrets a),
       ContainerSpec.Image :=
         (if ''container.image'' \<in> F then ContainerSpec.Image b else ContainerSpec.Image a)\<rparr>"

definition merge_replicated ::
    "string set \<Rightarrow> ReplicatedService \<Rightarrow> ReplicatedService \<Rightarrow> ReplicatedService" where
  "merge_replicated F b a =
     a\<lparr>ReplicatedService.Replicas :=
         (if ''replicas'' \<in> F then ReplicatedService.Replicas b
          else ReplicatedService.Replicas a)\<rparr>"

definition merge_with :: "('a \<Rightarrow> 'a \<Rightarrow> 'a) \<Rightarrow> 'a option \<Rightarrow> 'a option \<Rightarrow> 'a option" where
  "merge_with f b a =
     (case b of None \<Rightarrow> a | Some x \<Rightarrow> (case a of None \<Rightarrow> None | Some y \<Rightarrow> Some (f x y)))"

definition merge :: "string set \<Rightarrow> ServiceSpec \<Rightarrow> ServiceSpec \<Rightarrow> ServiceSpec" where
  "merge F current new =
     set_replicated
       (set_container new (merge_with (merge_container F) (container_of current) (container_of new)))
       (merge_with (merge_replicated F) (replicated_of current) (replicated_of new))"

lemma merge_container_empty [simp]: "merge_container {} b a = a"
  by (cases a) (simp add: merge_container_def)

lemma merge_replicated_empty [simp]: "merge_replicated {} b a = a"
  by (cases a) (simp add: merge_replicated_def)

lemma merge_with_right [simp]: "merge_with (\<lambda>b a. a) b a = a"
  by (simp add: merge_with_def split: option.splits)

lemma merge_empty [simp]: "merge {} current new = new"
proof -
  have "merge_container {} = (\<lambda>b a. a)" "merge_replicated {} = (\<lambda>b a. a)"
    by (intro ext; simp)+
  then show ?thesis by (simp add: merge_def)
qed

lemma merge_container_step:
  "(merge_container F b a)\<lparr>ContainerSpec.Secrets := ContainerSpec.Secrets b\<rparr>
     = merge_container (insert ''container.secrets'' F) b a"
  "(merge_container F b a)\<lparr>ContainerSpec.Image := ContainerSpec.Image b\<rparr>
     = merge_container (insert ''container.image'' F) b a"
  by (simp_all add: merge_container_def)

lemma merge_replicated_step:
  "(merge_replicated F b a)\<lparr>ReplicatedService.Replicas := ReplicatedService.Replicas b\<rparr>
     = merge_replicated (insert ''replicas'' F) b a"
  by (simp add: merge_replicated_def)


lemma merge_sel:
  "container_of (merge F current new)
     = merge_with (merge_container F) (container_of current) (container_of new)"
  "replicated_of (merge F current new)
     = merge_with (merge_replicated F) (replicated_of current) (replicated_of new)"
  "other_mode (merge F current new) = other_mode new"
  by (simp_all add: merge_def other_mode_def)

definition field_ok :: "ServiceSpec \<Rightarrow> ServiceSpec \<Rightarrow> string \<Rightarrow> bool" where
  "field_ok current new field \<longleftrightarrow>
     field \<in> supported_fields \<and> applicable {field} current \<and> applicable {field} new"

lemma restore_field_merge:
  "restore_field current (merge F current new) field = Inr n \<longleftrightarrow>
     field_ok current new field \<and> n = merge (insert field F) current new"
proof -
  consider (secrets) "field = ''container.secrets''" | (image) "field = ''container.image''"
    | (replicas) "field = ''replicas''" | (other) "field \<notin> supported_fields"
    by (auto simp: supported_fields_def)
  then show ?thesis
  proof cases
    case secrets
    have rep: "merge_replicated (insert ''container.secrets'' F) = merge_replicated F"
      by (intro ext) (simp add: merge_replicated_def)
    show ?thesis unfolding secrets
      by (auto simp: restore_field_def merge_sel merge_with_def merge_container_step rep field_ok_def
          applicable_def supported_fields_def merge_def split: option.splits)
  next
    case image
    have rep: "merge_replicated (insert ''container.image'' F) = merge_replicated F"
      by (intro ext) (simp add: merge_replicated_def)
    show ?thesis unfolding image
      by (auto simp: restore_field_def merge_sel merge_with_def merge_container_step rep field_ok_def
          applicable_def supported_fields_def merge_def split: option.splits)
  next
    case replicas
    have con: "merge_container (insert ''replicas'' F) = merge_container F"
      by (intro ext) (simp add: merge_container_def)
    show ?thesis unfolding replicas
      by (auto simp: restore_field_def merge_sel merge_with_def merge_replicated_step con field_ok_def
          applicable_def supported_fields_def merge_def other_mode_def split: option.splits)
  next
    case other
    then show ?thesis by (auto simp: restore_field_def field_ok_def supported_fields_def)
  qed
qed

lemma restore_fields_merge:
  "restore_fields current (merge F current new) fs = Inr n \<longleftrightarrow>
     (\<forall>f \<in> set fs. field_ok current new f) \<and> n = merge (F \<union> set fs) current new"
proof (induction fs arbitrary: F)
  case Nil
  show ?case by auto
next
  case (Cons f fs)
  show ?case
  proof (cases "restore_field current (merge F current new) f")
    case (Inl e)
    then have "\<not> field_ok current new f"
      using restore_field_merge [of current F new f] by (metis Inl_Inr_False)
    then show ?thesis using Inl by simp
  next
    case (Inr m)
    then have "field_ok current new f" "m = merge (insert f F) current new"
      using restore_field_merge by auto
    then show ?thesis using Inr Cons [of "insert f F"] by simp
  qed
qed

lemma field_ok_all:
  "(\<forall>f \<in> F. field_ok current new f) \<longleftrightarrow>
     F \<subseteq> supported_fields \<and> applicable F current \<and> applicable F new"
proof -
  have "applicable F s \<longleftrightarrow> (\<forall>f \<in> F. applicable {f} s)" for s
    unfolding applicable_def by blast
  then show ?thesis unfolding field_ok_def by blast
qed

lemma merge_container_mask:
  "b = merge_container F b a \<longleftrightarrow> mask_container F b = mask_container F a"
  by (cases a; cases b) (auto simp: merge_container_def mask_container_def)

lemma merge_replicated_mask:
  "b = merge_replicated F b a \<longleftrightarrow> mask_replicated F b = mask_replicated F a"
  by (cases a; cases b) (auto simp: merge_replicated_def mask_replicated_def)

lemma merge_with_mask:
  assumes "\<And>b a. b = f b a \<longleftrightarrow> m b = m a"
  shows "b = merge_with f b a \<longleftrightarrow> map_option m b = map_option m a"
  using assms by (auto simp: merge_with_def split: option.splits)

lemma mask_template_iff:
  "ServiceSpec.TaskTemplate current = ServiceSpec.TaskTemplate (merge F current new) \<longleftrightarrow>
   ServiceSpec.TaskTemplate (mask F current) = ServiceSpec.TaskTemplate (mask F new)"
proof -
  let ?t = "ServiceSpec.TaskTemplate current" and ?u = "ServiceSpec.TaskTemplate new"
  have "t = u\<lparr>TaskSpec.ContainerSpec := merge_with (merge_container F) (TaskSpec.ContainerSpec t) (TaskSpec.ContainerSpec u)\<rparr> \<longleftrightarrow>
     t\<lparr>TaskSpec.ContainerSpec := map_option (mask_container F) (TaskSpec.ContainerSpec t)\<rparr>
     = u\<lparr>TaskSpec.ContainerSpec := map_option (mask_container F) (TaskSpec.ContainerSpec u)\<rparr>"
    for t u :: TaskSpec
    by (cases t; cases u) (auto simp: merge_with_mask [OF merge_container_mask])
  then show ?thesis by (simp add: merge_def mask_def)
qed

lemma mask_mode_iff:
  "ServiceSpec.Mode current = ServiceSpec.Mode (merge F current new) \<longleftrightarrow>
   ServiceSpec.Mode (mask F current) = ServiceSpec.Mode (mask F new)"
proof -
  have "t = u\<lparr>ServiceMode.Replicated := merge_with (merge_replicated F) (ServiceMode.Replicated t) (ServiceMode.Replicated u)\<rparr> \<longleftrightarrow>
     t\<lparr>ServiceMode.Replicated := map_option (mask_replicated F) (ServiceMode.Replicated t)\<rparr>
     = u\<lparr>ServiceMode.Replicated := map_option (mask_replicated F) (ServiceMode.Replicated u)\<rparr>"
    for t u :: ServiceMode
    by (cases t; cases u) (auto simp: merge_with_mask [OF merge_replicated_mask])
  then show ?thesis by (simp add: merge_def mask_def)
qed

lemma equalSpec_merge_mask:
  "equalSpec current (merge F current new) \<longleftrightarrow> equalSpec (mask F current) (mask F new)"
proof -
  have rest: "ServiceSpec.Annotations (merge F current new) = ServiceSpec.Annotations new"
    "ServiceSpec.UpdateConfig (merge F current new) = ServiceSpec.UpdateConfig new"
    "ServiceSpec.RollbackConfig (merge F current new) = ServiceSpec.RollbackConfig new"
    "ServiceSpec.EndpointSpec (merge F current new) = ServiceSpec.EndpointSpec new"
    and masked: "ServiceSpec.Annotations (mask F s) = ServiceSpec.Annotations s"
    "ServiceSpec.UpdateConfig (mask F s) = ServiceSpec.UpdateConfig s"
    "ServiceSpec.RollbackConfig (mask F s) = ServiceSpec.RollbackConfig s"
    "ServiceSpec.EndpointSpec (mask F s) = ServiceSpec.EndpointSpec s" for s
    by (simp_all add: merge_def mask_def)
  show ?thesis
    by (simp add: equalSpec_iff ratios_ok_def canon_spec_eq_iff rest masked
        mask_template_iff mask_mode_iff)
qed

text \<open>The code accepts exactly the requests that the specification calls confined.\<close>

lemma Validate_confined:
  "Validate dec current requested allowed = None \<longleftrightarrow>
     (\<exists>new. Decode dec requested = Inr new \<and> confined (set allowed) current new)"
proof (cases "Decode dec requested")
  case (Inl e)
  then show ?thesis by (simp add: Validate_def)
next
  case (Inr new)
  have restore: "restore_fields current new allowed = Inr n \<longleftrightarrow>
      set allowed \<subseteq> supported_fields \<and> applicable (set allowed) current \<and>
      applicable (set allowed) new \<and> n = merge (set allowed) current new" for n
    using restore_fields_merge [of current "{}" new allowed n] by (simp add: field_ok_all)
  show ?thesis
  proof (cases "restore_fields current new allowed")
    case (Inl e)
    then show ?thesis
      using Inr restore [of "merge (set allowed) current new"]
      by (auto simp: Validate_def confined_def)
  next
    case fields: (Inr n)
    then show ?thesis
      using Inr restore [of n] by (auto simp: Validate_def confined_def equalSpec_merge_mask)
  qed
qed

lemma mask_container_secrets_iff:
  "mask_container {''container.secrets''} a = mask_container {''container.secrets''} b \<longleftrightarrow>
     (\<exists>secrets. b = a\<lparr>ContainerSpec.Secrets := secrets\<rparr>)"
  by (cases a; cases b) (auto simp: mask_container_def)

lemma mask_replicated_secrets [simp]: "mask_replicated {''container.secrets''} r = r"
  by (cases r) (simp add: mask_replicated_def)

text \<open>A specification is its container and the rest.\<close>

lemma template_update_eq:
  "s\<lparr>ServiceSpec.TaskTemplate := t\<rparr> = s'\<lparr>ServiceSpec.TaskTemplate := t'\<rparr> \<longleftrightarrow>
     t = t' \<and> s\<lparr>ServiceSpec.TaskTemplate := u\<rparr> = s'\<lparr>ServiceSpec.TaskTemplate := u\<rparr>"
  for s s' :: ServiceSpec
  by (cases s; cases s') (simp, blast)

lemma container_update_eq:
  "t\<lparr>TaskSpec.ContainerSpec := x\<rparr> = t'\<lparr>TaskSpec.ContainerSpec := y\<rparr> \<longleftrightarrow>
     x = y \<and> t\<lparr>TaskSpec.ContainerSpec := None\<rparr> = t'\<lparr>TaskSpec.ContainerSpec := None\<rparr>"
  for t t' :: TaskSpec
  by (cases t; cases t') simp

lemma set_container_eq:
  "set_container a x = set_container b y \<longleftrightarrow> x = y \<and> set_container a None = set_container b None"
proof -
  let ?u = "ServiceSpec.TaskTemplate a"
  have "set_container a x = set_container b y \<longleftrightarrow>
      x = y \<and> ?u\<lparr>TaskSpec.ContainerSpec := None\<rparr> = (ServiceSpec.TaskTemplate b)\<lparr>TaskSpec.ContainerSpec := None\<rparr> \<and>
      a\<lparr>ServiceSpec.TaskTemplate := ?u\<rparr> = b\<lparr>ServiceSpec.TaskTemplate := ?u\<rparr>" for x y
    by (subst template_update_eq [where u = ?u], subst container_update_eq) blast
  from this [of x y] this [of None None] show ?thesis by blast
qed

lemma set_container_self: "set_container a (container_of a) = a"
  by simp

lemma mask_secrets:
  "mask {''container.secrets''} s =
     set_container s (map_option (mask_container {''container.secrets''}) (container_of s))"
proof -
  have "map_option (mask_replicated {''container.secrets''}) r = r" for r by (cases r) simp_all
  then show ?thesis by (simp add: mask_def)
qed

lemma mask_secrets_iff:
  "container_of a \<noteq> None \<and> container_of b \<noteq> None \<and>
     mask {''container.secrets''} a = mask {''container.secrets''} b \<longleftrightarrow>
   (\<exists>c secrets. container_of a = Some c \<and>
      b = set_container a (Some (c\<lparr>ContainerSpec.Secrets := secrets\<rparr>)))"
proof -
  have "b = set_container a y \<longleftrightarrow> container_of b = y \<and> set_container a None = set_container b None" for y
    using set_container_eq [where a = b and b = a and x = "container_of b" and y = y] unfolding set_container_self by argo
  then show ?thesis
    unfolding mask_secrets set_container_eq [where x = "map_option f x" and y = "map_option f y" for f x y]
    by (cases "container_of a"; cases "container_of b") (auto simp: mask_container_secrets_iff)
qed


text \<open>A small service for the concrete instances of the properties.\<close>

definition example_container :: "string \<Rightarrow> SecretReference option slice \<Rightarrow> ContainerSpec" where
  "example_container img secrets =
     \<lparr>ContainerSpec.Image = img, ContainerSpec.Labels = None, ContainerSpec.Command = None,
      ContainerSpec.Args = None, ContainerSpec.Hostname = [], ContainerSpec.Env = None,
      ContainerSpec.Dir = [], ContainerSpec.User = [], ContainerSpec.Groups = None,
      ContainerSpec.Privileges = None, ContainerSpec.Init = None, ContainerSpec.StopSignal = [],
      ContainerSpec.TTY = False, ContainerSpec.OpenStdin = False, ContainerSpec.ReadOnly = False,
      ContainerSpec.Mounts = None, ContainerSpec.StopGracePeriod = None,
      ContainerSpec.Healthcheck = None, ContainerSpec.Hosts = None, ContainerSpec.DNSConfig = None,
      ContainerSpec.Secrets = secrets, ContainerSpec.Configs = None, ContainerSpec.Isolation = [],
      ContainerSpec.Sysctls = None, ContainerSpec.CapabilityAdd = None,
      ContainerSpec.CapabilityDrop = None, ContainerSpec.Ulimits = None,
      ContainerSpec.OomScoreAdj = 0\<rparr>"

definition example_service :: "string \<Rightarrow> SecretReference option slice \<Rightarrow> ServiceSpec" where
  "example_service img secrets =
     \<lparr>ServiceSpec.Annotations = \<lparr>Annotations.Name = ''web'', Annotations.Labels = None\<rparr>,
      ServiceSpec.TaskTemplate =
        \<lparr>TaskSpec.ContainerSpec = Some (example_container img secrets), TaskSpec.PluginSpec = None,
         TaskSpec.NetworkAttachmentSpec = None, TaskSpec.Resources = None,
         TaskSpec.RestartPolicy = None, TaskSpec.Placement = None, TaskSpec.Networks = None,
         TaskSpec.LogDriver = None, TaskSpec.ForceUpdate = 0, TaskSpec.Runtime = []\<rparr>,
      ServiceSpec.Mode =
        \<lparr>ServiceMode.Replicated = None, ServiceMode.Global = None, ServiceMode.ReplicatedJob = None,
         ServiceMode.GlobalJob = None\<rparr>,
      ServiceSpec.UpdateConfig = None, ServiceSpec.RollbackConfig = None,
      ServiceSpec.EndpointSpec = None\<rparr>"

lemma plain_example_service [simp]: "plain_ratios (example_service img secrets)"
  by (simp add: plain_ratios_def ratios_ok_def ratio_ok_def canon_spec_def example_service_def)

lemma Decode_example [simp]: "Decode (\<lambda>_. Some (v, [])) ''{}'' = Inr v" for v :: ServiceSpec
  by code_simp


section \<open>Properties\<close>

text \<open>
  C2: the validation of a mutation implements its specification. It accepts a request body
  iff the body is a strictly decodable service specification that is confined to the allowed
  fields: every allowed field is supported and present on both sides, and the two
  specifications agree in everything else.
\<close>

theorem validate_refines_confined:
  "Validate dec current requested allowed = None \<longleftrightarrow>
     (\<exists>new. Decode dec requested = Inr new \<and> confined (set allowed) current new)"
  by (rule Validate_confined)

text \<open>
  Neither the order nor the repetition of the allowed fields matters for the decision,
  although the code restores the fields one after the other.
\<close>

theorem validate_order_irrelevant:
  assumes "set allowed = set allowed'"
  shows "Validate dec current requested allowed = None \<longleftrightarrow>
    Validate dec current requested allowed' = None"
  using assms by (simp add: Validate_confined)

theorem validate_order_irrelevant_witness:
  "\<forall>dec current requested.
     Validate dec current requested [''container.image'', ''replicas''] = None \<longleftrightarrow>
     Validate dec current requested [''replicas'', ''container.image'', ''replicas''] = None"
  by (intro allI validate_order_irrelevant) auto

text \<open>
  What a rule on secrets alone permits. For specifications whose failure ratios are
  ordinary numbers, the accepted specification is the current one with other secrets in its
  container, and nothing else.
\<close>

theorem secrets_rule_exact:
  assumes "Decode dec requested = Inr new" and "plain_ratios current" and "plain_ratios new"
  shows "Validate dec current requested [''container.secrets''] = None \<longleftrightarrow>
    (\<exists>c secrets. container_of current = Some c \<and>
       new = set_container current (Some (c\<lparr>ContainerSpec.Secrets := secrets\<rparr>)))"
  (is "?lhs \<longleftrightarrow> ?rhs")
proof -
  let ?F = "{''container.secrets''}"
  have plain: "plain_ratios (mask ?F s) \<longleftrightarrow> plain_ratios s" for s
    by (cases s) (simp add: plain_ratios_def ratios_ok_def mask_def canon_spec_def)
  have "?lhs \<longleftrightarrow> container_of current \<noteq> None \<and> container_of new \<noteq> None \<and> mask ?F current = mask ?F new"
    using assms by (simp add: Validate_confined confined_def applicable_def supported_fields_def
        equalSpec_plain plain)
  also have "\<dots> \<longleftrightarrow> ?rhs"
    by (rule mask_secrets_iff)
  finally show ?thesis .
qed


theorem secrets_rule_exact_witness:
  "Validate (\<lambda>_. Some (example_service ''nginx'' (Some [None]), []))
     (example_service ''nginx'' None) ''{}'' [''container.secrets''] = None \<and>
   Validate (\<lambda>_. Some (example_service ''evil'' None, []))
     (example_service ''nginx'' None) ''{}'' [''container.secrets''] \<noteq> None"
proof
  show "Validate (\<lambda>_. Some (example_service ''nginx'' (Some [None]), []))
     (example_service ''nginx'' None) ''{}'' [''container.secrets''] = None"
    unfolding secrets_rule_exact [OF Decode_example plain_example_service plain_example_service]
    by (simp add: example_service_def example_container_def)
  show "Validate (\<lambda>_. Some (example_service ''evil'' None, []))
     (example_service ''nginx'' None) ''{}'' [''container.secrets''] \<noteq> None"
    unfolding secrets_rule_exact [OF Decode_example plain_example_service plain_example_service]
    by (simp add: example_service_def example_container_def)
qed

end
