(* ===== verification/Token.thy ===== *)
theory Token
  imports Go_Strings
begin

text \<open>
  \<open>internal/dockerapi/token.go\<close>: the per-process capability that marks the plugin's own
  requests to the Docker daemon, and the check of the headers of an incoming request for it.
\<close>

section \<open>The token and its check\<close>

record Token =
  TokenValue :: string

definition InternalHeader :: string where
  "InternalHeader = ''X-Dockauthz-Internal-Token''"

text \<open>\<open>hex.EncodeToString\<close> of the 32 random bytes.\<close>

definition hextable :: string where
  "hextable = ''0123456789abcdef''"

definition hex_byte :: "byte \<Rightarrow> string" where
  "hex_byte b = [hextable ! unat (drop_bit 4 b), hextable ! unat (take_bit 4 b)]"

definition encode_hex :: "byte list \<Rightarrow> string" where
  "encode_hex bs = concat (map hex_byte bs)"

text \<open>
  \<open>NewToken\<close>: \<open>random n\<close> is what the operating system's randomness returns for a request of \<open>n\<close>
  bytes.
\<close>

definition NewToken :: "(nat \<Rightarrow> byte list option) \<Rightarrow> Token option" where
  "NewToken random =
     (case random 32 of
        None \<Rightarrow> None
      | Some bytes \<Rightarrow> Some \<lparr>TokenValue = encode_hex bytes\<rparr>)"

text \<open>
  The loop of \<open>Check\<close> over the headers. \<open>ConstantTimeCompare\<close> returns 1 iff its arguments are
  equal; the time it takes is not modelled.
\<close>

fun check_loop :: "Token \<Rightarrow> nat \<Rightarrow> bool \<Rightarrow> string entries \<Rightarrow> nat \<times> bool" where
  "check_loop t n valid [] = (n, valid)"
| "check_loop t n valid ((key, v) # rest) =
     (if equal_fold key InternalHeader
      then check_loop t (n + 1) (v = TokenValue t) rest
      else check_loop t n valid rest)"

definition Check :: "Token \<Rightarrow> string entries \<Rightarrow> bool \<times> bool" where
  "Check t headers =
     (let (n, valid) = check_loop t 0 False headers
      in (n > 0, n = 1 \<and> valid))"


section \<open>What the check decides\<close>

text \<open>The values of the headers whose name is the internal header, in any spelling.\<close>

definition token_values :: "string entries \<Rightarrow> string list" where
  "token_values headers = map snd (filter (\<lambda>(key, _). equal_fold key InternalHeader) headers)"

lemma check_loop_values:
  "check_loop t m valid headers =
     (m + length (token_values headers),
      if token_values headers = [] then valid else last (token_values headers) = TokenValue t)"
  by (induction t m valid headers rule: check_loop.induct) (auto simp: token_values_def)

lemma Check_values:
  "Check t headers = (token_values headers \<noteq> [], token_values headers = [TokenValue t])"
proof -
  have "length vs = 1 \<and> (vs \<noteq> [] \<longrightarrow> last vs = v) \<and> vs \<noteq> [] \<longleftrightarrow> vs = [v]" for vs :: "string list" and v
    by (cases vs) auto
  then show ?thesis by (auto simp: Check_def check_loop_values)
qed

lemma token_values_mset:
  "mset headers = mset headers' \<Longrightarrow> mset (token_values headers) = mset (token_values headers')"
  by (simp add: token_values_def mset_filter)

text \<open>The two results do not depend on the order in which the map is ranged over.\<close>

lemma Check_order_irrelevant:
  assumes "mset headers = mset headers'"
  shows "Check t headers = Check t headers'"
proof -
  have "mset (token_values headers) = mset (token_values headers')"
    using assms by (rule token_values_mset)
  moreover from this have "token_values headers = [v] \<longleftrightarrow> token_values headers' = [v]" for v
    by (metis mset_single_iff mset_single_iff_right)
  ultimately show ?thesis
    by (simp add: Check_values) (metis mset_zero_iff mset_zero_iff_right)
qed

lemma hextable_distinct: "distinct hextable" "length hextable = 16"
  by (simp_all add: hextable_def)

lemma hex_byte_inj: "hex_byte a = hex_byte b \<Longrightarrow> a = b"
proof -
  assume eq: "hex_byte a = hex_byte b"
  have hi: "unat (drop_bit 4 x) < 16" for x :: byte
  proof -
    have "unat x < 256" using unsigned_less [of x] by simp
    then show ?thesis by (simp add: drop_bit_eq_div unat_div)
  qed
  have lo: "unat (take_bit 4 x) < 16" for x :: byte
    by (simp add: take_bit_eq_mod unat_mod)
  have "unat (drop_bit 4 a) = unat (drop_bit 4 b)" "unat (take_bit 4 a) = unat (take_bit 4 b)"
    using eq hi [of a] hi [of b] lo [of a] lo [of b] hextable_distinct
    by (simp_all add: hex_byte_def nth_eq_iff_index_eq)
  then show "a = b"
    by (metis bits_ident word_eq_iff_unsigned)
qed

lemma encode_hex_inj: "encode_hex as = encode_hex bs \<Longrightarrow> as = bs"
proof (induction as arbitrary: bs)
  case Nil
  then show ?case by (cases bs) (simp_all add: encode_hex_def hex_byte_def)
next
  case (Cons a as)
  then obtain b bs' where bs: "bs = b # bs'" by (cases bs) (simp_all add: encode_hex_def hex_byte_def)
  have "hex_byte a @ encode_hex as = hex_byte b @ encode_hex bs'"
    using Cons.prems bs by (simp add: encode_hex_def)
  then have "hex_byte a = hex_byte b" "encode_hex as = encode_hex bs'"
    by (simp_all add: hex_byte_def)
  then show ?case using Cons.IH bs hex_byte_inj by blast
qed

lemma encode_hex_length: "length (encode_hex bs) = 2 * length bs"
  by (induction bs) (simp_all add: encode_hex_def hex_byte_def)

section \<open>Properties\<close>

text \<open>
  C27: the check of the headers. A token is present iff some header name is a spelling of the
  internal header, and valid iff there is exactly one such header and its value is the token;
  duplicates are invalid whatever their values.
\<close>

theorem token_check_exact:
  "Check t headers = (token_values headers \<noteq> [], token_values headers = [TokenValue t])"
  by (rule Check_values)

text \<open>The check does not depend on the order in which the header map is ranged over.\<close>

theorem token_check_order_irrelevant:
  assumes "mset headers = mset headers'"
  shows "Check t headers = Check t headers'"
  using assms by (rule Check_order_irrelevant)

theorem token_check_order_irrelevant_witness:
  "Check \<lparr>TokenValue = ''s3cret''\<rparr>
     [(''x-dockauthz-internal-token'', ''s3cret''), (''X-Dockauthz-Internal-Token'', ''guess'')] =
   Check \<lparr>TokenValue = ''s3cret''\<rparr>
     [(''X-Dockauthz-Internal-Token'', ''guess''), (''x-dockauthz-internal-token'', ''s3cret'')]"
  by (rule token_check_order_irrelevant) simp

text \<open>
  The token keeps all its randomness. Different random bytes give different tokens, and
  32 bytes give 64 characters.
\<close>

theorem new_token_injective:
  assumes "random 32 = Some bs" and "random' 32 = Some bs'"
  shows "(NewToken random = NewToken random' \<longleftrightarrow> bs = bs') \<and>
    map_option (\<lambda>t. length (TokenValue t)) (NewToken random) = Some (2 * length bs)"
  using assms encode_hex_inj by (auto simp: NewToken_def encode_hex_length)

end
