(* ===== verification/Audit_Handler.thy ===== *)
theory Audit_Handler
  imports Main
begin

text \<open>
  \<open>internal/audit\<close>: the logger of the process, a handler that wraps the JSON handler of \<open>log/slog\<close> and
  adds the ids of the span of the context to every record.

  The wrapper satisfies the laws of a handler for bound attributes. The text that the JSON
  handler writes for a record is in the theory \<open>Audit_Log\<close>.
\<close>

section \<open>Handlers\<close>

text \<open>An attribute has a key, whether its value is of a named string type, and the value.\<close>

datatype attr = Attr string bool string | Group string "attr list"

record slog_record =
  RecordLevel :: int
  Message :: string
  RecordAttrs :: "attr list"

text \<open>The state of the JSON handler: the attributes bound outside of groups, and the open groups with theirs.\<close>

record json_handler =
  bound_attrs :: "attr list"
  open_groups :: "(string \<times> attr list) list"

text \<open>The handlers of the program: \<open>handler\<close> wraps another one.\<close>

datatype slog_handler = JSONHandler json_handler | AuditHandler slog_handler

fun nest :: "(string \<times> attr list) list \<Rightarrow> attr list \<Rightarrow> attr list" where
  "nest [] as = as"
| "nest ((g, bs) # gs) as = [Group g (bs @ nest gs as)]"

text \<open>Groups without attributes are left out, groups without a name are inlined.\<close>

fun tidy :: "attr \<Rightarrow> attr list" where
  "tidy (Attr k typed v) = [Attr k typed v]"
| "tidy (Group g as) =
     (let bs = concat (map tidy as) in if g = '''' \<or> bs = [] then bs else [Group g bs])"

definition LevelInfo :: int where
  "LevelInfo = 0"

fun Enabled :: "slog_handler \<Rightarrow> int \<Rightarrow> bool" where
  "Enabled (JSONHandler h) level \<longleftrightarrow> level \<ge> LevelInfo"
| "Enabled (AuditHandler next) level \<longleftrightarrow> Enabled next level"

text \<open>The result of \<open>Handle\<close> is the record that the JSON handler writes.\<close>

fun HandleRecord :: "(string \<times> string) option \<Rightarrow> slog_handler \<Rightarrow> slog_record \<Rightarrow> slog_record" where
  "HandleRecord sc (JSONHandler h) r =
     r\<lparr>RecordAttrs := concat (map tidy (bound_attrs h @ nest (open_groups h) (RecordAttrs r)))\<rparr>"
| "HandleRecord sc (AuditHandler next) r =
     HandleRecord sc next
       (case sc of
          None \<Rightarrow> r
        | Some (trace_id, span_id) \<Rightarrow>
            r\<lparr>RecordAttrs := RecordAttrs r @ [Attr ''trace_id'' False trace_id, Attr ''span_id'' False span_id]\<rparr>)"

definition json_with_attrs :: "json_handler \<Rightarrow> attr list \<Rightarrow> json_handler" where
  "json_with_attrs h as =
     (if open_groups h = [] then h\<lparr>bound_attrs := bound_attrs h @ as\<rparr>
      else h\<lparr>open_groups := butlast (open_groups h) @ [apsnd (\<lambda>bs. bs @ as) (last (open_groups h))]\<rparr>)"

definition json_with_group :: "json_handler \<Rightarrow> string \<Rightarrow> json_handler" where
  "json_with_group h name =
     (if name = '''' then h else h\<lparr>open_groups := open_groups h @ [(name, [])]\<rparr>)"

fun WithAttrs :: "slog_handler \<Rightarrow> attr list \<Rightarrow> slog_handler" where
  "WithAttrs (JSONHandler h) as = JSONHandler (json_with_attrs h as)"
| "WithAttrs (AuditHandler next) as = AuditHandler (WithAttrs next as)"

fun WithGroup :: "slog_handler \<Rightarrow> string \<Rightarrow> slog_handler" where
  "WithGroup (JSONHandler h) name = JSONHandler (json_with_group h name)"
| "WithGroup (AuditHandler next) name = AuditHandler (WithGroup next name)"

definition NewLogger :: slog_handler where
  "NewLogger = AuditHandler (JSONHandler \<lparr>bound_attrs = [], open_groups = []\<rparr>)"

text \<open>\<open>Logger.log\<close>: the records that a call writes.\<close>

definition logger_log ::
  "(string \<times> string) option \<Rightarrow> slog_handler \<Rightarrow> int \<Rightarrow> string \<Rightarrow> attr list \<Rightarrow> slog_record list" where
  "logger_log sc h level msg as =
     (if Enabled h level
      then [HandleRecord sc h \<lparr>RecordLevel = level, Message = msg, RecordAttrs = as\<rparr>] else [])"

text \<open>
  The arguments of a call: keys with string values, of which those of the keys \<open>resource\<close> and
  \<open>action\<close> have named string types.
\<close>

definition typed_key :: "string \<Rightarrow> bool" where
  "typed_key k \<longleftrightarrow> k = ''resource'' \<or> k = ''action''"

definition call_attrs :: "(string \<times> string) list \<Rightarrow> attr list" where
  "call_attrs as = map (\<lambda>(k, v). Attr k (typed_key k) v) as"

text \<open>The attributes of a record outside of groups.\<close>

definition LogAttrs :: "slog_record \<Rightarrow> (string \<times> string) list" where
  "LogAttrs r = concat (map (\<lambda>a. case a of Attr k typed v \<Rightarrow> [(k, v)] | Group _ _ \<Rightarrow> []) (RecordAttrs r))"


section \<open>The laws of handlers\<close>

text \<open>
  What a handler promises about bound attributes and groups: a record has the bound attributes
  first, and the attributes after a group is opened are inside it.
\<close>

locale attr_handler =
  fixes enabled :: "'h \<Rightarrow> int \<Rightarrow> bool" and handle :: "'h \<Rightarrow> slog_record \<Rightarrow> slog_record"
    and with_attrs :: "'h \<Rightarrow> attr list \<Rightarrow> 'h"
  assumes enabled_with_attrs: "enabled (with_attrs h as) level \<longleftrightarrow> enabled h level"
    and handle_with_attrs: "handle (with_attrs h as) r = handle h (r\<lparr>RecordAttrs := as @ RecordAttrs r\<rparr>)"
begin

lemma with_attrs_append: "handle (with_attrs (with_attrs h as) bs) r = handle (with_attrs h (as @ bs)) r"
  by (simp add: handle_with_attrs)

end

locale group_handler = attr_handler +
  fixes with_group :: "'h \<Rightarrow> string \<Rightarrow> 'h"
  assumes enabled_with_group: "enabled (with_group h name) level \<longleftrightarrow> enabled h level"
    and handle_with_group: "name \<noteq> '''' \<Longrightarrow>
      handle (with_group h name) r = handle h (r\<lparr>RecordAttrs := [Group name (RecordAttrs r)]\<rparr>)"
begin

lemma with_attrs_in_group:
  "name \<noteq> '''' \<Longrightarrow> handle (with_attrs (with_group h name) as) r =
     handle h (r\<lparr>RecordAttrs := [Group name (as @ RecordAttrs r)]\<rparr>)"
  by (simp add: handle_with_attrs handle_with_group)

end

lemma nest_last: "nest (gs @ [(g, bs)]) as = nest gs [Group g (bs @ as)]"
  by (induction gs) auto

lemma nest_attrs:
  "gs \<noteq> [] \<Longrightarrow> nest (butlast gs @ [apsnd (\<lambda>bs. bs @ as) (last gs)]) cs = nest gs (as @ cs)"
  by (cases gs rule: rev_cases) (auto simp: nest_last)

interpretation json: group_handler
  "\<lambda>h. Enabled (JSONHandler h)" "\<lambda>h. HandleRecord sc (JSONHandler h)" json_with_attrs json_with_group for sc
  by unfold_locales (auto simp: json_with_attrs_def json_with_group_def nest_attrs nest_last)

lemma Enabled_WithAttrs: "Enabled (WithAttrs h as) level \<longleftrightarrow> Enabled h level"
  by (induction h) simp_all

lemma Enabled_WithGroup: "Enabled (WithGroup h name) level \<longleftrightarrow> Enabled h level"
  by (induction h) simp_all

lemma HandleRecord_WithAttrs:
  "HandleRecord sc (WithAttrs h as) r = HandleRecord sc h (r\<lparr>RecordAttrs := as @ RecordAttrs r\<rparr>)"
proof (induction h arbitrary: r)
  case (JSONHandler h)
  then show ?case using json.handle_with_attrs by simp
qed (simp split: option.split prod.split)

text \<open>The wrapper keeps the laws for attributes, and without a span those for groups.\<close>

interpretation slog: attr_handler Enabled "HandleRecord sc" WithAttrs for sc
  by unfold_locales (rule Enabled_WithAttrs, rule HandleRecord_WithAttrs)

lemma HandleRecord_WithGroup:
  assumes "name \<noteq> ''''"
  shows "HandleRecord None (WithGroup h name) r = HandleRecord None h (r\<lparr>RecordAttrs := [Group name (RecordAttrs r)]\<rparr>)"
proof (induction h arbitrary: r)
  case (JSONHandler h)
  then show ?case using json.handle_with_group [OF assms] by simp
qed simp

interpretation untraced: group_handler Enabled "HandleRecord None" WithAttrs WithGroup
  by unfold_locales (rule Enabled_WithGroup, rule HandleRecord_WithGroup)

text \<open>With a span the ids are part of the group that is open.\<close>

lemma trace_ids_in_group:
  assumes "name \<noteq> ''''"
  shows "HandleRecord (Some (trace_id, span_id)) (WithGroup NewLogger name) r =
    r\<lparr>RecordAttrs := concat (map tidy
      [Group name (RecordAttrs r @ [Attr ''trace_id'' False trace_id, Attr ''span_id'' False span_id])])\<rparr>"
  using assms by (simp add: NewLogger_def json_with_group_def)


section \<open>The logger of the program\<close>

definition span_attrs :: "(string \<times> string) option \<Rightarrow> (string \<times> string) list" where
  "span_attrs sc = (case sc of None \<Rightarrow> [] | Some (t, s) \<Rightarrow> [(''trace_id'', t), (''span_id'', s)])"

lemma call_attrs_append: "call_attrs (as @ bs) = call_attrs as @ call_attrs bs"
  by (simp add: call_attrs_def)

lemma tidy_call: "concat (map tidy (call_attrs as)) = call_attrs as"
  by (induction as) (auto simp: call_attrs_def)

lemma LogAttrs_call [simp]: "LogAttrs \<lparr>RecordLevel = l, Message = m, RecordAttrs = call_attrs as\<rparr> = as"
  by (induction as) (auto simp: call_attrs_def LogAttrs_def)

lemma logger_log_info:
  "logger_log sc NewLogger LevelInfo msg (call_attrs as) =
     [\<lparr>RecordLevel = LevelInfo, Message = msg, RecordAttrs = call_attrs (as @ span_attrs sc)\<rparr>]"
proof -
  have "concat (map tidy (call_attrs as @ call_attrs (span_attrs sc))) = call_attrs as @ call_attrs (span_attrs sc)"
    using tidy_call [of "as @ span_attrs sc"] by (simp only: call_attrs_append)
  then show ?thesis
    by (cases sc) (auto simp: logger_log_def NewLogger_def span_attrs_def call_attrs_append
        call_attrs_def [of "[]"] call_attrs_def [of "(_, _) # _"] typed_key_def simp del: map_append concat_append)
qed

end
