(* ===== verification/Observer.thy ===== *)
theory Observer
  imports Go_Url Audit_Handler "HOL-Library.AList"
begin

text \<open>
  \<open>internal/telemetry/observer.go\<close>, and the log calls of the other components: what the program
  records about its decisions. Both only append to logs, which are part of the world that the operations of the
  other components pass on. Times and the values of the duration histograms are left out.

  The OpenTelemetry package is a parameter: how a span is started on a context, which span a
  context carries, and how trace headers are read and written.
\<close>

section \<open>Contexts and the world\<close>

datatype attr_value = StringValue string | StringSliceValue "string list"

type_synonym attrs = "(string \<times> attr_value) list"

text \<open>\<open>http.Header\<close>: canonical names with their values.\<close>

type_synonym http_header = "string list entries"

record 'c otel =
  SpanContextFromContext :: "'c \<Rightarrow> (string \<times> string) option"
  StartSpan :: "'c \<Rightarrow> string \<Rightarrow> attrs \<Rightarrow> 'c"
  Extract :: "'c \<Rightarrow> http_header \<Rightarrow> 'c"
  Inject :: "'c \<Rightarrow> http_header \<Rightarrow> http_header"

datatype event =
    SpanStart string attrs
  | SpanSetAttributes string attrs
  | SpanEnd string
  | CounterAdd string attrs
  | HistogramRecord string attrs

text \<open>The Docker daemon's state, the telemetry emitted so far and the audit log so far.\<close>

record 'd world =
  Daemon :: 'd
  Events :: "event list"
  Log :: "slog_record list"

definition emit :: "event \<Rightarrow> 'd world \<Rightarrow> 'd world" where
  "emit e w = w\<lparr>Events := Events w @ [e]\<rparr>"


section \<open>The observer\<close>

record Observer =
  tracer :: string
  decisions :: string
  errors :: string
  duration :: string
  lookupDuration :: string
  lookups :: string
  internal :: string

definition NewObserver :: Observer where
  "NewObserver =
     \<lparr>tracer = ''github.com/swarm-deploy/dockauthz'',
      decisions = ''dockauthz_authorization_decisions_total'',
      errors = ''dockauthz_authorization_errors_total'',
      duration = ''dockauthz_authorization_duration_seconds'',
      lookupDuration = ''dockauthz_docker_lookup_duration_seconds'',
      lookups = ''dockauthz_docker_lookups_total'',
      internal = ''dockauthz_internal_requests_total''\<rparr>"

definition Start :: "'c otel \<Rightarrow> 'c \<Rightarrow> string \<Rightarrow> attrs \<Rightarrow> 'd world \<Rightarrow> 'c \<times> 'd world" where
  "Start ot ctx name as w = (StartSpan ot ctx name as, emit (SpanStart name as) w)"

definition SetAttributes :: "string \<Rightarrow> attrs \<Rightarrow> 'd world \<Rightarrow> 'd world" where
  "SetAttributes span as w = emit (SpanSetAttributes span as) w"

definition End :: "string \<Rightarrow> 'd world \<Rightarrow> 'd world" where
  "End span w = emit (SpanEnd span) w"

definition Decision ::
  "Observer \<Rightarrow> string \<Rightarrow> string \<Rightarrow> string \<Rightarrow> string \<Rightarrow> 'd world \<Rightarrow> 'd world" where
  "Decision ob decision client resource action w =
     (let as = [(''decision'', StringValue decision), (''resource'', StringValue resource),
                (''action'', StringValue action)]
      in emit (CounterAdd (decisions ob) (as @ [(''client'', StringValue client)]))
           (emit (HistogramRecord (duration ob) as) w))"

definition Error :: "Observer \<Rightarrow> string \<Rightarrow> 'd world \<Rightarrow> 'd world" where
  "Error ob category w = emit (CounterAdd (errors ob) [(''type'', StringValue category)]) w"

definition Lookup :: "Observer \<Rightarrow> string \<Rightarrow> error \<Rightarrow> 'd world \<Rightarrow> 'd world" where
  "Lookup ob resource err w =
     (let result = (if err \<noteq> None then ''error'' else ''success'')
      in emit (CounterAdd (lookups ob)
               [(''resource'', StringValue resource), (''result'', StringValue result)])
           (emit (HistogramRecord (lookupDuration ob) [(''resource'', StringValue resource)]) w))"

definition Internal :: "Observer \<Rightarrow> string \<Rightarrow> 'd world \<Rightarrow> 'd world" where
  "Internal ob decision w =
     emit (CounterAdd (internal ob) [(''decision'', StringValue decision)]) w"


section \<open>The audit log\<close>

text \<open>\<open>InfoContext\<close> of the logger of the program, with the span of the context.\<close>

definition InfoContext ::
  "'c otel \<Rightarrow> 'c \<Rightarrow> string \<Rightarrow> (string \<times> string) list \<Rightarrow> 'd world \<Rightarrow> 'd world" where
  "InfoContext ot ctx msg as w =
     w\<lparr>Log := Log w @ logger_log (SpanContextFromContext ot ctx) NewLogger LevelInfo msg (call_attrs as)\<rparr>"


section \<open>HTTP headers\<close>

definition token_byte :: "char \<Rightarrow> bool" where
  "token_byte c \<longleftrightarrow> is_alnum c \<or> c \<in> set ''!#$%&*+-.^_`|~'' \<or> c = CHR 0x27"

fun canonical_bytes :: "bool \<Rightarrow> string \<Rightarrow> string" where
  "canonical_bytes upper [] = []"
| "canonical_bytes upper (c # s) =
     (if upper \<and> CHR ''a'' \<le> c \<and> c \<le> CHR ''z'' then char_of (of_char c - (32::nat))
      else if \<not> upper then to_lower_ascii c else c)
     # canonical_bytes (c = CHR ''-'') s"

text \<open>\<open>textproto.CanonicalMIMEHeaderKey\<close>: a name with other bytes than those of a token is kept.\<close>

definition CanonicalHeaderKey :: "string \<Rightarrow> string" where
  "CanonicalHeaderKey key = (if list_all token_byte key then canonical_bytes True key else key)"

definition header_add :: "http_header \<Rightarrow> string \<Rightarrow> string \<Rightarrow> http_header" where
  "header_add h key v = values_append h (CanonicalHeaderKey key) v"

definition header_set :: "http_header \<Rightarrow> string \<Rightarrow> string \<Rightarrow> http_header" where
  "header_set h key v = AList.update (CanonicalHeaderKey key) [v] h"


section \<open>Records leave the daemon alone\<close>

lemma emit_sels [simp]:
  "Daemon (emit e w) = Daemon w"
  "Log (emit e w) = Log w"
  "Events (emit e w) = Events w @ [e]"
  by (simp_all add: emit_def)

lemma observe_sels [simp]:
  "Daemon (SetAttributes span as w) = Daemon w" "Log (SetAttributes span as w) = Log w"
  "Daemon (End span w) = Daemon w" "Log (End span w) = Log w"
  "Daemon (Decision ob d c r a w) = Daemon w" "Log (Decision ob d c r a w) = Log w"
  "Daemon (Error ob cat w) = Daemon w" "Log (Error ob cat w) = Log w"
  "Daemon (Lookup ob res err w) = Daemon w" "Log (Lookup ob res err w) = Log w"
  "Daemon (Internal ob d w) = Daemon w" "Log (Internal ob d w) = Log w"
  "Daemon (InfoContext ot ctx msg kvs w) = Daemon w"
  "Events (InfoContext ot ctx msg kvs w) = Events w"
  by (simp_all add: SetAttributes_def End_def Decision_def Error_def Lookup_def Internal_def
      InfoContext_def Let_def)

text \<open>The record of a log call, for the lemmas about those who make one.\<close>

definition info_record :: "'c otel \<Rightarrow> 'c \<Rightarrow> string \<Rightarrow> (string \<times> string) list \<Rightarrow> slog_record" where
  "info_record ot ctx msg as =
     \<lparr>RecordLevel = LevelInfo, Message = msg,
      RecordAttrs = call_attrs (as @ span_attrs (SpanContextFromContext ot ctx))\<rparr>"

lemma InfoContext_Log [simp]: "Log (InfoContext ot ctx msg as w) = Log w @ [info_record ot ctx msg as]"
  by (simp add: InfoContext_def logger_log_info info_record_def)

lemma info_record_sels [simp]:
  "Message (info_record ot ctx msg as) = msg"
  "LogAttrs (info_record ot ctx msg as) = as @ span_attrs (SpanContextFromContext ot ctx)"
  by (simp_all add: info_record_def)

end
