(* ===== verification/Docker_Client.thy ===== *)
theory Docker_Client
  imports Operation Mutation Token Observer
begin

text \<open>
  \<open>internal/dockerapi/client.go\<close>: the bounded inspection of one Docker resource over the
  daemon's Unix socket.

  The daemon is a parameter: \<open>RoundTrip\<close> answers one HTTP request in its current state and
  says what state it is in afterwards. The JSON decoding of Docker's types is a parameter as
  in \<open>Spec_Json\<close>; for secrets, nodes and tasks, of which the program reads the labels alone,
  the decoder yields the labels of the decoded value.
\<close>

section \<open>The client\<close>

record Snapshot =
  SnapshotID :: string
  SnapshotVersion :: uint64
  SnapshotLabels :: "string gomap"
  SnapshotServiceSpec :: "ServiceSpec option"

record http_request =
  ReqMethod :: string
  ReqURL :: string
  ReqHeader :: http_header

record http_response =
  StatusCode :: int
  Location :: string
  Body :: reader

type_synonym 'd round_trip = "http_request \<Rightarrow> 'd \<Rightarrow> http_response option \<times> 'd"

record 'd Client =
  RoundTrip :: "'d round_trip"
  ClientToken :: Token
  ClientObserver :: Observer

record Envelope =
  EnvelopeID :: string
  EnvelopeVersion :: uint64
  EnvelopeSpec :: string

record codecs =
  service_decoder :: "ServiceSpec json_decoder"
  secret_decoder :: "string gomap json_decoder"
  node_decoder :: "string gomap json_decoder"
  task_decoder :: "string gomap json_decoder"
  envelope_decoder :: "Envelope json_decoder"

text \<open>
  \<open>New\<close> binds the client to a Unix socket, whatever the environment of the process says; \<open>dial\<close>
  gives the daemon that answers on a socket.
\<close>

definition New :: "(string \<Rightarrow> 'd round_trip) \<Rightarrow> string \<Rightarrow> Token \<Rightarrow> Observer \<Rightarrow> 'd Client" where
  "New dial socket tok observer =
     \<lparr>RoundTrip = dial socket, ClientToken = tok, ClientObserver = observer\<rparr>"

definition maxResponseSize :: nat where
  "maxResponseSize = 8388608"

text \<open>
  \<open>http.Client.Do\<close> with the redirect policy of \<open>New\<close>: a redirect with a location is an error,
  one without is returned as it is. A timeout is a missing answer of the daemon.
\<close>

definition redirect_status :: "int \<Rightarrow> bool" where
  "redirect_status s \<longleftrightarrow> s = 301 \<or> s = 302 \<or> s = 303 \<or> s = 307 \<or> s = 308"

definition Do :: "'d round_trip \<Rightarrow> http_request \<Rightarrow> 'd \<Rightarrow> http_response option \<times> 'd" where
  "Do round_trip req d =
     (case round_trip req d of
        (None, d') \<Rightarrow> (None, d')
      | (Some response, d') \<Rightarrow>
          if redirect_status (StatusCode response) \<and> Location response \<noteq> [] then (None, d')
          else (Some response, d'))"

text \<open>
  \<open>http.NewRequestWithContext\<close> for \<open>GET\<close> on \<open>http://docker\<close> followed by a path with a leading
  slash, as \<open>url.Parse\<close> sees it: the authority is \<open>docker\<close>, and the path and the fragment must
  have valid escapes. \<open>None\<close> stands for an error.
\<close>

definition NewRequest :: "string \<Rightarrow> http_request option" where
  "NewRequest path =
     (let (u, frag) = cut (CHR ''#'') path in
      if list_ex is_ctl u \<or> unescape EncodePath (fst (split_query u)) = None \<or>
         unescape EncodePath frag = None
      then None
      else Some \<lparr>ReqMethod = ''GET'', ReqURL = ''http://docker'' @ path, ReqHeader = []\<rparr>)"


section \<open>Inspect\<close>

definition inspect_path :: "Operation \<Rightarrow> string" where
  "inspect_path op =
     (let path = ''/'' @ OpResource op @ ''s/'' @ OpID op
      in if OpVersion op \<noteq> [] then ''/v'' @ OpVersion op @ path else path)"

text \<open>The request that \<open>Inspect\<close> sends, or the error that it returns before sending any.\<close>

definition inspect_request ::
  "'c otel \<Rightarrow> Token \<Rightarrow> 'c \<Rightarrow> Operation \<Rightarrow> string + http_request" where
  "inspect_request ot tok ctx op =
     (let path = inspect_path op in
      case Resolve ''GET'' path of
        None \<Rightarrow> Inl ''invalid inspect operation''
      | Some resolved \<Rightarrow>
          if OpAction resolved \<noteq> ActionInspect then Inl ''invalid inspect operation''
          else case NewRequest path of
              None \<Rightarrow> Inl ''cannot construct Docker inspect''
            | Some req \<Rightarrow>
                Inr (req\<lparr>ReqHeader :=
                  Inject ot ctx (header_set (ReqHeader req) InternalHeader (TokenValue tok))\<rparr>))"

definition labels_snapshot :: "Envelope \<Rightarrow> string + string gomap \<Rightarrow> string + Snapshot" where
  "labels_snapshot envelope r =
     (case r of
        Inl e \<Rightarrow> Inl e
      | Inr labels \<Rightarrow>
          Inr \<lparr>SnapshotID = EnvelopeID envelope, SnapshotVersion = EnvelopeVersion envelope,
               SnapshotLabels = labels, SnapshotServiceSpec = None\<rparr>)"

text \<open>What \<open>Inspect\<close> makes of the body of a successful response.\<close>

definition decode_snapshot :: "codecs \<Rightarrow> Resource \<Rightarrow> string \<Rightarrow> string + Snapshot" where
  "decode_snapshot cd resource body =
     (case envelope_decoder cd body of
        None \<Rightarrow> Inl ''invalid Docker inspect response''
      | Some (envelope, rest) \<Rightarrow>
          if \<not> at_eof rest \<or> EnvelopeID envelope = []
          then Inl ''invalid Docker inspect response''
          else if resource = ResourceService then
            (case Decode (service_decoder cd) (EnvelopeSpec envelope) of
               Inl e \<Rightarrow> Inl e
             | Inr spec \<Rightarrow>
                 Inr \<lparr>SnapshotID = EnvelopeID envelope, SnapshotVersion = EnvelopeVersion envelope,
                      SnapshotLabels = Annotations.Labels (ServiceSpec.Annotations spec), SnapshotServiceSpec = Some spec\<rparr>)
          else if resource = ResourceSecret then
            labels_snapshot envelope (Decode (secret_decoder cd) (EnvelopeSpec envelope))
          else if resource = ResourceNode then
            labels_snapshot envelope (Decode (node_decoder cd) (EnvelopeSpec envelope))
          else if resource = ResourceTask then
            labels_snapshot envelope (Decode (task_decoder cd) body)
          else Inl ''unsupported inspect resource'')"

definition decode_response :: "codecs \<Rightarrow> Resource \<Rightarrow> http_response option \<Rightarrow> string + Snapshot" where
  "decode_response cd resource answer =
     (case answer of
        None \<Rightarrow> Inl ''docker inspect unavailable or timed out''
      | Some response \<Rightarrow>
          if StatusCode response \<noteq> 200 then Inl ''docker inspect failed''
          else case read_limited (maxResponseSize + 1) (Body response) of
              None \<Rightarrow> Inl ''invalid Docker inspect response size''
            | Some body \<Rightarrow>
                if length body > maxResponseSize then Inl ''invalid Docker inspect response size''
                else decode_snapshot cd resource body)"

definition inspect_body ::
  "'c otel \<Rightarrow> codecs \<Rightarrow> 'd Client \<Rightarrow> 'c \<Rightarrow> Operation \<Rightarrow> 'd \<Rightarrow> (string + Snapshot) \<times> 'd" where
  "inspect_body ot cd c ctx op d =
     (case inspect_request ot (ClientToken c) ctx op of
        Inl e \<Rightarrow> (Inl e, d)
      | Inr req \<Rightarrow>
          (let (answer, d') = Do (RoundTrip c) req d
           in (decode_response cd (OpResource op) answer, d')))"

definition error_of :: "string + 'a \<Rightarrow> error" where
  "error_of r = (case r of Inl e \<Rightarrow> Some e | Inr _ \<Rightarrow> None)"

definition Inspect ::
  "'c otel \<Rightarrow> codecs \<Rightarrow> 'd Client \<Rightarrow> 'c \<Rightarrow> Operation \<Rightarrow> 'd world \<Rightarrow> (string + Snapshot) \<times> 'd world" where
  "Inspect ot cd c ctx op w =
     (let (ctx, w) = Start ot ctx ''dockauthz.docker.inspect''
                       [(''dockauthz.resource'', StringValue (OpResource op))] w;
          (result, d) = inspect_body ot cd c ctx op (Daemon w);
          w = Lookup (ClientObserver c) (OpResource op) (error_of result) (w\<lparr>Daemon := d\<rparr>)
      in (result, End ''dockauthz.docker.inspect'' w))"


section \<open>The request that Inspect sends\<close>

text \<open>The operations that name one existing resource, and the inspection of that resource.\<close>

definition individual :: "Operation \<Rightarrow> bool" where
  "individual op \<longleftrightarrow>
     OpAction op = ActionInspect \<or> OpAction op = ActionUpdate \<or> OpAction op = ActionDelete"

definition inspection_of :: "Operation \<Rightarrow> Operation" where
  "inspection_of op = op\<lparr>OpAction := ActionInspect, OpQuery := []\<rparr>"

lemma inspect_path_route: "inspect_path op = route_path (inspection_of op)"
  by (simp add: inspect_path_def route_path_def inspection_of_def route_parts_def
      version_parts_def action_parts_def)

lemma wf_inspection_of: "wf_operation op \<Longrightarrow> individual op \<Longrightarrow> wf_operation (inspection_of op)"
  by (auto simp: wf_operation_def inspection_of_def individual_def Supports_def split: if_splits)

lemma ParseQuery_Nil [simp]: "ParseQuery [] = Some []"
  by (simp add: ParseQuery_def urlmaxqueryparams_def)

lemma cut_absent: "c \<notin> set s \<Longrightarrow> cut c s = (s, [])"
  by (induction s) (auto simp: cut_def)

lemma route_byte_uri: "route_byte c \<or> c = CHR ''/'' \<Longrightarrow> uri_byte c"
  by (auto simp: route_byte_def is_alnum_def is_digit_def uri_byte_def is_ctl_def forbidden_bytes_def
      less_eq_char_def less_char_def)

lemma route_path_uri:
  assumes "wf_operation op"
  shows "list_all uri_byte (route_path op)" and "CHR ''?'' \<notin> set (route_path op)"
  using route_path_bytes [OF assms] route_byte_uri route_byte_props(3)
  by (fastforce simp: list_all_iff)+

lemma inspect_resolves:
  assumes "wf_operation op" and "individual op"
  shows "Resolve ''GET'' (inspect_path op) = Some (inspection_of op)"
  unfolding inspect_path_route Resolve_iff
  using wf_inspection_of [OF assms]
  by (simp add: cut_absent route_path_uri) (simp add: inspection_of_def route_verb_def)

text \<open>The request can always be built once the path has resolved.\<close>

lemma NewRequest_resolved:
  assumes "Resolve verb path = Some op" and "CHR ''%'' \<notin> set path"
  shows "NewRequest path = Some \<lparr>ReqMethod = ''GET'', ReqURL = ''http://docker'' @ path, ReqHeader = []\<rparr>"
proof -
  have bytes: "list_all uri_byte path" using assms(1) by (simp add: Resolve_iff)
  then have "cut (CHR ''#'') path = (path, [])" "\<not> list_ex is_ctl path"
    by (auto simp: list_all_iff list_ex_iff uri_byte_def forbidden_bytes_def intro!: cut_absent)
  moreover have "CHR ''%'' \<notin> set (fst (split_query path))"
    using assms(2) set_mono_prefix [OF cut_fst_prefix] by (fastforce simp: split_query_cut)
  ultimately show ?thesis
    by (simp add: NewRequest_def unescape_plain)
qed

text \<open>The one request that \<open>Inspect\<close> sends for an operation of the resolver.\<close>

definition the_inspect_request :: "'c otel \<Rightarrow> Token \<Rightarrow> 'c \<Rightarrow> Operation \<Rightarrow> http_request" where
  "the_inspect_request ot tok ctx op =
     \<lparr>ReqMethod = ''GET'', ReqURL = ''http://docker'' @ inspect_path op,
      ReqHeader = Inject ot ctx [(InternalHeader, [TokenValue tok])]\<rparr>"

lemma canonical_InternalHeader: "CanonicalHeaderKey InternalHeader = InternalHeader"
  by code_simp

lemma inspect_request_individual:
  assumes "wf_operation op" and "individual op"
  shows "inspect_request ot tok ctx op = Inr (the_inspect_request ot tok ctx op)"
proof -
  note res = inspect_resolves [OF assms]
  have "CHR ''%'' \<notin> set (inspect_path op)"
    unfolding inspect_path_route by (rule route_path_clean(2) [OF wf_inspection_of [OF assms]])
  from NewRequest_resolved [OF res this] show ?thesis
    by (simp add: inspect_request_def res header_set_def canonical_InternalHeader
        the_inspect_request_def)
      (simp add: inspection_of_def)
qed


section \<open>What Inspect returns and changes\<close>

lemma Inspect_body:
  "inspect_body ot cd c (StartSpan ot ctx ''dockauthz.docker.inspect''
      [(''dockauthz.resource'', StringValue (OpResource op))]) op (Daemon w) = (r, d) \<Longrightarrow>
   fst (Inspect ot cd c ctx op w) = r \<and> Daemon (snd (Inspect ot cd c ctx op w)) = d \<and>
   Log (snd (Inspect ot cd c ctx op w)) = Log w"
  by (simp add: Inspect_def Start_def)

lemma Inspect_Log [simp]: "Log (snd (Inspect ot cd c ctx op w)) = Log w"
  by (simp add: Inspect_def Start_def split_beta)

lemma Inspect_Events:
  "\<exists>es. Events (snd (Inspect ot cd c ctx op w)) = Events w @ es"
  by (simp add: Inspect_def Start_def split_beta End_def Lookup_def Let_def)

text \<open>A snapshot: it names its resource, and it has a service spec exactly for a service.\<close>

definition snapshot_ok :: "Resource \<Rightarrow> Snapshot \<Rightarrow> bool" where
  "snapshot_ok resource s \<longleftrightarrow>
     SnapshotID s \<noteq> [] \<and>
     (case SnapshotServiceSpec s of
        None \<Rightarrow> resource \<noteq> ResourceService
      | Some spec \<Rightarrow>
          resource = ResourceService \<and>
          SnapshotLabels s = Annotations.Labels (ServiceSpec.Annotations spec))"

lemma decode_snapshot_ok: "decode_snapshot cd resource body = Inr s \<Longrightarrow> snapshot_ok resource s"
  by (auto simp: decode_snapshot_def snapshot_ok_def labels_snapshot_def
      split: option.splits sum.splits if_splits)

lemma decode_response_ok: "decode_response cd resource answer = Inr s \<Longrightarrow> snapshot_ok resource s"
  by (auto simp: decode_response_def dest: decode_snapshot_ok split: option.splits if_splits)

lemma Inspect_snapshot_ok:
  "Inspect ot cd c ctx op w = (Inr s, w') \<Longrightarrow> snapshot_ok (OpResource op) s"
  by (auto simp: Inspect_def Start_def inspect_body_def Let_def
      dest: decode_response_ok split: sum.splits prod.splits)


section \<open>The Reader interface\<close>

text \<open>
  What a client of \<open>Reader\<close> relies on: reading writes no audit record, only adds telemetry,
  returns well-formed snapshots, and depends on nothing but the daemon's state.
\<close>

locale docker_reader =
  fixes inspect :: "'c \<Rightarrow> Operation \<Rightarrow> 'd world \<Rightarrow> (string + Snapshot) \<times> 'd world"
  assumes inspect_Log: "Log (snd (inspect ctx op w)) = Log w"
    and inspect_Events: "\<exists>es. Events (snd (inspect ctx op w)) = Events w @ es"
    and inspect_ok: "fst (inspect ctx op w) = Inr s \<Longrightarrow> snapshot_ok (OpResource op) s"
    and inspect_daemon: "Daemon w = Daemon w' \<Longrightarrow>
      fst (inspect ctx op w) = fst (inspect ctx op w') \<and>
      Daemon (snd (inspect ctx op w)) = Daemon (snd (inspect ctx op w'))"

text \<open>
  Two readers on related contexts that cannot be told apart by what they return and what they
  do to the daemon.
\<close>

locale similar_readers =
  fixes R :: "'c \<Rightarrow> 'e \<Rightarrow> bool"
    and ot :: "'c otel" and ot' :: "'e otel"
    and inspect :: "'c \<Rightarrow> Operation \<Rightarrow> 'd world \<Rightarrow> (string + Snapshot) \<times> 'd world"
    and inspect' :: "'e \<Rightarrow> Operation \<Rightarrow> 'd world \<Rightarrow> (string + Snapshot) \<times> 'd world"
  assumes related_start: "R ctx ctx' \<Longrightarrow> R (StartSpan ot ctx name as) (StartSpan ot' ctx' name as)"
    and similar: "R ctx ctx' \<Longrightarrow> Daemon w = Daemon w' \<Longrightarrow>
      fst (inspect ctx op w) = fst (inspect' ctx' op w') \<and>
      Daemon (snd (inspect ctx op w)) = Daemon (snd (inspect' ctx' op w'))"

sublocale docker_reader \<subseteq> same: similar_readers "(=)" ot ot inspect inspect for ot
proof unfold_locales
  show "fst (inspect ctx op w) = fst (inspect ctx' op w') \<and>
      Daemon (snd (inspect ctx op w)) = Daemon (snd (inspect ctx' op w'))"
    if "ctx = ctx'" and "Daemon w = Daemon w'" for ctx ctx' op w w'
    using inspect_daemon [OF that(2)] that(1) by blast
qed simp

lemma Inspect_daemon:
  assumes "Daemon w = Daemon w'"
  shows "fst (Inspect ot cd c ctx op w) = fst (Inspect ot cd c ctx op w') \<and>
    Daemon (snd (Inspect ot cd c ctx op w)) = Daemon (snd (Inspect ot cd c ctx op w'))"
  using assms by (simp add: Inspect_def Start_def split_beta Let_def)

interpretation docker: docker_reader "Inspect ot cd c" for ot cd c
proof unfold_locales
  show "fst (Inspect ot cd c ctx op w) = Inr s \<Longrightarrow> snapshot_ok (OpResource op) s" for ctx op w s
    using Inspect_snapshot_ok [of ot cd c ctx op w s] by (cases "Inspect ot cd c ctx op w") simp
  show "fst (Inspect ot cd c ctx op w) = fst (Inspect ot cd c ctx op w') \<and>
      Daemon (snd (Inspect ot cd c ctx op w)) = Daemon (snd (Inspect ot cd c ctx op w'))"
    if "Daemon w = Daemon w'" for ctx op and w w' :: "'b world"
    using that by (rule Inspect_daemon)
qed (simp_all add: Inspect_Events)

text \<open>
  A daemon that answers a request in the same way whatever trace headers it carries makes the
  readers of any two telemetry set-ups similar.
\<close>

definition ignores_trace_headers :: "'c otel \<Rightarrow> 'd round_trip \<Rightarrow> bool" where
  "ignores_trace_headers ot round_trip \<longleftrightarrow>
     (\<forall>req ctx d. round_trip (req\<lparr>ReqHeader := Inject ot ctx (ReqHeader req)\<rparr>) d = round_trip req d)"

definition no_otel :: "unit otel" where
  "no_otel = \<lparr>SpanContextFromContext = \<lambda>_. None, StartSpan = \<lambda>ctx _ _. ctx,
              Extract = \<lambda>ctx _. ctx, Inject = \<lambda>_ h. h\<rparr>"

lemma inspect_body_ignores:
  assumes "ignores_trace_headers ot (RoundTrip c)"
  shows "inspect_body ot cd c ctx op d = inspect_body no_otel cd c () op d"
proof -
  have "Do (RoundTrip c) (req\<lparr>ReqHeader := Inject ot ctx h\<rparr>) d = Do (RoundTrip c) (req\<lparr>ReqHeader := h\<rparr>) d"
    for req :: http_request and h
    using assms [unfolded ignores_trace_headers_def, rule_format, where req = "req\<lparr>ReqHeader := h\<rparr>"]
    by (simp add: Do_def)
  then show ?thesis
    by (simp add: inspect_body_def inspect_request_def no_otel_def Let_def split: option.splits)
qed

lemma inspect_body_cong:
  "RoundTrip c = RoundTrip c' \<Longrightarrow> ClientToken c = ClientToken c' \<Longrightarrow>
   inspect_body ot cd c ctx op d = inspect_body ot cd c' ctx op d"
  by (simp add: inspect_body_def split: sum.split)

lemma similar_inspect:
  fixes ot :: "'c otel" and ot' :: "'e otel" and c c' :: "'d Client"
  assumes "ignores_trace_headers ot (RoundTrip c)" and "ignores_trace_headers ot' (RoundTrip c')"
    and "RoundTrip c = RoundTrip c'" and "ClientToken c = ClientToken c'"
  shows "similar_readers (\<lambda>_ _. True) ot ot' (Inspect ot cd c) (Inspect ot' cd c')"
proof unfold_locales
  fix ctx :: 'c and ctx' :: 'e and op and w w' :: "'d world"
  assume "Daemon w = Daemon w'"
  then show "fst (Inspect ot cd c ctx op w) = fst (Inspect ot' cd c' ctx' op w') \<and>
      Daemon (snd (Inspect ot cd c ctx op w)) = Daemon (snd (Inspect ot' cd c' ctx' op w'))"
    using inspect_body_cong [OF assms(3,4), of no_otel cd "()" op]
    by (simp add: Inspect_def Start_def split_beta Let_def inspect_body_ignores [OF assms(1)]
        inspect_body_ignores [OF assms(2)])
qed simp

section \<open>Properties\<close>

text \<open>
  C25: for an operation of the resolver on one resource, \<open>Inspect\<close> sends exactly one request,
  a \<open>GET\<close> of the canonical path of that resource with the internal token, and returns what the
  response decodes to.
\<close>

theorem inspect_exact:
  assumes "wf_operation op" and "individual op"
  shows "fst (Inspect ot cd c ctx op w) =
      decode_response cd (OpResource op)
        (fst (Do (RoundTrip c) (the_inspect_request ot (ClientToken c)
           (StartSpan ot ctx ''dockauthz.docker.inspect''
              [(''dockauthz.resource'', StringValue (OpResource op))]) op) (Daemon w))) \<and>
    Daemon (snd (Inspect ot cd c ctx op w)) =
      snd (Do (RoundTrip c) (the_inspect_request ot (ClientToken c)
           (StartSpan ot ctx ''dockauthz.docker.inspect''
              [(''dockauthz.resource'', StringValue (OpResource op))]) op) (Daemon w))"
  by (simp add: Inspect_def Start_def inspect_body_def inspect_request_individual [OF assms]
      split_beta Let_def)

definition example_codecs :: codecs where
  "example_codecs =
     \<lparr>service_decoder = (\<lambda>_. Some (example_service ''nginx'' None, [])),
      secret_decoder = (\<lambda>_. None), node_decoder = (\<lambda>_. None), task_decoder = (\<lambda>_. None),
      envelope_decoder = (\<lambda>_. Some (\<lparr>EnvelopeID = ''abc'', EnvelopeVersion = 7, EnvelopeSpec = ''{}''\<rparr>, []))\<rparr>"

text \<open>A daemon that counts its requests.\<close>

definition example_client_of :: "int Client" where
  "example_client_of =
     \<lparr>RoundTrip = (\<lambda>req n. (Some \<lparr>StatusCode = 200, Location = [],
        Body = \<lparr>ReaderBytes = ''{}'', ReaderFails = False\<rparr>\<rparr>, n + 1)),
      ClientToken = \<lparr>TokenValue = ''s3cret''\<rparr>, ClientObserver = NewObserver\<rparr>"

definition example_update :: Operation where
  "example_update =
     \<lparr>OpResource = ''service'', OpAction = ''update'', OpID = ''abc'', OpVersion = ''1.44'',
      OpQuery = [(''version'', [''7''])]\<rparr>"

definition example_world :: "int world" where
  "example_world = \<lparr>Daemon = 0, Events = [], Log = []\<rparr>"

lemma example_update_wf: "wf_operation example_update" "individual example_update"
  by code_simp+

theorem inspect_exact_witness:
  "fst (Inspect no_otel example_codecs example_client_of () example_update example_world) =
     Inr \<lparr>SnapshotID = ''abc'', SnapshotVersion = 7, SnapshotLabels = None,
          SnapshotServiceSpec = Some (example_service ''nginx'' None)\<rparr> \<and>
   Daemon (snd (Inspect no_otel example_codecs example_client_of () example_update example_world)) = 1"
  unfolding inspect_exact [OF example_update_wf, THEN conjunct1]
    inspect_exact [OF example_update_wf, THEN conjunct2]
  by (simp add: Do_def example_client_of_def example_world_def redirect_status_def
      decode_response_def decode_snapshot_def read_limited_def maxResponseSize_def
      example_codecs_def example_update_def at_eof_def)
    (simp add: example_service_def)

text \<open>
  C26: only a complete, bounded and well-formed answer becomes a snapshot. The status is 200,
  the body was read without a failure and has at most 8 MiB, and it decodes for the kind of
  resource that was asked for; everything else is an error.
\<close>

theorem inspect_response_exact:
  "decode_response cd resource answer = Inr s \<longleftrightarrow>
     (\<exists>response. answer = Some response \<and> StatusCode response = 200 \<and>
        \<not> ReaderFails (Body response) \<and> length (ReaderBytes (Body response)) \<le> 8388608 \<and>
        decode_snapshot cd resource (ReaderBytes (Body response)) = Inr s)"
proof -
  have "decode_response cd resource answer = Inr s \<longleftrightarrow>
      (\<exists>response. answer = Some response \<and> StatusCode response = 200 \<and>
        (\<exists>body. (read_limited (maxResponseSize + 1) (Body response) = Some body \<and>
           length body \<le> maxResponseSize) \<and> decode_snapshot cd resource body = Inr s))"
    by (auto simp: decode_response_def split: option.splits if_splits)
  then show ?thesis
    unfolding read_limited_within unfolding maxResponseSize_def by blast
qed

end
