(* ===== verification/Policy.thy ===== *)
theory Policy
  imports Config Docker_Client
begin

text \<open>
  \<open>internal/policy\<close>: the evaluation of the permissions that match a request.

  The state reader is an argument of the operations, as it is a field of the code's
  \<open>Evaluator\<close>: it may change the world, so each evaluation takes the world and returns it.
\<close>

section \<open>Label and option checks\<close>

record Result =
  Allow :: bool
  Reason :: string
  ErrorType :: string

definition deny_result :: "string \<Rightarrow> string \<Rightarrow> Result" where
  "deny_result reason error_type = \<lparr>Allow = False, Reason = reason, ErrorType = error_type\<rparr>"

definition allow_result :: "string \<Rightarrow> Result" where
  "allow_result reason = \<lparr>Allow = True, Reason = reason, ErrorType = []\<rparr>"

definition matches :: "string gomap \<Rightarrow> string gomap \<Rightarrow> bool" where
  "matches actual required =
     fmpred (\<lambda>key v. case map_get actual key of None \<Rightarrow> False | Some got \<Rightarrow> got = v)
       (map_content required)"

definition safe_version :: "string list entries \<Rightarrow> bool" where
  "safe_version query =
     (case values_get query ''version'' of
        [v] \<Rightarrow> v \<noteq> [] \<and> list_all is_digit v
      | _ \<Rightarrow> False)"

definition safe_option :: "string \<times> string list \<Rightarrow> bool" where
  "safe_option entry =
     (let (key, vs) = entry
      in key = ''version'' \<or> (key = ''registryAuthFrom'' \<and> vs = [''spec'']))"

definition safeUpdate :: "Operation \<Rightarrow> Permission \<Rightarrow> string entries \<Rightarrow> bool" where
  "safeUpdate op p headers =
     (safe_version (OpQuery op) \<and>
      list_all safe_option (OpQuery op) \<and>
      (case Permission.Mutation p of
         None \<Rightarrow> True
       | Some m \<Rightarrow>
           ''container.image'' \<in> set (MutationRule.Only m) \<or>
           \<not> list_ex (\<lambda>(key, _). equal_fold key ''X-Registry-Auth'') headers))"


section \<open>One permission\<close>

type_synonym ('c, 'd) state_reader =
  "'c \<Rightarrow> Operation \<Rightarrow> 'd world \<Rightarrow> (string + Snapshot) \<times> 'd world"

definition no_snapshot :: Snapshot where
  "no_snapshot =
     \<lparr>SnapshotID = [], SnapshotVersion = 0, SnapshotLabels = None, SnapshotServiceSpec = None\<rparr>"

definition is_service_update :: "Operation \<Rightarrow> bool" where
  "is_service_update op \<longleftrightarrow> OpResource op = ResourceService \<and> OpAction op = ActionUpdate"

text \<open>\<open>op.Query.Get("version")\<close>\<close>

definition query_get :: "string list entries \<Rightarrow> string \<Rightarrow> string" where
  "query_get query key = (case values_get query key of [] \<Rightarrow> [] | v # _ \<Rightarrow> v)"

definition check_state :: "Operation \<Rightarrow> Snapshot \<Rightarrow> Result option" where
  "check_state op state =
     (if SnapshotID state \<noteq> OpID op
      then Some (deny_result ''state constraints require a canonical resource ID'' ''policy'')
      else if is_service_update op \<and>
              parse_uint (query_get (OpQuery op) ''version'') \<noteq> Some (SnapshotVersion state)
      then Some (deny_result ''service version does not match inspected state'' ''policy'')
      else None)"

definition load_state ::
  "('c, 'd) state_reader \<Rightarrow> 'c \<Rightarrow> Permission \<Rightarrow> Operation \<Rightarrow> 'd world \<Rightarrow>
     (Result + Snapshot) \<times> 'd world" where
  "load_state inspect ctx p op w =
     (if Permission.Selector p \<noteq> None \<or> Permission.Mutation p \<noteq> None then
        (case inspect ctx op w of
           (Inl _, w') \<Rightarrow>
             (Inl (deny_result ''cannot inspect current Docker resource'' ''docker_lookup''), w')
         | (Inr state, w') \<Rightarrow>
             (case check_state op state of
                Some r \<Rightarrow> (Inl r, w')
              | None \<Rightarrow> (Inr state, w')))
      else (Inr no_snapshot, w))"

text \<open>The labels of the submitted spec.\<close>

definition request_labels :: "codecs \<Rightarrow> Resource \<Rightarrow> string \<Rightarrow> string + string gomap" where
  "request_labels cd resource body =
     (if resource = ResourceService then
        (case Decode (service_decoder cd) body of
           Inl e \<Rightarrow> Inl e
         | Inr spec \<Rightarrow> Inr (Annotations.Labels (ServiceSpec.Annotations spec)))
      else if resource = ResourceSecret then Decode (secret_decoder cd) body
      else Inl ''unsupported request constraint'')"

definition check_labels ::
  "codecs \<Rightarrow> Permission \<Rightarrow> Operation \<Rightarrow> string \<Rightarrow> Snapshot \<Rightarrow> Result option" where
  "check_labels cd p op body state =
     (if (case Permission.Selector p of
            None \<Rightarrow> False
          | Some sel \<Rightarrow> \<not> matches (SnapshotLabels state) (LabelConstraint.Labels sel))
      then Some (deny_result ''existing resource labels do not match selector'' [])
      else case Permission.Request p of
          None \<Rightarrow> None
        | Some req \<Rightarrow>
            (case request_labels cd (OpResource op) body of
               Inl e \<Rightarrow> Some (deny_result e ''policy'')
             | Inr labels \<Rightarrow>
                 if \<not> matches labels (LabelConstraint.Labels req)
                 then Some (deny_result ''request labels do not match constraint'' [])
                 else None))"

definition check_mutation ::
  "'c otel \<Rightarrow> codecs \<Rightarrow> 'c \<Rightarrow> Permission \<Rightarrow> string \<Rightarrow> Snapshot \<Rightarrow> 'd world \<Rightarrow> Result \<times> 'd world" where
  "check_mutation ot cd ctx p body state w =
     (case Permission.Mutation p of
        None \<Rightarrow> (allow_result ''permission constraints satisfied'', w)
      | Some m \<Rightarrow>
          (case SnapshotServiceSpec state of
             None \<Rightarrow> (deny_result ''missing current service spec'' ''mutation'', w)
           | Some current \<Rightarrow>
               let (_, w) = Start ot ctx ''dockauthz.mutation.validate''
                     [(''dockauthz.mutation.allowed_fields'',
                       StringSliceValue (MutationRule.Only m))] w;
                   err = Mutation.Validate (service_decoder cd) current body (MutationRule.Only m);
                   w = End ''dockauthz.mutation.validate'' w
               in (case err of
                     Some e \<Rightarrow> (deny_result e ''mutation'', w)
                   | None \<Rightarrow> (allow_result ''permission constraints satisfied'', w))))"

definition permission ::
  "'c otel \<Rightarrow> codecs \<Rightarrow> ('c, 'd) state_reader \<Rightarrow> 'c \<Rightarrow> Permission \<Rightarrow> Operation \<Rightarrow> string \<Rightarrow>
     string entries \<Rightarrow> 'd world \<Rightarrow> Result \<times> 'd world" where
  "permission ot cd inspect ctx p op body headers w =
     (if Unconditional p then (allow_result ''permission granted'', w)
      else if is_service_update op \<and> \<not> safeUpdate op p headers
      then (deny_result ''unsafe or unsupported service update options'' ''policy'', w)
      else case load_state inspect ctx p op w of
          (Inl r, w') \<Rightarrow> (r, w')
        | (Inr state, w') \<Rightarrow>
            (case check_labels cd p op body state of
               Some r \<Rightarrow> (r, w')
             | None \<Rightarrow> check_mutation ot cd ctx p body state w'))"


section \<open>All matching permissions\<close>

fun evaluate_loop ::
  "'c otel \<Rightarrow> codecs \<Rightarrow> ('c, 'd) state_reader \<Rightarrow> 'c \<Rightarrow> Operation \<Rightarrow> string \<Rightarrow> string entries \<Rightarrow>
     Result \<Rightarrow> Permission list \<Rightarrow> 'd world \<Rightarrow> Result \<times> 'd world" where
  "evaluate_loop ot cd inspect ctx op body headers result [] w = (result, w)"
| "evaluate_loop ot cd inspect ctx op body headers result (p # ps) w =
     (let (result, w) = permission ot cd inspect ctx p op body headers w
      in if Allow result then (result, w)
         else evaluate_loop ot cd inspect ctx op body headers result ps w)"

definition Evaluate ::
  "'c otel \<Rightarrow> codecs \<Rightarrow> ('c, 'd) state_reader \<Rightarrow> 'c \<Rightarrow> Permission list \<Rightarrow> Operation \<Rightarrow> string \<Rightarrow>
     string entries \<Rightarrow> 'd world \<Rightarrow> Result \<times> 'd world" where
  "Evaluate ot cd inspect ctx ps op body headers w =
     (let (ctx, w) = Start ot ctx ''dockauthz.policy.evaluate'' [] w;
          (result, w) = evaluate_loop ot cd inspect ctx op body headers
                          (deny_result ''no matching permission'' []) ps w
      in (result, End ''dockauthz.policy.evaluate'' w))"


section \<open>What a permission grants\<close>

text \<open>
  The specification of one permission, given the state that was read: the update options are
  harmless, the state is the one that the request names and was made for, the labels of the
  resource and of the submitted spec include the required ones, and a mutation is confined to
  the fields of the rule.
\<close>

definition labels_include :: "string gomap \<Rightarrow> string gomap \<Rightarrow> bool" where
  "labels_include actual required \<longleftrightarrow>
     (\<forall>key v. map_get required key = Some v \<longrightarrow> map_get actual key = Some v)"

definition needs_state :: "Permission \<Rightarrow> bool" where
  "needs_state p \<longleftrightarrow> Permission.Selector p \<noteq> None \<or> Permission.Mutation p \<noteq> None"

definition state_bound :: "Operation \<Rightarrow> Snapshot \<Rightarrow> bool" where
  "state_bound op s \<longleftrightarrow>
     SnapshotID s = OpID op \<and>
     (is_service_update op \<longrightarrow>
        parse_uint (query_get (OpQuery op) ''version'') = Some (SnapshotVersion s))"

definition satisfies ::
  "codecs \<Rightarrow> Permission \<Rightarrow> Operation \<Rightarrow> string \<Rightarrow> string entries \<Rightarrow> Snapshot \<Rightarrow> bool" where
  "satisfies cd p op body headers s \<longleftrightarrow>
     (is_service_update op \<longrightarrow> safeUpdate op p headers) \<and>
     (needs_state p \<longrightarrow> state_bound op s) \<and>
     (\<forall>sel. Permission.Selector p = Some sel \<longrightarrow>
        labels_include (SnapshotLabels s) (LabelConstraint.Labels sel)) \<and>
     (\<forall>req. Permission.Request p = Some req \<longrightarrow>
        (\<exists>labels. request_labels cd (OpResource op) body = Inr labels \<and>
                  labels_include labels (LabelConstraint.Labels req))) \<and>
     (\<forall>m. Permission.Mutation p = Some m \<longrightarrow>
        (\<exists>current new. SnapshotServiceSpec s = Some current \<and>
           Decode (service_decoder cd) body = Inr new \<and>
           confined (set (MutationRule.Only m)) current new))"

definition grants_request ::
  "codecs \<Rightarrow> Permission \<Rightarrow> Operation \<Rightarrow> string \<Rightarrow> string entries \<Rightarrow> string + Snapshot \<Rightarrow> bool" where
  "grants_request cd p op body headers read \<longleftrightarrow>
     Unconditional p \<or>
     (if needs_state p then \<exists>s. read = Inr s \<and> satisfies cd p op body headers s
      else satisfies cd p op body headers no_snapshot)"

lemma result_sels [simp]:
  "\<not> Allow (deny_result reason error_type)" "Allow (allow_result reason)"
  "Reason (deny_result reason error_type) = reason" "Reason (allow_result reason) = reason"
  "ErrorType (deny_result reason error_type) = error_type" "ErrorType (allow_result reason) = []"
  by (simp_all add: deny_result_def allow_result_def)

lemma matches_iff: "matches actual required \<longleftrightarrow> labels_include actual required"
proof -
  have "(case x of None \<Rightarrow> False | Some got \<Rightarrow> got = v) \<longleftrightarrow> x = Some v" for x and v :: string
    by (simp split: option.split)
  then show ?thesis
    by (simp add: matches_def labels_include_def fmpred_iff map_get_def)
qed

lemma check_state_None_iff: "check_state op s = None \<longleftrightarrow> state_bound op s"
  by (auto simp: check_state_def state_bound_def)

lemma check_labels_None_iff:
  "check_labels cd p op body s = None \<longleftrightarrow>
     (\<forall>sel. Permission.Selector p = Some sel \<longrightarrow>
        labels_include (SnapshotLabels s) (LabelConstraint.Labels sel)) \<and>
     (\<forall>req. Permission.Request p = Some req \<longrightarrow>
        (\<exists>labels. request_labels cd (OpResource op) body = Inr labels \<and>
                  labels_include labels (LabelConstraint.Labels req)))"
  by (auto simp: check_labels_def matches_iff split: option.splits sum.splits)

lemma check_mutation_Allow_iff:
  "Allow (fst (check_mutation ot cd ctx p body s w)) \<longleftrightarrow>
     (\<forall>m. Permission.Mutation p = Some m \<longrightarrow>
        (\<exists>current new. SnapshotServiceSpec s = Some current \<and>
           Decode (service_decoder cd) body = Inr new \<and>
           confined (set (MutationRule.Only m)) current new))"
  by (auto simp: check_mutation_def Start_def Let_def Validate_confined [symmetric]
      split: option.splits)

lemma deny_not_Allow:
  "check_state op s = Some r \<Longrightarrow> \<not> Allow r"
  "check_labels cd p op body s = Some r \<Longrightarrow> \<not> Allow r"
  by (auto simp: check_state_def check_labels_def split: if_splits option.splits sum.splits)

lemma load_state_cases:
  "fst (load_state inspect ctx p op w) = Inl r \<Longrightarrow> \<not> Allow r"
  "fst (load_state inspect ctx p op w) = Inr s \<longleftrightarrow>
     (if needs_state p then fst (inspect ctx op w) = Inr s \<and> state_bound op s else s = no_snapshot)"
  by (auto simp: load_state_def needs_state_def simp flip: check_state_None_iff
      split: prod.splits sum.splits option.splits if_splits dest: deny_not_Allow)

lemma permission_Allow_iff:
  "Allow (fst (permission ot cd inspect ctx p op body headers w)) \<longleftrightarrow>
     grants_request cd p op body headers (fst (inspect ctx op w))"
proof -
  obtain l w' where l: "load_state inspect ctx p op w = (l, w')" by fastforce
  have "Allow (fst (permission ot cd inspect ctx p op body headers w)) \<longleftrightarrow>
      Unconditional p \<or> (is_service_update op \<longrightarrow> safeUpdate op p headers) \<and>
        (\<exists>s. fst (load_state inspect ctx p op w) = Inr s \<and> check_labels cd p op body s = None \<and>
           Allow (fst (check_mutation ot cd ctx p body s w')))"
    using load_state_cases(1) [of inspect ctx p op w] l
    by (auto simp: permission_def dest: deny_not_Allow split: sum.splits option.splits)
  then show ?thesis
    unfolding load_state_cases(2) check_labels_None_iff check_mutation_Allow_iff
      grants_request_def satisfies_def
    by (cases "needs_state p") (simp_all only: if_True if_False simp_thms, blast+)
qed

text \<open>The world after some permissions have been tried.\<close>

fun tried ::
  "'c otel \<Rightarrow> codecs \<Rightarrow> ('c, 'd) state_reader \<Rightarrow> 'c \<Rightarrow> Operation \<Rightarrow> string \<Rightarrow> string entries \<Rightarrow>
     Permission list \<Rightarrow> 'd world \<Rightarrow> 'd world" where
  "tried ot cd inspect ctx op body headers [] w = w"
| "tried ot cd inspect ctx op body headers (p # ps) w =
     tried ot cd inspect ctx op body headers ps
       (snd (permission ot cd inspect ctx p op body headers w))"

text \<open>
  The loop allows iff one permission, taken alone and in the world that trying the earlier
  ones leaves, grants the request.
\<close>

lemma evaluate_loop_Allow_iff:
  assumes "\<not> Allow result"
  shows "Allow (fst (evaluate_loop ot cd inspect ctx op body headers result ps w)) \<longleftrightarrow>
    (\<exists>pre p post. ps = pre @ p # post \<and>
       grants_request cd p op body headers
         (fst (inspect ctx op (tried ot cd inspect ctx op body headers pre w))))"
  using assms
proof (induction ps arbitrary: result w)
  case Nil
  then show ?case by simp
next
  case (Cons p ps)
  obtain r w' where r: "permission ot cd inspect ctx p op body headers w = (r, w')" by fastforce
  have hd: "Allow r \<longleftrightarrow> grants_request cd p op body headers (fst (inspect ctx op w))"
    using permission_Allow_iff [of ot cd inspect ctx p op body headers w] r by simp
  have split: "(\<exists>pre q post. p # ps = pre @ q # post \<and> P pre q) \<longleftrightarrow>
      P [] p \<or> (\<exists>pre q post. ps = pre @ q # post \<and> P (p # pre) q)" for P
    by (auto simp: Cons_eq_append_conv)
  show ?case
    unfolding split using r hd Cons.IH [of r w'] by (cases "Allow r") auto
qed

lemma Evaluate_Allow_iff:
  "Allow (fst (Evaluate ot cd inspect ctx ps op body headers w)) \<longleftrightarrow>
     (let ctx' = StartSpan ot ctx ''dockauthz.policy.evaluate'' [];
          w0 = emit (SpanStart ''dockauthz.policy.evaluate'' []) w
      in \<exists>pre p post. ps = pre @ p # post \<and>
           grants_request cd p op body headers
             (fst (inspect ctx' op (tried ot cd inspect ctx' op body headers pre w0))))"
  by (simp add: Evaluate_def Start_def Let_def split_beta evaluate_loop_Allow_iff)


section \<open>Evaluation over any reader\<close>

context docker_reader
begin

lemma check_mutation_Log [simp]: "Log (snd (check_mutation ot cd ctx p body s w)) = Log w"
  by (simp add: check_mutation_def Start_def Let_def split: option.splits)

lemma load_state_Log [simp]: "Log (snd (load_state inspect ctx p op w)) = Log w"
  using inspect_Log [of ctx op w]
  by (auto simp: load_state_def split: prod.splits sum.splits option.splits)

lemma permission_Log [simp]: "Log (snd (permission ot cd inspect ctx p op body headers w)) = Log w"
proof -
  obtain l v where l: "load_state inspect ctx p op w = (l, v)" by fastforce
  then have "Log v = Log w" using load_state_Log [of ctx p op w] by (simp del: load_state_Log)
  then show ?thesis by (simp add: permission_def l split: sum.split option.split)
qed

lemma evaluate_loop_Log [simp]:
  "Log (snd (evaluate_loop ot cd inspect ctx op body headers result ps w)) = Log w"
proof (induction ps arbitrary: result w)
  case (Cons p ps)
  then show ?case
    using permission_Log [of ot cd ctx p op body headers w] by (simp add: split_beta Let_def)
qed simp

lemma Evaluate_Log [simp]: "Log (snd (Evaluate ot cd inspect ctx ps op body headers w)) = Log w"
  by (simp add: Evaluate_def Start_def split_beta Let_def)

end

context similar_readers
begin

lemma load_state_similar:
  assumes "R ctx ctx'" and "Daemon w = Daemon w'"
  shows "fst (load_state inspect ctx p op w) = fst (load_state inspect' ctx' p op w') \<and>
    Daemon (snd (load_state inspect ctx p op w)) = Daemon (snd (load_state inspect' ctx' p op w'))"
  using similar [OF assms, of op] assms(2)
  by (auto simp: load_state_def split: prod.splits sum.splits option.splits)

lemma check_mutation_similar:
  assumes "Daemon w = Daemon w'"
  shows "fst (check_mutation ot cd ctx p body s w) = fst (check_mutation ot' cd ctx' p body s w') \<and>
    Daemon (snd (check_mutation ot cd ctx p body s w)) =
    Daemon (snd (check_mutation ot' cd ctx' p body s w'))"
  using assms by (simp add: check_mutation_def Start_def Let_def split: option.split)

lemma permission_similar:
  assumes "R ctx ctx'" and "Daemon w = Daemon w'"
  shows "fst (permission ot cd inspect ctx p op body headers w) =
      fst (permission ot' cd inspect' ctx' p op body headers w') \<and>
    Daemon (snd (permission ot cd inspect ctx p op body headers w)) =
    Daemon (snd (permission ot' cd inspect' ctx' p op body headers w'))"
proof -
  obtain l v where l: "load_state inspect ctx p op w = (l, v)" by fastforce
  obtain l' v' where l': "load_state inspect' ctx' p op w' = (l', v')" by fastforce
  have "l = l'" "Daemon v = Daemon v'" using load_state_similar [OF assms, of p op] l l' by auto
  then show ?thesis
    using assms(2) l l' check_mutation_similar [of v v' cd ctx p body _ ctx']
    by (simp add: permission_def split: sum.split option.split)
qed

lemma evaluate_loop_similar:
  assumes "R ctx ctx'" and "Daemon w = Daemon w'"
  shows "fst (evaluate_loop ot cd inspect ctx op body headers result ps w) =
      fst (evaluate_loop ot' cd inspect' ctx' op body headers result ps w') \<and>
    Daemon (snd (evaluate_loop ot cd inspect ctx op body headers result ps w)) =
    Daemon (snd (evaluate_loop ot' cd inspect' ctx' op body headers result ps w'))"
  using assms(2)
proof (induction ps arbitrary: result w w')
  case (Cons p ps)
  show ?case
    using permission_similar [OF assms(1) Cons.prems, of cd p op body headers]
      Cons.IH [of "snd (permission ot cd inspect ctx p op body headers w)"
        "snd (permission ot' cd inspect' ctx' p op body headers w')"]
    by (simp add: split_beta Let_def)
qed simp

lemma Evaluate_similar:
  assumes "R ctx ctx'" and "Daemon w = Daemon w'"
  shows "fst (Evaluate ot cd inspect ctx ps op body headers w) =
      fst (Evaluate ot' cd inspect' ctx' ps op body headers w') \<and>
    Daemon (snd (Evaluate ot cd inspect ctx ps op body headers w)) =
    Daemon (snd (Evaluate ot' cd inspect' ctx' ps op body headers w'))"
  using evaluate_loop_similar [OF related_start [OF assms(1)],
      of "emit (SpanStart ''dockauthz.policy.evaluate'' []) w"
        "emit (SpanStart ''dockauthz.policy.evaluate'' []) w'"] assms(2)
  by (simp add: Evaluate_def Start_def split_beta Let_def)

end

section \<open>Properties\<close>

text \<open>
  C9: a permission allows a request iff it grants it: it is unconditional, or the update
  options are harmless, the state that was read (when the permission needs any) is the one
  that the request names by its full id and was made for by its version, the labels of the
  resource and of the submitted spec include the required ones, and the submitted spec is
  confined to the fields of the mutation rule. A failed reading grants nothing.
\<close>

theorem permission_exact:
  "Allow (fst (permission ot cd inspect ctx p op body headers w)) \<longleftrightarrow>
     grants_request cd p op body headers (fst (inspect ctx op w))"
  by (rule permission_Allow_iff)

text \<open>
  C18: permissions are never merged. The evaluation allows iff one of the permissions, judged
  alone in the world that trying the earlier ones has left, grants the request.
\<close>

theorem evaluate_exact:
  "Allow (fst (Evaluate ot cd inspect ctx ps op body headers w)) \<longleftrightarrow>
     (let ctx' = StartSpan ot ctx ''dockauthz.policy.evaluate'' [];
          w0 = emit (SpanStart ''dockauthz.policy.evaluate'' []) w
      in \<exists>pre p post. ps = pre @ p # post \<and>
           grants_request cd p op body headers
             (fst (inspect ctx' op (tried ot cd inspect ctx' op body headers pre w0))))"
  by (rule Evaluate_Allow_iff)

text \<open>
  C22: the state is bound to the request exactly. The id is the full id of the resource, and
  for a service update the version parameter is a string of decimal digits whose value, below
  2 to the 64, is the version of the state: no sign, no white space and no wrap-around.
\<close>

theorem state_binding_exact:
  "check_state op s = None \<longleftrightarrow>
     SnapshotID s = OpID op \<and>
     (if is_service_update op
      then query_get (OpQuery op) ''version'' \<noteq> [] \<and>
           list_all is_digit (query_get (OpQuery op) ''version'') \<and>
           digits_value 0 (query_get (OpQuery op) ''version'') < 2 ^ 64 \<and>
           unat (SnapshotVersion s) = digits_value 0 (query_get (OpQuery op) ''version'')
      else True)"
  unfolding check_state_None_iff state_bound_def parse_uint_correct by auto

text \<open>
  C23: the options of a constrained service update. The query has one nonempty decimal version
  and at most \<open>registryAuthFrom=spec\<close> besides, so neither a rollback nor any other option of the
  daemon can ride on a constrained update.
\<close>

theorem safe_update_query:
  assumes "distinct (map fst (OpQuery op))" and "safeUpdate op p headers"
  shows "\<exists>v. v \<noteq> [] \<and> list_all is_digit v \<and>
    mset (OpQuery op) \<in> {{#(''version'', [v])#},
                         {#(''version'', [v]), (''registryAuthFrom'', [''spec''])#}}"
proof -
  obtain v where v: "values_get (OpQuery op) ''version'' = [v]" "v \<noteq> []" "list_all is_digit v"
    using assms(2) by (auto simp: safeUpdate_def safe_version_def split: list.splits)
  have "(''version'', [v]) \<in> set (OpQuery op)"
    using v(1) by (auto simp: values_get_def dest: map_of_SomeD split: option.splits)
  moreover have "e = (''version'', [v]) \<or> e = (''registryAuthFrom'', [''spec''])"
    if "e \<in> set (OpQuery op)" for e
  proof -
    obtain key vs where e: "e = (key, vs)" by (cases e)
    have "safe_option e" using assms(2) that by (simp add: safeUpdate_def list_all_iff)
    moreover have "vs = [v]" if "key = ''version''"
      using map_of_is_SomeI [OF assms(1) \<open>e \<in> set (OpQuery op)\<close> [unfolded e]] v(1) that
      by (simp add: values_get_def)
    ultimately show ?thesis by (auto simp: e safe_option_def)
  qed
  ultimately have "set (OpQuery op) \<in> {{(''version'', [v])},
      {(''version'', [v]), (''registryAuthFrom'', [''spec''])}}"
    by blast
  moreover have "mset (OpQuery op) = mset_set (set (OpQuery op))"
    using assms(1) by (simp add: distinct_map mset_set_set)
  ultimately have "mset (OpQuery op) \<in> {{#(''version'', [v])#},
      {#(''version'', [v]), (''registryAuthFrom'', [''spec''])#}}"
    by (elim insertE) auto
  with v(2,3) show ?thesis by blast
qed

theorem safe_update_query_witness:
  "\<exists>v. v \<noteq> [] \<and> list_all is_digit v \<and>
     mset (OpQuery example_update) \<in> {{#(''version'', [v])#},
       {#(''version'', [v]), (''registryAuthFrom'', [''spec''])#}}"
proof (rule safe_update_query)
  show "distinct (map fst (OpQuery example_update))" by (simp add: example_update_def)
  show "safeUpdate example_update example_grant []" by code_simp
qed

end
