(* ===== verification/Authz.thy ===== *)
theory Authz
  imports Identity Policy
begin

text \<open>
  \<open>internal/authz\<close>: the authorization callbacks of the plugin.

  \<open>Authorize\<close> is split where its deferred function starts: \<open>decide\<close> is the body up to a
  return, with the variables that the deferred function reads as the record \<open>verdict\<close>, and
  \<open>report\<close> is the deferred function.
\<close>

section \<open>The plugin\<close>

record client =
  client_name :: string
  client_permissions :: "Permission entries entries"

record Plugin =
  unidentified :: string
  clients :: "string \<rightharpoonup> client"
  token :: Token

record Response =
  ResponseAllow :: bool
  Msg :: string

text \<open>The loop of \<open>New\<close> over the configured clients.\<close>

fun add_clients :: "(string \<rightharpoonup> client) \<Rightarrow> ClientConfig entries \<Rightarrow> (string \<rightharpoonup> client)" where
  "add_clients m [] = m"
| "add_clients m ((name, c) # rest) =
     add_clients (m(IdentityCommonName c \<mapsto>
       \<lparr>client_name = name, client_permissions = ClientConfig.Permissions c\<rparr>)) rest"

definition New :: "Config \<Rightarrow> Token \<Rightarrow> string + Plugin" where
  "New cfg tok =
     (case validate_config cfg of
        Inl e \<Rightarrow> Inl e
      | Inr cfg \<Rightarrow>
          Inr \<lparr>unidentified = unidentified_of cfg, clients = add_clients Map.empty (Clients cfg),
               token = tok\<rparr>)"


section \<open>Authorize\<close>

definition unknown_operation :: Operation where
  "unknown_operation =
     \<lparr>OpResource = ResourceUnknown, OpAction = ActionUnknown, OpID = [], OpVersion = [], OpQuery = []\<rparr>"

text \<open>The local variables \<open>name\<close>, \<open>cn\<close>, \<open>method\<close>, \<open>op\<close>, \<open>result\<close> and \<open>internal\<close>.\<close>

record verdict =
  v_name :: string
  v_cn :: string
  v_method :: string
  v_op :: Operation
  v_result :: Result
  v_internal :: bool

text \<open>\<open>c.permissions[resource][action]\<close>\<close>

definition lookup_permission :: "Permission entries entries \<Rightarrow> string \<Rightarrow> string \<Rightarrow> Permission option" where
  "lookup_permission ps resource action =
     (case map_of ps resource of None \<Rightarrow> None | Some actions \<Rightarrow> map_of actions action)"

definition full_administrator :: "client \<Rightarrow> bool" where
  "full_administrator c =
     (case lookup_permission (client_permissions c) ''*'' ''*'' of
        None \<Rightarrow> False
      | Some p \<Rightarrow> Unconditional p)"

text \<open>The permissions that match the operation, in the order of the two loops.\<close>

definition matching :: "client \<Rightarrow> Operation \<Rightarrow> Permission list" where
  "matching c op =
     concat (map (\<lambda>resource.
       concat (map (\<lambda>action.
         case lookup_permission (client_permissions c) resource action of
           None \<Rightarrow> [] | Some p \<Rightarrow> [p]) [OpAction op, ''*'']))
       [OpResource op, ''*''])"

definition decide_internal :: "bool \<Rightarrow> Request \<Rightarrow> verdict" where
  "decide_internal valid req =
     (let resolved = Resolve (RequestMethod req) (RequestURI req);
          op = (case resolved of None \<Rightarrow> unknown_operation | Some op \<Rightarrow> op);
          result = (if valid \<and> resolved \<noteq> None \<and> OpAction op = ActionInspect \<and> OpQuery op = []
                    then allow_result ''internal inspect''
                    else deny_result ''invalid internal request'' ''internal'')
      in \<lparr>v_name = ''internal'', v_cn = [], v_method = ''internal'', v_op = op,
          v_result = result, v_internal = True\<rparr>)"

definition decide ::
  "'c otel \<Rightarrow> codecs \<Rightarrow> ('c, 'd) state_reader \<Rightarrow> Plugin \<Rightarrow> 'c \<Rightarrow> Request \<Rightarrow> 'd world \<Rightarrow>
     verdict \<times> 'd world" where
  "decide ot cd inspect p ctx req w =
     (let (present, valid) = Check (token p) (RequestHeaders req) in
      if present then (decide_internal valid req, w)
      else case CommonName req of
        Inl e \<Rightarrow>
          (\<lparr>v_name = ''unknown'', v_cn = [], v_method = ''unknown'', v_op = unknown_operation,
            v_result = deny_result e ''policy'', v_internal = False\<rparr>, w)
      | Inr cn \<Rightarrow>
          if cn = [] then
            (\<lparr>v_name = ''unidentified'', v_cn = cn, v_method = ''none'', v_op = unknown_operation,
              v_result = \<lparr>Allow = (unidentified p = ''allow''), Reason = ''unidentified policy'',
                          ErrorType = []\<rparr>,
              v_internal = False\<rparr>, w)
          else case clients p cn of
            None \<Rightarrow>
              (\<lparr>v_name = ''unknown'', v_cn = cn, v_method = ''TLS'', v_op = unknown_operation,
                v_result = deny_result ''unknown authenticated client'' [], v_internal = False\<rparr>, w)
          | Some c \<Rightarrow>
              if full_administrator c then
                (\<lparr>v_name = client_name c, v_cn = cn, v_method = ''TLS'', v_op = unknown_operation,
                  v_result = allow_result ''full administrator'', v_internal = False\<rparr>, w)
              else case Resolve (RequestMethod req) (RequestURI req) of
                None \<Rightarrow>
                  (\<lparr>v_name = client_name c, v_cn = cn, v_method = ''TLS'', v_op = unknown_operation,
                    v_result = deny_result ''unknown or invalid Docker operation'' ''resolver'',
                    v_internal = False\<rparr>, w)
              | Some op \<Rightarrow>
                  (let (result, w) = Evaluate ot cd inspect ctx (matching c op) op
                         (RequestBody req) (RequestHeaders req) w
                   in (\<lparr>v_name = client_name c, v_cn = cn, v_method = ''TLS'', v_op = op,
                        v_result = result, v_internal = False\<rparr>, w)))"

definition report ::
  "'c otel \<Rightarrow> Observer \<Rightarrow> 'c \<Rightarrow> Request \<Rightarrow> verdict \<Rightarrow> 'd world \<Rightarrow> 'd world" where
  "report ot ob ctx req v w =
     (let op = (if OpResource (v_op v) = ResourceUnknown
                then (case Resolve (RequestMethod req) (RequestURI req) of
                        None \<Rightarrow> v_op v | Some resolved \<Rightarrow> resolved)
                else v_op v);
          result = v_result v;
          decision = (if Allow result then ''allow'' else ''deny'');
          w = SetAttributes ''dockauthz.authorize''
                [(''dockauthz.client'', StringValue (v_name v)),
                 (''dockauthz.identity.auth_method'', StringValue (v_method v)),
                 (''dockauthz.resource'', StringValue (OpResource op)),
                 (''dockauthz.action'', StringValue (OpAction op)),
                 (''dockauthz.decision'', StringValue decision),
                 (''dockauthz.reason'', StringValue (Reason result))] w;
          w = Decision ob decision (v_name v) (OpResource op) (OpAction op) w;
          w = (if ErrorType result \<noteq> [] then Error ob (ErrorType result) w else w);
          w = (if v_internal v then Internal ob decision w else w)
      in InfoContext ot ctx ''authorization decision''
           [(''client'', v_name v), (''identity'', v_cn v), (''resource'', OpResource op),
            (''resource_id'', OpID op), (''action'', OpAction op), (''decision'', decision),
            (''reason'', Reason result)] w)"

definition hasSpanContext :: "'c otel \<Rightarrow> 'c \<Rightarrow> bool" where
  "hasSpanContext ot ctx \<longleftrightarrow> SpanContextFromContext ot ctx \<noteq> None"

definition request_context :: "'c otel \<Rightarrow> 'c \<Rightarrow> Request \<Rightarrow> 'c" where
  "request_context ot ctx req =
     (if hasSpanContext ot ctx then ctx
      else Extract ot ctx (foldl (\<lambda>h (k, v). header_add h k v) [] (RequestHeaders req)))"

definition respond :: "verdict \<Rightarrow> Response" where
  "respond v = \<lparr>ResponseAllow = Allow (v_result v), Msg = Reason (v_result v)\<rparr>"

definition Authorize ::
  "'c otel \<Rightarrow> codecs \<Rightarrow> Observer \<Rightarrow> ('c, 'd) state_reader \<Rightarrow> Plugin \<Rightarrow> 'c \<Rightarrow> Request \<Rightarrow> 'd world \<Rightarrow>
     Response \<times> 'd world" where
  "Authorize ot cd ob inspect p ctx req w =
     (let (ctx, w) = Start ot (request_context ot ctx req) ''dockauthz.authorize'' [] w;
          (v, w) = decide ot cd inspect p ctx req w;
          w = report ot ob ctx req v w
      in (respond v, End ''dockauthz.authorize'' w))"

text \<open>The helper interface calls \<open>Authorize\<close> with the background context.\<close>

definition AuthZReq ::
  "'c otel \<Rightarrow> codecs \<Rightarrow> Observer \<Rightarrow> ('c, 'd) state_reader \<Rightarrow> 'c \<Rightarrow> Plugin \<Rightarrow> Request \<Rightarrow> 'd world \<Rightarrow>
     Response \<times> 'd world" where
  "AuthZReq ot cd ob inspect background p req w = Authorize ot cd ob inspect p background req w"

definition AuthZRes :: "Request \<Rightarrow> Response" where
  "AuthZRes req = \<lparr>ResponseAllow = True, Msg = []\<rparr>"


section \<open>What the plugin permits\<close>

text \<open>
  The specification of a decision. A request with an internal token header, in any spelling,
  is judged by the token alone; one without any authentication by the configured policy; any
  other must be authenticated as a configured client that is a full administrator or has one
  permission, for the resolved operation, that grants the request on its own.
\<close>

definition authorize_context :: "'c otel \<Rightarrow> 'c \<Rightarrow> Request \<Rightarrow> 'c" where
  "authorize_context ot ctx req =
     StartSpan ot (StartSpan ot (request_context ot ctx req) ''dockauthz.authorize'' [])
       ''dockauthz.policy.evaluate'' []"

definition authorize_world :: "'d world \<Rightarrow> 'd world" where
  "authorize_world w =
     emit (SpanStart ''dockauthz.policy.evaluate'' []) (emit (SpanStart ''dockauthz.authorize'' []) w)"

definition internal_inspect :: "Token \<Rightarrow> Request \<Rightarrow> bool" where
  "internal_inspect tok req \<longleftrightarrow>
     token_values (RequestHeaders req) = [TokenValue tok] \<and>
     (\<exists>op. Resolve (RequestMethod req) (RequestURI req) = Some op \<and>
           OpAction op = ActionInspect \<and> OpQuery op = [])"

definition client_permits ::
  "'c otel \<Rightarrow> codecs \<Rightarrow> ('c, 'd) state_reader \<Rightarrow> client \<Rightarrow> 'c \<Rightarrow> Request \<Rightarrow> 'd world \<Rightarrow> bool" where
  "client_permits ot cd inspect c ctx req w \<longleftrightarrow>
     full_administrator c \<or>
     (\<exists>op pre p post.
        Resolve (RequestMethod req) (RequestURI req) = Some op \<and>
        matching c op = pre @ p # post \<and>
        grants_request cd p op (RequestBody req) (RequestHeaders req)
          (fst (inspect ctx op
             (tried ot cd inspect ctx op (RequestBody req) (RequestHeaders req) pre w))))"

definition permitted ::
  "'c otel \<Rightarrow> codecs \<Rightarrow> ('c, 'd) state_reader \<Rightarrow> Plugin \<Rightarrow> 'c \<Rightarrow> Request \<Rightarrow> 'd world \<Rightarrow> bool" where
  "permitted ot cd inspect p ctx req w \<longleftrightarrow>
     (if token_values (RequestHeaders req) \<noteq> [] then internal_inspect (token p) req
      else if anonymous req then unidentified p = ''allow''
      else \<exists>cn c. authenticated_as req cn \<and> clients p cn = Some c \<and>
             client_permits ot cd inspect c ctx req w)"

lemma decide_internal_Allow_iff:
  "Allow (v_result (decide_internal valid req)) \<longleftrightarrow>
     valid \<and> (\<exists>op. Resolve (RequestMethod req) (RequestURI req) = Some op \<and>
                 OpAction op = ActionInspect \<and> OpQuery op = [])"
  by (auto simp: decide_internal_def Let_def split: option.splits)

lemma authenticated_as_unique: "authenticated_as req cn \<Longrightarrow> authenticated_as req cn' \<Longrightarrow> cn = cn'"
  by (auto simp: authenticated_as_def)

lemma not_authenticated_if_CommonName_Inl: "CommonName req = Inl e \<Longrightarrow> \<not> authenticated_as req cn"
  using CommonName_Inr_iff [of cn req] by (auto simp: authenticated_as_def)

lemma decide_Allow_iff:
  "Allow (v_result (fst (decide ot cd inspect p
       (StartSpan ot (request_context ot ctx req) ''dockauthz.authorize'' []) req
       (emit (SpanStart ''dockauthz.authorize'' []) w)))) \<longleftrightarrow>
   permitted ot cd inspect p (authorize_context ot ctx req) req (authorize_world w)"
proof (cases "token_values (RequestHeaders req) = []")
  case False
  then show ?thesis
    by (simp add: decide_def Check_values permitted_def internal_inspect_def decide_internal_Allow_iff)
next
  case tok: True
  show ?thesis
  proof (cases "CommonName req")
    case (Inl e)
    then have "\<not> anonymous req" using CommonName_anonymous_iff [of req] by simp
    then show ?thesis
      using tok Inl not_authenticated_if_CommonName_Inl [OF Inl]
      by (simp add: decide_def Check_values permitted_def)
  next
    case (Inr cn)
    show ?thesis
    proof (cases "cn = []")
      case True
      then show ?thesis
        using tok Inr CommonName_anonymous_iff [of req]
        by (simp add: decide_def Check_values permitted_def)
    next
      case False
      then have auth: "authenticated_as req cn" "\<not> anonymous req"
        using Inr CommonName_Inr_iff [of cn req] CommonName_anonymous_iff [of req] by auto
      then have "permitted ot cd inspect p ctx' req w' \<longleftrightarrow>
          (\<exists>c. clients p cn = Some c \<and> client_permits ot cd inspect c ctx' req w')" for ctx' w'
        using tok authenticated_as_unique by (auto simp: permitted_def)
      then show ?thesis
        using tok Inr False
        by (auto simp: decide_def Check_values client_permits_def authorize_context_def
            authorize_world_def Evaluate_Allow_iff Let_def split_beta split: option.splits)
    qed
  qed
qed

lemma Authorize_Allow_iff:
  "ResponseAllow (fst (Authorize ot cd ob inspect p ctx req w)) \<longleftrightarrow>
     permitted ot cd inspect p (authorize_context ot ctx req) req (authorize_world w)"
  by (simp add: Authorize_def Start_def split_beta Let_def respond_def decide_Allow_iff)

lemma matching_iff:
  "q \<in> set (matching c op) \<longleftrightarrow>
     (\<exists>r \<in> {OpResource op, ''*''}. \<exists>a \<in> {OpAction op, ''*''}.
        lookup_permission (client_permissions c) r a = Some q)"
  by (auto simp: matching_def split: option.splits)

lemma report_Daemon [simp]: "Daemon (report ot ob ctx req v w) = Daemon w"
  by (simp add: report_def Let_def)

text \<open>The operation that the audit record names.\<close>

definition reported_operation :: "Request \<Rightarrow> verdict \<Rightarrow> Operation" where
  "reported_operation req v =
     (if OpResource (v_op v) = ResourceUnknown
      then (case Resolve (RequestMethod req) (RequestURI req) of
              None \<Rightarrow> v_op v | Some resolved \<Rightarrow> resolved)
      else v_op v)"

definition audit_attrs :: "Request \<Rightarrow> verdict \<Rightarrow> (string \<times> string) list" where
  "audit_attrs req v =
     [(''client'', v_name v), (''identity'', v_cn v),
      (''resource'', OpResource (reported_operation req v)),
      (''resource_id'', OpID (reported_operation req v)),
      (''action'', OpAction (reported_operation req v)),
      (''decision'', if Allow (v_result v) then ''allow'' else ''deny''),
      (''reason'', Reason (v_result v))]"

definition audit_record :: "'c otel \<Rightarrow> 'c \<Rightarrow> Request \<Rightarrow> verdict \<Rightarrow> slog_record" where
  "audit_record ot ctx req v = info_record ot ctx ''authorization decision'' (audit_attrs req v)"

lemma report_Log:
  "Log (report ot ob ctx req v w) = Log w @ [audit_record ot ctx req v]"
  by (simp add: report_def Let_def audit_record_def audit_attrs_def reported_operation_def)


text \<open>The operation of a record is one that the request resolves to, or unknown.\<close>

lemma decide_operation:
  "v_op (fst (decide ot cd inspect p ctx req w)) = unknown_operation \<or>
   Resolve (RequestMethod req) (RequestURI req) = Some (v_op (fst (decide ot cd inspect p ctx req w)))"
  by (auto simp: decide_def decide_internal_def Let_def split_beta split: sum.split option.split)

lemma reported_operation_wf:
  assumes "v_op v = unknown_operation \<or> Resolve (RequestMethod req) (RequestURI req) = Some (v_op v)"
  shows "reported_operation req v = unknown_operation \<or> wf_operation (reported_operation req v)"
  using assms by (auto simp: reported_operation_def Resolve_iff split: option.split)


section \<open>Decisions over any reader\<close>

context docker_reader
begin

lemma decide_Log [simp]: "Log (snd (decide ot cd inspect p ctx req w)) = Log w"
  by (simp add: decide_def split_beta Let_def split: sum.split option.split)

lemma Authorize_Log_operation:
  "\<exists>v ctx'. Log (snd (Authorize ot cd ob inspect p ctx req w)) = Log w @ [audit_record ot ctx' req v] \<and>
     (v_op v = unknown_operation \<or> Resolve (RequestMethod req) (RequestURI req) = Some (v_op v))"
  by (simp add: Authorize_def Start_def split_beta Let_def report_Log)
    (rule exI, rule conjI, rule exI, rule refl, rule decide_operation)

lemma Authorize_Log:
  "\<exists>v ctx'. fst (Authorize ot cd ob inspect p ctx req w) = respond v \<and>
     Log (snd (Authorize ot cd ob inspect p ctx req w)) = Log w @ [audit_record ot ctx' req v]"
  by (simp add: Authorize_def Start_def split_beta Let_def report_Log) blast

end

context similar_readers
begin

lemma decide_similar:
  assumes "R ctx ctx'" and "Daemon w = Daemon w'"
  shows "fst (decide ot cd inspect p ctx req w) = fst (decide ot' cd inspect' p ctx' req w') \<and>
    Daemon (snd (decide ot cd inspect p ctx req w)) =
    Daemon (snd (decide ot' cd inspect' p ctx' req w'))"
  using Evaluate_similar [OF assms] assms(2)
  by (simp add: decide_def split_beta Let_def split: sum.split option.split)

lemma Authorize_similar:
  assumes "R (request_context ot ctx req) (request_context ot' ctx' req)" and "Daemon w = Daemon w'"
  shows "fst (Authorize ot cd ob inspect p ctx req w) = fst (Authorize ot' cd ob' inspect' p ctx' req w') \<and>
    Daemon (snd (Authorize ot cd ob inspect p ctx req w)) =
    Daemon (snd (Authorize ot' cd ob' inspect' p ctx' req w'))"
proof -
  have started: "R (StartSpan ot (request_context ot ctx req) ''dockauthz.authorize'' [])
      (StartSpan ot' (request_context ot' ctx' req) ''dockauthz.authorize'' [])"
    using assms(1) by (rule related_start)
  have "Daemon (emit (SpanStart ''dockauthz.authorize'' []) w) =
      Daemon (emit (SpanStart ''dockauthz.authorize'' []) w')"
    using assms(2) by simp
  from decide_similar [OF started this] show ?thesis
    by (simp add: Authorize_def Start_def split_beta Let_def)
qed

end


section \<open>Requests that never reach the daemon\<close>

text \<open>Permissions that need no state are decided without reading any.\<close>

lemma load_state_stateless: "\<not> needs_state p \<Longrightarrow> load_state inspect ctx p op w = (Inr no_snapshot, w)"
  by (simp add: load_state_def needs_state_def)

lemma permission_stateless_Daemon:
  "\<not> needs_state p \<Longrightarrow> Daemon (snd (permission ot cd inspect ctx p op body headers w)) = Daemon w"
  by (simp add: permission_def load_state_stateless check_mutation_def needs_state_def
      split: option.split)

lemma evaluate_loop_stateless_Daemon:
  "\<forall>p \<in> set ps. \<not> needs_state p \<Longrightarrow>
   Daemon (snd (evaluate_loop ot cd inspect ctx op body headers result ps w)) = Daemon w"
  by (induction ps arbitrary: result w) (simp_all add: split_beta Let_def permission_stateless_Daemon)

definition needs_no_state :: "Plugin \<Rightarrow> Request \<Rightarrow> bool" where
  "needs_no_state p req \<longleftrightarrow>
     token_values (RequestHeaders req) \<noteq> [] \<or>
     (\<forall>cn c op q.
        authenticated_as req cn \<longrightarrow> clients p cn = Some c \<longrightarrow> \<not> full_administrator c \<longrightarrow>
        Resolve (RequestMethod req) (RequestURI req) = Some op \<longrightarrow> q \<in> set (matching c op) \<longrightarrow>
        \<not> needs_state q)"

lemma decide_Daemon:
  assumes "needs_no_state p req"
  shows "Daemon (snd (decide ot cd inspect p ctx req w)) = Daemon w"
proof (cases "token_values (RequestHeaders req) = []")
  case tok: True
  have "Daemon (snd (Evaluate ot cd inspect ctx (matching c op) op body headers w)) = Daemon w"
    if "CommonName req = Inr cn" "cn \<noteq> []" "clients p cn = Some c" "\<not> full_administrator c"
      "Resolve (RequestMethod req) (RequestURI req) = Some op" for cn c op body headers
    using assms tok that CommonName_Inr_iff [OF that(2), of req]
    unfolding needs_no_state_def
    by (simp add: Evaluate_def Start_def split_beta Let_def evaluate_loop_stateless_Daemon)
  then show ?thesis
    using tok by (auto simp: decide_def Check_values split_beta Let_def split: sum.split option.split)
qed (simp add: decide_def Check_values)

lemma Authorize_Daemon:
  assumes "needs_no_state p req"
  shows "Daemon (snd (Authorize ot cd ob inspect p ctx req w)) = Daemon w"
  by (simp add: Authorize_def Start_def split_beta Let_def decide_Daemon [OF assms])


section \<open>Plugins made from a configuration\<close>

definition client_entry :: "string \<times> ClientConfig \<Rightarrow> string \<times> client" where
  "client_entry entry =
     (IdentityCommonName (snd entry),
      \<lparr>client_name = fst entry, client_permissions = ClientConfig.Permissions (snd entry)\<rparr>)"

lemma add_clients_map_of:
  "distinct (common_names cs) \<Longrightarrow> add_clients m cs = m ++ map_of (map client_entry cs)"
proof (induction cs arbitrary: m)
  case (Cons entry rest)
  obtain name c where entry: "entry = (name, c)" by (cases entry)
  let ?v = "\<lparr>client_name = name, client_permissions = ClientConfig.Permissions c\<rparr>"
  have "IdentityCommonName c \<notin> dom (map_of (map client_entry rest))"
    using Cons.prems
    by (auto simp: entry common_names_def dom_map_of_conv_image_fst client_entry_def image_iff split_beta)
  then have "m(IdentityCommonName c \<mapsto> ?v) ++ map_of (map client_entry rest) =
      m ++ (map_of (map client_entry rest))(IdentityCommonName c \<mapsto> ?v)"
    by (metis map_add_upd map_add_upd_left)
  moreover have "distinct (common_names rest)" using Cons.prems by (simp add: common_names_def)
  ultimately show ?case
    using Cons.IH [of "m(IdentityCommonName c \<mapsto> ?v)"]
    unfolding entry add_clients.simps list.map map_of.simps client_entry_def fst_conv snd_conv by metis
qed simp

definition plugin_of :: "Config \<Rightarrow> Token \<Rightarrow> Plugin" where
  "plugin_of cfg tok =
     \<lparr>unidentified = unidentified_of cfg,
      clients = map_of (map client_entry (Clients cfg)),
      token = tok\<rparr>"

lemma New_Inr_iff: "New cfg tok = Inr p \<longleftrightarrow> config_ok cfg \<and> p = plugin_of cfg tok"
proof -
  have "New cfg tok = Inr p \<longleftrightarrow> config_ok cfg \<and>
      p = \<lparr>unidentified = unidentified_of cfg, clients = add_clients Map.empty (Clients cfg), token = tok\<rparr>"
    by (auto simp: New_def bind_Inr_iff validate_config_Inr_iff)
  then show ?thesis
    by (auto simp: plugin_of_def config_ok_def add_clients_map_of)
qed

lemma plugin_client:
  assumes "clients (plugin_of cfg tok) cn = Some c"
  shows "\<exists>client. (client_name c, client) \<in> set (Clients cfg) \<and> IdentityCommonName client = cn \<and>
    client_permissions c = ClientConfig.Permissions client"
proof -
  have "(cn, c) \<in> client_entry ` set (Clients cfg)"
    using assms by (auto simp: plugin_of_def dest: map_of_SomeD)
  then show ?thesis by (auto simp: client_entry_def)
qed

lemma lookup_permission_grant:
  "lookup_permission (ClientConfig.Permissions client) r a = Some q \<Longrightarrow> (r, a, q) \<in> grants client"
  by (auto simp: lookup_permission_def grants_def dest!: map_of_SomeD split: option.splits)

text \<open>Every permission that a configured client holds has passed the checks of the document.\<close>

lemma plugin_matching_ok:
  assumes "config_ok cfg" and "clients (plugin_of cfg tok) cn = Some c" and "q \<in> set (matching c op)"
  shows "\<exists>r \<in> {OpResource op, ''*''}. \<exists>a \<in> {OpAction op, ''*''}. grant_ok r a q"
proof -
  obtain client where client: "(client_name c, client) \<in> set (Clients cfg)"
    "client_permissions c = ClientConfig.Permissions client"
    using plugin_client [OF assms(2)] by blast
  obtain r a where ra: "r \<in> {OpResource op, ''*''}" "a \<in> {OpAction op, ''*''}"
    "lookup_permission (client_permissions c) r a = Some q"
    using assms(3) unfolding matching_iff by blast
  have "grant_ok r a q"
    using client_ok_grant [OF config_ok_client [OF assms(1) client(1)]]
      lookup_permission_grant ra(3) client(2) by simp
  then show ?thesis using ra(1,2) by blast
qed

section \<open>Messages\<close>

lemma restore_fields_message:
  "restore_fields current new fs = Inl e \<Longrightarrow> e \<noteq> ''unsupported request constraint''"
  by (induction current new fs rule: restore_fields.induct)
    (auto simp: restore_field_def split: if_splits option.splits sum.splits prod.splits)

lemma Validate_message: "Mutation.Validate dec current body fs = Some e \<Longrightarrow> e \<noteq> ''unsupported request constraint''"
  by (auto simp: Mutation.Validate_def dest: Decode_Inl_redacted restore_fields_message
      split: sum.splits if_splits)

lemma check_mutation_message:
  "Reason (fst (check_mutation ot cd ctx q body s w)) \<noteq> ''unsupported request constraint''"
  by (auto simp: check_mutation_def Let_def split_beta dest: Validate_message split: option.splits)

lemma request_labels_message:
  "request_labels cd resource body = Inl e \<Longrightarrow> resource = ResourceService \<or> resource = ResourceSecret \<Longrightarrow>
   e \<noteq> ''unsupported request constraint''"
  by (auto simp: request_labels_def dest: Decode_Inl_redacted split: sum.splits if_splits)

lemma check_labels_message:
  assumes "Permission.Request q \<noteq> None \<Longrightarrow>
      OpResource op = ResourceService \<or> OpResource op = ResourceSecret"
    and "check_labels cd q op body s = Some r"
  shows "Reason r \<noteq> ''unsupported request constraint''"
  using assms
  by (auto simp: check_labels_def dest: request_labels_message split: if_splits option.splits sum.splits)

lemma load_state_message:
  "fst (load_state inspect ctx q op w) = Inl r \<Longrightarrow> Reason r \<noteq> ''unsupported request constraint''"
  by (auto simp: load_state_def check_state_def split: if_splits prod.splits sum.splits option.splits)

lemma permission_message:
  assumes "Permission.Request q \<noteq> None \<Longrightarrow>
      OpResource op = ResourceService \<or> OpResource op = ResourceSecret"
  shows "Reason (fst (permission ot cd inspect ctx q op body headers w)) \<noteq> ''unsupported request constraint''"
proof -
  obtain l w' where l: "load_state inspect ctx q op w = (l, w')" by fastforce
  show ?thesis
    using load_state_message [of inspect ctx q op w] l check_labels_message [OF assms]
    by (auto simp: permission_def check_mutation_message split: sum.splits option.splits)
qed

lemma evaluate_loop_message:
  assumes "\<forall>q \<in> set ps. Permission.Request q \<noteq> None \<longrightarrow>
      OpResource op = ResourceService \<or> OpResource op = ResourceSecret"
    and "Reason result \<noteq> ''unsupported request constraint''"
  shows "Reason (fst (evaluate_loop ot cd inspect ctx op body headers result ps w)) \<noteq>
      ''unsupported request constraint''"
  using assms
proof (induction ps arbitrary: result w)
  case (Cons q ps)
  have "Reason (fst (permission ot cd inspect ctx q op body headers w)) \<noteq> ''unsupported request constraint''"
    using Cons.prems(1) by (intro permission_message) simp
  moreover have "\<forall>q \<in> set ps. Permission.Request q \<noteq> None \<longrightarrow>
      OpResource op = ResourceService \<or> OpResource op = ResourceSecret"
    using Cons.prems(1) by simp
  ultimately show ?case
    using Cons.IH by (simp add: split_beta Let_def)
qed simp

lemma matching_request_resource:
  assumes "config_ok cfg" and "clients (plugin_of cfg tok) cn = Some c" and "wf_operation op"
    and "q \<in> set (matching c op)" and "Permission.Request q \<noteq> None"
  shows "OpResource op = ResourceService \<or> OpResource op = ResourceSecret"
proof -
  obtain r a where a: "a \<in> {OpAction op, ''*''}" "grant_ok r a q"
    using plugin_matching_ok [OF assms(1,2,4)] by blast
  then have "OpAction op = ''create'' \<or> OpAction op = ''update''"
    using grant_ok_request [OF a(2) assms(5)] by auto
  then show ?thesis using assms(3) by (auto simp: wf_operation_def Supports_def split: if_splits)
qed

lemma CommonName_message: "CommonName req = Inl e \<Longrightarrow> e \<noteq> ''unsupported request constraint''"
  by (auto simp: CommonName_def Let_def split: if_splits list.splits option.splits)


section \<open>Concrete instances\<close>

definition example_request :: "string \<Rightarrow> string entries \<Rightarrow> string \<Rightarrow> Request" where
  "example_request uri headers cn =
     \<lparr>Request.User = [], UserAuthNMethod = ''TLS'', RequestMethod = ''GET'', RequestURI = uri,
      RequestBody = [], RequestHeaders = headers,
      RequestPeerCertificates = [Some \<lparr>SubjectCommonName = cn\<rparr>]\<rparr>"

definition example_plugin :: Plugin where
  "example_plugin =
     \<lparr>unidentified = ''allow'',
      clients = [''ci.example'' \<mapsto> \<lparr>client_name = ''ci'',
        client_permissions = [(''service'', [(''list'', example_grant)])]\<rparr>],
      token = \<lparr>TokenValue = ''s3cret''\<rparr>\<rparr>"

abbreviation example_inspect :: "(unit, int) state_reader" where
  "example_inspect \<equiv> Inspect no_otel example_codecs example_client_of"

text \<open>A telemetry set-up that numbers its contexts and writes a trace header.\<close>

definition example_otel :: "int otel" where
  "example_otel =
     \<lparr>SpanContextFromContext = (\<lambda>n. if n = 0 then None else Some (''trace'', ''span'')),
      StartSpan = (\<lambda>n _ _. n + 1), Extract = (\<lambda>n _. n),
      Inject = (\<lambda>_ h. header_set h ''traceparent'' ''00-trace-span-01'')\<rparr>"

lemma example_config_accepted: "config_ok (example_config [example_ci, example_ops])"
proof -
  have "validate_config (example_config [example_ci, example_ops]) =
      Inr (config_defaults (example_config [example_ci, example_ops]))"
    by code_simp
  then show ?thesis by (simp add: validate_config_Inr_iff)
qed

lemma example_ignores:
  "ignores_trace_headers no_otel (RoundTrip example_client_of)"
  "ignores_trace_headers example_otel (RoundTrip example_client_of)"
  by (simp_all add: ignores_trace_headers_def example_client_of_def)


section \<open>Properties\<close>

text \<open>
  C1: the decision, exactly. The plugin allows a request iff it is permitted: a request with
  an internal token header by its token and being a plain inspection, a request without any
  authentication by the configured policy, and any other request by being authenticated as a
  configured client that is a full administrator or holds one matching permission that grants
  the resolved operation on its own.
\<close>

theorem authorize_exact:
  "ResponseAllow (fst (Authorize ot cd ob inspect p ctx req w)) \<longleftrightarrow>
     permitted ot cd inspect p (authorize_context ot ctx req) req (authorize_world w)"
  by (rule Authorize_Allow_iff)

text \<open>
  An authenticated client that is not configured is denied, whatever the policy for
  unidentified requests is, and without any request to the daemon.
\<close>

theorem unknown_client_denied:
  assumes "token_values (RequestHeaders req) = []" and "authenticated_as req cn" and "clients p cn = None"
  shows "fst (Authorize ot cd ob inspect p ctx req w) =
      \<lparr>ResponseAllow = False, Msg = ''unknown authenticated client''\<rparr> \<and>
    Daemon (snd (Authorize ot cd ob inspect p ctx req w)) = Daemon w"
proof -
  have "cn \<noteq> []" using assms(2) by (simp add: authenticated_as_def)
  then have "CommonName req = Inr cn" using assms(2) CommonName_Inr_iff by blast
  then show ?thesis
    using assms \<open>cn \<noteq> []\<close>
    by (simp add: Authorize_def Start_def decide_def Check_values respond_def)
qed

theorem unknown_client_denied_witness:
  "fst (Authorize no_otel example_codecs NewObserver example_inspect example_plugin ()
       (example_request ''/services'' [] ''mallory'') example_world) =
     \<lparr>ResponseAllow = False, Msg = ''unknown authenticated client''\<rparr> \<and>
   Daemon (snd (Authorize no_otel example_codecs NewObserver example_inspect example_plugin ()
       (example_request ''/services'' [] ''mallory'') example_world)) = Daemon example_world"
  by (rule unknown_client_denied [where cn = "''mallory''"])
    (simp_all add: token_values_def example_request_def authenticated_as_def example_plugin_def)

text \<open>
  C10: a request that carries the internal header in any spelling is judged by the token
  alone. It never falls back to a client's permissions or to the policy for unidentified
  requests, it never reaches the daemon, and it is allowed only with exactly one such header,
  with the right token, on an inspection without a query.
\<close>

theorem internal_requests_isolated:
  assumes "token_values (RequestHeaders req) \<noteq> []"
  shows "(ResponseAllow (fst (Authorize ot cd ob inspect p ctx req w)) \<longleftrightarrow>
      token_values (RequestHeaders req) = [TokenValue (token p)] \<and>
      (\<exists>op. Resolve (RequestMethod req) (RequestURI req) = Some op \<and>
            OpAction op = ActionInspect \<and> OpQuery op = [])) \<and>
    Daemon (snd (Authorize ot cd ob inspect p ctx req w)) = Daemon w"
proof -
  have "needs_no_state p req" using assms by (simp add: needs_no_state_def)
  then show ?thesis
    using assms by (simp add: Authorize_Allow_iff permitted_def internal_inspect_def Authorize_Daemon)
qed

theorem internal_requests_isolated_witness:
  "\<not> ResponseAllow (fst (Authorize no_otel example_codecs NewObserver example_inspect example_plugin ()
       (example_request ''/services'' [(''x-dockauthz-internal-token'', ''guess'')] ''ci.example'')
       example_world))"
proof -
  have "token_values (RequestHeaders (example_request ''/services''
      [(''x-dockauthz-internal-token'', ''guess'')] ''ci.example'')) = [''guess'']"
    by code_simp
  then show ?thesis
    by (subst internal_requests_isolated [THEN conjunct1]) (simp_all add: example_plugin_def)
qed

text \<open>
  What happens to the headers of a request on their way through the daemon. The propagator adds
  trace headers only; the daemon hands the plugin the last value of every header that it
  received, apart from credentials, which are the sent ones and some of the HTTP transport.
\<close>

definition internal_headers :: "http_header \<Rightarrow> http_header" where
  "internal_headers h = filter (\<lambda>(key, _). equal_fold key InternalHeader) h"

definition keeps_internal_headers :: "'c otel \<Rightarrow> bool" where
  "keeps_internal_headers ot \<longleftrightarrow> (\<forall>ctx h. internal_headers (Inject ot ctx h) = internal_headers h)"

definition flat_headers :: "http_header \<Rightarrow> string entries" where
  "flat_headers h =
     map (\<lambda>(key, vs). (key, last vs)) (filter (\<lambda>(key, vs). vs \<noteq> [] \<and> \<not> equal_fold key ''Authorization'') h)"

definition relayed :: "http_header \<Rightarrow> string entries \<Rightarrow> bool" where
  "relayed sent headers \<longleftrightarrow>
     (\<exists>others. mset headers = mset (flat_headers (sent @ others)) \<and> internal_headers others = [])"

lemma equal_fold_trans: "equal_fold a b \<Longrightarrow> equal_fold a c \<Longrightarrow> equal_fold b c"
  by (simp add: equal_fold_def)

lemma token_values_flat:
  "token_values (flat_headers h) = map (\<lambda>(key, vs). last vs) (filter (\<lambda>(key, vs). vs \<noteq> []) (internal_headers h))"
proof -
  have "\<not> equal_fold InternalHeader ''Authorization''" by code_simp
  then have "\<not> equal_fold key ''Authorization''" if "equal_fold key InternalHeader" for key
    using that equal_fold_trans by blast
  then show ?thesis
    by (induction h) (auto simp: token_values_def flat_headers_def internal_headers_def)
qed

text \<open>The token of the sent request reaches the plugin as the only internal header.\<close>

lemma relayed_token:
  assumes "relayed sent headers" and "internal_headers sent = [(key, [v])]"
  shows "token_values headers = [v]"
proof -
  obtain others where o: "mset headers = mset (flat_headers (sent @ others))" "internal_headers others = []"
    using assms(1) by (auto simp: relayed_def)
  have "token_values (flat_headers (sent @ others)) = [v]"
    using assms(2) o(2) by (simp add: token_values_flat) (simp add: internal_headers_def)
  then show ?thesis using token_values_mset [OF o(1)] by simp
qed

lemma sent_token:
  assumes "keeps_internal_headers ot"
  shows "internal_headers (ReqHeader (the_inspect_request ot tok ctx op)) = [(InternalHeader, [TokenValue tok])]"
proof -
  have "CanonicalHeaderKey InternalHeader = InternalHeader" "equal_fold InternalHeader InternalHeader"
    by code_simp+
  then show ?thesis
    using assms by (simp add: the_inspect_request_def keeps_internal_headers_def header_set_def)
      (simp add: internal_headers_def)
qed

text \<open>
  C11: the plugin's own lookups cannot recurse. When the daemon hands the plugin the request
  that \<open>Inspect\<close> has sent for an operation, with the method, the URL and the headers that were
  sent, the plugin recognises its token in these headers and allows the request without a
  further request to the daemon.
\<close>

theorem inspect_recursion_safe:
  assumes "wf_operation op" and "individual op"
    and "inspect_request ot (token p) ctx op = Inr sent" and "keeps_internal_headers ot"
    and "RequestMethod req = ReqMethod sent" and "''http://docker'' @ RequestURI req = ReqURL sent"
    and "relayed (ReqHeader sent) (RequestHeaders req)"
  shows "ResponseAllow (fst (Authorize ot' cd ob inspect p ctx' req w)) \<and>
    Daemon (snd (Authorize ot' cd ob inspect p ctx' req w)) = Daemon w"
proof -
  have sent: "sent = the_inspect_request ot (token p) ctx op"
    using assms(3) inspect_request_individual [OF assms(1,2), of ot "token p" ctx] by simp
  have "Resolve (RequestMethod req) (RequestURI req) = Some (inspection_of op)"
    using assms(5,6) inspect_resolves [OF assms(1,2)] by (simp add: sent the_inspect_request_def)
  moreover have tok: "token_values (RequestHeaders req) = [TokenValue (token p)]"
    using relayed_token [OF assms(7)] sent_token [OF assms(4)] sent by blast
  moreover have "needs_no_state p req" using tok by (simp add: needs_no_state_def)
  ultimately show ?thesis
    by (simp add: Authorize_Allow_iff permitted_def internal_inspect_def Authorize_Daemon)
      (simp add: inspection_of_def)
qed

theorem inspect_recursion_safe_witness:
  "ResponseAllow (fst (Authorize example_otel example_codecs NewObserver (\<lambda>ctx op w. (Inl [], w))
       example_plugin 0
       (example_request ''/v1.44/services/abc''
          [(''User-Agent'', ''Go-http-client/1.1''), (''X-Dockauthz-Internal-Token'', ''s3cret'')] [])
       example_world))"
proof (rule inspect_recursion_safe [OF example_update_wf inspect_request_individual
      [OF example_update_wf, of no_otel "token example_plugin" "()"], THEN conjunct1])
  show "keeps_internal_headers no_otel" by (simp add: keeps_internal_headers_def no_otel_def)
  have "mset [(''User-Agent'', ''Go-http-client/1.1''), (''X-Dockauthz-Internal-Token'', ''s3cret'')] =
      mset (flat_headers (ReqHeader (the_inspect_request no_otel (token example_plugin) () example_update)
        @ [(''User-Agent'', [''Go-http-client/1.1''])]))"
    by code_simp
  moreover have "internal_headers [(''User-Agent'', [''Go-http-client/1.1''])] = []" by code_simp
  ultimately show "relayed (ReqHeader (the_inspect_request no_otel (token example_plugin) () example_update))
      (RequestHeaders (example_request ''/v1.44/services/abc''
        [(''User-Agent'', ''Go-http-client/1.1''), (''X-Dockauthz-Internal-Token'', ''s3cret'')] []))"
    unfolding relayed_def by (auto simp: example_request_def)
qed (simp_all add: example_request_def the_inspect_request_def inspect_path_def example_update_def)

text \<open>
  Every decision leaves exactly one audit record, after all earlier ones, and it states
  the decision and the reason of the response.
\<close>

theorem audit_exactly_one:
  "\<exists>r. Log (snd (Authorize ot cd ob (Inspect ot cd c) p ctx req w)) = Log w @ [r] \<and>
     Message r = ''authorization decision'' \<and>
     map_of (LogAttrs r) ''decision'' =
       Some (if ResponseAllow (fst (Authorize ot cd ob (Inspect ot cd c) p ctx req w))
             then ''allow'' else ''deny'') \<and>
     map_of (LogAttrs r) ''reason'' =
       Some (Msg (fst (Authorize ot cd ob (Inspect ot cd c) p ctx req w)))"
proof -
  obtain v ctx' where v: "fst (Authorize ot cd ob (Inspect ot cd c) p ctx req w) = respond v"
    "Log (snd (Authorize ot cd ob (Inspect ot cd c) p ctx req w)) = Log w @ [audit_record ot ctx' req v]"
    using docker.Authorize_Log [where ot = ot and c = c and ctx = ctx and w = w] by blast
  show ?thesis
    unfolding v by (simp add: respond_def audit_record_def audit_attrs_def)
qed

text \<open>
  C34: what a record says about the operation is well-formed. Its resource, action and id are
  those of an operation that Docker has, with an id of letters, digits and a few separators,
  or all unknown: a request cannot put text of its own choice there.
\<close>

theorem audit_operation_typed:
  "\<exists>r op. Log (snd (Authorize ot cd ob (Inspect ot cd c) p ctx req w)) = Log w @ [r] \<and>
     (op = unknown_operation \<or> wf_operation op) \<and>
     map_of (LogAttrs r) ''resource'' = Some (OpResource op) \<and>
     map_of (LogAttrs r) ''action'' = Some (OpAction op) \<and>
     map_of (LogAttrs r) ''resource_id'' = Some (OpID op)"
proof -
  obtain v ctx' where v: "Log (snd (Authorize ot cd ob (Inspect ot cd c) p ctx req w)) =
      Log w @ [audit_record ot ctx' req v]"
    "v_op v = unknown_operation \<or> Resolve (RequestMethod req) (RequestURI req) = Some (v_op v)"
    using docker.Authorize_Log_operation [where ot = ot and c = c and ctx = ctx and w = w] by blast
  show ?thesis
    using reported_operation_wf [OF v(2)] unfolding v(1)
    by (intro exI [of _ "audit_record ot ctx' req v"] exI [of _ "reported_operation req v"])
      (simp add: audit_record_def audit_attrs_def)
qed

text \<open>
  C21: observability cannot change a decision. With a daemon that ignores trace headers, two
  plugins that differ in their telemetry set-up, their trace context and the logs so far give
  the same response and leave the daemon in the same state.
\<close>

theorem telemetry_independent:
  assumes "ignores_trace_headers ot (RoundTrip c)" and "ignores_trace_headers ot' (RoundTrip c)"
    and "Daemon w = Daemon w'"
  shows "fst (Authorize ot cd ob (Inspect ot cd c) p ctx req w) =
      fst (Authorize ot' cd ob' (Inspect ot' cd c) p ctx' req w') \<and>
    Daemon (snd (Authorize ot cd ob (Inspect ot cd c) p ctx req w)) =
      Daemon (snd (Authorize ot' cd ob' (Inspect ot' cd c) p ctx' req w'))"
proof -
  have "similar_readers (\<lambda>_ _. True) ot ot' (Inspect ot cd c) (Inspect ot' cd c)"
    using assms(1,2) by (rule similar_inspect) simp_all
  from similar_readers.Authorize_similar [OF this _ assms(3)] show ?thesis by simp
qed

theorem telemetry_independent_witness:
  "fst (Authorize no_otel example_codecs NewObserver example_inspect example_plugin ()
       (example_request ''/services'' [] ''ci.example'') example_world) =
   fst (Authorize example_otel example_codecs NewObserver
       (Inspect example_otel example_codecs example_client_of) example_plugin 0
       (example_request ''/services'' [] ''ci.example'') (End ''earlier'' example_world))"
  by (rule telemetry_independent [OF example_ignores, THEN conjunct1]) simp

text \<open>
  The plugin is built exactly from the accepted documents, and finds for a common name
  the client that the document configures for it, whatever the order of the clients.
\<close>

theorem new_plugin_exact:
  "New cfg tok = Inr p \<longleftrightarrow> config_ok cfg \<and> p = plugin_of cfg tok"
  by (rule New_Inr_iff)

text \<open>
  The daemon is asked only for permissions that need its state. A request for which every
  matching permission of the client is without selector and mutation rule is decided without
  any request to the daemon.
\<close>

theorem daemon_untouched:
  assumes "needs_no_state p req"
  shows "Daemon (snd (Authorize ot cd ob inspect p ctx req w)) = Daemon w"
  using assms by (rule Authorize_Daemon)

theorem daemon_untouched_witness:
  "Daemon (snd (Authorize no_otel example_codecs NewObserver example_inspect example_plugin ()
     (example_request ''/services'' [] ''ci.example'') example_world)) = Daemon example_world"
proof (rule daemon_untouched)
  show "needs_no_state example_plugin (example_request ''/services'' [] ''ci.example'')"
    by (auto simp: needs_no_state_def example_plugin_def matching_iff lookup_permission_def
        needs_state_def example_grant_def split: if_splits)
qed

text \<open>
  Validated documents rule out the unsupported request constraint. A plugin made from an
  accepted document never answers with that message.
\<close>

theorem request_constraints_supported:
  assumes "New cfg tok = Inr p"
  shows "Msg (fst (Authorize ot cd ob inspect p ctx req w)) \<noteq> ''unsupported request constraint''"
proof -
  have ok: "config_ok cfg" "p = plugin_of cfg tok" using assms by (simp_all add: New_Inr_iff)
  have "Reason (fst (Evaluate ot cd inspect ctx (matching c op) op body headers w)) \<noteq>
      ''unsupported request constraint''"
    if "clients p cn = Some c" "Resolve (RequestMethod req) (RequestURI req) = Some op"
    for cn c op body headers ctx w
  proof -
    have "wf_operation op" using that(2) by (simp add: Resolve_iff)
    then have "\<forall>q \<in> set (matching c op). Permission.Request q \<noteq> None \<longrightarrow>
        OpResource op = ResourceService \<or> OpResource op = ResourceSecret"
      using matching_request_resource [OF ok(1)] that(1) ok(2) by blast
    then show ?thesis
      by (simp add: Evaluate_def Start_def split_beta Let_def) (rule evaluate_loop_message, auto)
  qed
  then show ?thesis
    by (auto simp: Authorize_def Start_def decide_def decide_internal_def respond_def split_beta Let_def
        dest: CommonName_message split: sum.split option.split)
qed

theorem request_constraints_supported_witness:
  "Msg (fst (Authorize no_otel example_codecs NewObserver example_inspect
       (plugin_of (example_config [example_ci, example_ops]) \<lparr>TokenValue = ''s3cret''\<rparr>) ()
       (example_request ''/services'' [] ''ci.example'') example_world))
     \<noteq> ''unsupported request constraint''"
  by (rule request_constraints_supported [of "example_config [example_ci, example_ops]"])
    (simp add: New_Inr_iff example_config_accepted)

end
