(* ===== verification/Steps.thy ===== *)
theory Steps
  imports Main
begin

text \<open>
  The interface between a step relation and the predicates that its steps keep. The lifecycle of
  the server and the concurrent error handler of the telemetry interpret it with their
  invariants.
\<close>

locale stable_predicate =
  fixes step :: "'s \<Rightarrow> 's \<Rightarrow> bool" and holds :: "'s \<Rightarrow> bool"
  assumes stable: "step s s' \<Longrightarrow> holds s \<Longrightarrow> holds s'"
begin

lemma stable_steps: "step\<^sup>*\<^sup>* s s' \<Longrightarrow> holds s \<Longrightarrow> holds s'"
  by (induction rule: rtranclp_induct) (auto intro: stable)

lemma stable_run:
  assumes "\<And>i. step (run i) (run (Suc i))" and "i \<le> j" and "holds (run i)"
  shows "holds (run j)"
  using assms(2,3) by (induction rule: dec_induct) (auto intro: stable assms(1))

end

text \<open>A predicate that holds initially as well is an invariant of the reachable states.\<close>

locale invariant_predicate = stable_predicate +
  fixes start :: 's
  assumes initial: "holds start"
begin

lemma invariant: "step\<^sup>*\<^sup>* start s \<Longrightarrow> holds s"
  using stable_steps initial by blast

lemma invariant_run:
  assumes "run 0 = start" and "\<And>i. step (run i) (run (Suc i))"
  shows "holds (run i)"
  using stable_run [of run 0 i] assms initial by simp

end

end
