(* ===== verification/Transport.thy ===== *)
theory Transport
  imports Authz Steps
begin

text \<open>
  \<open>internal/transport\<close>: the HTTP adapter around the plugin, and the life cycle of its Unix
  socket server.

  Parameters are the JSON decoding of the envelope and of one certificate wrapper, the PEM
  decoding and the parsing of a certificate. The JSON encoding of a response is left out: a
  reply carries the response itself.
\<close>

section \<open>The HTTP adapter\<close>

definition maxEnvelopeSize :: nat where
  "maxEnvelopeSize = 16777216"

record wire =
  WireRequest :: Request
  Peer :: "string list"

record pem_block =
  BlockType :: string
  BlockBytes :: string

text \<open>
  \<open>decode_wire\<close> is \<open>d.Decode(&wire)\<close> with unknown fields disallowed: \<open>None\<close> for an error,
  otherwise the envelope (\<open>None\<close> for a JSON null) and the rest of the input.
\<close>

record codec_libs =
  decode_wire :: "string \<Rightarrow> (wire option \<times> string) option"
  unmarshal_bytes :: "string \<Rightarrow> string option"
  pem_decode :: "string \<Rightarrow> pem_block option \<times> string"
  parse_certificate :: "string \<Rightarrow> PeerCertificate option"

record incoming =
  InMethod :: string
  InPath :: string
  InHeader :: http_header
  InBody :: reader

record reply =
  Status :: int
  JsonContent :: bool
  Reply :: "Response option"

definition invalid_envelope :: Response where
  "invalid_envelope = \<lparr>ResponseAllow = False, Msg = ''invalid authorization envelope''\<rparr>"

definition deny_reply :: "int \<Rightarrow> reply" where
  "deny_reply status = \<lparr>Status = status, JsonContent = True, Reply = Some invalid_envelope\<rparr>"

abbreviation (input) "AuthZApiRequest \<equiv> ''AuthZPlugin.AuthZReq''"
abbreviation (input) "AuthZApiResponse \<equiv> ''AuthZPlugin.AuthZRes''"

text \<open>
  The two \<open>Decode\<close> calls on the limited body. A body beyond the limit, or one whose reading
  fails, is an error for the first call or keeps the second from reporting the end.
\<close>

definition read_wire :: "codec_libs \<Rightarrow> reader \<Rightarrow> wire option" where
  "read_wire libs body =
     (if ReaderFails body \<or> length (ReaderBytes body) > maxEnvelopeSize then None
      else case decode_wire libs (ReaderBytes body) of
          None \<Rightarrow> None
        | Some (wire, rest) \<Rightarrow>
            (case wire of
               None \<Rightarrow> None
             | Some e \<Rightarrow> if \<not> at_eof rest \<or> length (Peer e) > 16 then None else Some e))"

definition peer_certificate :: "codec_libs \<Rightarrow> string \<Rightarrow> PeerCertificate option" where
  "peer_certificate libs raw =
     (case unmarshal_bytes libs raw of
        None \<Rightarrow> None
      | Some certPEM \<Rightarrow>
          let (block, rest) = pem_decode libs certPEM in
          (case block of
             None \<Rightarrow> None
           | Some b \<Rightarrow>
               if BlockType b \<noteq> ''CERTIFICATE'' \<or> rest \<noteq> [] then None
               else parse_certificate libs (BlockBytes b)))"

fun add_peers :: "codec_libs \<Rightarrow> Request \<Rightarrow> string list \<Rightarrow> Request option" where
  "add_peers libs req [] = Some req"
| "add_peers libs req (raw # rest) =
     (case peer_certificate libs raw of
        None \<Rightarrow> None
      | Some cert \<Rightarrow>
          add_peers libs (req\<lparr>RequestPeerCertificates := RequestPeerCertificates req @ [Some cert]\<rparr>) rest)"

text \<open>The envelope of the callback on \<open>path\<close>, or \<open>None\<close> where the adapter denies.\<close>

definition accept_envelope :: "codec_libs \<Rightarrow> string \<Rightarrow> reader \<Rightarrow> Request option" where
  "accept_envelope libs path body =
     (case read_wire libs body of
        None \<Rightarrow> None
      | Some e \<Rightarrow>
          if path = ''/'' @ AuthZApiRequest \<and>
             (RequestMethod (WireRequest e) = [] \<or> RequestURI (WireRequest e) = [])
          then None
          else add_peers libs (WireRequest e) (Peer e))"

text \<open>The adapter holds the plugin and the channel \<open>ready\<close>, which has room for one server.\<close>

record ('p, 's) Server =
  server_plugin :: 'p
  server_ready :: "'s option"

definition New :: "'p \<Rightarrow> ('p, 's) Server" where
  "New p = \<lparr>server_plugin = p, server_ready = None\<rparr>"

text \<open>
  \<open>ServeHTTP\<close> after the readiness check. \<open>authorize\<close> is the plugin's \<open>Authorize\<close>, \<open>ctx\<close> the context
  of the request.
\<close>

definition serve_callback ::
  "'c otel \<Rightarrow> codec_libs \<Rightarrow> ('c \<Rightarrow> Request \<Rightarrow> 'd world \<Rightarrow> Response \<times> 'd world) \<Rightarrow> 'c \<Rightarrow> incoming \<Rightarrow>
     'd world \<Rightarrow> reply \<times> 'd world" where
  "serve_callback ot libs authorize ctx r w =
     (if InMethod r \<noteq> ''POST'' \<or>
         (InPath r \<noteq> ''/'' @ AuthZApiRequest \<and> InPath r \<noteq> ''/'' @ AuthZApiResponse)
      then (deny_reply 404, w)
      else case accept_envelope libs (InPath r) (InBody r) of
          None \<Rightarrow> (deny_reply 200, w)
        | Some req \<Rightarrow>
            let (response, w) =
              (if InPath r = ''/'' @ AuthZApiRequest
               then authorize (Extract ot ctx (InHeader r)) req w
               else (AuthZRes req, w))
            in (\<lparr>Status = 200, JsonContent = True, Reply = Some response\<rparr>, w))"

text \<open>
  The readiness request puts the server of its context into the channel \<open>ready\<close>, which has
  room for one, unless it is full.
\<close>

definition offer_ready :: "'s option \<Rightarrow> 's option \<Rightarrow> 's option" where
  "offer_ready server ready =
     (case server of
        None \<Rightarrow> ready
      | Some server \<Rightarrow> (case ready of None \<Rightarrow> Some server | Some other \<Rightarrow> Some other))"

definition is_readiness :: "incoming \<Rightarrow> bool" where
  "is_readiness r \<longleftrightarrow> InPath r = ''/dockauthz.ready'' \<and> InMethod r = ''GET''"

definition ServeHTTP ::
  "'c otel \<Rightarrow> codec_libs \<Rightarrow> ('c \<Rightarrow> Request \<Rightarrow> 'd world \<Rightarrow> Response \<times> 'd world) \<Rightarrow>
     ('c \<Rightarrow> 's option) \<Rightarrow> 'c \<Rightarrow> incoming \<Rightarrow> 's option \<times> 'd world \<Rightarrow> reply \<times> 's option \<times> 'd world" where
  "ServeHTTP ot libs authorize server_of ctx r s =
     (let (ready, w) = s in
      if is_readiness r
      then (\<lparr>Status = 204, JsonContent = False, Reply = None\<rparr>,
            offer_ready (server_of ctx) ready, w)
      else let (answer, w) = serve_callback ot libs authorize ctx r w in (answer, ready, w))"


section \<open>What the adapter lets through\<close>

definition peers_of :: "codec_libs \<Rightarrow> string list \<Rightarrow> PeerCertificate list option" where
  "peers_of libs raws = those (map (peer_certificate libs) raws)"

lemma peer_certificate_Some_iff:
  "peer_certificate libs raw = Some cert \<longleftrightarrow>
     (\<exists>certPEM block. unmarshal_bytes libs raw = Some certPEM \<and> pem_decode libs certPEM = (Some block, []) \<and>
        BlockType block = ''CERTIFICATE'' \<and> parse_certificate libs (BlockBytes block) = Some cert)"
  by (auto simp: peer_certificate_def split: option.splits prod.splits)

lemma peers_of_Some_iff:
  "peers_of libs raws = Some certs \<longleftrightarrow> list_all2 (\<lambda>raw cert. peer_certificate libs raw = Some cert) raws certs"
  by (induction raws arbitrary: certs) (auto simp: peers_of_def list_all2_Cons1 split: option.splits)

lemma add_peers_conv:
  "add_peers libs req raws =
     map_option (\<lambda>certs. req\<lparr>RequestPeerCertificates := RequestPeerCertificates req @ map Some certs\<rparr>)
       (peers_of libs raws)"
proof (induction libs req raws rule: add_peers.induct)
  case (1 libs req)
  then show ?case by (cases req) (simp add: peers_of_def)
next
  case (2 libs req raw rest)
  then show ?case
    by (cases "peer_certificate libs raw")
      (simp_all add: peers_of_def option.map_comp comp_def)
qed

text \<open>Only the request callback needs the operation.\<close>

definition names_operation :: "string \<Rightarrow> Request \<Rightarrow> bool" where
  "names_operation path req \<longleftrightarrow>
     path = ''/'' @ AuthZApiRequest \<longrightarrow> RequestMethod req \<noteq> [] \<and> RequestURI req \<noteq> []"

lemma names_operation_iff:
  "names_operation path req \<longleftrightarrow>
     \<not> (path = ''/AuthZPlugin.AuthZReq'' \<and> (RequestMethod req = [] \<or> RequestURI req = []))"
  by (auto simp: names_operation_def)

lemma accept_envelope_iff:
  "accept_envelope libs path body = Some req \<longleftrightarrow>
     \<not> ReaderFails body \<and> length (ReaderBytes body) \<le> maxEnvelopeSize \<and>
     (\<exists>e rest certs. decode_wire libs (ReaderBytes body) = Some (Some e, rest) \<and> at_eof rest \<and>
        length (Peer e) \<le> 16 \<and>
        names_operation path (WireRequest e) \<and> peers_of libs (Peer e) = Some certs \<and>
        req = (WireRequest e)\<lparr>RequestPeerCertificates :=
                 RequestPeerCertificates (WireRequest e) @ map Some certs\<rparr>)"
proof -
  have read: "read_wire libs body = Some e \<longleftrightarrow>
      \<not> ReaderFails body \<and> length (ReaderBytes body) \<le> maxEnvelopeSize \<and>
      (\<exists>rest. decode_wire libs (ReaderBytes body) = Some (Some e, rest) \<and> at_eof rest \<and> length (Peer e) \<le> 16)"
    for e
    by (auto simp: read_wire_def split: option.splits)
  have add: "add_peers libs r raws = Some req \<longleftrightarrow>
      (\<exists>certs. peers_of libs raws = Some certs \<and>
         req = r\<lparr>RequestPeerCertificates := RequestPeerCertificates r @ map Some certs\<rparr>)" for r raws
    by (auto simp: add_peers_conv)
  have "accept_envelope libs path body = Some req \<longleftrightarrow>
      (\<exists>e. read_wire libs body = Some e \<and>
         \<not> (path = ''/'' @ AuthZApiRequest \<and>
            (RequestMethod (WireRequest e) = [] \<or> RequestURI (WireRequest e) = [])) \<and>
         add_peers libs (WireRequest e) (Peer e) = Some req)"
    unfolding accept_envelope_def by (cases "read_wire libs body") (simp_all, blast)
  then show ?thesis unfolding read add names_operation_def by blast
qed



section \<open>The life cycle of the socket server\<close>

text \<open>
  \<open>ServeUnix\<close> as a state machine. The shared part of the state is what its \<open>select\<close> statements
  look at: the channel \<open>done\<close> with the result of the helper's server (\<open>ServeUnix\<close> of the plugin
  helper, which runs in its own goroutine and returns once), the channel \<open>ready\<close>, and whether
  the context is cancelled and the start-up timer has fired. \<open>stopped\<close> are the servers that were
  shut down or closed. The environment moves on its own (\<open>environment_step\<close>); where several cases
  of a \<open>select\<close> are ready, each of them is a step of the function (\<open>serve_step\<close>). The ticker case
  of the first loop sends a readiness request to the socket, which changes nothing in the
  function itself: what it causes is the environment's \<open>readiness_request\<close>, with the effect that
  \<open>ServeHTTP\<close> has on the channel. The construction of that request, from constants, cannot fail.
\<close>

definition ErrServerClosed :: string where
  "ErrServerClosed = ''http: Server closed''"

datatype 's phase =
    Waiting
  | Serving 's
  | Stopping 's
  | Draining 's
  | Returned error

record 's lifecycle =
  phase :: "'s phase"
  helper_returned :: bool
  done_chan :: "error option"
  ready_chan :: "'s option"
  cancelled :: bool
  timed_out :: bool
  stopped :: "'s set"

definition lifecycle_start :: "'s lifecycle" where
  "lifecycle_start =
     \<lparr>phase = Waiting, helper_returned = False, done_chan = None, ready_chan = None,
      cancelled = False, timed_out = False, stopped = {}\<rparr>"

inductive environment_step :: "'s lifecycle \<Rightarrow> 's lifecycle \<Rightarrow> bool" where
  helper_returns: "\<not> helper_returned s \<Longrightarrow>
     environment_step s (s\<lparr>helper_returned := True, done_chan := Some err\<rparr>)"
| cancel: "environment_step s (s\<lparr>cancelled := True\<rparr>)"
| timer_fires: "environment_step s (s\<lparr>timed_out := True\<rparr>)"
| readiness_request: "environment_step s (s\<lparr>ready_chan := offer_ready (Some server) (ready_chan s)\<rparr>)"

inductive serve_step :: "'s lifecycle \<Rightarrow> 's lifecycle \<Rightarrow> bool" where
  wait_done: "phase s = Waiting \<Longrightarrow> done_chan s = Some err \<Longrightarrow>
     serve_step s (s\<lparr>phase := Returned err, done_chan := None\<rparr>)"
| wait_cancelled: "phase s = Waiting \<Longrightarrow> cancelled s \<Longrightarrow>
     serve_step s (s\<lparr>phase := Returned None\<rparr>)"
| wait_timeout: "phase s = Waiting \<Longrightarrow> timed_out s \<Longrightarrow>
     serve_step s (s\<lparr>phase := Returned (Some ''plugin socket startup timed out'')\<rparr>)"
| wait_ready: "phase s = Waiting \<Longrightarrow> ready_chan s = Some server \<Longrightarrow>
     serve_step s (s\<lparr>phase := Serving server, ready_chan := None\<rparr>)"
| serve_done: "phase s = Serving server \<Longrightarrow> done_chan s = Some err \<Longrightarrow>
     serve_step s (s\<lparr>phase := Returned err, done_chan := None\<rparr>)"
| serve_cancelled: "phase s = Serving server \<Longrightarrow> cancelled s \<Longrightarrow>
     serve_step s (s\<lparr>phase := Stopping server\<rparr>)"
| shutdown_fails: "phase s = Stopping server \<Longrightarrow>
     serve_step s (s\<lparr>phase := Returned (Some ''plugin shutdown timed out''),
                    stopped := insert server (stopped s)\<rparr>)"
| shutdown_succeeds: "phase s = Stopping server \<Longrightarrow>
     serve_step s (s\<lparr>phase := Draining server, stopped := insert server (stopped s)\<rparr>)"
| drained: "phase s = Draining server \<Longrightarrow> done_chan s = Some err \<Longrightarrow>
     serve_step s (s\<lparr>phase := Returned (if err = Some ErrServerClosed then None else err),
                    done_chan := None\<rparr>)"

inductive_cases serve_stepE: "serve_step s s'"
inductive_cases environment_stepE: "environment_step s s'"

definition lifecycle_step :: "'s lifecycle \<Rightarrow> 's lifecycle \<Rightarrow> bool" where
  "lifecycle_step s s' \<longleftrightarrow> environment_step s s' \<or> serve_step s s'"

definition lifecycle_reachable :: "'s lifecycle \<Rightarrow> bool" where
  "lifecycle_reachable s \<longleftrightarrow> lifecycle_step\<^sup>*\<^sup>* lifecycle_start s"

text \<open>
  The invariant: a pending result means that the helper has returned; a server that is being
  drained has been stopped; and the function has returned without an error only after the
  context was cancelled or the helper had returned.
\<close>

definition lifecycle_inv :: "'s lifecycle \<Rightarrow> bool" where
  "lifecycle_inv s \<longleftrightarrow>
     (done_chan s \<noteq> None \<longrightarrow> helper_returned s) \<and>
     (case phase s of
        Waiting \<Rightarrow> stopped s = {}
      | Serving server \<Rightarrow> stopped s = {}
      | Stopping server \<Rightarrow> cancelled s \<and> stopped s = {}
      | Draining server \<Rightarrow> cancelled s \<and> stopped s = {server}
      | Returned err \<Rightarrow>
          (err = None \<longrightarrow> cancelled s \<or> helper_returned s) \<and>
          (stopped s \<noteq> {} \<longrightarrow> cancelled s))"

lemma lifecycle_inv_start: "lifecycle_inv lifecycle_start"
  by (simp add: lifecycle_inv_def lifecycle_start_def)

lemma lifecycle_inv_step: "lifecycle_step s s' \<Longrightarrow> lifecycle_inv s \<Longrightarrow> lifecycle_inv s'"
  unfolding lifecycle_step_def
  by (elim disjE environment_stepE serve_stepE)
    (auto simp: lifecycle_inv_def split: phase.splits)

interpretation lifecycle: invariant_predicate lifecycle_step lifecycle_inv lifecycle_start
  by unfold_locales (rule lifecycle_inv_step, assumption+, rule lifecycle_inv_start)

lemma lifecycle_inv_reachable: "lifecycle_reachable s \<Longrightarrow> lifecycle_inv s"
  unfolding lifecycle_reachable_def by (rule lifecycle.invariant)

text \<open>A server that was taken over is served until it is stopped or the helper has returned.\<close>

definition attended :: "'s \<Rightarrow> 's lifecycle \<Rightarrow> bool" where
  "attended server s \<longleftrightarrow> lifecycle_inv s \<and>
     (phase s = Serving server \<or> phase s = Stopping server \<or> server \<in> stopped s \<or> helper_returned s)"

interpretation served: stable_predicate lifecycle_step "attended server" for server
proof
  fix s s'
  assume step: "lifecycle_step s s'" and "attended server s"
  then show "attended server s'"
    using lifecycle_inv_step [OF step] unfolding lifecycle_step_def attended_def
    by (elim conjE disjE environment_stepE serve_stepE) (auto simp: lifecycle_inv_def)
qed

text \<open>A readiness request that \<open>ServeHTTP\<close> answers is a step of the environment.\<close>

lemma ServeHTTP_readiness_step:
  assumes "is_readiness r" and "server_of ctx = Some server"
  shows "environment_step s
    (s\<lparr>ready_chan := fst (snd (ServeHTTP ot libs authorize server_of ctx r (ready_chan s, w)))\<rparr>)"
  using environment_step.readiness_request [of s server] assms by (simp add: ServeHTTP_def)


section \<open>Progress\<close>

text \<open>Every step of the function moves it closer to its return; the environment cannot move it.\<close>

definition phase_rank :: "'s phase \<Rightarrow> nat" where
  "phase_rank p =
     (case p of Waiting \<Rightarrow> 4 | Serving _ \<Rightarrow> 3 | Stopping _ \<Rightarrow> 2 | Draining _ \<Rightarrow> 1 | Returned _ \<Rightarrow> 0)"

lemma serve_step_rank: "serve_step s s' \<Longrightarrow> phase_rank (phase s') < phase_rank (phase s)"
  by (elim serve_stepE) (simp_all add: phase_rank_def)

lemma environment_step_phase: "environment_step s s' \<Longrightarrow> phase s' = phase s"
  by (elim environment_stepE) simp_all

lemma lifecycle_step_rank: "lifecycle_step s s' \<Longrightarrow> phase_rank (phase s') \<le> phase_rank (phase s)"
  unfolding lifecycle_step_def using serve_step_rank environment_step_phase by fastforce

lemma lifecycle_step_monotone:
  assumes "lifecycle_step s s'"
  shows "cancelled s \<Longrightarrow> cancelled s'" and "helper_returned s \<Longrightarrow> helper_returned s'"
  using assms unfolding lifecycle_step_def by (auto elim!: environment_stepE serve_stepE)

text \<open>Until the function returns, the result of the helper waits in the channel.\<close>

definition result_kept :: "'s lifecycle \<Rightarrow> bool" where
  "result_kept s \<longleftrightarrow> phase_rank (phase s) > 0 \<longrightarrow> helper_returned s \<longrightarrow> done_chan s \<noteq> None"

lemma result_kept_step: "lifecycle_step s s' \<Longrightarrow> result_kept s \<Longrightarrow> result_kept s'"
  unfolding lifecycle_step_def result_kept_def
  by (elim disjE environment_stepE serve_stepE) (auto simp: phase_rank_def)

text \<open>Progress: once cancelled, only a helper that has not returned can hold the function up.\<close>

lemma serve_progress:
  assumes "cancelled s" and "lifecycle_inv s" and "result_kept s" and "phase_rank (phase s) > 0"
    and "stopped s \<noteq> {} \<Longrightarrow> helper_returned s"
  shows "\<exists>s'. serve_step s s'"
proof (cases "phase s")
  case (Draining server)
  then have "helper_returned s" using assms(2,5) by (simp add: lifecycle_inv_def)
  then obtain err where "done_chan s = Some err" using assms(3,4) by (auto simp: result_kept_def)
  from serve_step.drained [OF Draining this] show ?thesis by (rule exI)
qed (use assms(1,4) in \<open>auto simp: phase_rank_def intro: serve_step.intros\<close>)

text \<open>An infinite run in which neither the function nor the environment stalls.\<close>

definition lifecycle_run :: "(nat \<Rightarrow> 's lifecycle) \<Rightarrow> bool" where
  "lifecycle_run run \<longleftrightarrow> run 0 = lifecycle_start \<and> (\<forall>i. lifecycle_step (run i) (run (Suc i)))"

definition fair :: "(nat \<Rightarrow> 's lifecycle) \<Rightarrow> bool" where
  "fair run \<longleftrightarrow> (\<forall>i. (\<forall>j \<ge> i. \<exists>s'. serve_step (run j) s') \<longrightarrow> (\<exists>j \<ge> i. serve_step (run j) (run (Suc j))))"

text \<open>What the helper promises: it returns once its server has been shut down or closed.\<close>

definition helper_stops :: "(nat \<Rightarrow> 's lifecycle) \<Rightarrow> bool" where
  "helper_stops run \<longleftrightarrow> (\<forall>i. stopped (run i) \<noteq> {} \<longrightarrow> (\<exists>j \<ge> i. helper_returned (run j)))"

interpretation kept: invariant_predicate lifecycle_step result_kept lifecycle_start
  by unfold_locales (rule result_kept_step, assumption+, simp add: result_kept_def lifecycle_start_def)

interpretation stays_cancelled: stable_predicate lifecycle_step cancelled
  by unfold_locales (rule lifecycle_step_monotone(1))

interpretation stays_returned: stable_predicate lifecycle_step helper_returned
  by unfold_locales (rule lifecycle_step_monotone(2))

interpretation rank_bound: stable_predicate lifecycle_step "\<lambda>s. phase_rank (phase s) \<le> n" for n
  by unfold_locales (meson lifecycle_step_rank order_trans)

lemma run_steps: "lifecycle_run run \<Longrightarrow> lifecycle_step (run i) (run (Suc i))"
  by (simp add: lifecycle_run_def)

lemma run_inv:
  assumes "lifecycle_run run"
  shows "lifecycle_inv (run i)" and "result_kept (run i)"
  using assms lifecycle.invariant_run [of run] kept.invariant_run [of run] by (simp_all add: lifecycle_run_def)

lemma run_monotone:
  assumes "lifecycle_run run" and "i \<le> j"
  shows "cancelled (run i) \<Longrightarrow> cancelled (run j)"
    and "helper_returned (run i) \<Longrightarrow> helper_returned (run j)"
    and "phase_rank (phase (run j)) \<le> phase_rank (phase (run i))"
proof -
  note step = run_steps [OF assms(1)]
  show "cancelled (run i) \<Longrightarrow> cancelled (run j)"
    using stays_cancelled.stable_run [of run i j] step assms(2) by simp
  show "helper_returned (run i) \<Longrightarrow> helper_returned (run j)"
    using stays_returned.stable_run [of run i j] step assms(2) by simp
  show "phase_rank (phase (run j)) \<le> phase_rank (phase (run i))"
    using rank_bound.stable_run [of run i j] step assms(2) by simp
qed

lemma run_returns:
  assumes "lifecycle_run run" and "fair run" and "helper_stops run" and "cancelled (run i)"
  shows "\<exists>j \<ge> i. phase_rank (phase (run j)) = 0"
  using assms(4)
proof (induction "phase_rank (phase (run i))" arbitrary: i rule: less_induct)
  case less
  show ?case
  proof (cases "\<exists>j \<ge> i. phase_rank (phase (run j)) < phase_rank (phase (run i))")
    case True
    then obtain j where j: "j \<ge> i" "phase_rank (phase (run j)) < phase_rank (phase (run i))" by blast
    then have "cancelled (run j)" using run_monotone(1) [OF assms(1) j(1)] less.prems by simp
    from less.hyps [OF j(2) this] show ?thesis using j(1) order_trans by blast
  next
    case stuck: False
    have same: "phase_rank (phase (run j)) = phase_rank (phase (run i))" if "j \<ge> i" for j
      using stuck that run_monotone(3) [OF assms(1) that] by fastforce
    show ?thesis
    proof (rule ccontr)
      assume not_returned: "\<not> ?thesis"
      obtain k where k: "k \<ge> i" "\<forall>j \<ge> k. stopped (run j) \<noteq> {} \<longrightarrow> helper_returned (run j)"
      proof (cases "\<exists>j \<ge> i. stopped (run j) \<noteq> {}")
        case True
        then obtain j where "j \<ge> i" "\<exists>k \<ge> j. helper_returned (run k)"
          using assms(3) unfolding helper_stops_def by blast
        then show ?thesis using that run_monotone(2) [OF assms(1)] order_trans by meson
      qed (use that in blast)
      have "\<exists>s'. serve_step (run j) s'" if "j \<ge> k" for j
        using serve_progress [of "run j"] run_inv [OF assms(1), of j] k that
          run_monotone(1) [OF assms(1), of i j] less.prems not_returned
        by (meson gr0I order_trans)
      then obtain j where "j \<ge> k" "serve_step (run j) (run (Suc j))"
        using assms(2) unfolding fair_def by blast
      then show False
        using serve_step_rank [of "run j" "run (Suc j)"] same [of j] same [of "Suc j"] k(1) by simp
    qed
  qed
qed

lemma phase_rank_0_iff: "phase_rank p = 0 \<longleftrightarrow> (\<exists>err. p = Returned err)"
  by (cases p) (simp_all add: phase_rank_def)


lemma lifecycle_stepI:
  "environment_step s s' \<Longrightarrow> lifecycle_step s s'"
  "serve_step s s' \<Longrightarrow> lifecycle_step s s'"
  by (simp_all add: lifecycle_step_def)

lemma example_serving: "lifecycle_reachable (lifecycle_start\<lparr>phase := Serving (7::int)\<rparr>)"
proof -
  have "lifecycle_step lifecycle_start (lifecycle_start\<lparr>ready_chan := Some (7::int)\<rparr>)"
    using environment_step.readiness_request [of lifecycle_start "7::int"]
    by (simp add: lifecycle_step_def lifecycle_start_def offer_ready_def)
  moreover have "lifecycle_step (lifecycle_start\<lparr>ready_chan := Some (7::int)\<rparr>)
      ((lifecycle_start\<lparr>ready_chan := Some 7\<rparr>)\<lparr>phase := Serving 7, ready_chan := None\<rparr>)"
    by (intro lifecycle_stepI serve_step.wait_ready) (simp_all add: lifecycle_start_def)
  ultimately show ?thesis
    unfolding lifecycle_reachable_def
    by (simp add: lifecycle_start_def converse_rtranclp_into_rtranclp)
qed

definition example_stopped :: "int lifecycle" where
  "example_stopped =
     lifecycle_start\<lparr>phase := Returned (Some ''plugin shutdown timed out''), cancelled := True, stopped := {7}\<rparr>"

lemma example_stopped_reached:
  "lifecycle_step\<^sup>*\<^sup>* (lifecycle_start\<lparr>phase := Serving 7\<rparr>) example_stopped"
proof -
  let ?s1 = "lifecycle_start\<lparr>phase := Serving (7::int), cancelled := True\<rparr>"
  let ?s2 = "lifecycle_start\<lparr>phase := Stopping (7::int), cancelled := True\<rparr>"
  have "lifecycle_step (lifecycle_start\<lparr>phase := Serving 7\<rparr>) ?s1"
    using environment_step.cancel [of "lifecycle_start\<lparr>phase := Serving (7::int)\<rparr>"]
    by (simp add: lifecycle_step_def)
  moreover have "lifecycle_step ?s1 ?s2"
    using serve_step.serve_cancelled [of ?s1 7] by (simp add: lifecycle_step_def lifecycle_start_def)
  moreover have "lifecycle_step ?s2 example_stopped"
    using serve_step.shutdown_fails [of ?s2 7]
    by (simp add: lifecycle_step_def example_stopped_def lifecycle_start_def)
  ultimately show ?thesis by (meson rtranclp.rtrancl_refl converse_rtranclp_into_rtranclp)
qed

text \<open>
  A run in which a server is taken over, the context is cancelled, the server is shut down, the
  helper returns and the function drains its result.
\<close>

definition example_draining :: "int lifecycle" where
  "example_draining = lifecycle_start\<lparr>phase := Draining 7, cancelled := True, stopped := {7}\<rparr>"

definition example_drained :: "int lifecycle" where
  "example_drained =
     example_draining\<lparr>helper_returned := True, done_chan := Some (Some ErrServerClosed)\<rparr>"

definition example_states :: "int lifecycle list" where
  "example_states =
     [lifecycle_start, lifecycle_start\<lparr>ready_chan := Some 7\<rparr>, lifecycle_start\<lparr>phase := Serving 7\<rparr>,
      lifecycle_start\<lparr>phase := Serving 7, cancelled := True\<rparr>,
      lifecycle_start\<lparr>phase := Stopping 7, cancelled := True\<rparr>, example_draining, example_drained]"

definition example_run :: "nat \<Rightarrow> int lifecycle" where
  "example_run i =
     (if i < 7 then example_states ! i else example_drained\<lparr>phase := Returned None, done_chan := None\<rparr>)"

lemma example_steps:
  "environment_step (example_run 0) (example_run 1)" "serve_step (example_run 1) (example_run 2)"
  "environment_step (example_run 2) (example_run 3)" "serve_step (example_run 3) (example_run 4)"
  "serve_step (example_run 4) (example_run 5)" "environment_step (example_run 5) (example_run 6)"
  "serve_step (example_run 6) (example_run 7)"
  using environment_step.readiness_request [of "example_run 0" 7] serve_step.wait_ready [of "example_run 1" 7]
    environment_step.cancel [of "example_run 2"] serve_step.serve_cancelled [of "example_run 3" 7]
    serve_step.shutdown_succeeds [of "example_run 4" 7]
    environment_step.helper_returns [of "example_run 5" "Some ErrServerClosed"]
    serve_step.drained [of "example_run 6" 7 "Some ErrServerClosed"]
  by (simp_all add: example_run_def example_states_def example_draining_def example_drained_def
      lifecycle_start_def offer_ready_def)

lemma example_run_end: "i \<ge> 7 \<Longrightarrow> example_run i = example_run 7"
  by (simp add: example_run_def)

lemma example_run_ok: "lifecycle_run example_run" "fair example_run" "helper_stops example_run"
proof -
  have last: "environment_step (example_run 7) (example_run 7)"
    using environment_step.cancel [of "example_run 7"]
    by (simp add: example_run_def example_drained_def example_draining_def lifecycle_start_def)
  have "lifecycle_step (example_run i) (example_run (Suc i))" for i
  proof (cases "i < 7")
    case True
    then have "i \<in> {0, 1, 2, 3, 4, 5, 6}" by auto
    then show ?thesis using example_steps by (auto simp: lifecycle_step_def numeral_eq_Suc)
  next
    case False
    then show ?thesis using last example_run_end [of i] example_run_end [of "Suc i"] by (simp add: lifecycle_step_def)
  qed
  then show "lifecycle_run example_run" by (simp add: lifecycle_run_def example_run_def example_states_def)
  have "\<not> serve_step (example_run 7) s'" for s'
    using serve_step_rank [of "example_run 7" s'] by (auto simp: example_run_def phase_rank_def)
  then have "\<not> (\<exists>s'. serve_step (example_run j) s')" if "j \<ge> 7" for j
    using example_run_end [OF that] by simp
  then show "fair example_run" unfolding fair_def by (metis nat_le_linear)
  have "helper_returned (example_run (7 + i))" for i
    by (simp add: example_run_def example_drained_def)
  then show "helper_stops example_run" unfolding helper_stops_def by (metis le_add2)
qed


section \<open>Properties\<close>

definition reply_allows :: "reply \<Rightarrow> bool" where
  "reply_allows answer \<longleftrightarrow> (\<exists>response. Reply answer = Some response \<and> ResponseAllow response)"

lemma serve_callback_allows_iff:
  "reply_allows (fst (serve_callback ot libs authorize ctx r w)) \<longleftrightarrow>
     InMethod r = ''POST'' \<and>
     (\<exists>req. accept_envelope libs (InPath r) (InBody r) = Some req \<and>
        (InPath r = ''/AuthZPlugin.AuthZRes'' \<or>
         InPath r = ''/AuthZPlugin.AuthZReq'' \<and>
           ResponseAllow (fst (authorize (Extract ot ctx (InHeader r)) req w))))"
  by (auto simp: serve_callback_def reply_allows_def deny_reply_def invalid_envelope_def AuthZRes_def
      split_beta Let_def split: option.split)

text \<open>
  The adapter fails closed. It answers with an allowing response iff the request is a
  \<open>POST\<close> of a valid envelope to the response callback, which is always allowed, or to the request
  callback and the plugin allows the request in the envelope.
\<close>

theorem adapter_exact:
  "reply_allows (fst (serve_callback ot libs authorize ctx r w)) \<longleftrightarrow>
     InMethod r = ''POST'' \<and>
     (\<exists>req. accept_envelope libs (InPath r) (InBody r) = Some req \<and>
        (InPath r = ''/AuthZPlugin.AuthZRes'' \<or>
         InPath r = ''/AuthZPlugin.AuthZReq'' \<and>
           ResponseAllow (fst (authorize (Extract ot ctx (InHeader r)) req w))))"
  by (rule serve_callback_allows_iff)

text \<open>
  C31: the envelopes that reach the plugin. The body was read completely and has at most
  16 MiB, it is one strictly decoded envelope with at most sixteen peer certificates, the
  request callback names an operation, every peer certificate is one PEM block of type
  \<open>CERTIFICATE\<close> that parses, and the plugin sees exactly these certificates after the ones that
  the decoder itself has filled in.
\<close>

theorem envelope_exact:
  "accept_envelope libs path body = Some req \<longleftrightarrow>
     \<not> ReaderFails body \<and> length (ReaderBytes body) \<le> 16777216 \<and>
     (\<exists>e rest certs. decode_wire libs (ReaderBytes body) = Some (Some e, rest) \<and> at_eof rest \<and>
        length (Peer e) \<le> 16 \<and>
        \<not> (path = ''/AuthZPlugin.AuthZReq'' \<and>
            (RequestMethod (WireRequest e) = [] \<or> RequestURI (WireRequest e) = [])) \<and>
        list_all2
          (\<lambda>raw cert. \<exists>certPEM block.
             unmarshal_bytes libs raw = Some certPEM \<and> pem_decode libs certPEM = (Some block, []) \<and>
             BlockType block = ''CERTIFICATE'' \<and> parse_certificate libs (BlockBytes block) = Some cert)
          (Peer e) certs \<and>
        req = (WireRequest e)\<lparr>RequestPeerCertificates :=
                 RequestPeerCertificates (WireRequest e) @ map Some certs\<rparr>)"
  unfolding accept_envelope_iff peers_of_Some_iff peer_certificate_Some_iff names_operation_iff
    maxEnvelopeSize_def ..

text \<open>
  A denied envelope leaves no trace. Where the adapter rejects the envelope, neither the
  plugin runs nor an audit record or telemetry is written.
\<close>

theorem rejected_envelope_unrecorded:
  assumes "accept_envelope libs (InPath r) (InBody r) = None"
  shows "\<not> reply_allows (fst (serve_callback ot libs authorize ctx r w)) \<and>
    snd (serve_callback ot libs authorize ctx r w) = w"
  using assms
  by (simp add: serve_callback_def reply_allows_def deny_reply_def invalid_envelope_def)

definition example_libs :: codec_libs where
  "example_libs =
     \<lparr>decode_wire = (\<lambda>_. None), unmarshal_bytes = (\<lambda>_. None), pem_decode = (\<lambda>s. (None, s)),
      parse_certificate = (\<lambda>_. None)\<rparr>"

theorem rejected_envelope_unrecorded_witness:
  "snd (serve_callback no_otel example_libs
      (Authorize no_otel example_codecs NewObserver example_inspect example_plugin) ()
      \<lparr>InMethod = ''POST'', InPath = ''/AuthZPlugin.AuthZReq'', InHeader = [],
       InBody = \<lparr>ReaderBytes = ''{'', ReaderFails = False\<rparr>\<rparr> example_world) = example_world"
  by (rule rejected_envelope_unrecorded [THEN conjunct2])
    (simp add: accept_envelope_def read_wire_def example_libs_def)

text \<open>
  C32: no listener is left behind. Once the function has taken over the helper's server, it
  returns only after it has shut that server down or closed it, or after the helper itself has
  returned.
\<close>

theorem server_not_orphaned:
  assumes "lifecycle_reachable s" and "phase s = Serving server"
    and "lifecycle_step\<^sup>*\<^sup>* s s'" and "phase s' = Returned err"
  shows "server \<in> stopped s' \<or> helper_returned s'"
  using served.stable_steps [OF assms(3), of server] lifecycle_inv_reachable [OF assms(1)] assms(2,4)
  by (auto simp: attended_def)

theorem server_not_orphaned_witness:
  "7 \<in> stopped example_stopped \<or> helper_returned example_stopped"
  by (rule server_not_orphaned [OF example_serving _ example_stopped_reached])
    (simp_all add: example_stopped_def lifecycle_start_def)

text \<open>
  C12: a cancelled server stops. In every run in which the context is cancelled, no enabled
  step of the function is postponed for ever, and the helper returns once its server has been
  stopped, the function returns.
\<close>

theorem cancelled_server_returns:
  assumes "lifecycle_run run" and "fair run" and "helper_stops run" and "cancelled (run i)"
  shows "\<exists>j \<ge> i. \<exists>err. phase (run j) = Returned err"
  using run_returns [OF assms] by (simp add: phase_rank_0_iff)

theorem cancelled_server_returns_witness:
  "stopped (example_run 5) = {7} \<and> (\<exists>j \<ge> 3. \<exists>err. phase (example_run j) = Returned err)"
proof -
  have "cancelled (example_run 3)" by (simp add: example_run_def example_states_def)
  from cancelled_server_returns [OF example_run_ok this] show ?thesis
    by (simp add: example_run_def example_states_def example_draining_def)
qed

text \<open>
  The function cannot go round in circles. In every run it makes at most four steps, its
  polling of the socket apart: it takes over a server, starts its shutdown, drains it and
  returns.
\<close>

theorem serve_steps_bounded:
  assumes "lifecycle_run run"
  shows "finite {i. serve_step (run i) (run (Suc i))} \<and>
    card {i. serve_step (run i) (run (Suc i))} \<le> 4"
proof -
  let ?S = "{i. serve_step (run i) (run (Suc i))}" and ?r = "\<lambda>i. phase_rank (phase (run i))"
  have less: "?r j < ?r i" if "serve_step (run i) (run (Suc i))" "i < j" for i j
    using serve_step_rank [OF that(1)] run_monotone(3) [OF assms Suc_leI [OF that(2)]] by simp
  have inj: "inj_on ?r ?S"
    by (rule linorder_inj_onI') (use less in force)
  have into: "?r ` ?S \<subseteq> {0<..4}"
  proof
    fix n assume "n \<in> ?r ` ?S"
    then obtain i where i: "n = ?r i" "serve_step (run i) (run (Suc i))" by blast
    have "n \<le> 4" unfolding i(1) by (cases "phase (run i)") (simp_all add: phase_rank_def)
    moreover have "0 < n" using serve_step_rank [OF i(2)] i(1) by simp
    ultimately show "n \<in> {0<..4}" by simp
  qed
  have "finite ?S" using inj into by (rule inj_on_finite) simp
  moreover have "card ?S \<le> card {0<..4::nat}" using inj into by (rule card_inj_on_le) simp
  ultimately show ?thesis by simp
qed

theorem serve_steps_bounded_witness:
  "card {i. serve_step (example_run i) (example_run (Suc i))} \<le> 4"
  using serve_steps_bounded [OF example_run_ok(1)] by simp

end
