(* ===== verification/Telemetry_Setup.thy ===== *)
theory Telemetry_Setup
  imports Config Observer Steps
begin

text \<open>
  \<open>internal/telemetry/setup.go\<close>: the exporters, the providers, their shutdown, and the error
  handler that writes at most one log line per minute.

  The OpenTelemetry packages are parameters: the constructors of the four exporters, given the
  options that the code passes, and the shutdown of a provider. Providers are what the code
  hands to their constructors. The error handler is called by any number of goroutines, so it
  is modelled twice: as a function, for the calls that \<open>Setup\<close> makes itself, and as a step
  relation in which the calls of different goroutines interleave.
\<close>

section \<open>The error handler\<close>

definition otelErrorLogInterval :: int where
  "otelErrorLogInterval = 60"

definition due :: "int64 \<Rightarrow> int64 \<Rightarrow> bool" where
  "due now previous \<longleftrightarrow> sint (now - previous) \<ge> otelErrorLogInterval"

text \<open>
  The shared state of the handler: the atomic \<open>last\<close>, and for every line that was logged the
  time that the call had read.
\<close>

record handler =
  last_logged :: int64
  log_lines :: "int64 list"

definition new_handler :: handler where
  "new_handler = \<lparr>last_logged = 0, log_lines = []\<rparr>"

definition handle_error :: "int64 \<Rightarrow> handler \<Rightarrow> handler" where
  "handle_error now h =
     (if due now (last_logged h) then h\<lparr>last_logged := now, log_lines := log_lines h @ [now]\<rparr> else h)"

text \<open>
  Where a goroutine is inside the handler: outside, after \<open>time.Now\<close>, after \<open>last.Load\<close>, and
  after a successful \<open>CompareAndSwap\<close>.
\<close>

datatype position = Idle | HasNow int64 | HasPrevious int64 int64 | Won int64

record concurrent =
  shared :: handler
  position :: "nat \<Rightarrow> position"

definition handler_start :: concurrent where
  "handler_start = \<lparr>shared = new_handler, position = (\<lambda>_. Idle)\<rparr>"

text \<open>
  Clock readings are arbitrary, they may even go back, but they lie after 1970. One step is one
  atomic action of one goroutine.
\<close>

inductive handler_step :: "concurrent \<Rightarrow> concurrent \<Rightarrow> bool" where
  read_clock: "position s t = Idle \<Longrightarrow> 0 \<le> sint now \<Longrightarrow>
     handler_step s (s\<lparr>position := (position s)(t := HasNow now)\<rparr>)"
| load: "position s t = HasNow now \<Longrightarrow>
     handler_step s (s\<lparr>position := (position s)(t := HasPrevious now (last_logged (shared s)))\<rparr>)"
| not_due: "position s t = HasPrevious now previous \<Longrightarrow> \<not> due now previous \<Longrightarrow>
     handler_step s (s\<lparr>position := (position s)(t := Idle)\<rparr>)"
| swap_fails: "position s t = HasPrevious now previous \<Longrightarrow> due now previous \<Longrightarrow>
     last_logged (shared s) \<noteq> previous \<Longrightarrow>
     handler_step s (s\<lparr>position := (position s)(t := Idle)\<rparr>)"
| swap_succeeds: "position s t = HasPrevious now previous \<Longrightarrow> due now previous \<Longrightarrow>
     last_logged (shared s) = previous \<Longrightarrow>
     handler_step s (s\<lparr>position := (position s)(t := Won now),
                      shared := (shared s)\<lparr>last_logged := now\<rparr>\<rparr>)"
| log_line: "position s t = Won now \<Longrightarrow>
     handler_step s (s\<lparr>position := (position s)(t := Idle),
                      shared := (shared s)\<lparr>log_lines := log_lines (shared s) @ [now]\<rparr>\<rparr>)"

inductive_cases handler_stepE: "handler_step s s'"


section \<open>Exporters\<close>

record tls_config =
  MinVersion :: nat

definition VersionTLS12 :: nat where
  "VersionTLS12 = 771"

datatype transport_credentials = NewTLS tls_config | InsecureCredentials

text \<open>The options of the four packages, and \<open>exportTimeout\<close> in nanoseconds.\<close>

datatype exporter_option =
    WithEndpoint string
  | WithEndpointURL string
  | WithHeaders "string entries"
  | WithTimeout int
  | WithTLSCredentials transport_credentials
  | WithTLSClientConfig tls_config

definition exportTimeout :: int where
  "exportTimeout = 3000000000"

record 'e exporter_libs =
  trace_grpc :: "exporter_option list \<Rightarrow> 'e option"
  trace_http :: "exporter_option list \<Rightarrow> 'e option"
  metric_grpc :: "exporter_option list \<Rightarrow> 'e option"
  metric_http :: "exporter_option list \<Rightarrow> 'e option"

definition traceExporter :: "'e exporter_libs \<Rightarrow> OTLP \<Rightarrow> 'e option" where
  "traceExporter libs c =
     (let tlsConfig = \<lparr>MinVersion = VersionTLS12\<rparr> in
      if Protocol c = ''grpc'' then
        let opts = [WithEndpoint (Endpoint c), WithHeaders (Headers c), WithTimeout exportTimeout,
                    WithTLSCredentials (NewTLS tlsConfig)];
            opts = (if Insecure c then opts @ [WithTLSCredentials InsecureCredentials] else opts)
        in trace_grpc libs opts
      else
        let scheme = (if Insecure c then ''http://'' else ''https://'');
            opts = [WithEndpointURL (scheme @ Endpoint c @ ''/v1/traces''), WithHeaders (Headers c),
                    WithTimeout exportTimeout];
            opts = (if \<not> Insecure c then opts @ [WithTLSClientConfig tlsConfig] else opts)
        in trace_http libs opts)"

definition metricExporter :: "'e exporter_libs \<Rightarrow> OTLP \<Rightarrow> 'e option" where
  "metricExporter libs c =
     (let tlsConfig = \<lparr>MinVersion = VersionTLS12\<rparr> in
      if Protocol c = ''grpc'' then
        let opts = [WithEndpoint (Endpoint c), WithHeaders (Headers c), WithTimeout exportTimeout,
                    WithTLSCredentials (NewTLS tlsConfig)];
            opts = (if Insecure c then opts @ [WithTLSCredentials InsecureCredentials] else opts)
        in metric_grpc libs opts
      else
        let scheme = (if Insecure c then ''http://'' else ''https://'');
            opts = [WithEndpointURL (scheme @ Endpoint c @ ''/v1/metrics''), WithHeaders (Headers c),
                    WithTimeout exportTimeout];
            opts = (if \<not> Insecure c then opts @ [WithTLSClientConfig tlsConfig] else opts)
        in metric_http libs opts)"


section \<open>Setup and Shutdown\<close>

record 'e trace_provider =
  TraceResource :: "string entries"
  TraceRatio :: float64
  TraceExporter :: 'e
  TraceTimeout :: int

record 'e metric_provider =
  MetricResource :: "string entries"
  MetricInterval :: int
  MetricExporter :: 'e
  MetricTimeout :: int

record 'e Runtime =
  runtime_observer :: Observer
  traces :: "'e trace_provider option"
  metrics :: "'e metric_provider option"

text \<open>The process-wide registrations of the package; a provider is \<open>None\<close> for the no-op one.\<close>

record 'e otel_globals =
  Propagators :: "string list"
  ErrorHandler :: handler
  TracerProvider :: "'e trace_provider option"
  MeterProvider :: "'e metric_provider option"

definition resource_attributes :: "Telemetry \<Rightarrow> string \<Rightarrow> string entries" where
  "resource_attributes cfg version =
     [(''service.name'', ServiceName cfg), (''service.version'', version)] @ Telemetry.Resource cfg"

text \<open>\<open>*cfg.Traces.SampleRatio\<close>: the pointer is set once the settings are validated.\<close>

definition setup_traces ::
  "'e exporter_libs \<Rightarrow> int64 \<Rightarrow> Telemetry \<Rightarrow> string \<Rightarrow> handler \<Rightarrow> 'e trace_provider option \<times> handler" where
  "setup_traces libs now cfg version h =
     (if Traces.Enabled (Telemetry.Traces cfg) then
        (case traceExporter libs (Otlp cfg) of
           None \<Rightarrow> (None, handle_error now h)
         | Some exporter \<Rightarrow>
             (Some \<lparr>TraceResource = resource_attributes cfg version,
                    TraceRatio = the (SampleRatio (Telemetry.Traces cfg)),
                    TraceExporter = exporter, TraceTimeout = exportTimeout\<rparr>, h))
      else (None, h))"

text \<open>\<open>interval, _ := time.ParseDuration(...)\<close>: an error would leave a zero interval.\<close>

definition setup_metrics ::
  "'e exporter_libs \<Rightarrow> int64 \<Rightarrow> Telemetry \<Rightarrow> string \<Rightarrow> handler \<Rightarrow> 'e metric_provider option \<times> handler" where
  "setup_metrics libs now cfg version h =
     (if Metrics.Enabled (Telemetry.Metrics cfg) then
        (case metricExporter libs (Otlp cfg) of
           None \<Rightarrow> (None, handle_error now h)
         | Some exporter \<Rightarrow>
             let interval = (case ParseDuration (ExportInterval (Telemetry.Metrics cfg)) of
                               None \<Rightarrow> 0 | Some d \<Rightarrow> d)
             in (Some \<lparr>MetricResource = resource_attributes cfg version, MetricInterval = interval,
                       MetricExporter = exporter, MetricTimeout = exportTimeout\<rparr>, h))
      else (None, h))"

text \<open>
  \<open>Setup\<close> changes the settings that its pointer \<open>cfg\<close> refers to, because their validation fills in
  defaults: they are returned. \<open>clock\<close> are the times that the error handler reads when one of
  the two exporters cannot be made.
\<close>

definition Setup ::
  "'e exporter_libs \<Rightarrow> int64 \<times> int64 \<Rightarrow> Telemetry option \<Rightarrow> string \<Rightarrow> 'e otel_globals \<Rightarrow>
     (string + 'e Runtime \<times> Telemetry option) \<times> 'e otel_globals" where
  "Setup libs clock cfg version g =
     (let g = g\<lparr>Propagators := [''tracecontext'', ''baggage''], ErrorHandler := new_handler\<rparr> in
      case cfg of
        None \<Rightarrow>
          (Inr (\<lparr>runtime_observer = NewObserver, traces = None, metrics = None\<rparr>, None),
           g\<lparr>TracerProvider := None, MeterProvider := None\<rparr>)
      | Some t0 \<Rightarrow>
          (case validate_telemetry t0 of
             Inl e \<Rightarrow> (Inl e, g)
           | Inr t \<Rightarrow>
               let (tp, h) = setup_traces libs (fst clock) t version (ErrorHandler g);
                   (mp, h) = setup_metrics libs (snd clock) t version h
               in (Inr (\<lparr>runtime_observer = NewObserver, traces = tp, metrics = mp\<rparr>, Some t),
                   g\<lparr>ErrorHandler := h, TracerProvider := tp, MeterProvider := mp\<rparr>)))"

text \<open>\<open>errors.Join\<close> of no errors is nil, here the empty list.\<close>

definition Shutdown ::
  "('e trace_provider \<Rightarrow> bool) \<Rightarrow> ('e metric_provider \<Rightarrow> bool) \<Rightarrow> 'e Runtime \<Rightarrow> string list" where
  "Shutdown stop_traces stop_metrics r =
     (case traces r of
        None \<Rightarrow> []
      | Some tp \<Rightarrow> (if stop_traces tp then [] else [''trace shutdown failed''])) @
     (case metrics r of
        None \<Rightarrow> []
      | Some mp \<Rightarrow> (if stop_metrics mp then [] else [''metric shutdown failed'']))"



section \<open>At most one line per interval\<close>

text \<open>The difference of two times after 1970 does not overflow.\<close>

lemma sint_diff_exact:
  assumes "0 \<le> sint a" and "0 \<le> sint (b :: int64)"
  shows "sint (a - b) = sint a - sint b"
proof -
  have "sint a < 2 ^ 63" "sint b < 2 ^ 63" using sint_less [of a] sint_less [of b] by simp_all
  then have "signed_take_bit 63 (sint a - sint b) = sint a - sint b"
    using assms by (intro signed_take_bit_int_eq_self) simp_all
  then show ?thesis by (simp add: sint_word_ariths)
qed

lemma due_iff:
  "0 \<le> sint now \<Longrightarrow> 0 \<le> sint previous \<Longrightarrow> due now previous \<longleftrightarrow> sint previous + 60 \<le> sint now"
  by (auto simp: due_def otelErrorLogInterval_def sint_diff_exact)

text \<open>The times of the lines that are logged or about to be.\<close>

definition won :: "concurrent \<Rightarrow> int64 set" where
  "won s = set (log_lines (shared s)) \<union> {now. \<exists>t. position s t = Won now}"

definition apart :: "int64 set \<Rightarrow> bool" where
  "apart T \<longleftrightarrow> (\<forall>x \<in> T. \<forall>y \<in> T. x \<noteq> y \<longrightarrow> 60 \<le> \<bar>sint x - sint y\<bar>)"

definition position_ok :: "position \<Rightarrow> bool" where
  "position_ok p =
     (case p of Idle \<Rightarrow> True | HasNow now \<Rightarrow> 0 \<le> sint now
      | HasPrevious now previous \<Rightarrow> 0 \<le> sint now \<and> 0 \<le> sint previous | Won now \<Rightarrow> 0 \<le> sint now)"

definition handler_inv :: "concurrent \<Rightarrow> bool" where
  "handler_inv s \<longleftrightarrow>
     0 \<le> sint (last_logged (shared s)) \<and> (\<forall>t. position_ok (position s t)) \<and>
     (\<forall>x \<in> won s. sint x \<le> sint (last_logged (shared s))) \<and> apart (won s) \<and>
     distinct (log_lines (shared s)) \<and>
     (\<forall>t now. position s t = Won now \<longrightarrow> now \<notin> set (log_lines (shared s))) \<and>
     (\<forall>t u now. position s t = Won now \<longrightarrow> position s u = Won now \<longrightarrow> t = u)"

lemma handler_inv_start: "handler_inv handler_start"
  by (simp add: handler_inv_def handler_start_def new_handler_def position_ok_def won_def apart_def)

lemma apart_insert:
  assumes "apart T" and "\<And>x. x \<in> T \<Longrightarrow> sint x + 60 \<le> sint now"
  shows "apart (insert now T)"
  unfolding apart_def
proof (intro ballI impI)
  fix x y assume "x \<in> insert now T" "y \<in> insert now T" "x \<noteq> y"
  then show "60 \<le> \<bar>sint x - sint y\<bar>"
    using assms(1) assms(2) [of x] assms(2) [of y] unfolding apart_def by (elim insertE) auto
qed

text \<open>A step that neither wins nor logs leaves the times alone.\<close>

lemma won_move:
  assumes "\<And>now. position s t \<noteq> Won now" and "\<And>now. p \<noteq> Won now"
  shows "won (s\<lparr>position := (position s)(t := p)\<rparr>) = won s"
  using assms unfolding won_def by (auto, metis)

lemma handler_inv_move:
  assumes "handler_inv s" and "position_ok p" and "\<And>now. position s t \<noteq> Won now" and "\<And>now. p \<noteq> Won now"
  shows "handler_inv (s\<lparr>position := (position s)(t := p)\<rparr>)"
  using assms won_move [OF assms(3,4)] by (auto simp: handler_inv_def)

lemma handler_inv_win:
  assumes "handler_inv s" and pos: "position s t = HasPrevious now (last_logged (shared s))"
    and "due now (last_logged (shared s))"
  shows "handler_inv (s\<lparr>position := (position s)(t := Won now),
                       shared := (shared s)\<lparr>last_logged := now\<rparr>\<rparr>)" (is "handler_inv ?s")
proof -
  have inv: "0 \<le> sint (last_logged (shared s))" "\<forall>t. position_ok (position s t)"
    "\<forall>x \<in> won s. sint x \<le> sint (last_logged (shared s))" "apart (won s)"
    "distinct (log_lines (shared s))"
    "\<forall>t now. position s t = Won now \<longrightarrow> now \<notin> set (log_lines (shared s))"
    "\<forall>t u now. position s t = Won now \<longrightarrow> position s u = Won now \<longrightarrow> t = u"
    using assms(1) by (simp_all add: handler_inv_def)
  have "position_ok (HasPrevious now (last_logged (shared s)))" using inv(2) pos by metis
  then have now: "0 \<le> sint now" "sint (last_logged (shared s)) + 60 \<le> sint now"
    using assms(3) inv(1) by (simp_all add: position_ok_def due_iff)
  have later: "sint x + 60 \<le> sint now" if "x \<in> won s" for x using inv(3) that now(2) by fastforce
  have won: "won ?s = insert now (won s)" using pos unfolding won_def by (auto, metis position.distinct(11))
  have fresh: "now \<notin> won s" using later by fastforce
  have "apart (won ?s)" unfolding won using inv(4) later by (rule apart_insert)
  moreover have "\<forall>x \<in> won ?s. sint x \<le> sint now" unfolding won using later by fastforce
  ultimately show ?thesis
    using inv(2,5,6,7) now(1) fresh by (auto simp: handler_inv_def position_ok_def won_def)
qed

lemma handler_inv_log:
  assumes "handler_inv s" and "position s t = Won now"
  shows "handler_inv (s\<lparr>position := (position s)(t := Idle),
                       shared := (shared s)\<lparr>log_lines := log_lines (shared s) @ [now]\<rparr>\<rparr>)" (is "handler_inv ?s")
proof -
  have "insert now {y. \<exists>u. ((position s)(t := Idle)) u = Won y} = {y. \<exists>u. position s u = Won y}"
    (is "?l = ?r")
  proof (intro set_eqI iffI)
    fix x assume "x \<in> ?r"
    then obtain u where "position s u = Won x" by blast
    then show "x \<in> ?l" using assms(2) by (cases "u = t") auto
  qed (use assms(2) in \<open>auto split: if_splits\<close>)
  moreover have "won ?s = set (log_lines (shared s)) \<union> ?l" by (simp del: fun_upd_apply add: won_def)
  ultimately have "won ?s = won s" by (simp only: won_def)
  moreover have "now \<notin> set (log_lines (shared s))" "\<And>u. position s u = Won now \<Longrightarrow> u = t"
    using assms unfolding handler_inv_def by blast+
  ultimately show ?thesis
    using assms(1) unfolding handler_inv_def by (simp add: position_ok_def) metis
qed

lemma handler_inv_step: "handler_step s s' \<Longrightarrow> handler_inv s \<Longrightarrow> handler_inv s'"
proof (induction rule: handler_step.induct)
  case (load s t now)
  have "position_ok (HasNow now)" "0 \<le> sint (last_logged (shared s))"
    using load by (metis handler_inv_def)+
  then show ?case using load by (intro handler_inv_move) (simp_all add: position_ok_def)
next
  case (swap_succeeds s t now previous)
  then show ?case by (intro handler_inv_win) simp_all
next
  case (log_line s t now)
  then show ?case by (intro handler_inv_log)
qed (auto intro!: handler_inv_move simp: position_ok_def)

interpretation handler: invariant_predicate handler_step handler_inv handler_start
  by unfold_locales (rule handler_inv_step, assumption+, rule handler_inv_start)

text \<open>A call that no other call interrupts is the function.\<close>

lemma handle_error_steps:
  assumes "position s t = Idle" and "0 \<le> sint now"
  shows "handler_step\<^sup>*\<^sup>* s (s\<lparr>shared := handle_error now (shared s)\<rparr>)"
proof -
  let ?last = "last_logged (shared s)" and ?at = "\<lambda>p. s\<lparr>position := (position s)(t := p)\<rparr>"
  have "handler_step s (?at (HasNow now))" using assms by (rule handler_step.read_clock)
  moreover have "handler_step (?at (HasNow now)) (?at (HasPrevious now ?last))"
    using handler_step.load [of "?at (HasNow now)" t now] by simp
  ultimately have loaded: "handler_step\<^sup>*\<^sup>* s (?at (HasPrevious now ?last))" by simp
  have idle: "(position s)(t := Idle) = position s" using assms(1) by auto
  show ?thesis
  proof (cases "due now ?last")
    case False
    then have "handler_step (?at (HasPrevious now ?last)) s"
      using handler_step.not_due [of "?at (HasPrevious now ?last)" t now ?last] idle by simp
    then show ?thesis using loaded False by (simp add: handle_error_def)
  next
    case True
    let ?won = "s\<lparr>position := (position s)(t := Won now), shared := (shared s)\<lparr>last_logged := now\<rparr>\<rparr>"
    have "handler_step (?at (HasPrevious now ?last)) ?won"
      using handler_step.swap_succeeds [of "?at (HasPrevious now ?last)" t now ?last] True by simp
    moreover have "handler_step ?won (s\<lparr>shared := handle_error now (shared s)\<rparr>)"
      using handler_step.log_line [of ?won t now] True idle by (simp add: handle_error_def)
    ultimately show ?thesis using loaded by (meson rtranclp.rtrancl_into_rtrancl)
  qed
qed


section \<open>What Setup makes of accepted settings\<close>

lemma telemetry_defaults_sels [simp]:
  "Otlp (telemetry_defaults t) = Otlp t"
  "Traces.Enabled (Telemetry.Traces (telemetry_defaults t)) = Traces.Enabled (Telemetry.Traces t)"
  "Metrics.Enabled (Telemetry.Metrics (telemetry_defaults t)) = Metrics.Enabled (Telemetry.Metrics t)"
  by (simp_all add: telemetry_defaults_def)

lemma setup_traces_Some_iff:
  assumes "telemetry_ok (telemetry_defaults t)"
  shows "fst (setup_traces libs now (telemetry_defaults t) version h) = Some tp \<longleftrightarrow>
    (\<exists>q exporter. Traces.Enabled (Telemetry.Traces t) \<and>
       traceExporter libs (Otlp t) = Some exporter \<and>
       SampleRatio (Telemetry.Traces (telemetry_defaults t)) = Some (Finite q) \<and> 0 \<le> q \<and> q \<le> 1 \<and>
       tp = \<lparr>TraceResource = resource_attributes (telemetry_defaults t) version,
             TraceRatio = Finite q, TraceExporter = exporter, TraceTimeout = exportTimeout\<rparr>)"
proof -
  obtain q where "SampleRatio (Telemetry.Traces (telemetry_defaults t)) = Some (Finite q)" "0 \<le> q" "q \<le> 1"
    using assms unfolding telemetry_ok_def by blast
  then show ?thesis by (auto simp: setup_traces_def split: option.split)
qed

lemma setup_metrics_Some_iff:
  assumes "telemetry_ok (telemetry_defaults t)"
  shows "fst (setup_metrics libs now (telemetry_defaults t) version h) = Some mp \<longleftrightarrow>
    (\<exists>d exporter. Metrics.Enabled (Telemetry.Metrics t) \<and>
       metricExporter libs (Otlp t) = Some exporter \<and>
       ParseDuration (ExportInterval (Telemetry.Metrics (telemetry_defaults t))) = Some d \<and> 0 < d \<and>
       mp = \<lparr>MetricResource = resource_attributes (telemetry_defaults t) version,
             MetricInterval = d, MetricExporter = exporter, MetricTimeout = exportTimeout\<rparr>)"
proof -
  obtain d where "ParseDuration (ExportInterval (Telemetry.Metrics (telemetry_defaults t))) = Some d" "0 < d"
    using assms unfolding telemetry_ok_def by blast
  then show ?thesis by (auto simp: setup_metrics_def split: option.split)
qed

lemma Setup_Some:
  assumes "telemetry_ok (telemetry_defaults t)"
  shows "\<exists>r g' h. Setup libs clock (Some t) version g = (Inr (r, Some (telemetry_defaults t)), g') \<and>
    TracerProvider g' = traces r \<and> MeterProvider g' = metrics r \<and>
    traces r = fst (setup_traces libs (fst clock) (telemetry_defaults t) version new_handler) \<and>
    metrics r = fst (setup_metrics libs (snd clock) (telemetry_defaults t) version h)"
proof -
  have "validate_telemetry t = Inr (telemetry_defaults t)" using assms by (simp add: validate_telemetry_Inr_iff)
  then show ?thesis by (auto simp: Setup_def split_beta Let_def)
qed

lemma Setup_accepted:
  assumes "pred_option (\<lambda>t. telemetry_ok (telemetry_defaults t)) cfg"
  shows "\<exists>r g'. Setup libs clock cfg version g = (Inr (r, map_option telemetry_defaults cfg), g') \<and>
    runtime_observer r = NewObserver"
  using assms
  by (cases cfg) (auto simp: Setup_def validate_telemetry_Inr_iff [THEN iffD2] split_beta Let_def)


section \<open>The security of the exporters\<close>

text \<open>Later options override earlier ones; without credentials the scheme of the URL decides.\<close>

definition credentials :: "exporter_option list \<Rightarrow> transport_credentials list" where
  "credentials opts =
     concat (map (\<lambda>opt. case opt of WithTLSCredentials c \<Rightarrow> [c] | _ \<Rightarrow> []) opts)"

definition encrypted :: "exporter_option list \<Rightarrow> bool" where
  "encrypted opts \<longleftrightarrow>
     (if credentials opts = [] then \<exists>url. WithEndpointURL (''https://'' @ url) \<in> set opts
      else last (credentials opts) \<noteq> InsecureCredentials)"

definition modern_tls :: "exporter_option list \<Rightarrow> bool" where
  "modern_tls opts \<longleftrightarrow>
     (\<forall>c. WithTLSClientConfig c \<in> set opts \<or> WithTLSCredentials (NewTLS c) \<in> set opts \<longrightarrow>
        MinVersion c \<ge> 771)"

text \<open>The options that both exporters share.\<close>

definition grpc_options :: "OTLP \<Rightarrow> exporter_option list" where
  "grpc_options c =
     [WithEndpoint (Endpoint c), WithHeaders (Headers c), WithTimeout exportTimeout,
      WithTLSCredentials (NewTLS \<lparr>MinVersion = VersionTLS12\<rparr>)] @
     (if Insecure c then [WithTLSCredentials InsecureCredentials] else [])"

definition http_options :: "OTLP \<Rightarrow> string \<Rightarrow> exporter_option list" where
  "http_options c url =
     [WithEndpointURL url, WithHeaders (Headers c), WithTimeout exportTimeout] @
     (if Insecure c then [] else [WithTLSClientConfig \<lparr>MinVersion = VersionTLS12\<rparr>])"


section \<open>Properties\<close>

text \<open>
  C13: a failing collector cannot flood the log. However the calls of the error handler
  interleave, and even when the clock goes back, the times of any two logged lines are at
  least sixty seconds apart.
\<close>

theorem error_log_rate_limited:
  assumes "handler_step\<^sup>*\<^sup>* handler_start s" and "i < j" and "j < length (log_lines (shared s))"
  shows "60 \<le> \<bar>sint (log_lines (shared s) ! i) - sint (log_lines (shared s) ! j)\<bar>"
proof -
  let ?l = "log_lines (shared s)"
  have inv: "distinct ?l" "apart (won s)"
    using handler.invariant [OF assms(1)] by (simp_all add: handler_inv_def)
  have "?l ! i \<noteq> ?l ! j" using inv(1) assms(2,3) by (simp add: nth_eq_iff_index_eq)
  moreover have "?l ! i \<in> won s" "?l ! j \<in> won s" using assms(2,3) by (simp_all add: won_def)
  ultimately show ?thesis using inv(2) unfolding apart_def by blast
qed

theorem error_log_rate_limited_witness:
  "\<exists>s. handler_step\<^sup>*\<^sup>* handler_start s \<and> log_lines (shared s) = [100, 160] \<and>
     60 \<le> \<bar>sint (log_lines (shared s) ! 0) - sint (log_lines (shared s) ! 1)\<bar>"
proof -
  let ?h = "handle_error 160 (handle_error 100 new_handler)"
  have lines: "log_lines ?h = [100, 160]" by code_simp
  have "handler_step\<^sup>*\<^sup>* handler_start (handler_start\<lparr>shared := handle_error 100 (shared handler_start)\<rparr>)"
    by (rule handle_error_steps) (simp_all add: handler_start_def)
  also have "handler_step\<^sup>*\<^sup>* (handler_start\<lparr>shared := handle_error 100 (shared handler_start)\<rparr>)
      (handler_start\<lparr>shared := ?h\<rparr>)"
    using handle_error_steps [of "handler_start\<lparr>shared := handle_error 100 (shared handler_start)\<rparr>" 0 160]
    by (simp add: handler_start_def)
  finally have steps: "handler_step\<^sup>*\<^sup>* handler_start (handler_start\<lparr>shared := ?h\<rparr>)" .
  from error_log_rate_limited [OF this, of 0 1] show ?thesis
    using steps lines by (intro exI [of _ "handler_start\<lparr>shared := ?h\<rparr>"]) simp
qed

text \<open>
  C39: telemetry never keeps the plugin from starting. With accepted settings \<open>Setup\<close> succeeds
  whatever the exporters do; a signal has a provider iff it is enabled and its exporter could
  be made, and the provider then has the sample ratio in [0,1] and the positive interval of the
  settings, and names the service as configured.
\<close>

theorem setup_exact:
  fixes libs :: "'e exporter_libs"
  assumes "pred_option (\<lambda>t. telemetry_ok (telemetry_defaults t)) cfg"
  shows "\<exists>r g'. Setup libs clock cfg version g = (Inr (r, map_option telemetry_defaults cfg), g') \<and>
    TracerProvider g' = traces r \<and> MeterProvider g' = metrics r \<and>
    (\<forall>tp. traces r = Some tp \<longleftrightarrow>
       (\<exists>t q exporter. cfg = Some t \<and> Traces.Enabled (Telemetry.Traces t) \<and>
          traceExporter libs (Otlp t) = Some exporter \<and>
          SampleRatio (Telemetry.Traces (telemetry_defaults t)) = Some (Finite q) \<and> 0 \<le> q \<and> q \<le> 1 \<and>
          tp = \<lparr>TraceResource = resource_attributes (telemetry_defaults t) version,
                TraceRatio = Finite q, TraceExporter = exporter, TraceTimeout = exportTimeout\<rparr>)) \<and>
    (\<forall>mp. metrics r = Some mp \<longleftrightarrow>
       (\<exists>t d exporter. cfg = Some t \<and> Metrics.Enabled (Telemetry.Metrics t) \<and>
          metricExporter libs (Otlp t) = Some exporter \<and>
          ParseDuration (ExportInterval (Telemetry.Metrics (telemetry_defaults t))) = Some d \<and> 0 < d \<and>
          mp = \<lparr>MetricResource = resource_attributes (telemetry_defaults t) version,
                MetricInterval = d, MetricExporter = exporter, MetricTimeout = exportTimeout\<rparr>))"
proof (cases cfg)
  case None
  then show ?thesis by (simp add: Setup_def)
next
  case (Some t0)
  then have ok: "telemetry_ok (telemetry_defaults t0)" using assms by simp
  from Setup_Some [OF ok, of libs clock version g] obtain r g' h where
    "Setup libs clock (Some t0) version g = (Inr (r, Some (telemetry_defaults t0)), g')"
    "TracerProvider g' = traces r" "MeterProvider g' = metrics r"
    "traces r = fst (setup_traces libs (fst clock) (telemetry_defaults t0) version new_handler)"
    "metrics r = fst (setup_metrics libs (snd clock) (telemetry_defaults t0) version h)"
    by (elim exE conjE)
  then show ?thesis
    unfolding Some by (simp add: setup_traces_Some_iff [OF ok] setup_metrics_Some_iff [OF ok])
qed

theorem setup_exact_witness:
  "\<exists>r g'. Setup \<lparr>trace_grpc = (\<lambda>_. None), trace_http = Some, metric_grpc = Some, metric_http = Some\<rparr>
      (100, 100) (Some example_telemetry) ''dev''
      \<lparr>Propagators = [], ErrorHandler = new_handler, TracerProvider = None, MeterProvider = None\<rparr> =
    (Inr (r, Some (telemetry_defaults example_telemetry)), g') \<and> traces r = None"
proof -
  have "validate_telemetry example_telemetry = Inr (telemetry_defaults example_telemetry)" by code_simp
  then have "pred_option (\<lambda>t. telemetry_ok (telemetry_defaults t)) (Some example_telemetry)"
    by (simp add: validate_telemetry_Inr_iff)
  from setup_exact [OF this, of
      "\<lparr>trace_grpc = (\<lambda>_. None), trace_http = Some, metric_grpc = Some, metric_http = Some\<rparr>"
      "(100, 100)" "''dev''"
      "\<lparr>Propagators = [], ErrorHandler = new_handler, TracerProvider = None, MeterProvider = None\<rparr>"]
  show ?thesis
    by (elim exE conjE) (force simp: traceExporter_def example_telemetry_def)
qed

text \<open>
  Telemetry leaves the host in the clear only where the settings say \<open>insecure\<close>. Both
  exporters are made with options whose last transport credentials are TLS, or whose address
  is an \<open>https\<close> URL, iff \<open>insecure\<close> is not set, and no TLS configuration allows a version below
  1.2.
\<close>

theorem exporters_encrypted:
  "\<exists>topts mopts.
     traceExporter libs c = (if Protocol c = ''grpc'' then trace_grpc libs topts else trace_http libs topts) \<and>
     metricExporter libs c = (if Protocol c = ''grpc'' then metric_grpc libs mopts else metric_http libs mopts) \<and>
     (encrypted topts \<longleftrightarrow> \<not> Insecure c) \<and> (encrypted mopts \<longleftrightarrow> \<not> Insecure c) \<and>
     modern_tls topts \<and> modern_tls mopts"
proof -
  let ?url = "\<lambda>path. (if Insecure c then ''http://'' else ''https://'') @ Endpoint c @ path"
  let ?opts = "\<lambda>path. if Protocol c = ''grpc'' then grpc_options c else http_options c (?url path)"
  have "encrypted (?opts path) \<longleftrightarrow> \<not> Insecure c" "modern_tls (?opts path)" for path
    by (simp_all add: encrypted_def credentials_def modern_tls_def grpc_options_def http_options_def VersionTLS12_def)
  moreover have "traceExporter libs c = (if Protocol c = ''grpc'' then trace_grpc libs (?opts ''/v1/traces'')
      else trace_http libs (?opts ''/v1/traces''))"
    "metricExporter libs c = (if Protocol c = ''grpc'' then metric_grpc libs (?opts ''/v1/metrics'')
      else metric_http libs (?opts ''/v1/metrics''))"
    by (simp_all add: traceExporter_def metricExporter_def grpc_options_def http_options_def Let_def)
  ultimately show ?thesis by blast
qed

end
