(* ===== verification/Config_Parse.thy ===== *)
theory Config_Parse
  imports Config
begin

text \<open>
  \<open>internal/config\<close>: reading the document (\<open>Load\<close>, \<open>Parse\<close>) and the two passes over its YAML
  nodes that run before it is decoded.

  The YAML package is a parameter: what its decoder returns for the first document as a node
  tree, whether a second \<open>Decode\<close> on the same decoder reports the end of the input, and what
  the decoder in strict mode (\<open>KnownFields\<close>) makes of the data as a \<open>Config\<close>.
\<close>

section \<open>YAML nodes\<close>

text \<open>A node as the passes read it; \<open>Tagged\<close> is the \<open>TaggedStyle\<close> bit of its style.\<close>

datatype yaml_kind = DocumentNode | SequenceNode | MappingNode | ScalarNode | AliasNode | OtherKind

datatype yaml_node =
  Node (Kind: yaml_kind) (Tagged: bool) (Tag: string) (Val: string) (Anchor: string)
    (Content: "yaml_node list")

fun even_positions :: "'a list \<Rightarrow> 'a list" where
  "even_positions [] = []"
| "even_positions [x] = [x]"
| "even_positions (x # y # rest) = x # even_positions rest"

fun validateNode :: "yaml_node \<Rightarrow> error" where
  "validateNode (Node kind tagged tag v anchor content) =
     (if anchor \<noteq> [] \<or> kind = AliasNode \<or> tagged
      then Some ''YAML anchors, aliases and explicit tags are forbidden''
      else if tag = ''!!null''
      then Some ''null configuration values are forbidden; use explicit mappings''
      else if kind = MappingNode \<and> list_ex (\<lambda>key. Tag key \<noteq> ''!!str'') (even_positions content)
      then Some ''configuration keys must be strings''
      else first_error validateNode content)"

definition index_out_of_range :: string where
  "index_out_of_range = ''runtime error: index out of range''"

text \<open>
  The pass over the scalars. A mapping whose last key has no value would be an index error in
  the loop, a panic that nothing recovers.
\<close>

definition scalar_ok :: "string \<Rightarrow> string \<Rightarrow> bool" where
  "scalar_ok path tag =
     (if path = ''telemetry.otlp.insecure'' \<or> path = ''telemetry.traces.enabled'' \<or>
         path = ''telemetry.metrics.enabled''
      then tag = ''!!bool''
      else if path = ''telemetry.traces.sampleRatio''
      then tag = ''!!float'' \<or> tag = ''!!int''
      else tag = ''!!str'')"

definition child_path :: "string \<Rightarrow> string \<Rightarrow> string" where
  "child_path path key = (if path \<noteq> [] then path @ ''.'' @ key else key)"

fun validateScalarTypes :: "yaml_node \<Rightarrow> string \<Rightarrow> error"
  and scalar_children :: "yaml_node list \<Rightarrow> string \<Rightarrow> error"
  and scalar_values :: "yaml_node list \<Rightarrow> string \<Rightarrow> error" where
  "validateScalarTypes (Node kind tagged tag v anchor content) path =
     (case kind of
        DocumentNode \<Rightarrow> scalar_children content path
      | SequenceNode \<Rightarrow> scalar_children content path
      | MappingNode \<Rightarrow> scalar_values content path
      | ScalarNode \<Rightarrow>
          if scalar_ok path tag then None
          else Some ''configuration scalar has the wrong YAML type''
      | AliasNode \<Rightarrow> Some ''YAML anchors, aliases and explicit tags are forbidden''
      | OtherKind \<Rightarrow> None)"
| "scalar_children [] path = None"
| "scalar_children (child # rest) path =
     (case validateScalarTypes child path of Some e \<Rightarrow> Some e | None \<Rightarrow> scalar_children rest path)"
| "scalar_values [] path = None"
| "scalar_values [key] path = Some index_out_of_range"
| "scalar_values (key # v # rest) path =
     (case validateScalarTypes v (child_path path (Val key)) of
        Some e \<Rightarrow> Some e
      | None \<Rightarrow> scalar_values rest path)"


section \<open>Parse and Load\<close>

record yaml_package =
  decode_first :: "string \<Rightarrow> yaml_node option"
  second_is_eof :: "string \<Rightarrow> bool"
  decode_strict :: "string \<Rightarrow> Config option"

definition MaxSize :: nat where
  "MaxSize = 1048576"

definition Parse :: "yaml_package \<Rightarrow> reader \<Rightarrow> string + Config" where
  "Parse yaml r =
     (case read_limited (MaxSize + 1) r of
        None \<Rightarrow> Inl ''cannot read config or config exceeds 1 MiB''
      | Some data \<Rightarrow>
          if length data > MaxSize then Inl ''cannot read config or config exceeds 1 MiB''
          else case decode_first yaml data of
              None \<Rightarrow> Inl ''invalid YAML configuration''
            | Some node \<Rightarrow>
                (case validateNode node of Some e \<Rightarrow> Inl e | None \<Rightarrow>
                (case validateScalarTypes node [] of Some e \<Rightarrow> Inl e | None \<Rightarrow>
                 if \<not> second_is_eof yaml data then Inl ''exactly one YAML document is required''
                 else case decode_strict yaml data of
                     None \<Rightarrow>
                       Inl ''invalid configuration schema (unknown, duplicate or mistyped field)''
                   | Some cfg \<Rightarrow> validate_config cfg)))"

definition Load :: "yaml_package \<Rightarrow> (string \<Rightarrow> reader option) \<Rightarrow> string \<Rightarrow> string + Config" where
  "Load yaml open_file path =
     (case open_file path of
        None \<Rightarrow> Inl ''cannot open config file''
      | Some f \<Rightarrow> Parse yaml f)"


section \<open>What the passes ensure\<close>

fun nodes :: "yaml_node \<Rightarrow> yaml_node set" where
  "nodes (Node kind tagged tag v anchor content) =
     insert (Node kind tagged tag v anchor content) (\<Union>n \<in> set content. nodes n)"

definition plain_node :: "yaml_node \<Rightarrow> bool" where
  "plain_node n \<longleftrightarrow>
     Anchor n = [] \<and> Kind n \<noteq> AliasNode \<and> \<not> Tagged n \<and> Tag n \<noteq> ''!!null'' \<and>
     (Kind n = MappingNode \<longrightarrow> (\<forall>key \<in> set (even_positions (Content n)). Tag key = ''!!str''))"

lemma validateNode_None_iff: "validateNode n = None \<longleftrightarrow> (\<forall>m \<in> nodes n. plain_node m)"
proof (induction n rule: validateNode.induct)
  case (1 kind tagged tag v anchor content)
  have "validateNode (Node kind tagged tag v anchor content) = None \<longleftrightarrow>
      plain_node (Node kind tagged tag v anchor content) \<and> (\<forall>c \<in> set content. validateNode c = None)"
    by (auto simp: plain_node_def list_ex_iff)
  moreover have "(\<forall>c \<in> set content. validateNode c = None) \<longleftrightarrow>
      (\<forall>c \<in> set content. \<forall>m \<in> nodes c. plain_node m)" if "plain_node (Node kind tagged tag v anchor content)"
    using 1 that by (auto simp: plain_node_def list_ex_iff)
  ultimately show ?case by auto
qed

text \<open>
  The typed view of a node tree: the path of every scalar and its resolved type. A mapping
  contributes its values at the extended path, a sequence its elements at its own path.
\<close>

function scalars :: "string \<Rightarrow> yaml_node \<Rightarrow> (string \<times> string) set"
  and scalars_in :: "string \<Rightarrow> yaml_node list \<Rightarrow> (string \<times> string) set" where
  "scalars path (Node kind tagged tag v anchor content) =
     (case kind of
        ScalarNode \<Rightarrow> {(path, tag)}
      | MappingNode \<Rightarrow> scalars_in path content
      | DocumentNode \<Rightarrow> (\<Union>n \<in> set content. scalars path n)
      | SequenceNode \<Rightarrow> (\<Union>n \<in> set content. scalars path n)
      | _ \<Rightarrow> {})"
| "scalars_in path (key # n # rest) = scalars (child_path path (Val key)) n \<union> scalars_in path rest"
| "scalars_in path [key] = {}"
| "scalars_in path [] = {}"
  by pat_completeness auto
termination
  by (relation "measure (\<lambda>x. case x of Inl (p, n) \<Rightarrow> size n | Inr (p, ns) \<Rightarrow> size_list size ns)")
    (auto simp: less_Suc_eq_le intro: size_list_estimation')


definition even_mappings :: "yaml_node \<Rightarrow> bool" where
  "even_mappings n \<longleftrightarrow> (\<forall>m \<in> nodes n. Kind m = MappingNode \<longrightarrow> even (length (Content m)))"

lemma validateScalarTypes_None_iff:
  "even_mappings n \<Longrightarrow> \<forall>m \<in> nodes n. Kind m \<noteq> AliasNode \<Longrightarrow>
     validateScalarTypes n path = None \<longleftrightarrow> (\<forall>(q, t) \<in> scalars path n. scalar_ok q t)"
  "\<forall>n \<in> set ns. even_mappings n \<and> (\<forall>m \<in> nodes n. Kind m \<noteq> AliasNode) \<Longrightarrow>
     scalar_children ns path = None \<longleftrightarrow> (\<forall>n \<in> set ns. \<forall>(q, t) \<in> scalars path n. scalar_ok q t)"
  "even (length ns) \<Longrightarrow> \<forall>n \<in> set ns. even_mappings n \<and> (\<forall>m \<in> nodes n. Kind m \<noteq> AliasNode) \<Longrightarrow>
     scalar_values ns path = None \<longleftrightarrow> (\<forall>(q, t) \<in> scalars_in path ns. scalar_ok q t)"
proof (induction n path and ns path and ns path
    rule: validateScalarTypes_scalar_children_scalar_values.induct)
  case (1 kind tagged tag v anchor content path)
  then show ?case by (cases kind) (auto simp: even_mappings_def)
next
  case (3 child rest path)
  then show ?case by (cases "validateScalarTypes child path") auto
next
  case (6 key v rest path)
  then show ?case
    by (cases "validateScalarTypes v (child_path path (Val key))") (auto simp: ball_Un)
qed (auto simp: even_mappings_def)

lemma Parse_Inr_iff:
  "Parse yaml r = Inr cfg \<longleftrightarrow>
     \<not> ReaderFails r \<and> length (ReaderBytes r) \<le> MaxSize \<and>
     (\<exists>node raw. decode_first yaml (ReaderBytes r) = Some node \<and>
        validateNode node = None \<and> validateScalarTypes node [] = None \<and>
        second_is_eof yaml (ReaderBytes r) \<and>
        decode_strict yaml (ReaderBytes r) = Some raw \<and> validate_config raw = Inr cfg)"
proof -
  have "Parse yaml r = Inr cfg \<longleftrightarrow>
     (\<exists>data. (read_limited (MaxSize + 1) r = Some data \<and> length data \<le> MaxSize) \<and>
       (\<exists>node raw. decode_first yaml data = Some node \<and>
        validateNode node = None \<and> validateScalarTypes node [] = None \<and>
        second_is_eof yaml data \<and> decode_strict yaml data = Some raw \<and> validate_config raw = Inr cfg))"
    by (auto simp: Parse_def split: option.splits if_splits)
  then show ?thesis unfolding read_limited_within by blast
qed

section \<open>Properties\<close>

definition plain_tree :: "yaml_node \<Rightarrow> bool" where
  "plain_tree n \<longleftrightarrow> (\<forall>m \<in> nodes n. plain_node m)"

definition typed_tree :: "yaml_node \<Rightarrow> bool" where
  "typed_tree n \<longleftrightarrow> (\<forall>(path, tag) \<in> scalars [] n. scalar_ok path tag)"

lemma passes_iff:
  assumes "even_mappings n"
  shows "validateNode n = None \<and> validateScalarTypes n [] = None \<longleftrightarrow> plain_tree n \<and> typed_tree n"
  using assms validateScalarTypes_None_iff(1) [of n "[]"]
  by (auto simp: plain_tree_def typed_tree_def validateNode_None_iff plain_node_def)

text \<open>
  C24: \<open>Parse\<close> returns a configuration iff the input was read without a failure and has at most
  1 MiB, it holds exactly one document, no node of that document has an anchor, an alias, an
  explicit tag or a null value, all its keys are strings, every scalar has the type that its
  path demands, and the strictly decoded document passes the validation, whose result it
  returns. The YAML package is assumed to pair every key of a mapping with a value.
\<close>

theorem parse_exact:
  assumes "\<And>data n. decode_first yaml data = Some n \<Longrightarrow> even_mappings n"
  shows "Parse yaml r = Inr cfg \<longleftrightarrow>
     \<not> ReaderFails r \<and> length (ReaderBytes r) \<le> 1048576 \<and>
     (\<exists>node raw. decode_first yaml (ReaderBytes r) = Some node \<and>
        plain_tree node \<and> typed_tree node \<and> second_is_eof yaml (ReaderBytes r) \<and>
        decode_strict yaml (ReaderBytes r) = Some raw \<and> config_ok raw \<and>
        cfg = config_defaults raw)"
  using passes_iff [OF assms]
  unfolding Parse_Inr_iff MaxSize_def validate_config_Inr_iff by blast

definition example_yaml :: yaml_package where
  "example_yaml =
     \<lparr>decode_first = (\<lambda>_. Some (Node DocumentNode False [] [] []
        [Node MappingNode False ''!!map'' [] []
          [Node ScalarNode False ''!!str'' ''authentication'' [] [],
           Node MappingNode False ''!!map'' [] []
             [Node ScalarNode False ''!!str'' ''unidentified'' [] [],
              Node ScalarNode False ''!!str'' ''deny'' [] []]]])),
      second_is_eof = (\<lambda>_. True),
      decode_strict = (\<lambda>_. Some (example_config []))\<rparr>"

theorem parse_exact_witness:
  "Parse example_yaml \<lparr>ReaderBytes = ''authentication: {unidentified: deny}'', ReaderFails = False\<rparr> =
     Inr (config_defaults (example_config []))"
proof -
  have even: "even_mappings n" if "decode_first example_yaml data = Some n" for data n
    using that by (auto simp: example_yaml_def even_mappings_def)
  have ok: "config_ok (example_config [])"
  proof -
    have "validate_config (example_config []) = Inr (config_defaults (example_config []))" by code_simp
    then show ?thesis by (simp add: validate_config_Inr_iff)
  qed
  show ?thesis
    by (subst parse_exact, erule even)
      (simp add: example_yaml_def ok plain_tree_def plain_node_def typed_tree_def child_path_def
        scalar_ok_def)
qed

end
