(* ===== verification/Go_Flag.thy ===== *)
theory Go_Flag
  imports Go_Strings
begin

text \<open>
  The part of the Go standard library that the two commands use to read their arguments: the
  package \<open>flag\<close> and the conversions of \<open>strconv\<close> behind its boolean and integer flags. Messages
  of the package, which quote the user's input, are not modelled.
\<close>

section \<open>strconv\<close>

definition ParseBool :: "string \<Rightarrow> bool option" where
  "ParseBool s =
     (if s \<in> set [''1'', ''t'', ''T'', ''true'', ''TRUE'', ''True''] then Some True
      else if s \<in> set [''0'', ''f'', ''F'', ''false'', ''FALSE'', ''False''] then Some False
      else None)"

text \<open>
  \<open>underscoreOK\<close>: an underscore stands between two digits, where a base prefix counts as a digit.
  \<open>saw\<close> is the kind of the last character, as in the source.
\<close>

fun underscore_loop :: "bool \<Rightarrow> char \<Rightarrow> string \<Rightarrow> bool" where
  "underscore_loop hex saw [] \<longleftrightarrow> saw \<noteq> CHR ''_''"
| "underscore_loop hex saw (c # s) \<longleftrightarrow>
     (if is_digit c \<or> (hex \<and> CHR ''a'' \<le> to_lower_ascii c \<and> to_lower_ascii c \<le> CHR ''f'')
      then underscore_loop hex (CHR ''0'') s
      else if c = CHR ''_'' then saw = CHR ''0'' \<and> underscore_loop hex (CHR ''_'') s
      else saw \<noteq> CHR ''_'' \<and> underscore_loop hex (CHR ''!'') s)"

definition base_prefix :: "string \<Rightarrow> char \<Rightarrow> bool" where
  "base_prefix s c \<longleftrightarrow>
     length s \<ge> 2 \<and> s ! 0 = CHR ''0'' \<and> to_lower_ascii (s ! 1) = c"

definition underscoreOK :: "string \<Rightarrow> bool" where
  "underscoreOK s =
     (if base_prefix s (CHR ''b'') \<or> base_prefix s (CHR ''o'') \<or> base_prefix s (CHR ''x'')
      then underscore_loop (base_prefix s (CHR ''x'')) (CHR ''0'') (drop 2 s)
      else underscore_loop False (CHR ''^'') s)"

definition any_digit :: "char \<Rightarrow> int option" where
  "any_digit c =
     (if is_digit c then Some (int (digit_val c))
      else if CHR ''a'' \<le> to_lower_ascii c \<and> to_lower_ascii c \<le> CHR ''z''
      then Some (of_char (to_lower_ascii c) - 97 + 10)
      else None)"

text \<open>
  The digits of \<open>ParseUint\<close> with base 0. The source stops at an overflow of 64 bits with a range
  error; here the number is unbounded and the caller compares it with the bound, which is an
  error in the same cases.
\<close>

fun parse_digits :: "int \<Rightarrow> int \<Rightarrow> string \<Rightarrow> int option" where
  "parse_digits base n [] = Some n"
| "parse_digits base n (c # s) =
     (if c = CHR ''_'' then parse_digits base n s
      else case any_digit c of
          None \<Rightarrow> None
        | Some d \<Rightarrow> if d \<ge> base then None else parse_digits base (n * base + d) s)"

definition parse_unsigned :: "string \<Rightarrow> int option" where
  "parse_unsigned s =
     (if s = [] then None
      else let (base, digits) =
             (if s ! 0 = CHR ''0'' then
                (if length s \<ge> 3 \<and> base_prefix s (CHR ''b'') then (2, drop 2 s)
                 else if length s \<ge> 3 \<and> base_prefix s (CHR ''o'') then (8, drop 2 s)
                 else if length s \<ge> 3 \<and> base_prefix s (CHR ''x'') then (16, drop 2 s)
                 else (8, drop 1 s))
              else (10, s))
           in if CHR ''_'' \<in> set digits \<and> \<not> underscoreOK s then None else parse_digits base 0 digits)"

text \<open>\<open>strconv.ParseInt(s, 0, 64)\<close>\<close>

definition ParseInt :: "string \<Rightarrow> int option" where
  "ParseInt s =
     (let neg = prefix ''-'' s;
          body = (if prefix ''-'' s \<or> prefix ''+'' s then tl s else s)
      in case parse_unsigned body of
           None \<Rightarrow> None
         | Some n \<Rightarrow>
             if \<not> neg \<and> n \<ge> 2 ^ 63 then None
             else if neg \<and> n > 2 ^ 63 then None
             else Some (if neg then - n else n))"


section \<open>flag\<close>

datatype flag_error = ErrHelp | FlagFailed

text \<open>
  A flag set maps a name to whether the flag is boolean and to its \<open>Set\<close>, which changes the
  variables behind the flags.
\<close>

type_synonym 'v flag_set = "string \<Rightarrow> (bool \<times> (string \<Rightarrow> 'v \<Rightarrow> 'v option)) option"

definition flag_name :: "string \<Rightarrow> string" where
  "flag_name s = (if prefix ''--'' s then drop 2 s else drop 1 s)"

definition split_flag :: "string \<Rightarrow> string \<times> string option" where
  "split_flag name =
     (if CHR ''='' \<in> set name
      then (takeWhile (\<lambda>c. c \<noteq> CHR ''='') name, Some (drop 1 (dropWhile (\<lambda>c. c \<noteq> CHR ''='') name)))
      else (name, None))"

text \<open>\<open>FlagSet.Parse\<close>: the variables and the positional arguments, or an error.\<close>

fun parse_flags :: "'v flag_set \<Rightarrow> string list \<Rightarrow> 'v \<Rightarrow> flag_error + 'v \<times> string list" where
  "parse_flags formal [] v = Inr (v, [])"
| "parse_flags formal (s # args) v =
     (if length s < 2 \<or> hd s \<noteq> CHR ''-'' then Inr (v, s # args)
      else if s = ''--'' then Inr (v, args)
      else if flag_name s = [] \<or> hd (flag_name s) = CHR ''-'' \<or> hd (flag_name s) = CHR ''='' then Inl FlagFailed
      else let (name, arg) = split_flag (flag_name s) in
        case formal name of
          None \<Rightarrow> Inl (if name = ''help'' \<or> name = ''h'' then ErrHelp else FlagFailed)
        | Some (is_bool, set_value) \<Rightarrow>
            if is_bool then
              (case set_value (case arg of None \<Rightarrow> ''true'' | Some x \<Rightarrow> x) v of
                 None \<Rightarrow> Inl FlagFailed
               | Some v \<Rightarrow> parse_flags formal args v)
            else
              (case arg of
                 Some x \<Rightarrow>
                   (case set_value x v of None \<Rightarrow> Inl FlagFailed | Some v \<Rightarrow> parse_flags formal args v)
               | None \<Rightarrow>
                   (case args of
                      [] \<Rightarrow> Inl FlagFailed
                    | x # rest \<Rightarrow>
                        (case set_value x v of None \<Rightarrow> Inl FlagFailed | Some v \<Rightarrow> parse_flags formal rest v))))"


section \<open>Flags with their values\<close>

text \<open>A flag written as \<open>--name=value\<close>.\<close>

definition long_flag :: "string \<Rightarrow> string \<Rightarrow> string" where
  "long_flag name v = ''--'' @ name @ ''='' @ v"

definition plain_name :: "string \<Rightarrow> bool" where
  "plain_name name \<longleftrightarrow> name \<noteq> [] \<and> hd name \<noteq> CHR ''-'' \<and> CHR ''='' \<notin> set name"

lemma hd_plain: "name \<noteq> [] \<Longrightarrow> CHR ''='' \<notin> set name \<Longrightarrow> hd name \<noteq> CHR ''=''"
  by (cases name) auto

lemma split_flag_eq: "CHR ''='' \<notin> set name \<Longrightarrow> split_flag (name @ CHR ''='' # x) = (name, Some x)"
  by (simp add: split_flag_def takeWhile_append dropWhile_append)

lemma parse_long_flag:
  assumes "plain_name name" and "formal name = Some (is_bool, set_value)"
  shows "parse_flags formal (long_flag name x # args) v =
    (case set_value x v of None \<Rightarrow> Inl FlagFailed | Some v \<Rightarrow> parse_flags formal args v)"
  using assms hd_plain [of name]
  by (simp add: long_flag_def flag_name_def plain_name_def split_flag_eq)

lemma parse_bool_flag:
  assumes "plain_name name" and "formal name = Some (True, set_value)"
  shows "parse_flags formal ((''--'' @ name) # args) v =
    (case set_value ''true'' v of None \<Rightarrow> Inl FlagFailed | Some v \<Rightarrow> parse_flags formal args v)"
  using assms hd_plain [of name]
  by (simp add: flag_name_def plain_name_def split_flag_def)

text \<open>A list of flags with values, given one after the other.\<close>

fun set_all :: "'v flag_set \<Rightarrow> (string \<times> string) list \<Rightarrow> 'v \<Rightarrow> 'v option" where
  "set_all formal [] v = Some v"
| "set_all formal ((name, x) # rest) v =
     (case formal name of
        None \<Rightarrow> None
      | Some (_, set_value) \<Rightarrow>
          (case set_value x v of None \<Rightarrow> None | Some v \<Rightarrow> set_all formal rest v))"

lemma parse_long_flags:
  assumes "\<forall>(name, x) \<in> set fs. plain_name name" and "set_all formal fs v = Some v'"
  shows "parse_flags formal (map (\<lambda>(name, x). long_flag name x) fs) v = Inr (v', [])"
  using assms
proof (induction fs arbitrary: v)
  case (Cons f fs)
  obtain name x where f: "f = (name, x)" by (cases f)
  then obtain is_bool set_value w where "formal name = Some (is_bool, set_value)"
    "set_value x v = Some w" "set_all formal fs w = Some v'"
    using Cons.prems(2) by (auto split: option.splits)
  then show ?case
    using Cons.IH [of w] Cons.prems(1) f parse_long_flag [of name formal is_bool set_value] by simp
qed simp


section \<open>Decimal numbers\<close>

fun decimal :: "nat \<Rightarrow> string" where
  "decimal n = (if n < 10 then [char_of (48 + n)] else decimal (n div 10) @ [char_of (48 + n mod 10)])"

declare decimal.simps [simp del]

lemma char_of_digit:
  assumes "k < 10"
  shows "is_digit (char_of (48 + k))" and "digit_val (char_of (48 + k)) = k"
    and "any_digit (char_of (48 + k)) = Some (int k)" and "char_of (48 + k) \<noteq> CHR ''_''"
proof -
  have code: "(of_char (char_of (48 + k) :: char) :: nat) = 48 + k" using assms by (simp add: of_char_of)
  then show "is_digit (char_of (48 + k))" "digit_val (char_of (48 + k)) = k"
    using assms by (simp_all add: is_digit_iff digit_val_def)
  then show "any_digit (char_of (48 + k)) = Some (int k)" by (simp add: any_digit_def)
  show "char_of (48 + k) \<noteq> CHR ''_''"
  proof
    assume "char_of (48 + k) = CHR ''_''"
    then have "(of_char (char_of (48 + k) :: char) :: nat) = of_char CHR ''_''" by simp
    then show False using code assms by simp
  qed
qed

lemma parse_digits_append:
  "parse_digits base n s = Some m \<Longrightarrow> parse_digits base n (s @ t) = parse_digits base m t"
  by (induction base n s rule: parse_digits.induct) (auto split: if_splits option.splits)

lemma parse_digits_decimal: "parse_digits 10 0 (decimal n) = Some (int n)"
proof (induction n rule: decimal.induct)
  case (1 n)
  have "int n div 10 * 10 + int n mod 10 = int n" "\<not> 10 \<le> int n mod 10" by simp_all
  then show ?case
    using 1 char_of_digit(3,4) [of n] char_of_digit(3,4) [of "n mod 10"]
    by (subst decimal.simps) (simp add: parse_digits_append zdiv_int zmod_int)
qed

lemma decimal_digits: "c \<in> set (decimal n) \<Longrightarrow> is_digit c \<and> c \<noteq> CHR ''_''"
proof (induction n rule: decimal.induct)
  case (1 n)
  then show ?case
    using char_of_digit(1,4) [of n] char_of_digit(1,4) [of "n mod 10"]
    by (subst (asm) (2) decimal.simps) (auto split: if_splits)
qed

lemma decimal_inj: "decimal m = decimal n \<Longrightarrow> m = n"
  using parse_digits_decimal by (metis option.inject of_nat_eq_iff)

lemma decimal_length_mono: "m \<le> n \<Longrightarrow> length (decimal m) \<le> length (decimal n)"
proof (induction n arbitrary: m rule: decimal.induct)
  case (1 n)
  then show ?case
    using 1(1) [of "m div 10"] by (subst (1 2) decimal.simps) (auto simp: div_le_mono)
qed

lemma decimal_hd: "0 < n \<Longrightarrow> decimal n \<noteq> [] \<and> hd (decimal n) \<noteq> CHR ''0''"
proof (induction n rule: decimal.induct)
  case (1 n)
  show ?case
  proof (cases "n < 10")
    case True
    then have "digit_val (char_of (48 + n)) \<noteq> digit_val CHR ''0''"
      using 1(2) char_of_digit(2) [of n] by (simp add: digit_val_def)
    then show ?thesis using True by (subst (1 2) decimal.simps) auto
  next
    case False
    then show ?thesis using 1 by (subst (1 2) decimal.simps) auto
  qed
qed

lemma ParseInt_decimal:
  assumes "0 < n" and "int n < 2 ^ 63"
  shows "ParseInt (decimal n) = Some (int n)"
proof -
  have hd: "decimal n \<noteq> []" "hd (decimal n) \<noteq> CHR ''0''" using decimal_hd assms(1) by blast+
  have "is_digit (hd (decimal n))" using decimal_digits [OF hd_in_set [OF hd(1)]] by simp
  then have sign: "\<not> prefix ''-'' (decimal n)" "\<not> prefix ''+'' (decimal n)"
    by (auto simp: prefix_def is_digit_iff)
  have "parse_unsigned (decimal n) = Some (int n)"
    using hd decimal_digits parse_digits_decimal by (simp add: parse_unsigned_def hd_conv_nth) blast
  then show ?thesis using sign assms(2) by (simp add: ParseInt_def)
qed

end
