(* ===== verification/Dockauthz.thy ===== *)
theory Dockauthz
  imports Transport Telemetry_Setup Config_Parse Go_Flag
begin

text \<open>
  \<open>cmd/dockauthz\<close>: how the process is put together, and what it does when it ends.

  \<open>host\<close> collects what the process finds around it. The result of \<open>ServeUnix\<close>, which \<open>Transport\<close>
  models as a state machine, is a parameter of \<open>run\<close>.
\<close>

section \<open>Starting\<close>

definition DefaultPath :: string where
  "DefaultPath = ''/etc/dockauthz/config.yaml''"

record ('d, 'e) host =
  host_yaml :: yaml_package
  host_open :: "string \<Rightarrow> reader option"
  host_exporters :: "'e exporter_libs"
  host_clock :: "int64 \<times> int64"
  host_random :: "nat \<Rightarrow> byte list option"
  host_dial :: "string \<Rightarrow> 'd round_trip"
  stop_traces :: "'e trace_provider \<Rightarrow> bool"
  stop_metrics :: "'e metric_provider \<Rightarrow> bool"

text \<open>What a started process consists of.\<close>

record ('d, 'e) service =
  service_runtime :: "'e Runtime"
  service_client :: "'d Client"
  service_plugin :: Plugin

text \<open>
  The effects of \<open>run\<close> and \<open>main\<close> outside their own memory. \<open>ShutdownTelemetry\<close> carries the time, in
  nanoseconds, that the flushing gets.
\<close>

datatype run_effect =
    NotifySignals
  | SetupTelemetry
  | NewClient string
  | LogStarting string
  | CallServeUnix string
  | CloseClient
  | ShutdownTelemetry int64
  | LogShutdownFailed
  | StopSignals
  | LogStopped string

text \<open>
  A frame of a Go function: what it did so far, and the calls that it has deferred with what each
  of them does, the latest first. On return the deferred calls run in this order.
\<close>

record frame =
  done_effects :: "run_effect list"
  deferred :: "run_effect list list"

definition empty_frame :: frame where
  "empty_frame = \<lparr>done_effects = [], deferred = []\<rparr>"

definition do_effect :: "run_effect \<Rightarrow> frame \<Rightarrow> frame" where
  "do_effect e f = f\<lparr>done_effects := done_effects f @ [e]\<rparr>"

definition defer_call :: "run_effect list \<Rightarrow> frame \<Rightarrow> frame" where
  "defer_call es f = f\<lparr>deferred := es # deferred f\<rparr>"

fun run_deferred :: "run_effect list list \<Rightarrow> run_effect list \<Rightarrow> run_effect list" where
  "run_deferred [] trace = trace"
| "run_deferred (call # calls) trace = run_deferred calls (trace @ call)"

definition return_from :: "frame \<Rightarrow> run_effect list" where
  "return_from f = run_deferred (deferred f) (done_effects f)"

text \<open>
  \<open>flag.Parse\<close> ends the process on an error, with code 0 for a request for help and 2 otherwise.
\<close>

datatype outcome = Exited int | Finished error

definition config_flag :: "string flag_set" where
  "config_flag name = (if name = ''config'' then Some (False, \<lambda>x path. Some x) else None)"

definition shutdownTimeout :: int64 where
  "shutdownTimeout = 8 * 1000000000"

text \<open>
  The deferred function that flushes the telemetry. Its own \<open>defer cancel()\<close>, which frees the timer
  of the timeout, has no effect outside.
\<close>

definition shutdown_telemetry :: "('d, 'e) host \<Rightarrow> 'e Runtime \<Rightarrow> run_effect list" where
  "shutdown_telemetry h tel =
     ShutdownTelemetry shutdownTimeout #
     (if Shutdown (stop_traces h) (stop_metrics h) tel \<noteq> [] then [LogShutdownFailed] else [])"

definition docker_socket :: string where
  "docker_socket = ''/var/run/docker.sock''"

definition plugin_socket :: string where
  "plugin_socket = ''/run/docker/plugins/dockauthz.sock''"

text \<open>
  \<open>run\<close> after its configuration was loaded and its telemetry set up, in the frame that it has then.
  \<open>serve\<close> gives the error that \<open>ServeUnix\<close> returns. Next to the error the service is returned that
  \<open>ServeUnix\<close> was called with, if it was, and the effects with those of the deferred calls.
\<close>

definition run_service ::
  "('d, 'e) host \<Rightarrow> string \<Rightarrow> (('d, 'e) service \<Rightarrow> error) \<Rightarrow> Config \<Rightarrow> 'e Runtime \<Rightarrow> frame \<Rightarrow>
     error \<times> ('d, 'e) service option \<times> run_effect list" where
  "run_service h version serve cfg tel f =
     (case NewToken (host_random h) of
        None \<Rightarrow> (Some ''cannot create internal authorization token'', None, return_from f)
      | Some tok \<Rightarrow>
          let client = Docker_Client.New (host_dial h) docker_socket tok (runtime_observer tel);
              f = do_effect (NewClient docker_socket) f;
              f = defer_call [CloseClient] f
          in (case Authz.New cfg tok of
                Inl e \<Rightarrow> (Some e, None, return_from f)
              | Inr plugin \<Rightarrow>
                  let f = do_effect (LogStarting version) f;
                      service = \<lparr>service_runtime = tel, service_client = client, service_plugin = plugin\<rparr>;
                      f = do_effect (CallServeUnix plugin_socket) f
                  in (serve service, Some service, return_from f)))"

definition run ::
  "('d, 'e) host \<Rightarrow> string \<Rightarrow> (('d, 'e) service \<Rightarrow> error) \<Rightarrow> string list \<Rightarrow> 'e otel_globals \<Rightarrow>
     outcome \<times> ('d, 'e) service option \<times> run_effect list" where
  "run h version serve args g =
     (let f = empty_frame in
      case parse_flags config_flag args DefaultPath of
        Inl e \<Rightarrow> (Exited (if e = ErrHelp then 0 else 2), None, done_effects f)
      | Inr (path, positional) \<Rightarrow>
          if positional \<noteq> [] then (Finished (Some ''unexpected positional arguments''), None, return_from f)
          else case Load (host_yaml h) (host_open h) path of
              Inl e \<Rightarrow> (Finished (Some e), None, return_from f)
            | Inr cfg \<Rightarrow>
                let f = do_effect NotifySignals f;
                    f = defer_call [StopSignals] f
                in (case fst (Setup (host_exporters h) (host_clock h) (Config.Telemetry cfg) version g) of
                      Inl e \<Rightarrow> (Finished (Some e), None, return_from f)
                    | Inr (tel, settings) \<Rightarrow>
                        let f = do_effect SetupTelemetry f;
                            f = defer_call (shutdown_telemetry h tel) f;
                            (err, service, effects) =
                              run_service h version serve (cfg\<lparr>Config.Telemetry := settings\<rparr>) tel f
                        in (Finished err, service, effects)))"

text \<open>\<open>main\<close>: the exit code of the process, and all its effects.\<close>

definition main ::
  "('d, 'e) host \<Rightarrow> string \<Rightarrow> (('d, 'e) service \<Rightarrow> error) \<Rightarrow> string list \<Rightarrow> 'e otel_globals \<Rightarrow>
     int \<times> run_effect list" where
  "main h version serve args g =
     (case run h version serve args g of
        (Exited n, _, effects) \<Rightarrow> (n, effects)
      | (Finished None, _, effects) \<Rightarrow> (0, effects)
      | (Finished (Some e), _, effects) \<Rightarrow> (1, effects @ [LogStopped e]))"

text \<open>The handler that the service answers callbacks with.\<close>

definition service_authorize ::
  "'c otel \<Rightarrow> codecs \<Rightarrow> ('d, 'e) service \<Rightarrow> 'c \<Rightarrow> Request \<Rightarrow> 'd world \<Rightarrow> Response \<times> 'd world" where
  "service_authorize ot cd service =
     Authorize ot cd (runtime_observer (service_runtime service))
       (Inspect ot cd (service_client service)) (service_plugin service)"


section \<open>What starts\<close>

lemma Load_accepted:
  "Load yaml open_file path = Inr cfg \<Longrightarrow> config_ok cfg \<and> config_defaults cfg = cfg"
  by (auto simp: Load_def Parse_Inr_iff validate_config_Inr_iff split: option.splits)

text \<open>
  After a document was accepted neither the telemetry nor the plugin can reject it any more:
  only a failure of the randomness stops the start.
\<close>

definition started :: "('d, 'e) host \<Rightarrow> 'e Runtime \<Rightarrow> Config \<Rightarrow> Token \<Rightarrow> ('d, 'e) service" where
  "started h tel cfg tok =
     \<lparr>service_runtime = tel,
      service_client = \<lparr>RoundTrip = host_dial h docker_socket, ClientToken = tok,
                        ClientObserver = NewObserver\<rparr>,
      service_plugin = plugin_of cfg tok\<rparr>"

lemma run_loaded:
  assumes "parse_flags config_flag args DefaultPath = Inr (path, [])"
    and "Load (host_yaml h) (host_open h) path = Inr cfg"
  shows "\<exists>tel effects. runtime_observer tel = NewObserver \<and>
    run h version serve args g =
      (case NewToken (host_random h) of
         None \<Rightarrow> (Finished (Some ''cannot create internal authorization token''), None, effects)
       | Some tok \<Rightarrow>
           (Finished (serve (started h tel cfg tok)), Some (started h tel cfg tok), effects))"
proof -
  have ok: "config_ok cfg" "config_defaults cfg = cfg" using Load_accepted assms(2) by blast+
  have telemetry: "map_option telemetry_defaults (Config.Telemetry cfg) = Config.Telemetry cfg"
    using ok(2) by (metis config_defaults_def Config.select_convs(2) Config.surjective Config.update_convs(2))
  obtain tel g' where made: "Setup (host_exporters h) (host_clock h) (Config.Telemetry cfg) version g =
      (Inr (tel, Config.Telemetry cfg), g')" "runtime_observer tel = NewObserver"
    using Setup_accepted [of "Config.Telemetry cfg"] ok(1) telemetry unfolding config_ok_def by metis
  have new: "Authz.New cfg tok = Inr (plugin_of cfg tok)" for tok using ok(1) by (simp add: New_Inr_iff)
  show ?thesis
    using assms made new
    by (intro exI [of _ tel] exI [of _ "snd (snd (run h version serve args g))"])
      (simp add: run_def run_service_def started_def Docker_Client.New_def Let_def split: option.split)
qed

lemma run_service_started:
  assumes "fst (snd (run h version serve args g)) = Some service"
  shows "\<exists>path cfg bytes tel. parse_flags config_flag args DefaultPath = Inr (path, []) \<and>
    Load (host_yaml h) (host_open h) path = Inr cfg \<and> config_ok cfg \<and> host_random h 32 = Some bytes \<and>
    runtime_observer tel = NewObserver \<and> service = started h tel cfg \<lparr>TokenValue = encode_hex bytes\<rparr>"
proof -
  obtain path where path: "parse_flags config_flag args DefaultPath = Inr (path, [])"
    using assms by (auto simp: run_def split: sum.splits prod.splits if_splits)
  then obtain cfg where cfg: "Load (host_yaml h) (host_open h) path = Inr cfg"
    using assms by (auto simp: run_def split: sum.splits)
  obtain bytes where bytes: "host_random h 32 = Some bytes"
    using assms run_loaded [OF path cfg, of version serve g] by (auto simp: NewToken_def split: option.splits)
  show ?thesis
    using assms run_loaded [OF path cfg, of version serve g] path cfg bytes Load_accepted [OF cfg]
    by (auto simp: NewToken_def)
qed


text \<open>A concrete process: a minimal document, no exporters and a daemon that never answers.\<close>

definition example_host :: "(int, unit) host" where
  "example_host =
     \<lparr>host_yaml = example_yaml,
      host_open = (\<lambda>_. Some \<lparr>ReaderBytes = ''authentication: {unidentified: deny}'', ReaderFails = False\<rparr>),
      host_exporters = \<lparr>trace_grpc = (\<lambda>_. None), trace_http = (\<lambda>_. None), metric_grpc = (\<lambda>_. None),
                        metric_http = (\<lambda>_. None)\<rparr>,
      host_clock = (100, 100), host_random = (\<lambda>n. Some (replicate n 255)), host_dial = (\<lambda>_ _ d. (None, d)),
      stop_traces = (\<lambda>_. True), stop_metrics = (\<lambda>_. True)\<rparr>"

definition example_globals :: "unit otel_globals" where
  "example_globals =
     \<lparr>Propagators = [], ErrorHandler = new_handler, TracerProvider = None, MeterProvider = None\<rparr>"

lemma example_loads:
  "Load (host_yaml example_host) (host_open example_host) path = Inr (config_defaults (example_config []))"
proof -
  have "validate_config (example_config []) = Inr (config_defaults (example_config []))" by code_simp
  then show ?thesis
    by (simp add: Load_def example_host_def Parse_Inr_iff example_yaml_def MaxSize_def child_path_def scalar_ok_def)
qed

lemma example_run_service:
  "\<exists>service. fst (snd (run example_host version serve [''--config=/etc/policy.yaml''] g)) = Some service"
proof -
  have "parse_flags config_flag [''--config=/etc/policy.yaml''] DefaultPath = Inr (''/etc/policy.yaml'', [])"
    by code_simp
  from run_loaded [OF this example_loads, of version serve g] show ?thesis
    by (auto simp: NewToken_def example_host_def)
qed


section \<open>What is taken and released\<close>

text \<open>What has to be called for an effect that takes a resource.\<close>

fun release_of :: "run_effect \<Rightarrow> run_effect option" where
  "release_of NotifySignals = Some StopSignals"
| "release_of SetupTelemetry = Some (ShutdownTelemetry 8000000000)"
| "release_of (NewClient socket) = Some CloseClient"
| "release_of _ = None"

fun releases :: "run_effect \<Rightarrow> bool" where
  "releases StopSignals \<longleftrightarrow> True"
| "releases (ShutdownTelemetry timeout) \<longleftrightarrow> True"
| "releases CloseClient \<longleftrightarrow> True"
| "releases _ \<longleftrightarrow> False"

text \<open>
  The releases that are still due after some effects, the next one first. There is none where
  something is released that is not the resource taken last.
\<close>

fun held :: "run_effect list \<Rightarrow> run_effect list \<Rightarrow> run_effect list option" where
  "held [] owed = Some owed"
| "held (e # es) owed =
     (case release_of e of
        Some r \<Rightarrow> held es (r # owed)
      | None \<Rightarrow>
          if releases e
          then (case owed of [] \<Rightarrow> None | r # rest \<Rightarrow> if r = e then held es rest else None)
          else held es owed)"

lemma held_append: "held (es @ es') owed = Option.bind (held es owed) (held es')"
  by (induction es owed rule: held.induct) (auto split: option.split list.split)

definition serves :: "run_effect list \<Rightarrow> bool" where
  "serves es \<longleftrightarrow> (\<exists>path. CallServeUnix path \<in> set es)"

lemma serves_simps [simp]:
  "\<not> serves []"
  "serves (es @ es') \<longleftrightarrow> serves es \<or> serves es'"
  "serves (e # es) \<longleftrightarrow> (\<exists>path. e = CallServeUnix path) \<or> serves es"
  by (auto simp: serves_def)

text \<open>A deferred call that releases exactly one resource.\<close>

definition closes :: "run_effect list \<Rightarrow> run_effect \<Rightarrow> bool" where
  "closes call r \<longleftrightarrow> (\<forall>owed. held call (r # owed) = Some owed) \<and> \<not> serves call"

lemma closes_release: "releases r \<Longrightarrow> release_of r = None \<Longrightarrow> \<not> serves [r] \<Longrightarrow> closes [r] r"
  by (simp add: closes_def)

lemma closes_telemetry: "closes (shutdown_telemetry h tel) (ShutdownTelemetry 8000000000)"
  by (simp add: closes_def shutdown_telemetry_def shutdownTimeout_def)

text \<open>
  The invariant of a frame: its deferred calls are, one by one, the releases that are due.
\<close>

definition frame_ok :: "frame \<Rightarrow> run_effect list \<Rightarrow> bool" where
  "frame_ok f owed \<longleftrightarrow>
     held (done_effects f) [] = Some owed \<and> list_all2 closes (deferred f) owed \<and> \<not> serves (done_effects f)"

lemma done_effects_empty [simp]: "done_effects empty_frame = []"
  by (simp add: empty_frame_def)

lemma frame_ok_empty: "frame_ok empty_frame []"
  by (simp add: frame_ok_def empty_frame_def)

lemma frame_ok_take:
  "frame_ok f owed \<Longrightarrow> release_of e = Some r \<Longrightarrow> closes call r \<Longrightarrow>
   frame_ok (defer_call call (do_effect e f)) (r # owed)"
  by (cases e) (simp_all add: frame_ok_def defer_call_def do_effect_def held_append)

lemma frame_ok_log: "frame_ok f owed \<Longrightarrow> frame_ok (do_effect (LogStarting version) f) owed"
  by (simp add: frame_ok_def do_effect_def held_append)

lemma run_deferred_held:
  "list_all2 closes calls owed \<Longrightarrow> held trace [] = Some owed \<Longrightarrow>
   \<exists>after. run_deferred calls trace = trace @ after \<and> \<not> serves after \<and>
     held (run_deferred calls trace) [] = Some []"
proof (induction calls owed arbitrary: trace rule: list_all2_induct)
  case (Cons call calls r owed)
  then have "held (trace @ call) [] = Some owed" by (simp add: held_append closes_def)
  with Cons.IH [of "trace @ call"] Cons.hyps(1) show ?case by (auto simp: closes_def)
qed simp

lemma frame_ok_return:
  assumes "frame_ok f owed"
  shows "held (return_from f) [] = Some []" and "\<not> serves (return_from f)"
  using run_deferred_held [of "deferred f" owed "done_effects f"] assms
  by (auto simp: frame_ok_def return_from_def)

text \<open>One call of \<open>ServeUnix\<close>, while the given releases are due, and all of them done at the end.\<close>

definition served_while :: "run_effect list \<Rightarrow> run_effect list \<Rightarrow> bool" where
  "served_while effects owed \<longleftrightarrow>
     (\<exists>before after. effects = before @ [CallServeUnix plugin_socket] @ after \<and>
        held before [] = Some owed \<and> \<not> serves (before @ after)) \<and> held effects [] = Some []"

lemma frame_ok_serve:
  assumes "frame_ok f owed"
  shows "served_while (return_from (do_effect (CallServeUnix plugin_socket) f)) owed"
  using run_deferred_held [of "deferred f" owed "done_effects f @ [CallServeUnix plugin_socket]"] assms
  by (auto simp: frame_ok_def return_from_def do_effect_def served_while_def held_append)

lemma run_service_frame:
  assumes "frame_ok f owed" and "run_service h version serve cfg tel f = (err, service, effects)"
  shows "case service of
      None \<Rightarrow> held effects [] = Some [] \<and> \<not> serves effects
    | Some s \<Rightarrow> err = serve s \<and> served_while effects (CloseClient # owed)"
proof (cases "NewToken (host_random h)")
  case None
  then show ?thesis using assms frame_ok_return by (auto simp: run_service_def)
next
  case (Some tok)
  have client: "frame_ok (defer_call [CloseClient] (do_effect (NewClient docker_socket) f)) (CloseClient # owed)"
    by (rule frame_ok_take [OF assms(1)]) (simp_all add: closes_release)
  show ?thesis
    using assms(2) Some frame_ok_return [OF client] frame_ok_serve [OF frame_ok_log [OF client]]
    by (auto simp: run_service_def Let_def split: sum.splits)
qed

lemma run_frame:
  assumes "run h version serve args g = (result, service, effects)"
  shows "case service of
      None \<Rightarrow> held effects [] = Some [] \<and> \<not> serves effects
    | Some s \<Rightarrow> result = Finished (serve s) \<and>
        served_while effects [CloseClient, ShutdownTelemetry 8000000000, StopSignals]"
proof -
  let ?signals = "defer_call [StopSignals] (do_effect NotifySignals empty_frame)"
  have signals: "frame_ok ?signals [StopSignals]"
    by (rule frame_ok_take [OF frame_ok_empty]) (simp_all add: closes_release)
  have telemetry: "frame_ok (defer_call (shutdown_telemetry h tel) (do_effect SetupTelemetry ?signals))
      [ShutdownTelemetry 8000000000, StopSignals]" for tel
    by (rule frame_ok_take [OF signals _ closes_telemetry]) simp
  note ends = frame_ok_return [OF frame_ok_empty] frame_ok_return [OF signals]
  show ?thesis
    using assms ends
    by (auto simp: run_def Let_def split: sum.splits prod.splits if_splits option.splits
        dest: run_service_frame [OF telemetry])
qed


section \<open>Properties\<close>

text \<open>
  C14: the start. The process serves iff its command line is well-formed, its document is
  accepted and there is randomness: once a document was accepted, neither the telemetry nor
  the plugin can fail on it. What serves is the plugin of that document with a fresh token,
  which its Docker client shares and sends to the daemon's socket only.
\<close>

theorem startup_exact:
  "case fst (snd (run h version serve args g)) of
     None \<Rightarrow> \<not> (\<exists>path cfg. parse_flags config_flag args DefaultPath = Inr (path, []) \<and>
               Load (host_yaml h) (host_open h) path = Inr cfg \<and> host_random h 32 \<noteq> None)
   | Some service \<Rightarrow>
       (\<exists>path cfg bytes. parse_flags config_flag args DefaultPath = Inr (path, []) \<and>
          Load (host_yaml h) (host_open h) path = Inr cfg \<and> config_ok cfg \<and> host_random h 32 = Some bytes \<and>
          service_plugin service = plugin_of cfg \<lparr>TokenValue = encode_hex bytes\<rparr> \<and>
          ClientToken (service_client service) = token (service_plugin service) \<and>
          RoundTrip (service_client service) = host_dial h ''/var/run/docker.sock'')"
proof (cases "fst (snd (run h version serve args g))")
  case None
  have "host_random h 32 = None"
    if "parse_flags config_flag args DefaultPath = Inr (path, [])"
      "Load (host_yaml h) (host_open h) path = Inr cfg" for path cfg
    using run_loaded [OF that, of version serve g] None
    by (cases "host_random h 32") (auto simp: NewToken_def)
  note no_randomness = this
  have "\<not> (\<exists>path cfg. parse_flags config_flag args DefaultPath = Inr (path, []) \<and>
      Load (host_yaml h) (host_open h) path = Inr cfg \<and> host_random h 32 \<noteq> None)"
  proof
    assume "\<exists>path cfg. parse_flags config_flag args DefaultPath = Inr (path, []) \<and>
      Load (host_yaml h) (host_open h) path = Inr cfg \<and> host_random h 32 \<noteq> None"
    then obtain path cfg where parsed: "parse_flags config_flag args DefaultPath = Inr (path, [])"
      and loaded: "Load (host_yaml h) (host_open h) path = Inr cfg" and "host_random h 32 \<noteq> None"
      by (elim exE conjE)
    then show False using no_randomness [OF parsed loaded] by simp
  qed
  then show ?thesis unfolding None option.case .
next
  case (Some service)
  then show ?thesis
    using run_service_started [OF Some]
    by (auto simp: started_def plugin_of_def docker_socket_def)
qed

text \<open>
  C40: an orderly end, on every path through the process. Whatever fails or returns, each resource
  that was taken is released exactly once, in the reverse order of taking, and none stays held.
  \<open>ServeUnix\<close> is called at most once, on the plugin's socket, and only while the signals, the
  telemetry and the Docker client are all held; the exit code is then its result, whatever the
  flushing said, and an error is the last thing that is logged.
\<close>

theorem shutdown_orderly:
  "case run h version serve args g of
     (result, service, effects) \<Rightarrow>
       held effects [] = Some [] \<and>
       (case service of
          None \<Rightarrow> \<not> (\<exists>path. CallServeUnix path \<in> set effects)
        | Some s \<Rightarrow>
            (\<exists>before after.
               effects = before @ [CallServeUnix ''/run/docker/plugins/dockauthz.sock''] @ after \<and>
               held before [] = Some [CloseClient, ShutdownTelemetry 8000000000, StopSignals] \<and>
               \<not> (\<exists>path. CallServeUnix path \<in> set (before @ after)) \<and>
               main h version serve args g =
                 (case serve s of None \<Rightarrow> (0, effects) | Some e \<Rightarrow> (1, effects @ [LogStopped e]))))"
proof (cases "run h version serve args g")
  case (fields result service effects)
  then show ?thesis
    using run_frame [OF fields]
    by (auto simp: main_def served_while_def serves_def plugin_socket_def split: option.splits)
qed

end
