(* ===== verification/Pki.thy ===== *)
theory Pki
  imports Go_Strings
begin

unbundle bit_operations_syntax

text \<open>
  \<open>internal/pki\<close>: certificate bundles and how they are written.

  Cryptography is a parameter: key generation, signing, the encoding of keys, PEM and the
  parsing of certificates and keys, as are the parsing of an IP address, the clock and the
  random serial number. The file system is modelled as far as the bundle needs it: the entries
  of the output directory, and an outcome for every operation that may fail.
\<close>

section \<open>The output directory\<close>

record file_entry =
  FileData :: string
  FileMode :: nat

text \<open>
  \<open>Outcomes\<close> says for the operations to come whether they fail for an external reason (a full
  disk, missing rights), \<open>Removals\<close> the same for the removal of files; when a list is used up,
  the operations succeed.
\<close>

record disk =
  Entries :: "string \<rightharpoonup> file_entry"
  Outcomes :: "bool list"
  Removals :: "bool list"

definition next_ok :: "disk \<Rightarrow> bool \<times> disk" where
  "next_ok d = (case Outcomes d of [] \<Rightarrow> (True, d) | ok # rest \<Rightarrow> (ok, d\<lparr>Outcomes := rest\<rparr>))"

definition os_mkdir :: "disk \<Rightarrow> bool \<times> disk" where
  "os_mkdir d = next_ok d"

definition os_remove :: "string \<Rightarrow> disk \<Rightarrow> disk" where
  "os_remove name d =
     (case Removals d of
        [] \<Rightarrow> d\<lparr>Entries := (Entries d)(name := None)\<rparr>
      | ok # rest \<Rightarrow>
          (if ok then d\<lparr>Entries := (Entries d)(name := None), Removals := rest\<rparr> else d\<lparr>Removals := rest\<rparr>))"

definition os_link :: "string \<Rightarrow> string \<Rightarrow> disk \<Rightarrow> bool \<times> disk" where
  "os_link source target d =
     (let (ok, d) = next_ok d in
      if \<not> ok then (False, d)
      else case (Entries d source, Entries d target) of
          (Some f, None) \<Rightarrow> (True, d\<lparr>Entries := (Entries d)(target \<mapsto> f)\<rparr>)
        | _ \<Rightarrow> (False, d))"

definition os_rename :: "string \<Rightarrow> string \<Rightarrow> disk \<Rightarrow> bool \<times> disk" where
  "os_rename source target d =
     (let (ok, d) = next_ok d in
      if \<not> ok then (False, d)
      else case Entries d source of
          None \<Rightarrow> (False, d)
        | Some f \<Rightarrow> (True, d\<lparr>Entries := (Entries d)(source := None, target \<mapsto> f)\<rparr>))"

text \<open>
  \<open>os.CreateTemp\<close> makes an empty file under a name that does not exist; the name is a
  parameter. Writing, setting the mode, syncing and closing are all attempted; a failed write
  leaves the file empty here, whatever part of the data it left on a real disk.
\<close>

definition os_create_temp :: "((string \<rightharpoonup> file_entry) \<Rightarrow> string) \<Rightarrow> disk \<Rightarrow> string option \<times> disk" where
  "os_create_temp temp_name d =
     (let (ok, d) = next_ok d; name = temp_name (Entries d) in
      if \<not> ok then (None, d)
      else (Some name, d\<lparr>Entries := (Entries d)(name \<mapsto> \<lparr>FileData = [], FileMode = 384\<rparr>)\<rparr>))"

definition os_fill :: "string \<Rightarrow> string \<Rightarrow> nat \<Rightarrow> disk \<Rightarrow> bool \<times> disk" where
  "os_fill name content md d =
     (let (wrote, d) = next_ok d;
          d = (if wrote then d\<lparr>Entries := (Entries d)(name \<mapsto> \<lparr>FileData = content, FileMode = 384\<rparr>)\<rparr> else d);
          (moded, d) = next_ok d;
          d = (if moded
               then d\<lparr>Entries := (Entries d)(name := map_option (\<lambda>f. f\<lparr>FileMode := md\<rparr>) (Entries d name))\<rparr>
               else d);
          (synced, d) = next_ok d;
          (closed, d) = next_ok d
      in (wrote \<and> moded \<and> synced \<and> closed, d))"


section \<open>Writing a bundle\<close>

record bundle_file =
  OutName :: string
  OutData :: string
  OutMode :: nat

text \<open>\<open>filepath.Base\<close>\<close>

definition filepath_base :: "string \<Rightarrow> string" where
  "filepath_base path =
     (if path = [] then ''.''
      else let p = rev (dropWhile (\<lambda>c. c = CHR ''/'') (rev path));
               b = rev (takeWhile (\<lambda>c. c \<noteq> CHR ''/'') (rev p))
           in if b = [] then ''/'' else b)"

text \<open>The first loop stages every file under a temporary name.\<close>

fun stage_files ::
  "((string \<rightharpoonup> file_entry) \<Rightarrow> string) \<Rightarrow> bundle_file list \<Rightarrow> string list \<Rightarrow> disk \<Rightarrow> error \<times> string list \<times> disk" where
  "stage_files temp_name [] temps d = (None, temps, d)"
| "stage_files temp_name (file # rest) temps d =
     (case os_create_temp temp_name d of
        (None, d) \<Rightarrow> (Some ''cannot stage certificate bundle'', temps, d)
      | (Some name, d) \<Rightarrow>
          (case os_fill name (OutData file) (OutMode file) d of
             (False, d) \<Rightarrow> (Some ''cannot write certificate bundle'', temps @ [name], d)
           | (True, d) \<Rightarrow> stage_files temp_name rest (temps @ [name]) d))"

fun remove_all :: "string list \<Rightarrow> disk \<Rightarrow> disk" where
  "remove_all [] d = d"
| "remove_all (name # rest) d = remove_all rest (os_remove name d)"

text \<open>The second loop publishes the staged files; without \<open>force\<close> a failure takes them back.\<close>

fun publish_files ::
  "bool \<Rightarrow> (string \<times> bundle_file) list \<Rightarrow> string list \<Rightarrow> disk \<Rightarrow> error \<times> disk" where
  "publish_files force [] created d = (None, d)"
| "publish_files force ((temp, file) # rest) created d =
     (case (if force then os_rename temp (OutName file) d else os_link temp (OutName file) d) of
        (False, d) \<Rightarrow>
          (Some ''cannot publish certificate bundle; existing files require --force'',
           if force then d else remove_all created d)
      | (True, d) \<Rightarrow> publish_files force rest (created @ [OutName file]) d)"

definition writeBundle ::
  "((string \<rightharpoonup> file_entry) \<Rightarrow> string) \<Rightarrow> bundle_file list \<Rightarrow> bool \<Rightarrow> disk \<Rightarrow> error \<times> disk" where
  "writeBundle temp_name files force d =
     (case os_mkdir d of
        (False, d) \<Rightarrow> (Some ''cannot create certificate directory'', d)
      | (True, d) \<Rightarrow>
          if list_ex (\<lambda>file. OutName file \<noteq> filepath_base (OutName file)) files
          then (Some ''invalid certificate bundle filename'', d)
          else case stage_files temp_name files [] d of
              (Some e, temps, d) \<Rightarrow> (Some e, remove_all temps d)
            | (None, temps, d) \<Rightarrow>
                (case publish_files force (zip temps files) [] d of
                   (err, d) \<Rightarrow> (err, remove_all temps d)))"


section \<open>What a bundle leaves behind\<close>

text \<open>What \<open>os.CreateTemp\<close> promises for the pattern that the code uses.\<close>

definition good_temp :: "((string \<rightharpoonup> file_entry) \<Rightarrow> string) \<Rightarrow> bool" where
  "good_temp temp_name \<longleftrightarrow>
     (\<forall>m. finite (dom m) \<longrightarrow> m (temp_name m) = None \<and> prefix ''.dockauthz-pki-'' (temp_name m))"

definition good_names :: "bundle_file list \<Rightarrow> bool" where
  "good_names files \<longleftrightarrow>
     distinct (map OutName files) \<and> (\<forall>f \<in> set files. \<not> prefix ''.dockauthz-pki-'' (OutName f))"

definition entry_of :: "bundle_file \<Rightarrow> string \<times> file_entry" where
  "entry_of f = (OutName f, \<lparr>FileData = OutData f, FileMode = OutMode f\<rparr>)"

lemma next_ok_sels [simp]:
  "Entries (snd (next_ok d)) = Entries d" "Removals (snd (next_ok d)) = Removals d"
  by (simp_all add: next_ok_def split: list.split)

lemma next_ok_D: "next_ok d = (ok, d') \<Longrightarrow> Entries d' = Entries d \<and> Removals d' = Removals d"
  using next_ok_sels [of d] by simp

lemma remove_all_other: "n \<notin> set ns \<Longrightarrow> Entries (remove_all ns d) n = Entries d n"
  by (induction ns d rule: remove_all.induct) (simp_all add: os_remove_def split: list.split)

lemma remove_all_succeeds:
  "Removals d = [] \<Longrightarrow>
     Entries (remove_all ns d) = Entries d |` (- set ns) \<and> Removals (remove_all ns d) = []"
  by (induction ns d rule: remove_all.induct) (auto simp: os_remove_def fun_eq_iff restrict_map_def)

lemma os_fill_entries:
  assumes "os_fill name content md d = (ok, d')"
  shows "Removals d' = Removals d" and "n \<noteq> name \<Longrightarrow> Entries d' n = Entries d n"
    and "ok \<Longrightarrow> Entries d' name = Some \<lparr>FileData = content, FileMode = md\<rparr>"
  using assms by (auto simp: os_fill_def Let_def split: prod.splits if_splits dest!: next_ok_D)

lemma os_create_temp_entries:
  assumes "os_create_temp temp_name d = (r, d')" and "good_temp temp_name"
    and "finite (dom (Entries d))"
  shows "Removals d' = Removals d" and "r = None \<Longrightarrow> Entries d' = Entries d"
    and "r = Some name \<Longrightarrow> Entries d name = None \<and> prefix ''.dockauthz-pki-'' name \<and>
      (\<forall>n. n \<noteq> name \<longrightarrow> Entries d' n = Entries d n)"
  using assms
  by (auto simp: os_create_temp_def good_temp_def Let_def split: prod.splits if_splits dest!: next_ok_D)

text \<open>Staging touches only new names, and on success they hold the files.\<close>

definition staged :: "disk \<Rightarrow> string list \<Rightarrow> disk \<Rightarrow> bool" where
  "staged d new d' \<longleftrightarrow>
     Removals d' = Removals d \<and> distinct new \<and>
     (\<forall>t \<in> set new. Entries d t = None \<and> prefix ''.dockauthz-pki-'' t) \<and>
     (\<forall>n. n \<notin> set new \<longrightarrow> Entries d' n = Entries d n)"

lemma staged_finite: "staged d new d' \<Longrightarrow> finite (dom (Entries d)) \<Longrightarrow> finite (dom (Entries d'))"
  by (rule finite_subset [of _ "set new \<union> dom (Entries d)"]) (auto simp: staged_def)

lemma stage_files_staged:
  assumes "stage_files temp_name files temps d = (err, temps', d')" and "good_temp temp_name"
    and "finite (dom (Entries d))"
  shows "\<exists>new. temps' = temps @ new \<and> staged d new d' \<and>
    (err = None \<longrightarrow> list_all2 (\<lambda>t f. Entries d' t = Some (snd (entry_of f))) new files)"
  using assms(1,3)
proof (induction files arbitrary: temps d)
  case Nil
  then show ?case by (simp add: staged_def)
next
  case (Cons f files)
  obtain r d1 where create: "os_create_temp temp_name d = (r, d1)" by fastforce
  note c = os_create_temp_entries [OF create assms(2) Cons.prems(2)]
  show ?case
  proof (cases r)
    case None
    then show ?thesis using Cons.prems(1) create c by (auto simp: staged_def)
  next
    case (Some name)
    obtain ok d2 where fill: "os_fill name (OutData f) (OutMode f) d1 = (ok, d2)" by fastforce
    note w = os_fill_entries [OF fill]
    have one: "staged d [name] d2" using c(1,3) Some w(1,2) by (simp add: staged_def)
    show ?thesis
    proof (cases ok)
      case False
      then show ?thesis
        using Cons.prems(1) create fill Some one by (intro exI [of _ "[name]"]) auto
    next
      case True
      then have "stage_files temp_name files (temps @ [name]) d2 = (err, temps', d')"
        using Cons.prems(1) create fill Some by simp
      from Cons.IH [OF this staged_finite [OF one Cons.prems(2)]] obtain new where new: "temps' = (temps @ [name]) @ new" "staged d2 new d'"
        "err = None \<longrightarrow> list_all2 (\<lambda>t f. Entries d' t = Some (snd (entry_of f))) new files" by blast
      have held: "Entries d2 name = Some (snd (entry_of f))" using w(3) True by (simp add: entry_of_def)
      then have "name \<notin> set new" using new(2) by (auto simp: staged_def)
      then have "Entries d' name = Some (snd (entry_of f))" "staged d (name # new) d'"
        using held one new(2) by (auto simp: staged_def)
      then show ?thesis
        using new by (intro exI [of _ "name # new"]) simp
    qed
  qed
qed


text \<open>Publishing without \<open>force\<close>: all files appear, or none does.\<close>

lemma os_link_D:
  assumes "os_link source target d = (ok, d')"
  shows "Removals d' = Removals d"
    and "\<not> ok \<Longrightarrow> Entries d' = Entries d"
    and "ok \<Longrightarrow> Entries d target = None \<and> Entries d' = (Entries d)(target := Entries d source)"
  using assms
  by (auto simp: os_link_def split: prod.splits if_splits option.splits dest!: next_ok_D)

text \<open>A link that succeeds gives a free name the content of the staged file; the others stay staged.\<close>

lemma link_published:
  assumes "os_link t (OutName f) d = (True, d1)" and "Entries d t = Some (snd (entry_of f))"
    and "list_all2 (\<lambda>t f. Entries d t = Some (snd (entry_of f))) ts files" and "OutName f \<notin> set ts"
  shows "Entries d1 = (Entries d)(OutName f \<mapsto> snd (entry_of f))" and "Entries d (OutName f) = None"
    and "list_all2 (\<lambda>t f. Entries d1 t = Some (snd (entry_of f))) ts files"
proof -
  show ent: "Entries d1 = (Entries d)(OutName f \<mapsto> snd (entry_of f))" "Entries d (OutName f) = None"
    using os_link_D(3) [OF assms(1)] assms(2) by auto
  show "list_all2 (\<lambda>t f. Entries d1 t = Some (snd (entry_of f))) ts files"
    using assms(3) by (rule list.rel_mono_strong) (use assms(4) in \<open>auto simp: ent(1)\<close>)
qed

lemma publish_atomic:
  assumes "publish_files False (zip ts files) created d = (err, d')"
    and "list_all2 (\<lambda>t f. Entries d t = Some (snd (entry_of f))) ts files"
    and "distinct (map OutName files)" and "set ts \<inter> OutName ` set files = {}"
    and "Removals d = []"
  shows "Removals d' = [] \<and> Entries d' =
    (if err = None then Entries d ++ map_of (map entry_of files)
     else Entries d |` (- set created))"
  using assms
proof (induction files arbitrary: ts created d)
  case Nil
  then show ?case by simp
next
  case (Cons f files)
  from Cons.prems(2) obtain t ts' where ts: "ts = t # ts'" "Entries d t = Some (snd (entry_of f))"
    "list_all2 (\<lambda>t f. Entries d t = Some (snd (entry_of f))) ts' files"
    by (cases ts) auto
  obtain ok d1 where link: "os_link t (OutName f) d = (ok, d1)" by fastforce
  note l = os_link_D [OF link]
  show ?case
  proof (cases ok)
    case False
    then show ?thesis
      using Cons.prems(1,5) ts(1) link l(1,2) remove_all_succeeds [of d1 created] by auto
  next
    case True
    have "OutName f \<notin> set ts'" using Cons.prems(4) ts(1) by auto
    have "os_link t (OutName f) d = (True, d1)" using link True by simp
    note ent = link_published [OF this ts(2,3) \<open>OutName f \<notin> set ts'\<close>]
    from Cons.IH [of ts' "created @ [OutName f]" d1] ent(3) Cons.prems ts(1) link True l(1)
    have ih: "Removals d' = [] \<and> Entries d' =
        (if err = None then Entries d1 ++ map_of (map entry_of files)
         else Entries d1 |` (- set (created @ [OutName f])))"
      by auto
    have "OutName f \<notin> dom (map_of (map entry_of files))"
      using Cons.prems(3) by (auto simp: dom_map_of_conv_image_fst entry_of_def)
    then have "Entries d1 ++ map_of (map entry_of files) = Entries d ++ map_of (map entry_of (f # files))"
      unfolding ent by (simp add: map_add_upd_left entry_of_def)
    moreover have "Entries d1 |` (- set (created @ [OutName f])) = Entries d |` (- set created)"
      unfolding ent(1) using ent(2) by (auto simp: fun_eq_iff restrict_map_def)
    ultimately show ?thesis using ih by simp
  qed
qed

lemma staged_names:
  assumes "staged d ts d'" and "good_names files"
  shows "set ts \<inter> OutName ` set files = {}"
  using assms by (auto simp: staged_def good_names_def)

lemma restrict_map_add:
  assumes "m |` (- S) = m'" and "\<And>n. n \<in> S \<Longrightarrow> f n = None"
  shows "(m ++ f) |` (- S) = m' ++ f"
proof
  show "((m ++ f) |` (- S)) n = (m' ++ f) n" for n
    using assms(2) [of n] fun_cong [OF assms(1), of n]
    by (auto simp: map_add_def restrict_map_def split: option.split if_splits)
qed

lemma writeBundle_atomic:
  assumes "writeBundle temp_name files False d = (err, d')" and "good_temp temp_name"
    and "good_names files" and "Removals d = []" and "finite (dom (Entries d))"
  shows "Entries d' = (if err = None then Entries d ++ map_of (map entry_of files) else Entries d)"
proof -
  obtain ok d0 where mk: "os_mkdir d = (ok, d0)" by fastforce
  have d0: "Entries d0 = Entries d" "Removals d0 = []"
    using mk assms(4) next_ok_D by (auto simp: os_mkdir_def)
  obtain err1 ts d1 where st: "stage_files temp_name files [] d0 = (err1, ts, d1)" by (metis prod_cases3)
  obtain pub where pub: "staged d0 ts d1"
    "err1 = None \<longrightarrow> list_all2 (\<lambda>t f. Entries d1 t = Some (snd (entry_of f))) ts files"
    using stage_files_staged [OF st assms(2)] d0(1) assms(5) by auto
  have rem: "Removals d1 = []" using pub(1) d0(2) by (simp add: staged_def)
  have clean: "Entries d1 |` (- set ts) = Entries d"
    using pub(1) d0(1) by (auto simp: staged_def fun_eq_iff restrict_map_def)
  obtain err2 d2 where pb: "publish_files False (zip ts files) [] d1 = (err2, d2)" by fastforce
  note names = staged_names [OF pub(1) assms(3)]
  consider "\<not> ok" | "ok" "list_ex (\<lambda>file. OutName file \<noteq> filepath_base (OutName file)) files"
    | "ok" "\<not> list_ex (\<lambda>file. OutName file \<noteq> filepath_base (OutName file)) files" "err1 \<noteq> None"
    | "ok" "\<not> list_ex (\<lambda>file. OutName file \<noteq> filepath_base (OutName file)) files" "err1 = None"
    by blast
  then show ?thesis
  proof cases
    case 3
    then show ?thesis
      using assms(1) mk st remove_all_succeeds [OF rem, of ts] clean by (auto simp: writeBundle_def)
  next
    case 4
    have p: "Removals d2 = [] \<and> Entries d2 =
        (if err2 = None then Entries d1 ++ map_of (map entry_of files) else Entries d1)"
      using publish_atomic [OF pb] pub(2) 4(3) assms(3) names rem by (auto simp: good_names_def)
    have "(Entries d1 ++ map_of (map entry_of files)) |` (- set ts) = Entries d ++ map_of (map entry_of files)"
      using names by (intro restrict_map_add [OF clean]) (auto simp: map_of_eq_None_iff entry_of_def)
    then show ?thesis
      using assms(1) mk st pb p 4 clean remove_all_succeeds [of d2 ts] by (auto simp: writeBundle_def)
  qed (use assms(1) mk d0 in \<open>auto simp: writeBundle_def\<close>)
qed



section \<open>Certificates\<close>

record Options =
  Kind :: string
  Name :: string
  Out :: string
  Days :: int
  DNS :: "string list"
  IP :: "string list"
  CACert :: string
  CAKey :: string
  Force :: bool

text \<open>The bits of \<open>x509.KeyUsage\<close> that the code uses.\<close>

type_synonym key_usage = "32 word"

abbreviation (input) "KeyUsageDigitalSignature \<equiv> (1 :: key_usage)"
abbreviation (input) "KeyUsageKeyEncipherment \<equiv> (4 :: key_usage)"
abbreviation (input) "KeyUsageCertSign \<equiv> (32 :: key_usage)"
abbreviation (input) "KeyUsageCRLSign \<equiv> (64 :: key_usage)"

datatype ext_key_usage = ExtKeyUsageServerAuth | ExtKeyUsageClientAuth

text \<open>
  \<open>x509.Certificate\<close>, as a template and as a parsed certificate. Times are in nanoseconds;
  \<open>PublicKey\<close> is the RSA public key of a parsed certificate, if it is one.
\<close>

record ('p, 'i) certificate =
  SerialNumber :: int
  Subject :: string
  NotBefore :: int
  NotAfter :: int
  BasicConstraintsValid :: bool
  IsCA :: bool
  KeyUsage :: key_usage
  ExtKeyUsage :: "ext_key_usage list"
  DNSNames :: "string list"
  IPAddresses :: "'i list"
  PublicKey :: "'p option"

record ('k, 'p, 'i) crypto =
  parse_ip :: "string \<Rightarrow> 'i option"
  generate_key :: "'k option"
  public_key :: "'k \<Rightarrow> 'p"
  key_valid :: "'k \<Rightarrow> bool"
  create_certificate :: "('p, 'i) certificate \<Rightarrow> ('p, 'i) certificate \<Rightarrow> 'p \<Rightarrow> 'k \<Rightarrow> string option"
  marshal_key :: "'k \<Rightarrow> string option"
  pem_encode :: "string \<Rightarrow> string \<Rightarrow> string"
  pem_parse :: "string \<Rightarrow> (string \<times> string) option \<times> string"
  parse_cert :: "string \<Rightarrow> ('p, 'i) certificate option"
  parse_pkcs1 :: "string \<Rightarrow> 'k option"
  parse_pkcs8_rsa :: "string \<Rightarrow> 'k option"

definition valid_label :: "string \<Rightarrow> bool" where
  "valid_label label \<longleftrightarrow>
     label \<noteq> [] \<and> length label \<le> 63 \<and> hd label \<noteq> CHR ''-'' \<and> last label \<noteq> CHR ''-'' \<and>
     list_all (\<lambda>c. (CHR ''a'' \<le> c \<and> c \<le> CHR ''z'') \<or> (CHR ''A'' \<le> c \<and> c \<le> CHR ''Z'') \<or>
                   (CHR ''0'' \<le> c \<and> c \<le> CHR ''9'') \<or> c = CHR ''-'') label"

definition validDNS :: "string \<Rightarrow> bool" where
  "validDNS v =
     (if v = [] \<or> length v > 253 then False
      else list_all valid_label (split_on (CHR ''.'') (trim_prefix (trim_suffix v ''.'') ''*.'')))"

definition loadCA ::
  "('k, 'p, 'i) crypto \<Rightarrow> (string \<Rightarrow> string option) \<Rightarrow> string \<Rightarrow> string \<Rightarrow>
     (('p, 'i) certificate \<times> 'k \<times> string) option" where
  "loadCA cr read_file certPath keyPath =
     (case read_file certPath of None \<Rightarrow> None | Some certPEM \<Rightarrow>
      (case pem_parse cr certPEM of
         (None, _) \<Rightarrow> None
       | (Some (kind, der), rest) \<Rightarrow>
           if kind \<noteq> ''CERTIFICATE'' \<or> trim_space rest \<noteq> [] then None
           else case parse_cert cr der of None \<Rightarrow> None | Some cert \<Rightarrow>
             if \<not> IsCA cert \<or> \<not> BasicConstraintsValid cert \<or> KeyUsage cert AND KeyUsageCertSign = 0
             then None
             else case read_file keyPath of None \<Rightarrow> None | Some keyPEM \<Rightarrow>
               (case pem_parse cr keyPEM of
                  (None, _) \<Rightarrow> None
                | (Some (kind, der), rest) \<Rightarrow>
                    if trim_space rest \<noteq> [] then None
                    else case (if kind = ''RSA PRIVATE KEY'' then parse_pkcs1 cr der
                               else if kind = ''PRIVATE KEY'' then parse_pkcs8_rsa cr der
                               else None) of
                        None \<Rightarrow> None
                      | Some key \<Rightarrow>
                          if \<not> key_valid cr key \<or> PublicKey cert \<noteq> Some (public_key cr key) then None
                          else Some (cert, key, certPEM))))"

section \<open>Generating a bundle\<close>

definition effective_days :: "Options \<Rightarrow> int" where
  "effective_days opts =
     (if Days opts = 0 then (if Kind opts = ''ca'' then 3650 else 365) else Days opts)"

definition parse_ips :: "('k, 'p, 'i) crypto \<Rightarrow> string list \<Rightarrow> 'i list option" where
  "parse_ips cr vs = those (map (parse_ip cr) vs)"

text \<open>The checks of the options, up to the names; the result are the parsed addresses.\<close>

definition check_options :: "('k, 'p, 'i) crypto \<Rightarrow> Options \<Rightarrow> string + 'i list" where
  "check_options cr opts =
     (if Kind opts \<noteq> ''ca'' \<and> Kind opts \<noteq> ''server'' \<and> Kind opts \<noteq> ''client''
      then Inl ''certificate kind must be ca, server or client''
      else if trim_space (Name opts) = [] \<or> Out opts = [] then Inl ''--name and --out are required''
      else if effective_days opts < 1 \<or> effective_days opts > 36500
      then Inl ''--days must be between 1 and 36500''
      else if Kind opts = ''server'' \<and> length (DNS opts) + length (IP opts) = 0
      then Inl ''server certificate requires at least one --dns or --ip SAN''
      else case parse_ips cr (IP opts) of
          None \<Rightarrow> Inl ''invalid IP SAN''
        | Some ips \<Rightarrow>
            if \<not> list_all validDNS (DNS opts) then Inl ''invalid DNS SAN'' else Inr ips)"

definition cert_name :: "string \<Rightarrow> string" where
  "cert_name kind =
     (if kind = ''ca'' then ''ca.pem'' else if kind = ''server'' then ''server-cert.pem'' else ''cert.pem'')"

definition key_name :: "string \<Rightarrow> string" where
  "key_name kind =
     (if kind = ''ca'' then ''ca-key.pem'' else if kind = ''server'' then ''server-key.pem'' else ''key.pem'')"

definition output_names :: "string \<Rightarrow> string list" where
  "output_names kind = [cert_name kind, key_name kind] @ (if kind \<noteq> ''ca'' then [''ca.pem''] else [])"

text \<open>The \<open>Lstat\<close> loop.\<close>

fun check_absent :: "string list \<Rightarrow> disk \<Rightarrow> error \<times> disk" where
  "check_absent [] d = (None, d)"
| "check_absent (name # rest) d =
     (case next_ok d of
        (False, d) \<Rightarrow> (Some ''cannot inspect output path'', d)
      | (True, d) \<Rightarrow>
          if Entries d name \<noteq> None then (Some ''output file exists; use --force to replace it'', d)
          else check_absent rest d)"

text \<open>\<open>time.Duration(days) * 24 * time.Hour\<close>, a 64-bit product.\<close>

definition lifetime :: "int \<Rightarrow> 64 word" where
  "lifetime days = of_int days * 24 * 3600000000000"

definition base_template :: "Options \<Rightarrow> int \<Rightarrow> int \<Rightarrow> ('p, 'i) certificate" where
  "base_template opts now serial =
     \<lparr>SerialNumber = serial + 1, Subject = Name opts, NotBefore = now - 300000000000,
      NotAfter = now + sint (lifetime (effective_days opts)), BasicConstraintsValid = True,
      IsCA = False, KeyUsage = KeyUsageDigitalSignature, ExtKeyUsage = [], DNSNames = [],
      IPAddresses = [], PublicKey = None\<rparr>"

definition make_template :: "Options \<Rightarrow> 'i list \<Rightarrow> int \<Rightarrow> int \<Rightarrow> ('p, 'i) certificate" where
  "make_template opts ips now serial =
     (let t = base_template opts now serial in
      if Kind opts = ''ca'' then t\<lparr>IsCA := True, KeyUsage := KeyUsageCertSign OR KeyUsageCRLSign\<rparr>
      else if Kind opts = ''server'' then
        t\<lparr>ExtKeyUsage := [ExtKeyUsageServerAuth], DNSNames := DNS opts, IPAddresses := ips,
          KeyUsage := KeyUsage t OR KeyUsageKeyEncipherment\<rparr>
      else t\<lparr>ExtKeyUsage := [ExtKeyUsageClientAuth]\<rparr>)"

text \<open>The parent certificate, the CA's key unless the certificate signs itself, and the CA file.\<close>

definition signing_ca ::
  "('k, 'p, 'i) crypto \<Rightarrow> (string \<Rightarrow> string option) \<Rightarrow> Options \<Rightarrow> int \<Rightarrow> ('p, 'i) certificate \<Rightarrow>
     string + (('p, 'i) certificate \<times> 'k option \<times> string)" where
  "signing_ca cr read_file opts now t =
     (if Kind opts = ''ca'' then Inr (t, None, [])
      else case loadCA cr read_file (CACert opts) (CAKey opts) of
          None \<Rightarrow> Inl ''invalid CA certificate or signing key''
        | Some (parent, signer, caPEM) \<Rightarrow>
            if now < NotBefore parent \<or> NotAfter parent < NotAfter t
            then Inl ''requested lifetime is outside CA validity''
            else Inr (parent, Some signer, caPEM))"

definition bundle_files ::
  "('k, 'p, 'i) crypto \<Rightarrow> (string \<Rightarrow> string option) \<Rightarrow> int \<Rightarrow> int option \<Rightarrow> Options \<Rightarrow> 'i list \<Rightarrow>
     string + bundle_file list" where
  "bundle_files cr read_file now random opts ips =
     (case random of None \<Rightarrow> Inl ''cannot generate certificate serial'' | Some serial \<Rightarrow>
      (let t = make_template opts ips now serial in
       case signing_ca cr read_file opts now t of Inl e \<Rightarrow> Inl e | Inr (parent, ca_key, caPEM) \<Rightarrow>
       (case generate_key cr of None \<Rightarrow> Inl ''cannot generate RSA private key'' | Some key \<Rightarrow>
        (case create_certificate cr t parent (public_key cr key)
                (case ca_key of None \<Rightarrow> key | Some k \<Rightarrow> k) of
           None \<Rightarrow> Inl ''cannot sign certificate''
         | Some der \<Rightarrow>
             (case marshal_key cr key of
                None \<Rightarrow> Inl ''cannot encode private key''
              | Some keyDER \<Rightarrow>
                  Inr ([\<lparr>OutName = cert_name (Kind opts), OutData = pem_encode cr ''CERTIFICATE'' der,
                         OutMode = 420\<rparr>,
                        \<lparr>OutName = key_name (Kind opts), OutData = pem_encode cr ''PRIVATE KEY'' keyDER,
                         OutMode = 384\<rparr>] @
                       (if Kind opts \<noteq> ''ca''
                        then [\<lparr>OutName = ''ca.pem'', OutData = caPEM, OutMode = 420\<rparr>] else [])))))))"

definition Generate ::
  "('k, 'p, 'i) crypto \<Rightarrow> ((string \<rightharpoonup> file_entry) \<Rightarrow> string) \<Rightarrow> (string \<Rightarrow> string option) \<Rightarrow> int \<Rightarrow>
     int option \<Rightarrow> Options \<Rightarrow> disk \<Rightarrow> error \<times> disk" where
  "Generate cr temp_name read_file now random opts d =
     (case check_options cr opts of
        Inl e \<Rightarrow> (Some e, d)
      | Inr ips \<Rightarrow>
          (case (if Force opts then (None, d) else check_absent (output_names (Kind opts)) d) of
             (Some e, d) \<Rightarrow> (Some e, d)
           | (None, d) \<Rightarrow>
               (case bundle_files cr read_file now random opts ips of
                  Inl e \<Rightarrow> (Some e, d)
                | Inr files \<Rightarrow> writeBundle temp_name files (Force opts) d)))"



section \<open>What generation ensures\<close>

lemma check_absent_entries:
  "check_absent names d = (err, d') \<Longrightarrow> Entries d' = Entries d \<and> Removals d' = Removals d \<and>
     (err = None \<longrightarrow> (\<forall>n \<in> set names. Entries d n = None))"
proof (induction names arbitrary: d)
  case (Cons name rest)
  obtain ok d1 where ok: "next_ok d = (ok, d1)" by fastforce
  note e = next_ok_D [OF ok]
  show ?case
  proof (cases "ok \<and> Entries d name = None")
    case True
    then have "check_absent rest d1 = (err, d')" using Cons.prems ok e by simp
    from Cons.IH [OF this] True e show ?thesis by simp
  next
    case False
    then have "check_absent (name # rest) d = (Some ''cannot inspect output path'', d1) \<or>
        check_absent (name # rest) d = (Some ''output file exists; use --force to replace it'', d1)"
      using e by (auto simp: ok split: bool.split)
    then have "err \<noteq> None" "d' = d1" unfolding Cons.prems by blast+
    then show ?thesis using e by blast
  qed
qed simp

lemma publish_keeps:
  assumes "Entries d n = Some f" and "n \<notin> set created"
  shows "Entries (snd (publish_files False fs created d)) n = Some f"
  using assms
proof (induction fs arbitrary: created d)
  case (Cons tf fs)
  obtain t g where tf: "tf = (t, g)" by (cases tf)
  obtain ok d1 where link: "os_link t (OutName g) d = (ok, d1)" by fastforce
  note l = os_link_D [OF link]
  show ?case
  proof (cases ok)
    case True
    then have "Entries d1 n = Some f" "n \<noteq> OutName g" using l(3) Cons.prems(1) by auto
    then show ?thesis using Cons.IH [of d1 "created @ [OutName g]"] Cons.prems(2) True link tf by simp
  next
    case False
    then show ?thesis using l(2) Cons.prems link tf by (simp add: remove_all_other)
  qed
qed simp

lemma writeBundle_keeps:
  assumes "Entries d n = Some f" and "good_temp temp_name" and "finite (dom (Entries d))"
  shows "Entries (snd (writeBundle temp_name files False d)) n = Some f"
proof -
  obtain ok d0 where mk: "os_mkdir d = (ok, d0)" by fastforce
  have "Entries d0 = Entries d" using mk next_ok_D by (auto simp: os_mkdir_def)
  then have d0: "Entries d0 n = Some f" "finite (dom (Entries d0))" using assms(1,3) by simp_all
  obtain err1 ts d1 where st: "stage_files temp_name files [] d0 = (err1, ts, d1)" by (metis prod_cases3)
  have "staged d0 ts d1" using stage_files_staged [OF st assms(2) d0(2)] by auto
  then have "n \<notin> set ts" using d0 by (auto simp: staged_def)
  with \<open>staged d0 ts d1\<close> have ts: "n \<notin> set ts" "Entries d1 n = Some f"
    using d0 by (simp_all add: staged_def)
  obtain err2 d2 where pb: "publish_files False (zip ts files) [] d1 = (err2, d2)" by fastforce
  have "Entries d2 n = Some f" using publish_keeps [OF ts(2), of "[]" "zip ts files"] pb by simp
  then show ?thesis
    using mk d0 st ts pb remove_all_other [OF ts(1)]
    by (cases ok; cases err1) (auto simp: writeBundle_def)
qed

lemma names_distinct:
  "Kind opts \<in> {''ca'', ''server'', ''client''} \<Longrightarrow> bundle_files cr read_file now random opts ips = Inr files \<Longrightarrow>
   good_names files \<and> map OutName files = output_names (Kind opts) \<and>
   map OutMode files = (if Kind opts = ''ca'' then [420, 384] else [420, 384, 420])"
  by (auto simp: bundle_files_def Let_def good_names_def output_names_def cert_name_def key_name_def
      split: option.splits sum.splits prod.splits)

lemma check_options_kind: "check_options cr opts = Inr ips \<Longrightarrow> Kind opts \<in> {''ca'', ''server'', ''client''}"
  by (auto simp: check_options_def split: if_splits)

lemma map_of_entries_dom: "dom (map_of (map entry_of files)) = set (map OutName files)"
  by (simp add: dom_map_of_conv_image_fst entry_of_def image_image)


lemma Generate_writes:
  assumes "Generate cr temp_name read_file now random opts d = (err, d')" and "\<not> Force opts"
  shows "(err \<noteq> None \<and> Entries d' = Entries d \<and> Removals d' = Removals d) \<or>
    (\<exists>ips files d1. check_options cr opts = Inr ips \<and>
       bundle_files cr read_file now random opts ips = Inr files \<and>
       Entries d1 = Entries d \<and> Removals d1 = Removals d \<and>
       (\<forall>n \<in> set (output_names (Kind opts)). Entries d n = None) \<and>
       writeBundle temp_name files False d1 = (err, d'))"
proof (cases "check_options cr opts")
  case (Inl e)
  then show ?thesis using assms(1) by (auto simp: Generate_def)
next
  case ips: (Inr ips)
  obtain err1 d1 where c: "check_absent (output_names (Kind opts)) d = (err1, d1)" by fastforce
  note e = check_absent_entries [OF c]
  show ?thesis
  proof (cases err1)
    case (Some m)
    then have "err = Some m" "d' = d1" using assms ips c by (simp_all add: Generate_def)
    then show ?thesis using e by simp
  next
    case None
    show ?thesis
    proof (cases "bundle_files cr read_file now random opts ips")
      case (Inl m)
      then have "err = Some m" "d' = d1" using assms ips c None by (simp_all add: Generate_def)
      then show ?thesis using e by simp
    next
      case (Inr files)
      then have "writeBundle temp_name files False d1 = (err, d')"
        using assms ips c None by (simp add: Generate_def)
      then show ?thesis using ips Inr e None by blast
    qed
  qed
qed

lemma Generate_keeps:
  assumes "\<not> Force opts" and "good_temp temp_name" and "finite (dom (Entries d))"
    and "Entries d n = Some f"
  shows "Entries (snd (Generate cr temp_name read_file now random opts d)) n = Some f"
proof -
  obtain err d' where g: "Generate cr temp_name read_file now random opts d = (err, d')" by fastforce
  from Generate_writes [OF g assms(1)] have "Entries d' n = Some f"
  proof (elim disjE exE conjE)
    fix files d1
    assume "Entries d1 = Entries d" "writeBundle temp_name files False d1 = (err, d')"
    then show ?thesis using writeBundle_keeps [of d1 n f temp_name files] assms(2-4) by simp
  qed (simp add: assms(4))
  then show ?thesis by (simp add: g)
qed

lemma lifetime_bound:
  assumes "1 \<le> days" and "days \<le> 36500"
  shows "sint (lifetime days) = days * 86400000000000"
proof -
  have "word_of_int (days * 86400000000000) = (of_int days * of_int 86400000000000 :: 64 word)"
    by (rule of_int_mult)
  then have "lifetime days = word_of_int (days * 86400000000000)"
    by (simp add: lifetime_def mult.commute)
  moreover have "sint (word_of_int (days * 86400000000000) :: 64 word) = days * 86400000000000"
    unfolding sint_sbintrunc' using assms by (intro signed_take_bit_int_eq_self) simp_all
  ultimately show ?thesis by simp
qed


text \<open>A concrete instance: trivial cryptography, an empty directory and a client request.\<close>

definition example_ca :: "(int, int) certificate" where
  "example_ca =
     \<lparr>SerialNumber = 1, Subject = ''root'', NotBefore = 0, NotAfter = 315360000000000000,
      BasicConstraintsValid = True, IsCA = True, KeyUsage = 96, ExtKeyUsage = [], DNSNames = [],
      IPAddresses = [], PublicKey = Some 5\<rparr>"

definition example_crypto :: "(int, int, int) crypto" where
  "example_crypto =
     \<lparr>parse_ip = (\<lambda>_. None), generate_key = Some 5, public_key = (\<lambda>k. k), key_valid = (\<lambda>_. True),
      create_certificate = (\<lambda>_ _ _ _. Some ''der''), marshal_key = (\<lambda>_. Some ''key''),
      pem_encode = (\<lambda>kind content. kind @ content), pem_parse = (\<lambda>s. (Some (s, []), [])),
      parse_cert = (\<lambda>_. Some example_ca), parse_pkcs1 = (\<lambda>_. Some 5), parse_pkcs8_rsa = (\<lambda>_. Some 5)\<rparr>"

definition example_options :: Options where
  "example_options =
     \<lparr>Kind = ''client'', Name = ''ci'', Out = ''certs'', Days = 0, DNS = [], IP = [],
      CACert = ''CERTIFICATE'', CAKey = ''PRIVATE KEY'', Force = False\<rparr>"

text \<open>Fresh names: longer than every name in the directory.\<close>

definition fresh_temp :: "(string \<rightharpoonup> file_entry) \<Rightarrow> string" where
  "fresh_temp m = ''.dockauthz-pki-'' @ replicate (Suc (Max (insert 0 (length ` dom m)))) CHR ''x''"

lemma good_fresh_temp: "good_temp fresh_temp"
proof -
  have "m (fresh_temp m) = None" if "finite (dom m)" for m
  proof (rule ccontr)
    assume "m (fresh_temp m) \<noteq> None"
    then have "length (fresh_temp m) \<le> Max (insert 0 (length ` dom m))"
      using that by (intro Max_ge) auto
    then show False by (simp add: fresh_temp_def)
  qed
  then show ?thesis by (simp add: good_temp_def fresh_temp_def)
qed

definition example_disk :: disk where
  "example_disk =
     \<lparr>Entries = [''notes'' \<mapsto> \<lparr>FileData = ''x'', FileMode = 420\<rparr>], Outcomes = [True, False],
      Removals = []\<rparr>"

section \<open>Properties\<close>

text \<open>
  C15: a certificate bundle is written atomically. Without \<open>--force\<close> and when files can be
  removed, generation either fails and leaves the output directory as it was, or succeeds and
  adds exactly the files of the bundle, none of which existed, with a private key of mode 0600
  and everything else of mode 0644. No temporary file stays behind.
\<close>

theorem generate_atomic:
  assumes "Generate cr temp_name read_file now random opts d = (err, d')" and "\<not> Force opts"
    and "good_temp temp_name" and "Removals d = []" and "finite (dom (Entries d))"
  shows "if err = None
    then \<exists>files. map OutName files = output_names (Kind opts) \<and>
           map OutMode files = (if Kind opts = ''ca'' then [420, 384] else [420, 384, 420]) \<and>
           Entries d' = Entries d ++ map_of (map entry_of files) \<and>
           dom (Entries d) \<inter> set (output_names (Kind opts)) = {}
    else Entries d' = Entries d"
  using Generate_writes [OF assms(1,2)]
proof (elim disjE exE conjE)
  fix ips files d1
  assume chk: "check_options cr opts = Inr ips" and bf: "bundle_files cr read_file now random opts ips = Inr files"
    and d1: "Entries d1 = Entries d" "Removals d1 = Removals d"
    and absent: "\<forall>n \<in> set (output_names (Kind opts)). Entries d n = None"
    and wb: "writeBundle temp_name files False d1 = (err, d')"
  have names: "good_names files" "map OutName files = output_names (Kind opts)"
    "map OutMode files = (if Kind opts = ''ca'' then [420, 384] else [420, 384, 420])"
    using names_distinct [OF check_options_kind [OF chk] bf] by blast+
  have "Entries d' = (if err = None then Entries d ++ map_of (map entry_of files) else Entries d)"
    using writeBundle_atomic [OF wb assms(3) names(1)] d1 assms(4,5) by simp
  moreover have "dom (Entries d) \<inter> set (output_names (Kind opts)) = {}" using absent by auto
  ultimately show ?thesis using names(2,3) by (cases "err = None") auto
qed auto

theorem generate_atomic_witness:
  "Entries (snd (Generate example_crypto fresh_temp Some 0 (Some 41) example_options example_disk)) =
     Entries example_disk"
proof -
  have "check_options example_crypto example_options = Inr []" by code_simp
  then have gen: "Generate example_crypto fresh_temp Some 0 (Some 41) example_options example_disk =
      (Some ''cannot inspect output path'', example_disk\<lparr>Outcomes := []\<rparr>)"
    by (simp add: Generate_def)
      (simp add: example_options_def output_names_def cert_name_def key_name_def next_ok_def example_disk_def)
  have "Entries (example_disk\<lparr>Outcomes := []\<rparr>) = Entries example_disk"
    using generate_atomic [OF gen _ good_fresh_temp] by (simp add: example_options_def example_disk_def)
  then show ?thesis by (simp add: gen)
qed

text \<open>
  Without \<open>--force\<close> an existing file is never changed or removed, whatever operation fails
  at whatever point, the removal of files included.
\<close>

theorem generate_keeps_existing:
  assumes "\<not> Force opts" and "good_temp temp_name" and "finite (dom (Entries d))"
    and "Entries d n = Some f"
  shows "Entries (snd (Generate cr temp_name read_file now random opts d)) n = Some f"
  using assms by (rule Generate_keeps)

theorem generate_keeps_existing_witness:
  "Entries (snd (Generate example_crypto fresh_temp Some 0 (Some 41) example_options
     (example_disk\<lparr>Outcomes := [], Removals := [False]\<rparr>))) ''notes'' =
   Some \<lparr>FileData = ''x'', FileMode = 420\<rparr>"
  by (rule generate_keeps_existing [OF _ good_fresh_temp])
    (simp_all add: example_options_def example_disk_def)

text \<open>
  C30: the lifetime of a certificate does not overflow. For every number of days that the
  checks let through, the 64-bit product is the exact number of nanoseconds.
\<close>

theorem lifetime_exact:
  assumes "check_options cr opts = Inr ips"
  shows "sint (lifetime (effective_days opts)) = effective_days opts * 86400000000000"
  using assms by (intro lifetime_bound) (auto simp: check_options_def split: if_splits)

theorem lifetime_exact_witness:
  "sint (lifetime (effective_days example_options)) = 31536000000000000"
proof -
  have "check_options example_crypto example_options = Inr []" by code_simp
  from lifetime_exact [OF this] show ?thesis by (simp add: effective_days_def example_options_def)
qed

text \<open>The branches of \<open>loadCA\<close> and \<open>signing_ca\<close> that a leaf certificate needs.\<close>

lemma loadCA_signs:
  assumes "loadCA cr read_file cert_path key_path = Some (parent, signer, caPEM)"
  shows "IsCA parent" and "KeyUsage parent AND 32 \<noteq> 0" and "PublicKey parent = Some (public_key cr signer)"
  using assms by (auto simp: loadCA_def split: option.splits prod.splits if_splits)

lemma leaf_signer:
  assumes "signing_ca cr read_file opts now t = Inr (parent, ca_key, caPEM)" and "Kind opts \<noteq> ''ca''"
  shows "\<exists>signer. ca_key = Some signer \<and>
    loadCA cr read_file (CACert opts) (CAKey opts) = Some (parent, signer, caPEM) \<and>
    NotBefore parent \<le> now \<and> NotAfter t \<le> NotAfter parent"
  using assms by (auto simp: signing_ca_def split: option.splits if_splits)

lemma bundle_files_leaf:
  assumes "bundle_files cr read_file now random opts ips = Inr files" and "Kind opts \<noteq> ''ca''"
  obtains serial parent signer caPEM key der keyDER where "random = Some serial"
    and "signing_ca cr read_file opts now (make_template opts ips now serial) = Inr (parent, Some signer, caPEM)"
    and "generate_key cr = Some key"
    and "create_certificate cr (make_template opts ips now serial) parent (public_key cr key) signer = Some der"
    and "marshal_key cr key = Some keyDER"
    and "files = [\<lparr>OutName = cert_name (Kind opts), OutData = pem_encode cr ''CERTIFICATE'' der, OutMode = 420\<rparr>,
                  \<lparr>OutName = key_name (Kind opts), OutData = pem_encode cr ''PRIVATE KEY'' keyDER, OutMode = 384\<rparr>,
                  \<lparr>OutName = ''ca.pem'', OutData = caPEM, OutMode = 420\<rparr>]"
proof -
  obtain serial where serial: "random = Some serial"
    using assms(1) by (auto simp: bundle_files_def split: option.splits)
  obtain parent ca_key caPEM where ca:
    "signing_ca cr read_file opts now (make_template opts ips now serial) = Inr (parent, ca_key, caPEM)"
    using assms(1) unfolding bundle_files_def serial by (auto simp: Let_def split: sum.splits)
  obtain signer where signer: "ca_key = Some signer" using leaf_signer [OF ca assms(2)] by blast
  show ?thesis
    using assms that [OF serial ca [unfolded signer]] unfolding bundle_files_def serial
    by (simp add: Let_def ca signer split: option.splits)
qed

text \<open>
  C28: leaf certificates are confined. A bundle for a server or a client holds one certificate,
  signed for a fresh key by the key of the loaded CA, that fresh key, and the CA's own file. The
  CA's certificate allows signing, its key matches, and the lifetime of the leaf is inside its
  validity. What was signed carries the requested name, is no CA, cannot sign certificates, has
  exactly the extended key usage of its kind, and names hosts only for a server.
\<close>

theorem leaf_confined:
  fixes cr :: "('k, 'p, 'i) crypto"
  assumes "bundle_files cr read_file now random opts ips = Inr files" and "Kind opts \<noteq> ''ca''"
  shows "\<exists>serial parent signer caPEM key der keyDER (t :: ('p, 'i) certificate).
    random = Some serial \<and> generate_key cr = Some key \<and>
    loadCA cr read_file (CACert opts) (CAKey opts) = Some (parent, signer, caPEM) \<and>
    create_certificate cr t parent (public_key cr key) signer = Some der \<and>
    marshal_key cr key = Some keyDER \<and>
    files =
      [\<lparr>OutName = if Kind opts = ''server'' then ''server-cert.pem'' else ''cert.pem'',
        OutData = pem_encode cr ''CERTIFICATE'' der, OutMode = 420\<rparr>,
       \<lparr>OutName = if Kind opts = ''server'' then ''server-key.pem'' else ''key.pem'',
        OutData = pem_encode cr ''PRIVATE KEY'' keyDER, OutMode = 384\<rparr>,
       \<lparr>OutName = ''ca.pem'', OutData = caPEM, OutMode = 420\<rparr>] \<and>
    IsCA parent \<and> KeyUsage parent AND 32 \<noteq> 0 \<and> PublicKey parent = Some (public_key cr signer) \<and>
    NotBefore parent \<le> now \<and> NotAfter t \<le> NotAfter parent \<and>
    SerialNumber t = serial + 1 \<and> Subject t = Name opts \<and> NotBefore t = now - 300000000000 \<and>
    NotAfter t = now + sint (lifetime (effective_days opts)) \<and>
    BasicConstraintsValid t \<and> \<not> IsCA t \<and> KeyUsage t AND 32 = 0 \<and>
    ExtKeyUsage t = [if Kind opts = ''server'' then ExtKeyUsageServerAuth else ExtKeyUsageClientAuth] \<and>
    DNSNames t = (if Kind opts = ''server'' then DNS opts else []) \<and>
    IPAddresses t = (if Kind opts = ''server'' then ips else [])"
proof (rule bundle_files_leaf [OF assms])
  fix serial parent signer caPEM key der keyDER
  let ?t = "make_template opts ips now serial :: ('p, 'i) certificate"
  assume ca: "signing_ca cr read_file opts now ?t = Inr (parent, Some signer, caPEM)"
    and made: "random = Some serial" "generate_key cr = Some key"
      "create_certificate cr ?t parent (public_key cr key) signer = Some der" "marshal_key cr key = Some keyDER"
      "files = [\<lparr>OutName = cert_name (Kind opts), OutData = pem_encode cr ''CERTIFICATE'' der, OutMode = 420\<rparr>,
                \<lparr>OutName = key_name (Kind opts), OutData = pem_encode cr ''PRIVATE KEY'' keyDER, OutMode = 384\<rparr>,
                \<lparr>OutName = ''ca.pem'', OutData = caPEM, OutMode = 420\<rparr>]"
  have inside: "NotBefore parent \<le> now" "NotAfter ?t \<le> NotAfter parent"
    and loaded: "loadCA cr read_file (CACert opts) (CAKey opts) = Some (parent, signer, caPEM)"
    using leaf_signer [OF ca assms(2)] by simp_all
  show ?thesis
    using made inside loaded loadCA_signs [OF loaded] assms(2)
    by (intro exI [of _ serial] exI [of _ parent] exI [of _ signer] exI [of _ caPEM] exI [of _ key]
        exI [of _ der] exI [of _ keyDER] exI [of _ ?t])
      (simp add: make_template_def base_template_def cert_name_def key_name_def Let_def)
qed

theorem leaf_confined_witness:
  "\<exists>der keyDER caPEM. bundle_files example_crypto Some 0 (Some 41) example_options [] =
     Inr [\<lparr>OutName = ''cert.pem'', OutData = ''CERTIFICATE'' @ der, OutMode = 420\<rparr>,
          \<lparr>OutName = ''key.pem'', OutData = ''PRIVATE KEY'' @ keyDER, OutMode = 384\<rparr>,
          \<lparr>OutName = ''ca.pem'', OutData = caPEM, OutMode = 420\<rparr>] \<and>
     (\<exists>parent key. loadCA example_crypto Some ''CERTIFICATE'' ''PRIVATE KEY'' = Some (parent, key, caPEM) \<and>
        IsCA parent)"
proof -
  have "sint (lifetime 365) = 31536000000000000" using lifetime_bound [of 365] by simp
  moreover have "trim_space [] = []" by code_simp
  then have "loadCA example_crypto Some ''CERTIFICATE'' ''PRIVATE KEY'' = Some (example_ca, 5, ''CERTIFICATE'')"
    by (simp add: loadCA_def example_crypto_def example_ca_def)
  ultimately have "signing_ca example_crypto Some example_options 0 (make_template example_options [] 0 41) =
      Inr (example_ca, Some 5, ''CERTIFICATE'')"
    by (simp add: signing_ca_def example_options_def example_ca_def make_template_def base_template_def
        effective_days_def Let_def)
  then obtain files where files: "bundle_files example_crypto Some 0 (Some 41) example_options [] = Inr files"
    by (simp add: bundle_files_def) (simp add: example_crypto_def)
  have "Kind example_options \<noteq> ''ca''" by (simp add: example_options_def)
  from leaf_confined [OF files this] obtain der keyDER parent key caPEM where
    "files = [\<lparr>OutName = ''cert.pem'', OutData = ''CERTIFICATE'' @ der, OutMode = 420\<rparr>,
              \<lparr>OutName = ''key.pem'', OutData = ''PRIVATE KEY'' @ keyDER, OutMode = 384\<rparr>,
              \<lparr>OutName = ''ca.pem'', OutData = caPEM, OutMode = 420\<rparr>]"
    "loadCA example_crypto Some ''CERTIFICATE'' ''PRIVATE KEY'' = Some (parent, key, caPEM)" "IsCA parent"
    by (auto simp: example_options_def example_crypto_def)
  then show ?thesis using files by blast
qed

end
