(* ===== verification/Pki_Cli.thy ===== *)
theory Pki_Cli
  imports Pki Go_Flag
begin

text \<open>
  \<open>internal/pki/cli.go\<close> and \<open>cmd/dockauthz-cert\<close>: the command line around the certificate bundles.

  \<open>generate\<close> stands for \<open>Generate\<close> with its parameters. The usage text that the flag package writes
  to the standard error output is left out.
\<close>

section \<open>The command\<close>

datatype cli_error = Message string | Flag flag_error | StdoutFailed

abbreviation set_string :: "(string \<Rightarrow> Options \<Rightarrow> Options) \<Rightarrow> (bool \<times> (string \<Rightarrow> Options \<Rightarrow> Options option)) option" where
  "set_string update \<equiv> Some (False, \<lambda>x o'. Some (update x o'))"

text \<open>The flags that each command registers; a repeated flag appends to its list.\<close>

definition flags :: "string \<Rightarrow> Options flag_set" where
  "flags kind name =
     (if name = ''name'' then set_string (\<lambda>x o'. o'\<lparr>Name := x\<rparr>)
      else if name = ''out'' then set_string (\<lambda>x o'. o'\<lparr>Out := x\<rparr>)
      else if name = ''days'' then
        Some (False, \<lambda>x o'. map_option (\<lambda>n. o'\<lparr>Days := n\<rparr>) (ParseInt x))
      else if name = ''force'' then
        Some (True, \<lambda>x o'. map_option (\<lambda>b. o'\<lparr>Force := b\<rparr>) (ParseBool x))
      else if kind \<noteq> ''ca'' \<and> name = ''ca-cert'' then set_string (\<lambda>x o'. o'\<lparr>CACert := x\<rparr>)
      else if kind \<noteq> ''ca'' \<and> name = ''ca-key'' then set_string (\<lambda>x o'. o'\<lparr>CAKey := x\<rparr>)
      else if kind = ''server'' \<and> name = ''dns'' then set_string (\<lambda>x o'. o'\<lparr>DNS := DNS o' @ [x]\<rparr>)
      else if kind = ''server'' \<and> name = ''ip'' then set_string (\<lambda>x o'. o'\<lparr>IP := IP o' @ [x]\<rparr>)
      else None)"

definition initial_options :: "string \<Rightarrow> Options" where
  "initial_options kind =
     \<lparr>Kind = kind, Name = [], Out = [], Days = (if kind = ''ca'' then 3650 else 365), DNS = [], IP = [],
      CACert = [], CAKey = [], Force = False\<rparr>"

text \<open>
  \<open>Run\<close> returns its error, what it printed to the standard output and the output directory;
  \<open>stdout_ok\<close> says whether writing to the standard output succeeds.
\<close>

definition Run ::
  "(Options \<Rightarrow> disk \<Rightarrow> error \<times> disk) \<Rightarrow> bool \<Rightarrow> string list \<Rightarrow> disk \<Rightarrow> cli_error option \<times> string \<times> disk" where
  "Run generate stdout_ok args d =
     (case args of
        [] \<Rightarrow> (Some (Message ''usage: dockauthz-cert ca|server|client [flags]''), [], d)
      | kind # rest \<Rightarrow>
          if kind \<noteq> ''ca'' \<and> kind \<noteq> ''server'' \<and> kind \<noteq> ''client''
          then (Some (Message ''unknown certificate command''), [], d)
          else case parse_flags (flags kind) rest (initial_options kind) of
              Inl e \<Rightarrow> (Some (Flag e), [], d)
            | Inr (opts, positional) \<Rightarrow>
                if positional \<noteq> [] then (Some (Message ''unexpected positional arguments''), [], d)
                else if Days opts \<le> 0 then (Some (Message ''--days must be positive''), [], d)
                else case generate opts d of
                    (Some e, d) \<Rightarrow> (Some (Message e), [], d)
                  | (None, d) \<Rightarrow>
                      if stdout_ok
                      then (None, ''Certificate bundle created in '' @ Out opts @ [CHR 0x0A], d)
                      else (Some StdoutFailed, [], d))"

text \<open>\<open>main\<close> of \<open>cmd/dockauthz-cert\<close>: the exit code; a request for help is no failure.\<close>

definition cert_exit_code ::
  "(Options \<Rightarrow> disk \<Rightarrow> error \<times> disk) \<Rightarrow> bool \<Rightarrow> string list \<Rightarrow> disk \<Rightarrow> int" where
  "cert_exit_code generate stdout_ok args d =
     (case fst (Run generate stdout_ok args d) of
        None \<Rightarrow> 0
      | Some e \<Rightarrow> if e = Flag ErrHelp then 0 else 1)"


section \<open>Writing options as a command line\<close>

text \<open>The options that a command can express.\<close>

definition expressible :: "Options \<Rightarrow> bool" where
  "expressible opts \<longleftrightarrow>
     Kind opts \<in> {''ca'', ''server'', ''client''} \<and> 0 < Days opts \<and> Days opts < 2 ^ 63 \<and>
     (Kind opts = ''ca'' \<longrightarrow> CACert opts = [] \<and> CAKey opts = []) \<and>
     (Kind opts \<noteq> ''server'' \<longrightarrow> DNS opts = [] \<and> IP opts = [])"

definition flag_values :: "Options \<Rightarrow> (string \<times> string) list" where
  "flag_values opts =
     [(''name'', Name opts), (''out'', Out opts), (''days'', decimal (nat (Days opts))),
      (''force'', if Force opts then ''true'' else ''false'')] @
     (if Kind opts \<noteq> ''ca'' then [(''ca-cert'', CACert opts), (''ca-key'', CAKey opts)] else []) @
     (if Kind opts = ''server''
      then map (Pair ''dns'') (DNS opts) @ map (Pair ''ip'') (IP opts) else [])"

definition command_line :: "Options \<Rightarrow> string list" where
  "command_line opts = Kind opts # map (\<lambda>(name, x). long_flag name x) (flag_values opts)"

lemma set_all_append:
  "set_all formal (fs @ gs) v =
     (case set_all formal fs v of None \<Rightarrow> None | Some v \<Rightarrow> set_all formal gs v)"
  by (induction formal fs v rule: set_all.induct) (auto split: option.split)

lemma set_all_repeated:
  "set_all (flags ''server'') (map (Pair ''dns'') xs) v = Some (v\<lparr>DNS := DNS v @ xs\<rparr>)"
  "set_all (flags ''server'') (map (Pair ''ip'') xs) v = Some (v\<lparr>IP := IP v @ xs\<rparr>)"
  by (induction xs arbitrary: v) (simp_all add: flags_def)

lemma flag_values_plain: "\<forall>(name, x) \<in> set (flag_values opts). plain_name name"
  by (auto simp: flag_values_def plain_name_def)

lemma set_all_flag_values:
  assumes "expressible opts"
  shows "set_all (flags (Kind opts)) (flag_values opts) (initial_options (Kind opts)) = Some opts"
proof -
  have days: "ParseInt (decimal (nat (Days opts))) = Some (Days opts)"
    using assms ParseInt_decimal [of "nat (Days opts)"] by (simp add: expressible_def)
  have force: "ParseBool (if Force opts then ''true'' else ''false'') = Some (Force opts)"
    by (simp add: ParseBool_def)
  show ?thesis
    using assms days force
    by (cases opts)
      (auto simp: expressible_def flag_values_def set_all_append set_all_repeated flags_def
        initial_options_def)
qed


section \<open>A command without the force flag\<close>

definition gives_force :: "string \<Rightarrow> bool" where
  "gives_force arg \<longleftrightarrow> fst (split_flag (flag_name arg)) = ''force''"

lemma parse_flags_step:
  assumes "parse_flags formal (s # args) v = Inr (v', rest)"
  shows "v' = v \<or> (\<exists>b f x w bs. formal (fst (split_flag (flag_name s))) = Some (b, f) \<and> f x v = Some w \<and>
    parse_flags formal bs w = Inr (v', rest) \<and> (bs = args \<or> args \<noteq> [] \<and> bs = tl args))"
proof -
  obtain name arg where sf: "split_flag (flag_name s) = (name, arg)" by fastforce
  show ?thesis
  proof (cases "formal name")
    case None
    then show ?thesis using assms by (auto simp: sf split: if_splits)
  next
    case (Some bf)
    then obtain b f where bf: "formal name = Some (b, f)" by (cases bf) simp
    show ?thesis
    proof (cases "\<exists>x w bs. f x v = Some w \<and> parse_flags formal bs w = Inr (v', rest) \<and>
        (bs = args \<or> args \<noteq> [] \<and> bs = tl args)")
      case True
      then show ?thesis using bf sf by auto
    next
      case False
      then have no: "f x v = Some w \<Longrightarrow> parse_flags formal args w \<noteq> Inr (v', rest)"
        "f x v = Some w \<Longrightarrow> args = y # bs \<Longrightarrow> parse_flags formal bs w \<noteq> Inr (v', rest)" for x y w bs
        by auto
      have "v' = v"
        using assms by (auto simp: sf bf dest: no split: if_splits option.splits list.splits)
      then show ?thesis ..
    qed
  qed
qed

lemma parse_flags_keeps:
  assumes "\<And>name is_bool set_value x v v'. formal name = Some (is_bool, set_value) \<Longrightarrow> name \<noteq> n \<Longrightarrow>
      set_value x v = Some v' \<Longrightarrow> P v \<Longrightarrow> P v'"
    and "\<forall>arg \<in> set args. fst (split_flag (flag_name arg)) \<noteq> n"
    and "parse_flags formal args v = Inr (v', rest)" and "P v"
  shows "P v'"
  using assms(2-4)
proof (induction args arbitrary: v rule: measure_induct_rule [of length])
  case (less args)
  show ?case
  proof (cases args)
    case Nil
    then show ?thesis using less.prems by simp
  next
    case (Cons s as)
    have "v' = v \<or> (\<exists>b f x w bs. formal (fst (split_flag (flag_name s))) = Some (b, f) \<and> f x v = Some w \<and>
        parse_flags formal bs w = Inr (v', rest) \<and> (bs = as \<or> as \<noteq> [] \<and> bs = tl as))"
      by (rule parse_flags_step [OF less.prems(2) [unfolded Cons]])
    then show ?thesis
    proof
      assume "\<exists>b f x w bs. formal (fst (split_flag (flag_name s))) = Some (b, f) \<and> f x v = Some w \<and>
        parse_flags formal bs w = Inr (v', rest) \<and> (bs = as \<or> as \<noteq> [] \<and> bs = tl as)"
      then obtain b f x w bs where step: "formal (fst (split_flag (flag_name s))) = Some (b, f)"
        "f x v = Some w" "parse_flags formal bs w = Inr (v', rest)" and "bs = as \<or> as \<noteq> [] \<and> bs = tl as"
        by blast
      then have bs: "length bs < length args" "set bs \<subseteq> set args"
        unfolding Cons by (cases as; auto)+
      have "P w" using assms(1) [OF step(1) _ step(2) less.prems(3)] less.prems(1) Cons by simp
      then show ?thesis using less.IH [OF bs(1) _ step(3)] bs(2) less.prems(1) by blast
    qed (use less.prems(3) in simp)
  qed
qed

lemma flags_keep_force:
  "flags kind name = Some (is_bool, set_value) \<Longrightarrow> name \<noteq> ''force'' \<Longrightarrow> set_value x o1 = Some o2 \<Longrightarrow>
   \<not> Force o1 \<Longrightarrow> \<not> Force o2"
  unfolding flags_def
  by (simp only: option.inject prod.inject option.distinct if_False split: if_split_asm)
    (elim conjE, hypsubst, clarsimp)+

lemma parsed_without_force:
  assumes "\<forall>arg \<in> set args. \<not> gives_force arg"
    and "parse_flags (flags kind) args (initial_options kind) = Inr (opts, rest)"
  shows "\<not> Force opts"
proof (rule parse_flags_keeps [where P = "\<lambda>o'. \<not> Force o'", OF _ _ assms(2)])
  show "\<not> Force (initial_options kind)" by (simp add: initial_options_def)
  show "\<forall>arg \<in> set args. fst (split_flag (flag_name arg)) \<noteq> ''force''"
    using assms(1) by (simp add: gives_force_def)
qed (rule flags_keep_force)


text \<open>A command touches the output directory only through \<open>Generate\<close>, at most once.\<close>

lemma Run_disk:
  "snd (snd (Run generate stdout_ok args d)) = d \<or>
   (\<exists>kind rest opts. args = kind # rest \<and>
      parse_flags (flags kind) rest (initial_options kind) = Inr (opts, []) \<and>
      snd (snd (Run generate stdout_ok args d)) = snd (generate opts d))"
proof (cases args)
  case (Cons kind rest)
  show ?thesis
  proof (cases "parse_flags (flags kind) rest (initial_options kind)")
    case (Inr r)
    obtain opts positional where r: "r = (opts, positional)" by (cases r)
    obtain err d' where g: "generate opts d = (err, d')" by fastforce
    show ?thesis
      unfolding Cons using Inr r g by (cases err) (simp_all add: Run_def)
  qed (simp add: Run_def Cons)
qed (simp add: Run_def)


section \<open>Properties\<close>

text \<open>
  C29: the command line loses nothing. Every set of options that a command has can be written
  as flags, values with any bytes and repeated names included, and \<open>Run\<close> reads exactly these
  options back and generates the bundle for them.
\<close>

theorem command_line_roundtrip:
  assumes "expressible opts"
  shows "Run generate stdout_ok (command_line opts) d =
    (case generate opts d of
       (Some e, d) \<Rightarrow> (Some (Message e), [], d)
     | (None, d) \<Rightarrow>
         (if stdout_ok then (None, ''Certificate bundle created in '' @ Out opts @ [CHR 0x0A], d)
          else (Some StdoutFailed, [], d)))"
proof -
  have "(Kind opts \<noteq> ''ca'' \<and> Kind opts \<noteq> ''server'' \<and> Kind opts \<noteq> ''client'') = False"
    "(Days opts \<le> 0) = False"
    using assms by (auto simp: expressible_def)
  moreover have "parse_flags (flags (Kind opts)) (map (\<lambda>(name, x). long_flag name x) (flag_values opts))
      (initial_options (Kind opts)) = Inr (opts, [])"
    using parse_long_flags [OF flag_values_plain set_all_flag_values [OF assms]] .
  ultimately show ?thesis
    unfolding Run_def command_line_def list.case
    by (simp only: if_False sum.case prod.case simp_thms)
qed

theorem command_line_roundtrip_witness:
  "fst (Run (\<lambda>opts d. (if IP opts = [''10.0.0.1'', ''10.0.0.2''] then None else Some ''lost'', d)) True
     [''server'', ''--name=manager'', ''--out=/etc/docker/pki'', ''--days=365'', ''--force=false'',
      ''--ca-cert=ca.pem'', ''--ca-key=ca-key.pem'', ''--ip=10.0.0.1'', ''--ip=10.0.0.2''] example_disk) = None"
proof -
  let ?o = "\<lparr>Kind = ''server'', Name = ''manager'', Out = ''/etc/docker/pki'', Days = 365, DNS = [],
    IP = [''10.0.0.1'', ''10.0.0.2''], CACert = ''ca.pem'', CAKey = ''ca-key.pem'', Force = False\<rparr>"
  have "command_line ?o = [''server'', ''--name=manager'', ''--out=/etc/docker/pki'', ''--days=365'',
      ''--force=false'', ''--ca-cert=ca.pem'', ''--ca-key=ca-key.pem'', ''--ip=10.0.0.1'', ''--ip=10.0.0.2'']"
    by code_simp
  then show ?thesis
    using command_line_roundtrip [of ?o "\<lambda>opts d. (if IP opts = [''10.0.0.1'', ''10.0.0.2''] then None
        else Some ''lost'', d)" True example_disk]
    by (simp add: expressible_def)
qed

text \<open>
  C16: a command without the force flag, in any of its spellings, never changes or removes an
  existing file, whatever its other arguments are and whatever operation fails.
\<close>

theorem command_keeps_existing:
  assumes "\<forall>arg \<in> set args. \<not> gives_force arg"
    and "good_temp temp_name" and "finite (dom (Entries d))" and "Entries d n = Some f"
  shows "Entries (snd (snd (Run (Generate cr temp_name read_file now random) stdout_ok args d))) n = Some f"
  using Run_disk [of "Generate cr temp_name read_file now random" stdout_ok args d]
proof (elim disjE exE conjE)
  fix kind rest opts
  assume args: "args = kind # rest"
    and parsed: "parse_flags (flags kind) rest (initial_options kind) = Inr (opts, [])"
    and run: "snd (snd (Run (Generate cr temp_name read_file now random) stdout_ok args d)) =
      snd (Generate cr temp_name read_file now random opts d)"
  have "\<not> Force opts" using parsed_without_force [OF _ parsed] assms(1) args by simp
  then show ?thesis unfolding run using assms(2-4) by (rule Generate_keeps)
qed (simp add: assms(4))

theorem command_keeps_existing_witness:
  "Entries (snd (snd (Run (Generate example_crypto fresh_temp Some 0 (Some 41)) True
     [''client'', ''--name'', ''ci'', ''--out=pki'', ''-ca-cert=CERTIFICATE'', ''--ca-key'', ''PRIVATE KEY'']
     example_disk))) ''notes'' = Some \<lparr>FileData = ''x'', FileMode = 420\<rparr>"
  by (rule command_keeps_existing [OF _ good_fresh_temp])
    (simp_all add: gives_force_def flag_name_def split_flag_def example_disk_def)

end
