(* ===== verification/Go_Types.thy ===== *)
theory Go_Types
  imports Go_Flag
begin

text \<open>
  The type objects that the generator of \<open>internal/mutation/generate\<close> reads, how \<open>go/types\<close> prints
  them, and the import aliases that the generator gives to packages while they are printed.

  The objects that the loader of Go packages returns are a parameter: a list of objects that refer
  to each other by position, which stands for their identity. Generic types have no objects here.
\<close>

section \<open>Type objects\<close>

text \<open>A package has a path and a name; the universe has none.\<close>

record type_obj =
  ObjPkg :: "(string \<times> string) option"
  ObjName :: string

record field =
  FieldName :: string
  FieldExported :: bool
  FieldEmbedded :: bool
  FieldTag :: string
  FieldType :: nat

datatype piece = Text string | TypeRef nat

text \<open>
  The objects of \<open>go/types\<close>. \<open>OtherType\<close> are its remaining kinds: channels, functions and
  interfaces, as the texts and types that they are printed with.
\<close>

datatype type_node =
    AliasType type_obj nat
  | NamedType type_obj nat
  | BasicType string
  | PointerType nat
  | SliceType nat
  | MapType nat nat
  | ArrayType nat nat
  | StructType "field list"
  | OtherType string "piece list"

definition node :: "type_node list \<Rightarrow> nat \<Rightarrow> type_node" where
  "node types t = (if t < length types then types ! t else OtherType '''' [])"

text \<open>\<open>types.Unalias\<close>: a chain of aliases passes through each object at most once.\<close>

fun unalias_within :: "nat \<Rightarrow> type_node list \<Rightarrow> nat \<Rightarrow> nat" where
  "unalias_within 0 types t = t"
| "unalias_within (Suc k) types t =
     (case node types t of AliasType obj u \<Rightarrow> unalias_within k types u | _ \<Rightarrow> t)"

definition Unalias :: "type_node list \<Rightarrow> nat \<Rightarrow> nat" where
  "Unalias types t = unalias_within (length types) types t"

definition Underlying :: "type_node list \<Rightarrow> nat \<Rightarrow> type_node" where
  "Underlying types t = (case node types t of NamedType _ u \<Rightarrow> node types u | n \<Rightarrow> n)"

definition is_netip :: "type_node \<Rightarrow> bool" where
  "is_netip n \<longleftrightarrow>
     (case n of
        NamedType obj _ \<Rightarrow> (case ObjPkg obj of Some (path, _) \<Rightarrow> path = ''net/netip'' | None \<Rightarrow> False)
      | _ \<Rightarrow> False)"

definition without_package :: "type_node \<Rightarrow> bool" where
  "without_package n \<longleftrightarrow> (case n of NamedType obj _ \<Rightarrow> ObjPkg obj = None | _ \<Rightarrow> False)"

definition is_named :: "type_node \<Rightarrow> bool" where
  "is_named n \<longleftrightarrow> (case n of NamedType _ _ \<Rightarrow> True | _ \<Rightarrow> False)"


section \<open>Import aliases\<close>

text \<open>
  What the language leaves open: the order in which a map is iterated over, any order at each
  loop; and how \<open>strconv.Quote\<close> writes a string that is not ASCII, after the tables of Unicode.
  The map of imports is a list in the order of insertion.
\<close>

type_synonym aliases = "(string \<times> string) list"

record go_env =
  iteration :: "aliases \<Rightarrow> aliases"
  quote_unicode :: "string \<Rightarrow> string"

fun alias_loop :: "nat \<Rightarrow> aliases \<Rightarrow> string \<Rightarrow> string" where
  "alias_loop n [] name = name"
| "alias_loop n ((path, existing) # es) name =
     alias_loop n es (if existing = name then name @ decimal n else name)"

definition package_alias :: "go_env \<Rightarrow> string \<times> string \<Rightarrow> aliases \<Rightarrow> string \<times> aliases" where
  "package_alias env p im =
     (case map_of im (fst p) of
        Some name \<Rightarrow> (name, im)
      | None \<Rightarrow>
          let name = alias_loop (length im) (iteration env im) (snd p)
          in (name, im @ [(fst p, name)]))"


section \<open>Printing types\<close>

definition object_string :: "go_env \<Rightarrow> type_obj \<Rightarrow> aliases \<Rightarrow> string \<times> aliases" where
  "object_string env obj im =
     (case ObjPkg obj of
        None \<Rightarrow> (ObjName obj, im)
      | Some p \<Rightarrow>
          let (s, im) = package_alias env p im
          in ((if s = '''' then '''' else s @ ''.'') @ ObjName obj, im))"

definition unsafe_pointer :: type_obj where
  "unsafe_pointer = \<lparr>ObjPkg = Some (''unsafe'', ''unsafe''), ObjName = ''Pointer''\<rparr>"

definition newline :: string where
  "newline = [CHR 0x0A]"

definition hex_digit :: "nat \<Rightarrow> char" where
  "hex_digit d = (if d < 10 then char_of (48 + d) else char_of (87 + d))"

definition quote_byte :: "char \<Rightarrow> string" where
  "quote_byte c =
     (if c = CHR 0x22 \<or> c = CHR 0x5C then [CHR 0x5C, c]
      else if c = CHR 0x07 then CHR 0x5C # ''a''
      else if c = CHR 0x08 then CHR 0x5C # ''b''
      else if c = CHR 0x0C then CHR 0x5C # ''f''
      else if c = CHR 0x0A then CHR 0x5C # ''n''
      else if c = CHR 0x0D then CHR 0x5C # ''r''
      else if c = CHR 0x09 then CHR 0x5C # ''t''
      else if c = CHR 0x0B then CHR 0x5C # ''v''
      else if of_char c < (32::nat) \<or> c = CHR 0x7F
      then CHR 0x5C # CHR ''x'' # [hex_digit (of_char c div 16), hex_digit (of_char c mod 16)]
      else [c])"

text \<open>The verb \<open>%q\<close>.\<close>

definition Quote :: "go_env \<Rightarrow> string \<Rightarrow> string" where
  "Quote env s =
     (if list_all (\<lambda>c. of_char c < (128::nat)) s
      then CHR 0x22 # concat (map quote_byte s) @ [CHR 0x22] else quote_unicode env s)"

fun join_with :: "string \<Rightarrow> string list \<Rightarrow> string" where
  "join_with sep [] = ''''"
| "join_with sep [s] = s"
| "join_with sep (s # t # ss) = s @ sep @ join_with sep (t # ss)"

text \<open>The dynamic type of an object, for the message about a cyclic type.\<close>

fun go_type_name :: "type_node \<Rightarrow> string" where
  "go_type_name (AliasType _ _) = ''*Alias''"
| "go_type_name (NamedType _ _) = ''*Named''"
| "go_type_name (BasicType _) = ''*Basic''"
| "go_type_name (PointerType _) = ''*Pointer''"
| "go_type_name (SliceType _) = ''*Slice''"
| "go_type_name (MapType _ _) = ''*Map''"
| "go_type_name (ArrayType _ _) = ''*Array''"
| "go_type_name (StructType _) = ''*Struct''"
| "go_type_name (OtherType kind _) = ''*'' @ kind"

definition unseen :: "type_node list \<Rightarrow> nat list \<Rightarrow> nat" where
  "unseen types seen = card ({..<length types} - set seen)"

lemma unseen_Cons [simp]:
  assumes "t < length types" and "t \<notin> set seen"
  shows "unseen types (t # seen) < unseen types seen"
  unfolding unseen_def using assms by (intro psubset_card_mono) auto

text \<open>
  \<open>types.TypeString\<close>. The types that are being printed are kept, to stop at a type that contains
  itself other than through a name.
\<close>

function type_string :: "go_env \<Rightarrow> type_node list \<Rightarrow> nat list \<Rightarrow> nat \<Rightarrow> aliases \<Rightarrow> string \<times> aliases"
  and field_strings :: "go_env \<Rightarrow> type_node list \<Rightarrow> nat list \<Rightarrow> field list \<Rightarrow> aliases \<Rightarrow> string list \<times> aliases"
  and piece_strings :: "go_env \<Rightarrow> type_node list \<Rightarrow> nat list \<Rightarrow> piece list \<Rightarrow> aliases \<Rightarrow> string list \<times> aliases" where
  "type_string env types seen t im =
     (if t \<ge> length types then ('''', im)
      else if t \<in> set seen then (''<cyclic type '' @ go_type_name (types ! t) @ ''>'', im)
      else case types ! t of
          AliasType obj _ \<Rightarrow> object_string env obj im
        | NamedType obj _ \<Rightarrow> object_string env obj im
        | BasicType name \<Rightarrow>
            if name = ''Pointer'' then object_string env unsafe_pointer im else (name, im)
        | PointerType e \<Rightarrow> apfst (\<lambda>s. ''*'' @ s) (type_string env types (t # seen) e im)
        | SliceType e \<Rightarrow> apfst (\<lambda>s. ''[]'' @ s) (type_string env types (t # seen) e im)
        | ArrayType n e \<Rightarrow>
            apfst (\<lambda>s. ''['' @ decimal n @ '']'' @ s) (type_string env types (t # seen) e im)
        | MapType k e \<Rightarrow>
            (let (key, im) = type_string env types (t # seen) k im
             in apfst (\<lambda>s. ''map['' @ key @ '']'' @ s) (type_string env types (t # seen) e im))
        | StructType fs \<Rightarrow>
            apfst (\<lambda>ss. ''struct{'' @ join_with ''; '' ss @ ''}'') (field_strings env types (t # seen) fs im)
        | OtherType _ ps \<Rightarrow> apfst concat (piece_strings env types (t # seen) ps im))"
| "field_strings env types seen [] im = ([], im)"
| "field_strings env types seen (f # fs) im =
     (let (s, im) = type_string env types seen (FieldType f) im
      in apfst (\<lambda>ss. ((if FieldEmbedded f then '''' else FieldName f @ '' '') @ s
                    @ (if FieldTag f = '''' then '''' else '' '' @ Quote env (FieldTag f))) # ss)
           (field_strings env types seen fs im))"
| "piece_strings env types seen [] im = ([], im)"
| "piece_strings env types seen (Text s # ps) im = apfst (Cons s) (piece_strings env types seen ps im)"
| "piece_strings env types seen (TypeRef t # ps) im =
     (let (s, im) = type_string env types seen t im
      in apfst (Cons s) (piece_strings env types seen ps im))"
  by pat_completeness auto
termination
  by (relation "measures
     [case_sum (\<lambda>(env, types, seen, t, im). unseen types seen)
        (case_sum (\<lambda>(env, types, seen, fs, im). unseen types seen) (\<lambda>(env, types, seen, ps, im). unseen types seen)),
      case_sum (\<lambda>_. 0)
        (case_sum (\<lambda>(env, types, seen, fs, im). Suc (length fs)) (\<lambda>(env, types, seen, ps, im). Suc (length ps)))]")
    auto

declare type_string.simps [simp del]


section \<open>What printing does to the aliases\<close>

fun node_packages :: "type_node \<Rightarrow> (string \<times> string) list" where
  "node_packages (AliasType obj _) = (case ObjPkg obj of None \<Rightarrow> [] | Some p \<Rightarrow> [p])"
| "node_packages (NamedType obj _) = (case ObjPkg obj of None \<Rightarrow> [] | Some p \<Rightarrow> [p])"
| "node_packages _ = []"

definition all_packages :: "type_node list \<Rightarrow> (string \<times> string) list" where
  "all_packages types = (''unsafe'', ''unsafe'') # concat (map node_packages types)"

text \<open>
  Aliases change only where a package is printed for the first time. What such a change keeps is
  kept by printing a type.
\<close>

locale alias_predicate =
  fixes env :: go_env and types :: "type_node list" and holds :: "aliases \<Rightarrow> bool"
  assumes package_kept: "p \<in> set (all_packages types) \<Longrightarrow> holds im \<Longrightarrow> holds (snd (package_alias env p im))"
begin

lemma object_kept:
  assumes "holds im" and "\<And>p. ObjPkg obj = Some p \<Longrightarrow> p \<in> set (all_packages types)"
  shows "holds (snd (object_string env obj im))"
  using assms package_kept by (auto simp: object_string_def split: option.split prod.splits) (metis snd_conv)

lemma node_object_kept:
  assumes "holds im" and "t < length types" and "types ! t = AliasType obj u \<or> types ! t = NamedType obj u"
  shows "holds (snd (object_string env obj im))"
proof (rule object_kept [OF assms(1)])
  fix p assume "ObjPkg obj = Some p"
  then have "p \<in> set (node_packages (types ! t))" using assms(3) by auto
  then show "p \<in> set (all_packages types)" using nth_mem [OF assms(2)] by (auto simp: all_packages_def)
qed

lemma type_string_kept:
  "env' = env \<Longrightarrow> types' = types \<Longrightarrow> holds im \<Longrightarrow> holds (snd (type_string env' types' seen t im))"
  and field_strings_kept:
  "env' = env \<Longrightarrow> types' = types \<Longrightarrow> holds im \<Longrightarrow> holds (snd (field_strings env' types' seen fs im))"
  and piece_strings_kept:
  "env' = env \<Longrightarrow> types' = types \<Longrightarrow> holds im \<Longrightarrow> holds (snd (piece_strings env' types' seen ps im))"
proof (induction env' types' seen t im and env' types' seen fs im and env' types' seen ps im
    rule: type_string_field_strings_piece_strings.induct)
  case (1 env' types' seen t im)
  have "holds (snd (object_string env unsafe_pointer im))"
    by (rule object_kept [OF 1(10)]) (simp add: unsafe_pointer_def all_packages_def)
  then show ?case
    using 1 node_object_kept [OF 1(10), of t] unfolding type_string.simps [of env' types' seen t im]
    by (auto split: type_node.split prod.split)
qed (auto split: prod.split)

end

text \<open>An alias once given is final: the text of a type is the same with all later aliases.\<close>

definition settled :: "(aliases \<Rightarrow> 'a \<times> aliases) \<Rightarrow> aliases \<Rightarrow> bool" where
  "settled f im \<longleftrightarrow> prefix im (snd (f im)) \<and> (\<forall>im'. prefix (snd (f im)) im' \<longrightarrow> f im' = (fst (f im), im'))"

lemma settled_const: "settled (Pair s) im"
  by (simp add: settled_def)

lemma settled_apfst: "settled f im \<Longrightarrow> settled (\<lambda>im. apfst h (f im)) im"
  by (simp add: settled_def)

lemma settled_bind:
  assumes "settled f im" and "\<And>s im'. (s, im') = f im \<Longrightarrow> settled (g s) im'"
  shows "settled (\<lambda>im. case f im of (s, im) \<Rightarrow> g s im) im"
  using assms(1) assms(2) [of "fst (f im)" "snd (f im)"]
  by (fastforce simp: settled_def split_beta dest: prefix_order.trans)

lemma settled_if: "settled f im \<Longrightarrow> settled g im \<Longrightarrow> settled (\<lambda>im. if c then f im else g im) im"
  by (cases c) simp_all

lemma map_of_prefix: "map_of im k = Some v \<Longrightarrow> prefix im im' \<Longrightarrow> map_of im' k = Some v"
  by (auto simp: prefix_def map_add_Some_iff)

lemma settled_package: "settled (package_alias env p) im"
proof (cases "map_of im (fst p)")
  case None
  let ?name = "alias_loop (length im) (iteration env im) (snd p)"
  have "map_of im' (fst p) = Some ?name" if "prefix (im @ [(fst p, ?name)]) im'" for im'
    by (rule map_of_prefix [OF _ that]) (simp add: None map_add_Some_iff)
  then show ?thesis using None by (auto simp: settled_def package_alias_def Let_def)
qed (auto simp: settled_def package_alias_def dest: map_of_prefix)

lemma settled_object: "settled (object_string env obj) im"
proof (cases "ObjPkg obj")
  case None
  then have "object_string env obj = Pair (ObjName obj)" by (simp add: object_string_def fun_eq_iff)
  then show ?thesis by (simp add: settled_const)
next
  case (Some p)
  have "object_string env obj =
      (\<lambda>im. case package_alias env p im of (s, im) \<Rightarrow> ((if s = '''' then '''' else s @ ''.'') @ ObjName obj, im))"
    using Some by (simp add: object_string_def fun_eq_iff)
  then show ?thesis
    by (simp only:) (rule settled_bind [OF settled_package], rule settled_const)
qed

lemma settled_type: "settled (type_string env types seen t) im"
  and settled_fields: "settled (field_strings env types seen fs) im"
  and settled_pieces: "settled (piece_strings env types seen ps) im"
proof (induction env types seen t im and env types seen fs im and env types seen ps im
    rule: type_string_field_strings_piece_strings.induct)
  case (1 env types seen t im)
  note simps = type_string.simps [of env types seen t, abs_def]
  consider "t \<ge> length types" | "t < length types" "t \<in> set seen" | "t < length types" "t \<notin> set seen"
    by fastforce
  then show ?case
  proof cases
    case 3
    then show ?thesis
      using 1 unfolding simps
      by (cases "types ! t") (auto intro!: settled_if settled_const settled_object settled_apfst settled_bind)
  qed (simp_all add: simps settled_const)
next
  case (3 env types seen f fs im)
  then show ?case
    unfolding field_strings.simps [abs_def] Let_def by (intro settled_bind settled_apfst) auto
next
  case (5 env types seen s ps im)
  then show ?case unfolding piece_strings.simps [abs_def] by (intro settled_apfst)
next
  case (6 env types seen t ps im)
  then show ?case unfolding piece_strings.simps [abs_def] Let_def by (intro settled_bind settled_apfst) auto
qed (simp_all add: settled_const)


section \<open>Distinct aliases\<close>

text \<open>
  The name of a package with digits appended. As long as no package has the name of another one
  with digits appended, the loop over the aliases finds a new one, whatever its order.
\<close>

definition numbered :: "string \<Rightarrow> string \<Rightarrow> bool" where
  "numbered p q \<longleftrightarrow> prefix p q \<and> p \<noteq> q \<and> list_all is_digit (drop (length p) q)"

definition clear_names :: "type_node list \<Rightarrow> bool" where
  "clear_names types \<longleftrightarrow>
     list_all (\<lambda>p. list_all (\<lambda>q. \<not> numbered (snd p) (snd q)) (all_packages types)) (all_packages types)"

definition aliases_ok :: "type_node list \<Rightarrow> aliases \<Rightarrow> bool" where
  "aliases_ok types im \<longleftrightarrow>
     distinct (map fst im) \<and> distinct (map snd im) \<and>
     (\<forall>i < length im. \<exists>name. (fst (im ! i), name) \<in> set (all_packages types) \<and>
        (snd (im ! i) = name \<or> snd (im ! i) = name @ decimal i))"

lemma numberedI: "us \<noteq> [] \<Longrightarrow> \<forall>c \<in> set us. is_digit c \<Longrightarrow> numbered p (p @ us)"
  by (simp add: numbered_def list_all_iff)

lemma numbered_decimal: "numbered p (p @ decimal n)"
  by (rule numberedI) (simp add: decimal.simps [of n], simp add: decimal_digits)

lemma clear_namesD:
  "clear_names types \<Longrightarrow> p \<in> set (all_packages types) \<Longrightarrow> q \<in> set (all_packages types) \<Longrightarrow>
   \<not> numbered (snd p) (snd q)"
  by (simp add: clear_names_def list_all_iff)

lemma alias_loop_fixed: "name \<notin> snd ` set es \<Longrightarrow> alias_loop n es name = name"
  by (induction n es name rule: alias_loop.induct) auto

lemma alias_loop_once:
  "name @ decimal n \<notin> snd ` set es \<Longrightarrow>
   alias_loop n es name = (if name \<in> snd ` set es then name @ decimal n else name)"
  by (induction n es name rule: alias_loop.induct) (auto simp: alias_loop_fixed rev_image_eqI)

lemma alias_fresh:
  assumes "aliases_ok types im" and "clear_names types" and "p \<in> set (all_packages types)"
  shows "snd p @ decimal (length im) \<notin> snd ` set im"
proof
  assume "snd p @ decimal (length im) \<in> snd ` set im"
  then obtain i where i: "i < length im" "snd (im ! i) = snd p @ decimal (length im)"
    by (auto simp: in_set_conv_nth)
  then obtain name where name: "(fst (im ! i), name) \<in> set (all_packages types)"
    "snd (im ! i) = name \<or> snd (im ! i) = name @ decimal i"
    using assms(1) by (auto simp: aliases_ok_def)
  have clear: "\<not> numbered (snd p) name" using clear_namesD [OF assms(2,3) name(1)] by simp
  with i(2) name(2) have "name @ decimal i = snd p @ decimal (length im)"
    using numbered_decimal by auto
  then obtain us where
    "name @ us = snd p \<and> decimal i = us @ decimal (length im) \<or> name = snd p @ us \<and> us @ decimal i = decimal (length im)"
    by (auto simp: append_eq_append_conv2)
  moreover have "decimal i \<noteq> decimal (length im)" using i(1) decimal_inj by (metis nat_neq_iff)
  moreover have "length (decimal i) \<le> length (decimal (length im))" using i(1) by (simp add: decimal_length_mono)
  ultimately have "name = snd p @ us" "us @ decimal i = decimal (length im)" "us \<noteq> []" by auto
  moreover from this have "c \<in> set us \<Longrightarrow> is_digit c" for c
    using decimal_digits [of c "length im"] by (metis Un_iff set_append)
  ultimately show False using clear numberedI by blast
qed

lemma aliases_ok_package:
  assumes "aliases_ok types im" and "clear_names types" and "p \<in> set (all_packages types)"
    and "set (iteration env im) = set im"
  shows "aliases_ok types (snd (package_alias env p im))"
proof (cases "map_of im (fst p)")
  case None
  let ?n = "snd p @ decimal (length im)"
  define name where "name = alias_loop (length im) (iteration env im) (snd p)"
  have name: "name = (if snd p \<in> snd ` set im then ?n else snd p)"
    using alias_loop_once alias_fresh [OF assms(1-3)] assms(4) unfolding name_def by metis
  then have "name \<notin> snd ` set im" using alias_fresh [OF assms(1-3)] by auto
  moreover have "fst p \<notin> fst ` set im" using None by (simp add: map_of_eq_None_iff)
  moreover have "\<exists>base. (fst p, base) \<in> set (all_packages types) \<and> (name = base \<or> name = base @ decimal (length im))"
    using assms(3) name by (intro exI [of _ "snd p"]) simp
  moreover have "snd (package_alias env p im) = im @ [(fst p, name)]"
    using None by (simp add: package_alias_def Let_def name_def)
  ultimately show ?thesis using assms(1) by (auto simp: aliases_ok_def nth_append less_Suc_eq)
qed (use assms(1) in \<open>simp add: package_alias_def\<close>)

end
