(* ===== verification/Generator.thy ===== *)
theory Generator
  imports Go_Types "HOL-Library.List_Lexorder" "HOL-Library.Char_ord" "HOL-Library.Multiset"
begin

text \<open>
  \<open>internal/mutation/generate\<close>: the tool that writes the comparison functions. A generated
  function is a syntax tree, one constructor for each text template of the source, with the texts
  of the types that were printed while it was generated; \<open>print_decl\<close> has the templates.

  It always returns; it declares every function that it calls, and none twice; each type has the
  text that the final imports give it; and the imports have distinct aliases. That the functions
  compute structural equality is in the theory \<open>Generated_Code\<close>.
\<close>

section \<open>The generator\<close>

datatype body =
    ReturnEqual
  | PointerBody nat
  | SliceBody nat
  | MapBody nat
  | ArrayBody nat
  | StructBody "(nat \<times> string) list"

text \<open>
  A function has the number of its name \<open>equal\<close>\<open>n\<close>, the type of its parameters and the text of that
  type. A guard has the type, the text of its structure and the text of its name.
\<close>

datatype decl = Func nat nat string body | ShapeGuard nat string string

text \<open>\<open>names\<close> lists the types in the order of their numbers.\<close>

record generator =
  import_aliases :: aliases
  names :: "nat list"
  decls :: "decl list"
  shapes :: "nat list"

definition position_in :: "'a list \<Rightarrow> 'a \<Rightarrow> nat option" where
  "position_in xs x =
     (if x \<in> set xs then Some (length (takeWhile (\<lambda>y. y \<noteq> x) xs)) else None)"

definition typeName :: "go_env \<Rightarrow> type_node list \<Rightarrow> nat \<Rightarrow> generator \<Rightarrow> string \<times> generator" where
  "typeName env types t g =
     (let (s, im) = type_string env types [] t (import_aliases g) in (s, g\<lparr>import_aliases := im\<rparr>))"

text \<open>\<open>shape\<close>, over the aliases that it adds to.\<close>

fun shape_fields :: "go_env \<Rightarrow> type_node list \<Rightarrow> field list \<Rightarrow> aliases \<Rightarrow> string \<times> aliases" where
  "shape_fields env types [] im = ('''', im)"
| "shape_fields env types (f # fs) im =
     (case type_string env types [] (FieldType f) im of (s, im) \<Rightarrow>
      apfst (\<lambda>rest.
          ''// '' @ FieldName f @ '' mirrors Docker'' @ [CHR 0x27] @ ''s field for schema checking.'' @ newline
          @ (if \<not> FieldEmbedded f then FieldName f @ '' '' else '''')
          @ s
          @ (if FieldTag f \<noteq> '''' then '' '' @ Quote env (FieldTag f) else '''')
          @ newline @ rest)
        (shape_fields env types fs im))"

definition shape :: "go_env \<Rightarrow> type_node list \<Rightarrow> field list \<Rightarrow> aliases \<Rightarrow> string \<times> aliases" where
  "shape env types fs im =
     apfst (\<lambda>s. ''struct {'' @ newline @ s @ ''}'') (shape_fields env types fs im)"

definition emit_decl :: "decl \<Rightarrow> generator \<Rightarrow> generator" where
  "emit_decl d g = g\<lparr>decls := decls g @ [d]\<rparr>"

definition emit_guard :: "go_env \<Rightarrow> type_node list \<Rightarrow> nat \<Rightarrow> field list \<Rightarrow> generator \<Rightarrow> generator" where
  "emit_guard env types t fs g =
     (if is_named (node types t) \<and> t \<notin> set (shapes g)
      then let g = g\<lparr>shapes := shapes g @ [t]\<rparr>;
               (text, im) = shape env types fs (import_aliases g);
               (name, g) = typeName env types t (g\<lparr>import_aliases := im\<rparr>)
           in emit_decl (ShapeGuard t text name) g
      else g)"

text \<open>
  \<open>equal\<close> recurses through the types; \<open>gen_body\<close> is its switch over the underlying type and
  \<open>gen_fields\<close> the loop over the fields of a structure. The recursion is bounded by fuel: the
  result \<open>None\<close> stands for running out of it, \<open>Inl\<close> for a panic.
\<close>

definition wrap ::
  "nat \<Rightarrow> nat \<Rightarrow> string \<Rightarrow> (nat \<Rightarrow> body) \<Rightarrow> (string + nat \<times> generator) option \<Rightarrow>
   (string + nat \<times> generator) option" where
  "wrap n t s form r =
     map_option (map_sum id (\<lambda>(m, g). (n, emit_decl (Func n t s (form m)) g))) r"

function gen_equal ::
    "go_env \<Rightarrow> type_node list \<Rightarrow> nat \<Rightarrow> nat \<Rightarrow> generator \<Rightarrow> (string + nat \<times> generator) option"
  and gen_body ::
    "go_env \<Rightarrow> type_node list \<Rightarrow> nat \<Rightarrow> nat \<Rightarrow> nat \<Rightarrow> string \<Rightarrow> generator \<Rightarrow> (string + nat \<times> generator) option"
  and gen_fields ::
    "go_env \<Rightarrow> type_node list \<Rightarrow> nat \<Rightarrow> nat \<Rightarrow> field list \<Rightarrow> generator \<Rightarrow>
     (string + (nat \<times> string) list \<times> generator) option" where
  "gen_equal env types 0 t0 g = None"
| "gen_equal env types (Suc k) t0 g =
     (let t = Unalias types t0 in
      case position_in (names g) t of
        Some n \<Rightarrow> Some (Inr (n, g))
      | None \<Rightarrow>
          let n = length (names g);
              (s, g) = typeName env types t (g\<lparr>names := names g @ [t]\<rparr>)
          in if is_netip (node types t) then Some (Inr (n, emit_decl (Func n t s ReturnEqual) g))
             else if without_package (node types t) then Some (Inl ''nil pointer dereference'')
             else gen_body env types k n t s g)"
| "gen_body env types k n t s g =
     (case Underlying types t of
        BasicType _ \<Rightarrow> Some (Inr (n, emit_decl (Func n t s ReturnEqual) g))
      | PointerType e \<Rightarrow> wrap n t s PointerBody (gen_equal env types k e g)
      | SliceType e \<Rightarrow> wrap n t s SliceBody (gen_equal env types k e g)
      | MapType _ e \<Rightarrow> wrap n t s MapBody (gen_equal env types k e g)
      | ArrayType _ e \<Rightarrow> wrap n t s ArrayBody (gen_equal env types k e g)
      | StructType fs \<Rightarrow>
          (case gen_fields env types k t fs (emit_guard env types t fs g) of
             None \<Rightarrow> None
           | Some (Inl e) \<Rightarrow> Some (Inl e)
           | Some (Inr (parts, g)) \<Rightarrow> Some (Inr (n, emit_decl (Func n t s (StructBody parts)) g)))
      | _ \<Rightarrow> Some (Inl (''unreviewed Docker type: '' @ fst (typeName env types t g))))"
| "gen_fields env types k t [] g = Some (Inr ([], g))"
| "gen_fields env types k t (f # fs) g =
     (if \<not> FieldExported f
      then Some (Inl (''unreviewed private field in '' @ fst (typeName env types t g)))
      else case gen_equal env types k (FieldType f) g of
          None \<Rightarrow> None
        | Some (Inl e) \<Rightarrow> Some (Inl e)
        | Some (Inr (m, g)) \<Rightarrow>
            (case gen_fields env types k t fs g of
               None \<Rightarrow> None
             | Some (Inl e) \<Rightarrow> Some (Inl e)
             | Some (Inr (parts, g)) \<Rightarrow> Some (Inr ((m, FieldName f) # parts, g))))"
  by pat_completeness auto
termination
  by (relation "measures
     [case_sum (\<lambda>(env, types, k, t, g). k)
        (case_sum (\<lambda>(env, types, k, n, t, s, g). k) (\<lambda>(env, types, k, t, fs, g). k)),
      case_sum (\<lambda>_. 0) (case_sum (\<lambda>_. 2) (\<lambda>_. 1)),
      case_sum (\<lambda>_. 0) (case_sum (\<lambda>_. 0) (\<lambda>(env, types, k, t, fs, g). length fs))]") auto

declare gen_equal.simps [simp del] gen_body.simps [simp del]

text \<open>The comparison of the root type, with fuel for every type object.\<close>

definition empty_generator :: generator where
  "empty_generator = \<lparr>import_aliases = [], names = [], decls = [], shapes = []\<rparr>"

definition generate :: "go_env \<Rightarrow> type_node list \<Rightarrow> nat \<Rightarrow> (string + nat \<times> generator) option" where
  "generate env types root = gen_equal env types (length types + 1) root empty_generator"


section \<open>The printed file\<close>

definition equal_name :: "nat \<Rightarrow> string" where
  "equal_name n = ''equal'' @ decimal n"

fun print_body :: "body \<Rightarrow> string" where
  "print_body ReturnEqual = ''return a == b'' @ newline"
| "print_body (PointerBody m) =
     ''if a == nil || b == nil { return a == b }; return '' @ equal_name m @ ''(*a,*b)'' @ newline"
| "print_body (SliceBody m) =
     ''if (a == nil) != (b == nil) || len(a) != len(b) { return false }; ''
     @ ''for i := range a { if !'' @ equal_name m @ ''(a[i], b[i]) { return false } }; return true'' @ newline"
| "print_body (MapBody m) =
     ''if (a == nil) != (b == nil) || len(a) != len(b) { return false }; ''
     @ ''for k,v := range a { other,ok := b[k]; ''
     @ ''if !ok || !'' @ equal_name m @ ''(v,other) { return false } }; return true'' @ newline"
| "print_body (ArrayBody m) =
     ''for i := range a { if !'' @ equal_name m @ ''(a[i],b[i]) { return false } }; return true'' @ newline"
| "print_body (StructBody parts) =
     concat (map (\<lambda>(m, f). ''if !'' @ equal_name m @ ''(a.'' @ f @ '',b.'' @ f @ '') { return false }'' @ newline) parts)
     @ ''return true'' @ newline"

fun print_decl :: "decl \<Rightarrow> string" where
  "print_decl (Func n t s b) =
     ''func '' @ equal_name n @ ''(a,b '' @ s @ '') bool {'' @ newline @ print_body b @ ''}'' @ newline"
| "print_decl (ShapeGuard t text name) = ''var _ = ('' @ text @ '')('' @ name @ ''{})'' @ newline"

definition print_file :: "go_env \<Rightarrow> nat \<Rightarrow> generator \<Rightarrow> string" where
  "print_file env n g =
     ''// Code generated by go generate; DO NOT EDIT.'' @ newline @ ''package mutation'' @ newline
     @ ''import ('' @ newline
     @ concat (map (\<lambda>path. the (map_of (import_aliases g) path) @ '' '' @ Quote env path @ newline)
         (sort (map fst (import_aliases g))))
     @ '')'' @ newline
     @ concat (map print_decl (decls g))
     @ ''func equalSpec(a,b swarm.ServiceSpec) bool { return '' @ equal_name n @ ''(a,b) }'' @ newline"

text \<open>
  \<open>main\<close>: the loaded types with the position of \<open>ServiceSpec\<close>, unless the loader fails, the formatter and
  whether the file can be written are parameters; the result is a panic or the content of the file.
\<close>

definition generator_main ::
  "go_env \<Rightarrow> (type_node list \<times> nat) option \<Rightarrow> (string \<Rightarrow> string + string) \<Rightarrow> error \<Rightarrow> string + string" where
  "generator_main env pkgs format write_err =
     (case pkgs of
        None \<Rightarrow> Inl ''cannot load Docker types''
      | Some (types, root) \<Rightarrow>
          (case generate env types root of
             None \<Rightarrow> Inl ''out of fuel''
           | Some (Inl e) \<Rightarrow> Inl e
           | Some (Inr (n, g)) \<Rightarrow>
               (case format (print_file env n g) of
                  Inl e \<Rightarrow> Inl e
                | Inr formatted \<Rightarrow>
                    (case write_err of Some e \<Rightarrow> Inl e | None \<Rightarrow> Inr formatted))))"


section \<open>What is emitted\<close>

lemma typeName_sels [simp]:
  "names (snd (typeName env types t g)) = names g"
  "decls (snd (typeName env types t g)) = decls g"
  "shapes (snd (typeName env types t g)) = shapes g"
  "import_aliases (snd (typeName env types t g)) = snd (type_string env types [] t (import_aliases g))"
  "fst (typeName env types t g) = fst (type_string env types [] t (import_aliases g))"
  by (simp_all add: typeName_def split_beta)

lemma emit_decl_sels [simp]:
  "names (emit_decl d g) = names g"
  "decls (emit_decl d g) = decls g @ [d]"
  "import_aliases (emit_decl d g) = import_aliases g"
  by (simp_all add: emit_decl_def)

fun func_numbers :: "decl list \<Rightarrow> nat list" where
  "func_numbers [] = []"
| "func_numbers (Func n t s b # ds) = n # func_numbers ds"
| "func_numbers (ShapeGuard t s s' # ds) = func_numbers ds"

lemma func_numbers_append [simp]: "func_numbers (ds @ es) = func_numbers ds @ func_numbers es"
  by (induction ds rule: func_numbers.induct) simp_all

lemma set_func_numbers: "set (func_numbers ds) = {n. \<exists>t s b. Func n t s b \<in> set ds}"
  by (induction ds rule: func_numbers.induct) auto

lemma emit_guard_sels:
  "names (emit_guard env types t fs g) = names g"
  "\<exists>guards. decls (emit_guard env types t fs g) = decls g @ guards \<and> func_numbers guards = []"
  by (auto simp: emit_guard_def Let_def split_beta)

definition refers :: "type_node list \<Rightarrow> nat list \<Rightarrow> nat \<Rightarrow> nat \<Rightarrow> bool" where
  "refers types ns e m \<longleftrightarrow> m < length ns \<and> ns ! m = Unalias types e"

text \<open>The body that a type should have, with references to the functions of its components.\<close>

definition body_ok :: "type_node list \<Rightarrow> nat list \<Rightarrow> nat \<Rightarrow> body \<Rightarrow> bool" where
  "body_ok types ns t b \<longleftrightarrow>
     (if is_netip (node types t) then b = ReturnEqual
      else case Underlying types t of
          BasicType _ \<Rightarrow> b = ReturnEqual
        | PointerType e \<Rightarrow> (\<exists>m. refers types ns e m \<and> b = PointerBody m)
        | SliceType e \<Rightarrow> (\<exists>m. refers types ns e m \<and> b = SliceBody m)
        | MapType _ e \<Rightarrow> (\<exists>m. refers types ns e m \<and> b = MapBody m)
        | ArrayType _ e \<Rightarrow> (\<exists>m. refers types ns e m \<and> b = ArrayBody m)
        | StructType fs \<Rightarrow>
            (\<exists>parts. b = StructBody parts \<and>
               list_all2 (\<lambda>f (m, name). name = FieldName f \<and> refers types ns (FieldType f) m) fs parts)
        | _ \<Rightarrow> False)"

lemma refers_append: "refers types ns e m \<Longrightarrow> refers types (ns @ ms) e m"
  by (simp add: refers_def nth_append)

lemma parts_append:
  "list_all2 (\<lambda>f (m, name). name = FieldName f \<and> refers types ns (FieldType f) m) fs parts \<Longrightarrow>
   list_all2 (\<lambda>f (m, name). name = FieldName f \<and> refers types (ns @ ms) (FieldType f) m) fs parts"
  by (erule list_all2_mono) (auto intro: refers_append)

lemma body_ok_append: "body_ok types ns t b \<Longrightarrow> body_ok types (ns @ ms) t b"
  unfolding body_ok_def
  by (auto intro: refers_append parts_append split: if_splits type_node.splits)

text \<open>
  From one state to another exactly the functions of the new names are emitted, each once and
  with the body of its type.
\<close>

definition func_ok :: "type_node list \<Rightarrow> nat \<Rightarrow> nat list \<Rightarrow> decl list \<Rightarrow> bool" where
  "func_ok types from ns ds \<longleftrightarrow>
     distinct (func_numbers ds) \<and> set (func_numbers ds) = {from..<length ns} \<and>
     (\<forall>n t s b. Func n t s b \<in> set ds \<longrightarrow> t = ns ! n \<and> body_ok types ns t b)"

definition grows :: "type_node list \<Rightarrow> generator \<Rightarrow> generator \<Rightarrow> bool" where
  "grows types g g' \<longleftrightarrow>
     (\<exists>new ds. names g' = names g @ new \<and> decls g' = decls g @ ds \<and>
        func_ok types (length (names g)) (names g') ds)"

lemma grows_refl: "grows types g g"
  by (simp add: grows_def func_ok_def)

lemma grows_names: "grows types g g' \<Longrightarrow> \<exists>new. names g' = names g @ new"
  by (auto simp: grows_def)

lemma func_ok_bound: "func_ok types from ns ds \<Longrightarrow> Func n t s b \<in> set ds \<Longrightarrow> from \<le> n \<and> n < length ns"
proof -
  assume "func_ok types from ns ds" and "Func n t s b \<in> set ds"
  then have "n \<in> {from..<length ns}" unfolding func_ok_def set_func_numbers by blast
  then show ?thesis by simp
qed

lemma func_okD: "func_ok types from ns ds \<Longrightarrow> Func n t s b \<in> set ds \<Longrightarrow> t = ns ! n \<and> body_ok types ns t b"
  by (simp add: func_ok_def)

lemma func_ok_append:
  assumes "func_ok types from ns ds" and "func_ok types (length ns) (ns @ new) es" and "from \<le> length ns"
  shows "func_ok types from (ns @ new) (ds @ es)"
proof -
  have "t = (ns @ new) ! n \<and> body_ok types (ns @ new) t b" if "Func n t s b \<in> set ds" for n t s b
    using func_okD [OF assms(1) that] func_ok_bound [OF assms(1) that] body_ok_append [of types ns "ns ! n" b new]
    by (auto simp: nth_append)
  with func_okD [OF assms(2)]
  have "t = (ns @ new) ! n \<and> body_ok types (ns @ new) t b" if "Func n t s b \<in> set (ds @ es)" for n t s b
    using that by (metis Un_iff set_append)
  then show ?thesis using assms by (auto simp: func_ok_def)
qed

lemma grows_trans:
  assumes "grows types g1 g2" and "grows types g2 g3"
  shows "grows types g1 g3"
proof -
  obtain new ds where 1: "names g2 = names g1 @ new" "decls g2 = decls g1 @ ds"
    "func_ok types (length (names g1)) (names g2) ds"
    using assms(1) unfolding grows_def by blast
  obtain new' ds' where 2: "names g3 = names g2 @ new'" "decls g3 = decls g2 @ ds'"
    "func_ok types (length (names g2)) (names g3) ds'"
    using assms(2) unfolding grows_def by blast
  have "func_ok types (length (names g1)) (names g3) (ds @ ds')"
    using func_ok_append [OF 1(3) 2(3) [unfolded 2(1)]] 1(1) 2(1) by simp
  then show ?thesis
    unfolding grows_def using 1(1,2) 2(1,2) by (intro exI [of _ "new @ new'"] exI [of _ "ds @ ds'"]) simp
qed

text \<open>A type is named first, then its components are generated, then its function is emitted.\<close>

lemma grows_function:
  assumes "names g1 = names g @ [t]" and "decls g1 = decls g @ guards" and "func_numbers guards = []"
    and "grows types g1 g2" and "body_ok types (names g2) t b"
  shows "grows types g (emit_decl (Func (length (names g)) t s b) g2)"
proof -
  obtain new ds where 1: "names g2 = names g1 @ new" "decls g2 = decls g1 @ ds"
    "func_ok types (length (names g1)) (names g2) ds"
    using assms(4) unfolding grows_def by blast
  have "Func n u r c \<notin> set guards" for n u r c using assms(3) set_func_numbers [of guards] by auto
  then have "func_ok types (length (names g)) (names g2) (guards @ ds @ [Func (length (names g)) t s b])"
    using 1 assms(1,3,5) by (auto simp: func_ok_def nth_append)
  then show ?thesis
    unfolding grows_def using assms(1,2) 1(1,2) by (auto intro!: exI [of _ "t # new"])
qed

lemma first_position:
  "x \<in> set xs \<Longrightarrow> length (takeWhile (\<lambda>y. y \<noteq> x) xs) < length xs \<and> xs ! length (takeWhile (\<lambda>y. y \<noteq> x) xs) = x"
  by (induction xs) auto

lemma position_in_SomeD: "position_in xs x = Some n \<Longrightarrow> n < length xs \<and> xs ! n = x"
  using first_position [of x xs] by (auto simp: position_in_def split: if_splits)

lemma wrap_InrD:
  "wrap n t s form r = Some (Inr (n', g')) \<Longrightarrow>
   \<exists>m g. r = Some (Inr (m, g)) \<and> n' = n \<and> g' = emit_decl (Func n t s (form m)) g"
  by (cases r; cases "the r") (auto simp: wrap_def)

text \<open>The postcondition of the functions, for a type, its switch and its fields.\<close>

lemma gen_named:
  assumes "names g1 = names g @ [t]" and "decls g1 = decls g @ guards" and "func_numbers guards = []"
    and "grows types g1 g2" and "body_ok types (names g2) t b"
    and "n = length (names g)" and "g' = emit_decl (Func n t s b) g2"
  shows "grows types g g' \<and> n < length (names g') \<and> names g' ! n = t"
proof -
  obtain new where "names g2 = (names g @ [t]) @ new" using assms(1,4) grows_names by metis
  then show ?thesis using grows_function [OF assms(1-5)] assms(6,7) by simp
qed

lemma gen_fields_ConsE:
  assumes "gen_fields env types k t (f # fs) g = Some (Inr (parts, g'))"
  obtains m g1 rest where "gen_equal env types k (FieldType f) g = Some (Inr (m, g1))"
    "gen_fields env types k t fs g1 = Some (Inr (rest, g'))" "parts = (m, FieldName f) # rest"
  using assms by (auto split: if_splits option.splits sum.splits)

lemma gen_fields_correct:
  assumes "\<And>t g n g'. gen_equal env types k t g = Some (Inr (n, g')) \<Longrightarrow>
      grows types g g' \<and> refers types (names g') t n"
    and "gen_fields env types k t fs g = Some (Inr (parts, g'))"
  shows "grows types g g' \<and>
    list_all2 (\<lambda>f (m, name). name = FieldName f \<and> refers types (names g') (FieldType f) m) fs parts"
  using assms(2)
proof (induction fs arbitrary: g parts)
  case Nil
  then show ?case by (simp add: grows_refl)
next
  case (Cons f fs)
  obtain m g1 rest where first: "gen_equal env types k (FieldType f) g = Some (Inr (m, g1))"
    and others: "gen_fields env types k t fs g1 = Some (Inr (rest, g'))" and parts: "parts = (m, FieldName f) # rest"
    using Cons.prems by (rule gen_fields_ConsE)
  have "grows types g g'" using assms(1) [OF first] Cons.IH [OF others] grows_trans by blast
  moreover obtain new where "names g' = names g1 @ new" using Cons.IH [OF others] grows_names by blast
  ultimately show ?case
    using assms(1) [OF first] Cons.IH [OF others] refers_append parts by auto
qed

lemma gen_struct:
  assumes "gen_fields env types k t fs (emit_guard env types t fs g1) = Some (Inr (parts, g2))"
    and "\<And>t g n g'. gen_equal env types k t g = Some (Inr (n, g')) \<Longrightarrow>
      grows types g g' \<and> refers types (names g') t n"
    and "\<not> is_netip (node types t)" and "Underlying types t = StructType fs"
    and "names g1 = names g @ [t]" and "decls g1 = decls g"
    and "n = length (names g)" and "g' = emit_decl (Func n t s (StructBody parts)) g2"
  shows "grows types g g' \<and> n < length (names g') \<and> names g' ! n = t"
proof -
  let ?g1 = "emit_guard env types t fs g1"
  have fields: "grows types ?g1 g2"
    "list_all2 (\<lambda>f (m, name). name = FieldName f \<and> refers types (names g2) (FieldType f) m) fs parts"
    using gen_fields_correct [OF assms(2,1)] by blast+
  obtain guards where guards: "decls ?g1 = decls g @ guards" "func_numbers guards = []"
    using emit_guard_sels(2) assms(6) by metis
  have "body_ok types (names g2) t (StructBody parts)"
    using fields(2) assms(3,4) by (simp add: body_ok_def)
  then show ?thesis
    using gen_named [OF _ guards fields(1) _ assms(7,8)] assms(5) by (simp add: emit_guard_sels(1))
qed

text \<open>The three kinds of branches of the switch: basic types, types with one component, structures.\<close>

lemma gen_body_cases:
  assumes "gen_body env types k n t s g = Some (Inr (n', g'))"
  obtains (basic) name where "Underlying types t = BasicType name" "n' = n" "g' = emit_decl (Func n t s ReturnEqual) g"
  | (component) form e m g2 where "gen_equal env types k e g = Some (Inr (m, g2))" "n' = n"
      "g' = emit_decl (Func n t s (form m)) g2"
      "\<And>ns m. \<not> is_netip (node types t) \<Longrightarrow> refers types ns e m \<Longrightarrow> body_ok types ns t (form m)"
  | (struct) fs parts g2 where "Underlying types t = StructType fs" "n' = n"
      "gen_fields env types k t fs (emit_guard env types t fs g) = Some (Inr (parts, g2))"
      "g' = emit_decl (Func n t s (StructBody parts)) g2"
proof -
  have child: thesis
    if r: "wrap n t s form (gen_equal env types k e g) = Some (Inr (n', g'))"
      and ok: "\<And>ns m. \<not> is_netip (node types t) \<Longrightarrow> refers types ns e m \<Longrightarrow> body_ok types ns t (form m)" for form e
    using wrap_InrD [OF r] component [of e _ _ form] ok by blast
  show thesis
  proof (cases "Underlying types t")
    case (BasicType name)
    then show ?thesis using assms by (intro basic) (auto simp: gen_body.simps)
  next
    case (StructType fs)
    then show ?thesis using assms struct by (auto simp: gen_body.simps split: option.splits sum.splits)
  next
    case (PointerType e)
    then show ?thesis using assms by (intro child [of PointerBody e]) (auto simp: gen_body.simps body_ok_def)
  next
    case (SliceType e)
    then show ?thesis using assms by (intro child [of SliceBody e]) (auto simp: gen_body.simps body_ok_def)
  next
    case (MapType k e)
    then show ?thesis using assms by (intro child [of MapBody e]) (auto simp: gen_body.simps body_ok_def)
  next
    case (ArrayType l e)
    then show ?thesis using assms by (intro child [of ArrayBody e]) (auto simp: gen_body.simps body_ok_def)
  qed (use assms in \<open>simp_all add: gen_body.simps\<close>)
qed

lemma gen_body_correct:
  assumes "gen_body env types k (length (names g)) t s g1 = Some (Inr (n, g'))"
    and "\<And>t g n g'. gen_equal env types k t g = Some (Inr (n, g')) \<Longrightarrow>
      grows types g g' \<and> refers types (names g') t n"
    and "\<not> is_netip (node types t)" and "names g1 = names g @ [t]" and "decls g1 = decls g"
  shows "grows types g g' \<and> n < length (names g') \<and> names g' ! n = t"
  using assms(1)
proof (cases rule: gen_body_cases)
  case (basic name)
  then show ?thesis
    using gen_named [of g1 g t "[]" types g1 ReturnEqual] assms(3-5) by (simp add: body_ok_def grows_refl)
next
  case (component form e m g2)
  then show ?thesis
    using gen_named [of g1 g t "[]" types g2 "form m" n g' s] assms(2) [of e g1 m g2] assms(3-5) by simp
next
  case (struct fs parts g2)
  from gen_struct [OF struct(3) assms(2,3) struct(1) assms(4,5) struct(2)] struct(2,4) show ?thesis by blast
qed

text \<open>The three ways through \<open>equal\<close>: a known type, a \<open>netip\<close> type and the switch.\<close>

lemma gen_equal_cases:
  assumes "gen_equal env types (Suc k) t0 g = Some (Inr (n, g'))" and t: "t = Unalias types t0"
  obtains (known) "position_in (names g) t = Some n" "g' = g"
  | (netip) s g1 where "(s, g1) = typeName env types t (g\<lparr>names := names g @ [t]\<rparr>)" "is_netip (node types t)"
      "n = length (names g)" "g' = emit_decl (Func n t s ReturnEqual) g1"
  | (switch) s g1 where "(s, g1) = typeName env types t (g\<lparr>names := names g @ [t]\<rparr>)" "\<not> is_netip (node types t)"
      "gen_body env types k (length (names g)) t s g1 = Some (Inr (n, g'))"
proof (cases "position_in (names g) t")
  case (Some m)
  have "(Some (Inr (m, g)) :: (string + nat \<times> generator) option) = Some (Inr (n, g'))"
    using assms(1) unfolding gen_equal.simps(2) Let_def t [symmetric] Some option.case .
  then show ?thesis using Some by (intro known) simp_all
next
  case None
  obtain s g1 where sg: "typeName env types t (g\<lparr>names := names g @ [t]\<rparr>) = (s, g1)" by fastforce
  have "(if is_netip (node types t) then Some (Inr (length (names g), emit_decl (Func (length (names g)) t s ReturnEqual) g1))
      else if without_package (node types t) then Some (Inl ''nil pointer dereference'')
      else gen_body env types k (length (names g)) t s g1) = Some (Inr (n, g'))"
    using assms(1) unfolding gen_equal.simps(2) Let_def t [symmetric] None option.case sg prod.case .
  then show ?thesis
    using netip [OF sg [symmetric]] switch [OF sg [symmetric]]
    by (cases "is_netip (node types t)"; cases "without_package (node types t)") simp_all
qed

lemma typeName_pair:
  assumes "(s, g1) = typeName env types t g"
  shows "s = fst (type_string env types [] t (import_aliases g))" and "names g1 = names g"
    and "decls g1 = decls g" and "import_aliases g1 = snd (type_string env types [] t (import_aliases g))"
  using assms by (metis fst_conv snd_conv typeName_sels)+

lemma gen_equal_correct:
  "gen_equal env types k t g = Some (Inr (n, g')) \<Longrightarrow> grows types g g' \<and> refers types (names g') t n"
proof (induction k arbitrary: t g n g')
  case (Suc k)
  from Suc.prems refl [of "Unalias types t"] show ?case
  proof (cases rule: gen_equal_cases)
    case known
    then show ?thesis using position_in_SomeD [OF known(1)] by (simp add: grows_refl refers_def)
  next
    case (netip s g1)
    note g1 = typeName_pair(2,3) [OF netip(1), simplified]
    show ?thesis
      using gen_named [of g1 g "Unalias types t" "[]" types g1 ReturnEqual, OF _ _ _ _ _ netip(3,4)] g1 netip(2)
      by (simp add: body_ok_def grows_refl refers_def)
  next
    case (switch s g1)
    note g1 = typeName_pair(2,3) [OF switch(1), simplified]
    from gen_body_correct [OF switch(3) Suc.IH switch(2) g1] show ?thesis by (simp add: refers_def)
  qed
qed (simp add: gen_equal.simps)


section \<open>Aliases and texts\<close>

context alias_predicate
begin

lemma shape_fields_kept: "holds im \<Longrightarrow> holds (snd (shape_fields env types fs im))"
  by (induction fs arbitrary: im) (auto simp: type_string_kept split_beta)

lemma emit_guard_kept: "holds (import_aliases g) \<Longrightarrow> holds (import_aliases (emit_guard env types t fs g))"
  by (simp add: emit_guard_def Let_def split_beta type_string_kept shape_def shape_fields_kept)

lemma gen_fields_kept:
  assumes "\<And>t g n g'. gen_equal env types k t g = Some (Inr (n, g')) \<Longrightarrow> holds (import_aliases g) \<Longrightarrow>
      holds (import_aliases g')"
    and "gen_fields env types k t fs g = Some (Inr (parts, g'))" and "holds (import_aliases g)"
  shows "holds (import_aliases g')"
  using assms(2,3)
proof (induction fs arbitrary: g parts)
  case (Cons f fs)
  from Cons.prems(1) show ?case
    using Cons.IH Cons.prems(2) assms(1) by (elim gen_fields_ConsE) blast
qed simp

lemma gen_body_kept:
  assumes "gen_body env types k n t s g = Some (Inr (n', g'))" and "holds (import_aliases g)"
    and "\<And>t g n g'. gen_equal env types k t g = Some (Inr (n, g')) \<Longrightarrow> holds (import_aliases g) \<Longrightarrow>
      holds (import_aliases g')"
  shows "holds (import_aliases g')"
  using assms(1)
proof (cases rule: gen_body_cases)
  case (struct fs parts g2)
  then show ?thesis
    using gen_fields_kept [OF assms(3) struct(3)] emit_guard_kept [OF assms(2)] by simp
qed (use assms(2,3) in auto)

lemma gen_equal_kept:
  "gen_equal env types k t g = Some (Inr (n, g')) \<Longrightarrow> holds (import_aliases g) \<Longrightarrow> holds (import_aliases g')"
proof (induction k arbitrary: t g n g')
  case (Suc k)
  have print: "holds (snd (type_string env types [] u (import_aliases g)))" for u
    using Suc.prems(2) by (simp add: type_string_kept)
  from Suc.prems(1) refl [of "Unalias types t"] show ?case
  proof (cases rule: gen_equal_cases)
    case known
    then show ?thesis using Suc.prems(2) by simp
  next
    case (netip s g1)
    then show ?thesis using print typeName_pair(4) [OF netip(1)] by simp
  next
    case (switch s g1)
    then show ?thesis
      using gen_body_kept [OF switch(3) _ Suc.IH] print typeName_pair(4) [OF switch(1)] by simp
  qed
qed (simp add: gen_equal.simps)

lemma all_fields_kept:
  assumes "gen_fields env types k t fs g = Some (Inr (parts, g'))" and "holds (import_aliases g)"
  shows "holds (import_aliases g')"
  using gen_fields_kept [OF _ assms] gen_equal_kept by blast

end

text \<open>Aliases are only added.\<close>

interpretation extend: alias_predicate env types "prefix im" for env types im
  by unfold_locales (metis settled_package settled_def prefix_order.trans)

text \<open>Whatever the order of the loop, they are distinct if the names of the packages are clear.\<close>

definition any_order :: "go_env \<Rightarrow> bool" where
  "any_order env \<longleftrightarrow> (\<forall>im. set (iteration env im) = set im)"

interpretation clear: alias_predicate env types
  "\<lambda>im. any_order env \<and> clear_names types \<longrightarrow> aliases_ok types im" for env types
  by unfold_locales (simp add: aliases_ok_package any_order_def)

fun text_ok :: "go_env \<Rightarrow> type_node list \<Rightarrow> aliases \<Rightarrow> decl \<Rightarrow> bool" where
  "text_ok env types im (Func n t s b) \<longleftrightarrow> type_string env types [] t im = (s, im)"
| "text_ok env types im (ShapeGuard t text name) \<longleftrightarrow>
     (case Underlying types t of StructType fs \<Rightarrow> shape env types fs im = (text, im) | _ \<Rightarrow> False) \<and>
     type_string env types [] t im = (name, im)"

lemma settledD: "settled f im \<Longrightarrow> prefix (snd (f im)) im' \<Longrightarrow> f im' = (fst (f im), im')"
  by (simp add: settled_def)

lemma settled_shape: "settled (shape env types fs) im"
proof -
  have "settled (shape_fields env types fs) im"
  proof (induction fs arbitrary: im)
    case Nil
    then show ?case by (simp add: settled_const)
  next
    case (Cons f fs)
    then show ?case unfolding shape_fields.simps [abs_def] by (intro settled_bind settled_type settled_apfst)
  qed
  then show ?thesis unfolding shape_def [abs_def] by (rule settled_apfst)
qed

lemma text_ok_prefix:
  assumes "text_ok env types im d" and "prefix im im'"
  shows "text_ok env types im' d"
  using assms settledD [OF settled_type, of env types "[]" _ im im'] settledD [OF settled_shape, of env types _ im im']
  by (cases d) (auto split: type_node.splits)

definition texts_ok :: "go_env \<Rightarrow> type_node list \<Rightarrow> generator \<Rightarrow> bool" where
  "texts_ok env types g \<longleftrightarrow> list_all (text_ok env types (import_aliases g)) (decls g)"

lemma texts_ok_extend:
  "texts_ok env types g \<Longrightarrow> decls g' = decls g \<Longrightarrow> prefix (import_aliases g) (import_aliases g') \<Longrightarrow>
   texts_ok env types g'"
  by (auto simp: texts_ok_def list_all_iff intro: text_ok_prefix)

lemma texts_ok_emit:
  "texts_ok env types g \<Longrightarrow> text_ok env types (import_aliases g) d \<Longrightarrow> texts_ok env types (emit_decl d g)"
  by (simp add: texts_ok_def)

lemma printed_settled:
  "type_string env types [] t (snd (type_string env types [] t im)) =
     (fst (type_string env types [] t im), snd (type_string env types [] t im))"
  by (rule settledD [OF settled_type]) simp

lemma printed_later:
  "type_string env types [] t im = (s, im) \<Longrightarrow> prefix im im' \<Longrightarrow> type_string env types [] t im' = (s, im')"
  using text_ok_prefix [of env types im "Func 0 t s ReturnEqual" im'] by simp

lemma emit_guard_texts:
  assumes "texts_ok env types g" and "Underlying types t = StructType fs"
  shows "texts_ok env types (emit_guard env types t fs g)"
proof (cases "is_named (node types t) \<and> t \<notin> set (shapes g)")
  case True
  let ?im = "snd (shape env types fs (import_aliases g))"
  let ?im' = "snd (type_string env types [] t ?im)"
  have im: "prefix (import_aliases g) ?im" "prefix ?im ?im'"
    using settled_shape [of env types fs "import_aliases g"] settled_type [of env types "[]" t ?im]
    by (simp_all add: settled_def)
  let ?d = "ShapeGuard t (fst (shape env types fs (import_aliases g))) (fst (type_string env types [] t ?im))"
  have guard: "emit_guard env types t fs g = emit_decl ?d (g\<lparr>shapes := shapes g @ [t], import_aliases := ?im'\<rparr>)"
    using True by (simp add: emit_guard_def Let_def split_beta typeName_def)
  have "text_ok env types ?im' ?d"
    using assms(2) settledD [OF settled_shape im(2)] printed_settled [of env types t ?im] by simp
  then show ?thesis
    unfolding guard using texts_ok_extend [OF assms(1)] im by (intro texts_ok_emit) auto
qed (use assms(1) in \<open>auto simp: emit_guard_def\<close>)

lemma gen_fields_texts:
  assumes "\<And>t g n g'. gen_equal env types k t g = Some (Inr (n, g')) \<Longrightarrow> texts_ok env types g \<Longrightarrow> texts_ok env types g'"
    and "gen_fields env types k t fs g = Some (Inr (parts, g'))" and "texts_ok env types g"
  shows "texts_ok env types g'"
  using assms(2,3)
proof (induction fs arbitrary: g parts)
  case (Cons f fs)
  from Cons.prems(1) show ?case
    using Cons.IH Cons.prems(2) assms(1) by (elim gen_fields_ConsE) blast
qed simp

lemma gen_body_texts:
  assumes "gen_body env types k n t s g = Some (Inr (n', g'))" and "texts_ok env types g"
    and "type_string env types [] t (import_aliases g) = (s, import_aliases g)"
    and "\<And>t g n g'. gen_equal env types k t g = Some (Inr (n, g')) \<Longrightarrow> texts_ok env types g \<Longrightarrow> texts_ok env types g'"
  shows "texts_ok env types g'"
  using assms(1)
proof (cases rule: gen_body_cases)
  case (basic name)
  then show ?thesis using texts_ok_emit assms(2,3) by simp
next
  case (component form e m g2)
  then show ?thesis
    using texts_ok_emit printed_later [OF assms(3) extend.gen_equal_kept [OF component(1)]] assms(2,4) by simp
next
  case (struct fs parts g2)
  have "prefix (import_aliases g) (import_aliases g2)"
    using extend.all_fields_kept [OF struct(3)] extend.emit_guard_kept by blast
  then show ?thesis
    using texts_ok_emit printed_later [OF assms(3)] struct(4)
      gen_fields_texts [OF assms(4) struct(3) emit_guard_texts [OF assms(2) struct(1)]] by simp
qed

lemma gen_equal_texts:
  "gen_equal env types k t g = Some (Inr (n, g')) \<Longrightarrow> texts_ok env types g \<Longrightarrow> texts_ok env types g'"
proof (induction k arbitrary: t g n g')
  case (Suc k)
  have start: "texts_ok env types g1 \<and> type_string env types [] u (import_aliases g1) = (s, import_aliases g1)"
    if "(s, g1) = typeName env types u (g\<lparr>names := names g @ [u]\<rparr>)" for s g1 u
    using texts_ok_extend [OF Suc.prems(2), of g1] typeName_pair [OF that] printed_settled
      settled_type [of env types "[]" u "import_aliases g"] by (simp add: settled_def)
  from Suc.prems(1) refl [of "Unalias types t"] show ?case
  proof (cases rule: gen_equal_cases)
    case known
    then show ?thesis using Suc.prems(2) by simp
  next
    case (netip s g1)
    then show ?thesis using start [OF netip(1)] texts_ok_emit by simp
  next
    case (switch s g1)
    then show ?thesis using gen_body_texts [OF switch(3)] Suc.IH start [OF switch(1)] by blast
  qed
qed (simp add: gen_equal.simps)


section \<open>Enough fuel\<close>

definition unnamed :: "type_node list \<Rightarrow> generator \<Rightarrow> nat" where
  "unnamed types g = card ({..<length types} - set (names g))"

lemma unnamed_names: "names g' = names g @ new \<Longrightarrow> unnamed types g' \<le> unnamed types g"
  unfolding unnamed_def by (intro card_mono) auto

lemma unnamed_add:
  assumes "t < length types" and "t \<notin> set (names g)" and "names g' = names g @ [t]"
  shows "unnamed types g' < unnamed types g"
  unfolding unnamed_def using assms by (intro psubset_card_mono) auto

lemma gen_fields_fuel:
  assumes "\<And>t g. unnamed types g < k \<Longrightarrow> gen_equal env types k t g \<noteq> None" and "unnamed types g < k"
  shows "gen_fields env types k t fs g \<noteq> None"
  using assms(2)
proof (induction fs arbitrary: g)
  case (Cons f fs)
  obtain r where r: "gen_equal env types k (FieldType f) g = Some r" using assms(1) [OF Cons.prems] by blast
  show ?case
  proof (cases r)
    case (Inr mg)
    obtain m g1 where mg: "mg = (m, g1)" by (cases mg)
    then obtain new where "names g1 = names g @ new"
      using gen_equal_correct r Inr grows_names by blast
    then have "gen_fields env types k t fs g1 \<noteq> None"
      using Cons unnamed_names [of g1 g new types] by (meson le_less_trans)
    then show ?thesis using r Inr mg by (auto split: sum.splits)
  qed (use r in simp)
qed simp

lemma gen_body_fuel:
  assumes "\<And>t g. unnamed types g < k \<Longrightarrow> gen_equal env types k t g \<noteq> None" and "unnamed types g < k"
  shows "gen_body env types k n t s g \<noteq> None"
proof -
  have child: "wrap n t s form (gen_equal env types k e g) \<noteq> None" for form e
    using assms by (simp add: wrap_def)
  have "unnamed types (emit_guard env types t fs g) < k" for fs
    using assms(2) by (simp add: unnamed_def emit_guard_sels(1))
  then have "gen_fields env types k t fs (emit_guard env types t fs g) \<noteq> None" for fs
    using gen_fields_fuel assms(1) by blast
  then show ?thesis
    using child
    by (cases "Underlying types t")
      (auto simp del: not_None_eq simp: gen_body.simps split: sum.splits option.splits)
qed

lemma gen_equal_fuel: "unnamed types g < k \<Longrightarrow> gen_equal env types k t g \<noteq> None"
proof (induction k arbitrary: t g)
  case (Suc k)
  let ?t = "Unalias types t"
  obtain s g1 where sg: "(s, g1) = typeName env types ?t (g\<lparr>names := names g @ [?t]\<rparr>)" by (metis surj_pair)
  have "gen_body env types k (length (names g)) ?t s g1 \<noteq> None" if new: "position_in (names g) ?t = None"
  proof (cases "?t < length types")
    case True
    moreover have "?t \<notin> set (names g)" using new by (simp add: position_in_def split: if_splits)
    ultimately have "unnamed types g1 < k"
      using unnamed_add [of ?t types g g1] typeName_pair(2) [OF sg] Suc.prems by simp
    then show ?thesis using gen_body_fuel Suc.IH by blast
  next
    case False
    then show ?thesis by (simp add: gen_body.simps Underlying_def node_def)
  qed
  then show ?case
    by (cases "position_in (names g) ?t") (simp_all add: gen_equal.simps Let_def flip: sg)
qed simp


section \<open>Properties\<close>

fun callees :: "body \<Rightarrow> nat list" where
  "callees ReturnEqual = []"
| "callees (PointerBody m) = [m]"
| "callees (SliceBody m) = [m]"
| "callees (MapBody m) = [m]"
| "callees (ArrayBody m) = [m]"
| "callees (StructBody parts) = map fst parts"

lemma body_ok_callees: "body_ok types ns t b \<Longrightarrow> set (callees b) \<subseteq> {0..<length ns}"
  by (auto simp: body_ok_def refers_def list_all2_conv_all_nth in_set_conv_nth split_beta
      split: if_splits type_node.splits) (metis fst_conv)

lemma equal_name_inj: "inj equal_name"
  by (rule injI) (simp add: equal_name_def decimal_inj)

lemma generate_grows:
  assumes "generate env types root = Some (Inr (n, g))"
  shows "func_ok types 0 (names g) (decls g)" and "refers types (names g) root n"
  using gen_equal_correct [OF assms [unfolded generate_def]] by (auto simp: grows_def empty_generator_def)

lemma generate_texts: "generate env types root = Some (Inr (n, g)) \<Longrightarrow> texts_ok env types g"
  unfolding generate_def by (erule gen_equal_texts) (simp add: texts_ok_def empty_generator_def)

lemma generate_first_alias:
  assumes "generate env types root = Some (Inr (n, g))"
  shows "prefix (snd (type_string env types [] (Unalias types root) [])) (import_aliases g)"
proof -
  have "gen_equal env types (Suc (length types)) root empty_generator = Some (Inr (n, g))"
    using assms by (simp add: generate_def)
  then show ?thesis using refl [of "Unalias types root"]
  proof (cases rule: gen_equal_cases)
    case known
    then show ?thesis by (simp add: position_in_def empty_generator_def)
  next
    case (netip s g1)
    then show ?thesis using typeName_pair(4) [OF netip(1)] by (simp add: empty_generator_def)
  next
    case (switch s g1)
    then show ?thesis
      using extend.gen_body_kept [OF switch(3) _ extend.gen_equal_kept] typeName_pair(4) [OF switch(1)]
      by (simp add: empty_generator_def)
  qed
qed

text \<open>A recursive structure with a string, a map and a pointer to itself, and its functions, innermost first.\<close>

definition example_env :: go_env where
  "example_env = \<lparr>iteration = rev, quote_unicode = id\<rparr>"

definition example_types :: "type_node list" where
  "example_types =
     [NamedType \<lparr>ObjPkg = Some (''moby/swarm'', ''swarm''), ObjName = ''ServiceSpec''\<rparr> 1,
      StructType
       [\<lparr>FieldName = ''Name'', FieldExported = True, FieldEmbedded = False, FieldTag = '''', FieldType = 2\<rparr>,
        \<lparr>FieldName = ''Labels'', FieldExported = True, FieldEmbedded = False, FieldTag = [CHR 0x22], FieldType = 3\<rparr>,
        \<lparr>FieldName = ''Next'', FieldExported = True, FieldEmbedded = False, FieldTag = '''', FieldType = 4\<rparr>],
      BasicType ''string'', MapType 2 2, PointerType 0]"

definition example_guard :: string where
  "example_guard = fst (shape example_env example_types
     (case example_types ! 1 of StructType fs \<Rightarrow> fs) [(''moby/swarm'', ''swarm'')])"

definition example_decls :: "decl list" where
  "example_decls =
     [ShapeGuard 0 example_guard ''swarm.ServiceSpec'', Func 1 2 ''string'' ReturnEqual,
      Func 2 3 ''map[string]string'' (MapBody 1), Func 3 4 ''*swarm.ServiceSpec'' (PointerBody 0),
      Func 0 0 ''swarm.ServiceSpec'' (StructBody [(1, ''Name''), (2, ''Labels''), (3, ''Next'')])]"

definition example_generator :: generator where
  "example_generator =
     \<lparr>import_aliases = [(''moby/swarm'', ''swarm'')], names = [0, 2, 3, 4], decls = example_decls, shapes = [0]\<rparr>"

lemma example_generated: "generate example_env example_types 0 = Some (Inr (0, example_generator))"
  by code_simp

text \<open>
  C36: the generated file is closed and consistent. No function is declared twice, the function
  of the root type and every function that is called are declared, and each declaration has the
  texts that its types have under the imports of the file, although it was printed before all of
  these were known.
\<close>

theorem generated_file_closed:
  assumes "generate env types root = Some (Inr (n, g))"
  shows "distinct (map equal_name (func_numbers (decls g))) \<and> n \<in> set (func_numbers (decls g)) \<and>
    (\<forall>m t s b. Func m t s b \<in> set (decls g) \<longrightarrow> set (callees b) \<subseteq> set (func_numbers (decls g))) \<and>
    list_all (text_ok env types (import_aliases g)) (decls g)"
proof -
  note ok = generate_grows(1) [OF assms]
  have numbers: "set (func_numbers (decls g)) = {0..<length (names g)}" using ok by (simp add: func_ok_def)
  have "set (callees b) \<subseteq> {0..<length (names g)}" if "Func m t s b \<in> set (decls g)" for m t s b
    using func_okD [OF ok that] body_ok_callees by blast
  then show ?thesis
    using ok generate_grows(2) [OF assms] generate_texts [OF assms] equal_name_inj
    unfolding numbers by (simp add: func_ok_def refers_def texts_ok_def distinct_map inj_on_def inj_def)
qed

theorem generated_file_closed_witness:
  "distinct (map equal_name (func_numbers example_decls)) \<and>
   list_all (text_ok example_env example_types [(''moby/swarm'', ''swarm'')]) example_decls"
  using generated_file_closed [OF example_generated] by (simp add: example_generator_def)

text \<open>
  C37: no two imports of the generated file share an alias, in whatever order the generator
  iterates over its map, as long as no package has the name of another one with digits appended.
\<close>

theorem generated_imports_distinct:
  assumes "generate env types root = Some (Inr (n, g))" and "any_order env" and "clear_names types"
  shows "distinct (map fst (import_aliases g)) \<and> distinct (map snd (import_aliases g))"
  using clear.gen_equal_kept [OF assms(1) [unfolded generate_def]] assms(2,3)
  by (simp add: empty_generator_def aliases_ok_def)

theorem generated_imports_distinct_witness:
  "distinct (map fst (import_aliases example_generator)) \<and> distinct (map snd (import_aliases example_generator))"
  by (rule generated_imports_distinct [OF example_generated])
    (simp add: any_order_def example_env_def, code_simp)

text \<open>Three packages of which one is called like another one with a digit appended.\<close>

definition clashing_types :: "type_node list" where
  "clashing_types =
     [NamedType \<lparr>ObjPkg = Some (''moby/swarm'', ''swarm''), ObjName = ''ServiceSpec''\<rparr> 1,
      StructType (map (\<lambda>t. \<lparr>FieldName = ''F'' @ decimal t, FieldExported = True, FieldEmbedded = False,
                          FieldTag = '''', FieldType = t\<rparr>) [2, 3, 4]),
      NamedType \<lparr>ObjPkg = Some (''x/a'', ''a''), ObjName = ''T''\<rparr> 5,
      NamedType \<lparr>ObjPkg = Some (''x/a3'', ''a3''), ObjName = ''T''\<rparr> 5,
      NamedType \<lparr>ObjPkg = Some (''y/a'', ''a''), ObjName = ''T''\<rparr> 5,
      BasicType ''string'']"

text \<open>
  An iteration that meets \<open>a3\<close> before \<open>a\<close> gives the second \<open>a\<close> the alias \<open>a3\<close> as well, so the
  condition on the names cannot be dropped.
\<close>

lemma aliases_clash:
  "\<exists>n g. generate example_env clashing_types 0 = Some (Inr (n, g)) \<and>
     import_aliases g = [(''moby/swarm'', ''swarm''), (''x/a'', ''a''), (''x/a3'', ''a3''), (''y/a'', ''a3'')]"
proof -
  have "map_option (map_sum id (import_aliases \<circ> snd)) (generate example_env clashing_types 0) =
      Some (Inr [(''moby/swarm'', ''swarm''), (''x/a'', ''a''), (''x/a3'', ''a3''), (''y/a'', ''a3'')])"
    by code_simp
  then show ?thesis
    by (cases "generate example_env clashing_types 0"; cases "the (generate example_env clashing_types 0)") auto
qed

lemma decimal_not_Nil [simp]: "decimal n \<noteq> []"
  by (subst decimal.simps) simp

text \<open>An iteration that meets the entries with the package's own name last.\<close>

definition name_last :: "string \<Rightarrow> aliases \<Rightarrow> aliases" where
  "name_last name im = filter (\<lambda>e. snd e \<noteq> name) im @ filter (\<lambda>e. snd e = name) im"

lemma mset_name_last: "mset (name_last name im) = mset im"
  unfolding name_last_def mset_append using multiset_partition [of "mset im" "\<lambda>e. snd e \<noteq> name"] by simp

lemma alias_loop_append: "alias_loop n (es @ es') name = alias_loop n es' (alias_loop n es name)"
  by (induction n es name rule: alias_loop.induct) simp_all

lemma alias_loop_same:
  assumes "\<And>e. e \<in> set es \<Longrightarrow> snd e = name" and "es \<noteq> []"
  shows "alias_loop n es name = name @ decimal n"
proof -
  obtain e rest where es: "es = e # rest" using assms(2) by (cases es) auto
  have "alias_loop n rest (name @ decimal n) = name @ decimal n"
    using assms(1) by (intro alias_loop_fixed) (auto simp: es)
  moreover have "snd e = name" using assms(1) by (simp add: es)
  ultimately show ?thesis by (cases e) (simp add: es)
qed

lemma alias_loop_name_last:
  assumes "name \<in> snd ` set im"
  shows "alias_loop n (name_last name im) name = name @ decimal n"
proof -
  have "alias_loop n (filter (\<lambda>e. snd e \<noteq> name) im) name = name"
    by (rule alias_loop_fixed) auto
  moreover have "alias_loop n (filter (\<lambda>e. snd e = name) im) name = name @ decimal n"
    by (rule alias_loop_same) (use assms in \<open>auto simp: filter_empty_conv\<close>)
  ultimately show ?thesis by (simp add: name_last_def alias_loop_append)
qed

text \<open>
  C38: when an import alias is taken. For a package that is not imported yet, some order of the
  map makes the loop choose an alias that another import has, iff both the package's own name and
  this name with the number of imports appended are aliases already. In every other case the
  alias is new, whatever the order.
\<close>

theorem alias_taken_iff:
  assumes "map_of im (fst p) = None"
  shows "(\<exists>order. mset order = mset im \<and>
      fst (package_alias (env\<lparr>iteration := \<lambda>_. order\<rparr>) p im) \<in> snd ` set im) \<longleftrightarrow>
    snd p \<in> snd ` set im \<and> snd p @ decimal (length im) \<in> snd ` set im"
proof -
  let ?n = "snd p @ decimal (length im)"
  have chosen: "fst (package_alias (env\<lparr>iteration := \<lambda>_. order\<rparr>) p im) = alias_loop (length im) order (snd p)"
    for order using assms by (simp add: package_alias_def Let_def)
  have "snd p \<in> snd ` set im \<and> ?n \<in> snd ` set im"
    if "mset order = mset im" and taken: "alias_loop (length im) order (snd p) \<in> snd ` set im" for order
  proof -
    have same: "set order = set im" using that(1) by (rule mset_eq_setD)
    have "snd p \<in> snd ` set im" using taken alias_loop_fixed [of "snd p" order] same by metis
    moreover have "?n \<in> snd ` set im" using taken alias_loop_once [of "snd p" "length im" order] same by metis
    ultimately show ?thesis ..
  qed
  moreover have "\<exists>order. mset order = mset im \<and> alias_loop (length im) order (snd p) \<in> snd ` set im"
    if "snd p \<in> snd ` set im" "?n \<in> snd ` set im"
    using that mset_name_last by (intro exI [of _ "name_last (snd p) im"]) (simp add: alias_loop_name_last)
  ultimately show ?thesis unfolding chosen by blast
qed

theorem alias_taken_iff_witness:
  "\<exists>order. mset order = mset [(''moby/swarm'', ''swarm''), (''x/a'', ''a''), (''x/a3'', ''a3'')] \<and>
     fst (package_alias (example_env\<lparr>iteration := \<lambda>_. order\<rparr>) (''y/a'', ''a'')
       [(''moby/swarm'', ''swarm''), (''x/a'', ''a''), (''x/a3'', ''a3'')]) \<in> {''swarm'', ''a'', ''a3''}"
proof -
  have "decimal (Suc (Suc (Suc 0))) = ''3''" by code_simp
  then show ?thesis
    using alias_taken_iff [of "[(''moby/swarm'', ''swarm''), (''x/a'', ''a''), (''x/a3'', ''a3'')]"
        "(''y/a'', ''a'')" example_env] by simp
qed

text \<open>
  The wrapper \<open>equalSpec\<close> has the type it names. When the root is the type \<open>ServiceSpec\<close> of a
  package called \<open>swarm\<close>, that package is imported under this alias, and the function that the
  wrapper calls takes parameters of the type \<open>swarm.ServiceSpec\<close> that its text names.
\<close>

theorem wrapper_typed:
  assumes "generate env types root = Some (Inr (n, g))" and "any_order env"
    and "node types root = NamedType \<lparr>ObjPkg = Some (path, ''swarm''), ObjName = ''ServiceSpec''\<rparr> u"
  shows "map_of (import_aliases g) path = Some ''swarm'' \<and>
    (\<exists>b. Func n root ''swarm.ServiceSpec'' b \<in> set (decls g))"
proof -
  have root: "root < length types" "types ! root = NamedType \<lparr>ObjPkg = Some (path, ''swarm''), ObjName = ''ServiceSpec''\<rparr> u"
    using assms(3) by (simp_all add: node_def split: if_splits)
  have unalias: "Unalias types root = root"
    using assms(3) by (cases "length types") (simp_all add: Unalias_def)
  have print: "type_string env types [] root im =
      object_string env \<lparr>ObjPkg = Some (path, ''swarm''), ObjName = ''ServiceSpec''\<rparr> im" for im
    using root by (simp add: type_string.simps)
  have "iteration env [] = []" using assms(2) by (metis any_order_def set_empty)
  then have "prefix [(path, ''swarm'')] (import_aliases g)"
    using generate_first_alias [OF assms(1)] unfolding unalias print
    by (simp add: object_string_def package_alias_def Let_def)
  then have imported: "map_of (import_aliases g) path = Some ''swarm''" by (rule map_of_prefix [rotated]) simp
  have "n \<in> set (func_numbers (decls g))"
    using generate_grows [OF assms(1)] by (simp add: func_ok_def refers_def)
  then obtain t s b where f: "Func n t s b \<in> set (decls g)" unfolding set_func_numbers by blast
  then have "t = root" using func_okD [OF generate_grows(1) [OF assms(1)] f] generate_grows(2) [OF assms(1)] unalias
    by (simp add: refers_def)
  moreover have "type_string env types [] t (import_aliases g) = (s, import_aliases g)"
    using generate_texts [OF assms(1)] f by (auto simp: texts_ok_def list_all_iff)
  ultimately have "s = ''swarm.ServiceSpec''"
    using imported by (simp add: print object_string_def package_alias_def)
  then show ?thesis using imported f \<open>t = root\<close> by blast
qed

theorem wrapper_typed_witness:
  "map_of (import_aliases example_generator) ''moby/swarm'' = Some ''swarm''"
  using wrapper_typed [OF example_generated, of "''moby/swarm''" 1]
  by (simp add: any_order_def example_env_def node_def example_types_def)

text \<open>
  C35: the generator terminates on every collection of type objects, cyclic ones included: with
  one unit of fuel more than there are objects it returns functions or panics.
\<close>

theorem generator_terminates: "\<exists>r. generate env types root = Some r"
proof -
  have "unnamed types empty_generator < length types + 1"
    by (simp add: unnamed_def empty_generator_def)
  then show ?thesis using gen_equal_fuel unfolding generate_def by blast
qed

end
