(* ===== verification/Generated_Code.thy ===== *)
theory Generated_Code
  imports Generator
begin

text \<open>
  What the functions that the generator emits compute: their semantics on Go values, structural
  equality, and the proof that the two agree for every type that the generator accepts.
\<close>

section \<open>Running the generated functions\<close>

text \<open>Go values: \<open>'b\<close> are the values of the types that are compared with \<open>==\<close>, and map keys.\<close>

datatype 'b go_value =
    Prim 'b
  | NilValue
  | Pointer "'b go_value"
  | Slice "'b go_value list"
  | MapValue "('b \<times> 'b go_value) list"
  | Array "'b go_value list"
  | Struct "(string \<times> 'b go_value) list"

fun find_body :: "decl list \<Rightarrow> nat \<Rightarrow> body option" where
  "find_body [] n = None"
| "find_body (Func m t s b # ds) n = (if m = n then Some b else find_body ds n)"
| "find_body (ShapeGuard t s s' # ds) n = find_body ds n"

lemma value_sizes:
  "size x < size (Pointer x)"
  "x \<in> set xs \<Longrightarrow> size x < size (Slice xs)"
  "x \<in> set xs \<Longrightarrow> size x < size (Array xs)"
  "(k, x) \<in> set ms \<Longrightarrow> size x < size (MapValue ms)"
  "map_of fs f = Some x \<Longrightarrow> size x < size (Struct fs)"
  by (simp, (fastforce simp: less_Suc_eq_le dest!: map_of_SomeD intro: size_list_estimation' trans_le_add2)+)

lemma struct_size: "(f, x) \<in> set fs \<Longrightarrow> size x < size (Struct fs)"
  by (fastforce simp: less_Suc_eq_le intro: size_list_estimation' trans_le_add2)

function call :: "('b \<Rightarrow> 'b \<Rightarrow> bool) \<Rightarrow> decl list \<Rightarrow> nat \<Rightarrow> 'b go_value \<Rightarrow> 'b go_value \<Rightarrow> bool" where
  "call eq P n a b =
     (case find_body P n of
        None \<Rightarrow> False
      | Some ReturnEqual \<Rightarrow>
          (case a of Prim x \<Rightarrow> (case b of Prim y \<Rightarrow> eq x y | _ \<Rightarrow> False) | _ \<Rightarrow> False)
      | Some (PointerBody m) \<Rightarrow>
          (case a of
             NilValue \<Rightarrow> b = NilValue
           | Pointer x \<Rightarrow> (case b of Pointer y \<Rightarrow> call eq P m x y | _ \<Rightarrow> False)
           | _ \<Rightarrow> False)
      | Some (SliceBody m) \<Rightarrow>
          (case a of
             NilValue \<Rightarrow> b = NilValue
           | Slice xs \<Rightarrow>
               (case b of
                  Slice ys \<Rightarrow> length xs = length ys \<and> list_all (\<lambda>(x, y). call eq P m x y) (zip xs ys)
                | _ \<Rightarrow> False)
           | _ \<Rightarrow> False)
      | Some (MapBody m) \<Rightarrow>
          (case a of
             NilValue \<Rightarrow> b = NilValue
           | MapValue xs \<Rightarrow>
               (case b of
                  MapValue ys \<Rightarrow> length xs = length ys \<and>
                    list_all (\<lambda>(k, x). case map_of ys k of None \<Rightarrow> False | Some y \<Rightarrow> call eq P m x y) xs
                | _ \<Rightarrow> False)
           | _ \<Rightarrow> False)
      | Some (ArrayBody m) \<Rightarrow>
          (case a of
             Array xs \<Rightarrow>
               (case b of Array ys \<Rightarrow> list_all (\<lambda>(x, y). call eq P m x y) (zip xs ys) | _ \<Rightarrow> False)
           | _ \<Rightarrow> False)
      | Some (StructBody parts) \<Rightarrow>
          (case a of
             Struct xs \<Rightarrow>
               (case b of
                  Struct ys \<Rightarrow>
                    list_all (\<lambda>(m, f). case map_of xs f of
                        None \<Rightarrow> False
                      | Some x \<Rightarrow> (case map_of ys f of None \<Rightarrow> False | Some y \<Rightarrow> call eq P m x y)) parts
                | _ \<Rightarrow> False)
           | _ \<Rightarrow> False))"
  by pat_completeness auto

termination
  by (relation "measure (\<lambda>(eq, P, n, a, b). size a)")
    (auto simp del: go_value.size simp: value_sizes(1) dest: value_sizes(2-5) set_zip_leftD)

declare call.simps [simp del]


section \<open>What they should compute\<close>

text \<open>Structural equality of values, given the equality of the primitive ones.\<close>

function deep_equal :: "('b \<Rightarrow> 'b \<Rightarrow> bool) \<Rightarrow> 'b go_value \<Rightarrow> 'b go_value \<Rightarrow> bool" where
  "deep_equal eq (Prim x) b \<longleftrightarrow> (case b of Prim y \<Rightarrow> eq x y | _ \<Rightarrow> False)"
| "deep_equal eq NilValue b \<longleftrightarrow> b = NilValue"
| "deep_equal eq (Pointer x) b \<longleftrightarrow> (case b of Pointer y \<Rightarrow> deep_equal eq x y | _ \<Rightarrow> False)"
| "deep_equal eq (Slice xs) b \<longleftrightarrow> (case b of Slice ys \<Rightarrow> list_all2 (deep_equal eq) xs ys | _ \<Rightarrow> False)"
| "deep_equal eq (MapValue xs) b \<longleftrightarrow>
     (case b of
        MapValue ys \<Rightarrow> fst ` set xs = fst ` set ys \<and>
          (\<forall>(k, x) \<in> set xs. \<forall>y. map_of ys k = Some y \<longrightarrow> deep_equal eq x y)
      | _ \<Rightarrow> False)"
| "deep_equal eq (Array xs) b \<longleftrightarrow> (case b of Array ys \<Rightarrow> list_all2 (deep_equal eq) xs ys | _ \<Rightarrow> False)"
| "deep_equal eq (Struct xs) b \<longleftrightarrow>
     (case b of
        Struct ys \<Rightarrow> list_all2 (\<lambda>(f, x) (g, y). f = g \<and> deep_equal eq x y) xs ys
      | _ \<Rightarrow> False)"
  by pat_completeness auto
termination
  by (relation "measure (\<lambda>(eq, a, b). size a)")
    (auto simp del: go_value.size simp: value_sizes(1) dest: value_sizes(2-4) struct_size)

text \<open>The values of a type.\<close>

function has_type :: "type_node list \<Rightarrow> nat \<Rightarrow> 'b go_value \<Rightarrow> bool" where
  "has_type types t0 v \<longleftrightarrow>
     (let t = Unalias types t0 in
      if is_netip (node types t) then (case v of Prim _ \<Rightarrow> True | _ \<Rightarrow> False)
      else case Underlying types t of
          BasicType _ \<Rightarrow> (case v of Prim _ \<Rightarrow> True | _ \<Rightarrow> False)
        | PointerType e \<Rightarrow> (case v of NilValue \<Rightarrow> True | Pointer x \<Rightarrow> has_type types e x | _ \<Rightarrow> False)
        | SliceType e \<Rightarrow>
            (case v of NilValue \<Rightarrow> True | Slice xs \<Rightarrow> list_all (has_type types e) xs | _ \<Rightarrow> False)
        | MapType _ e \<Rightarrow>
            (case v of
               NilValue \<Rightarrow> True
             | MapValue xs \<Rightarrow> distinct (map fst xs) \<and> list_all (\<lambda>(k, x). has_type types e x) xs
             | _ \<Rightarrow> False)
        | ArrayType n e \<Rightarrow>
            (case v of Array xs \<Rightarrow> length xs = n \<and> list_all (has_type types e) xs | _ \<Rightarrow> False)
        | StructType fs \<Rightarrow>
            (case v of
               Struct xs \<Rightarrow> distinct (map FieldName fs) \<and>
                 list_all2 (\<lambda>f (name, x). name = FieldName f \<and> has_type types (FieldType f) x) fs xs
             | _ \<Rightarrow> False)
        | _ \<Rightarrow> False)"
  by pat_completeness auto
termination
  by (relation "measure (\<lambda>(types, t, v). size v)")
    (auto simp del: go_value.size simp: value_sizes(1) dest: value_sizes(2-4) struct_size)

declare has_type.simps [simp del]


section \<open>The generated functions decide structural equality\<close>

definition complete :: "type_node list \<Rightarrow> nat list \<Rightarrow> decl list \<Rightarrow> bool" where
  "complete types ns P \<longleftrightarrow>
     (\<forall>n < length ns. \<exists>b. find_body P n = Some b \<and> body_ok types ns (ns ! n) b)"

lemma find_body_Func: "Func n t s b \<in> set P \<Longrightarrow> \<exists>u r c. find_body P n = Some c \<and> Func n u r c \<in> set P"
  by (induction P n rule: find_body.induct) auto

lemma func_ok_complete:
  assumes "func_ok types 0 ns P"
  shows "complete types ns P"
  unfolding complete_def
proof (intro allI impI)
  fix n assume "n < length ns"
  then have "n \<in> set (func_numbers P)" using assms by (simp add: func_ok_def)
  then obtain u r c where "find_body P n = Some c" "Func n u r c \<in> set P"
    using find_body_Func unfolding set_func_numbers by blast
  then show "\<exists>b. find_body P n = Some b \<and> body_ok types ns (ns ! n) b"
    using func_okD [OF assms] by blast
qed

lemma list_all_zip_iff:
  assumes "\<And>x y. x \<in> set xs \<Longrightarrow> y \<in> set ys \<Longrightarrow> f x y \<longleftrightarrow> g x y"
  shows "length xs = length ys \<and> list_all (\<lambda>(x, y). f x y) (zip xs ys) \<longleftrightarrow> list_all2 g xs ys"
proof -
  have "f x y \<longleftrightarrow> g x y" if "(x, y) \<in> set (zip xs ys)" for x y
    using assms that set_zip_leftD set_zip_rightD by metis
  then show ?thesis by (auto simp: list_all2_iff list_all_iff)
qed

lemma map_compare_iff:
  assumes "distinct (map fst xs)" and "distinct (map fst ys)"
    and "\<And>k x y. (k, x) \<in> set xs \<Longrightarrow> map_of ys k = Some y \<Longrightarrow> f x y \<longleftrightarrow> g x y"
  shows "length xs = length ys \<and>
      list_all (\<lambda>(k, x). case map_of ys k of None \<Rightarrow> False | Some y \<Rightarrow> f x y) xs \<longleftrightarrow>
    fst ` set xs = fst ` set ys \<and> (\<forall>(k, x) \<in> set xs. \<forall>y. map_of ys k = Some y \<longrightarrow> g x y)"
    (is "?l \<longleftrightarrow> ?r")
proof
  have card: "card (fst ` set zs) = length zs" if "distinct (map fst zs)" for zs :: "('a \<times> 'b) list"
    using distinct_card [OF that] by simp
  have cards: "card (fst ` set ys) = length ys" using distinct_card [OF assms(2)] by simp
  { assume l: ?l
    have sub: "fst ` set xs \<subseteq> fst ` set ys"
    proof
      fix k assume "k \<in> fst ` set xs"
      then have "map_of ys k \<noteq> None" using l by (auto simp: list_all_iff split: option.splits)
      then show "k \<in> fst ` set ys" by (simp add: map_of_eq_None_iff)
    qed
    have "fst ` set xs = fst ` set ys"
      using card_subset_eq [OF _ sub] card [OF assms(1)] cards l by simp
    moreover have "g x y" if "(k, x) \<in> set xs" "map_of ys k = Some y" for k x y
      using l that assms(3) [OF that] by (auto simp: list_all_iff split: option.splits)
    ultimately show ?r by blast }
  { assume r: ?r
    have "length xs = length ys" using card [OF assms(1)] cards r by simp
    moreover have "map_of ys k \<noteq> None" if "(k, x) \<in> set xs" for k x
    proof -
      have "k \<in> fst ` set ys" using conjunct1 [OF r] that by force
      then show ?thesis unfolding map_of_eq_None_iff by simp
    qed
    moreover have "f x y" if "(k, x) \<in> set xs" "map_of ys k = Some y" for k x y
      using r that assms(3) [OF that] by blast
    ultimately show ?l by (auto simp: list_all_iff split: option.split) }
qed

lemma struct_compare_iff:
  fixes xs :: "(string \<times> 'x) list" and ys :: "(string \<times> 'y) list" and parts :: "(nat \<times> string) list"
  assumes "distinct (map fst xs)" and "map fst ys = map fst xs" and "map snd parts = map fst xs"
    and "\<And>i. i < length xs \<Longrightarrow> f (fst (parts ! i)) (snd (xs ! i)) (snd (ys ! i)) \<longleftrightarrow> g (snd (xs ! i)) (snd (ys ! i))"
  shows "list_all (\<lambda>(m, name). case map_of xs name of
        None \<Rightarrow> False
      | Some x \<Rightarrow> (case map_of ys name of None \<Rightarrow> False | Some y \<Rightarrow> f m x y)) parts \<longleftrightarrow>
    list_all2 (\<lambda>(n1, x) (n2, y). n1 = n2 \<and> g x y) xs ys"
proof -
  have len: "length ys = length xs" "length parts = length xs"
    using assms(2,3) by (metis length_map)+
  have at: "map_of xs (snd (parts ! i)) = Some (snd (xs ! i))" "map_of ys (snd (parts ! i)) = Some (snd (ys ! i))"
    "fst (xs ! i) = fst (ys ! i)"
    if "i < length xs" for i
  proof -
    have name: "snd (parts ! i) = fst (xs ! i)" "fst (ys ! i) = fst (xs ! i)"
      using assms(2,3) that len by (metis nth_map)+
    have "(fst (xs ! i), snd (xs ! i)) \<in> set xs" "(fst (ys ! i), snd (ys ! i)) \<in> set ys"
      using that len by simp_all
    then show "map_of xs (snd (parts ! i)) = Some (snd (xs ! i))" "map_of ys (snd (parts ! i)) = Some (snd (ys ! i))"
      "fst (xs ! i) = fst (ys ! i)"
      using assms(1,2) name by simp_all
  qed
  show ?thesis
    using at assms(4) len
    by (auto simp: list_all_length list_all2_conv_all_nth split_beta)
qed

lemma has_type_struct:
  assumes "list_all2 (\<lambda>f (name, x). name = FieldName f \<and> has_type types (FieldType f) x) fs xs"
  shows "map fst xs = map FieldName fs"
    and "i < length fs \<Longrightarrow> has_type types (FieldType (fs ! i)) (snd (xs ! i))"
  using assms
  by (auto simp: list_all2_conv_all_nth split_beta intro!: nth_equalityI)

lemma call_struct:
  assumes "list_all2 (\<lambda>f (m, name). name = FieldName f \<and> refers types ns (FieldType f) m) fs parts"
    and "distinct (map FieldName fs)"
    and "list_all2 (\<lambda>f (name, x). name = FieldName f \<and> has_type types (FieldType f) x) fs xs"
    and "list_all2 (\<lambda>f (name, x). name = FieldName f \<and> has_type types (FieldType f) x) fs ys"
    and "\<And>x y t m. size x < size (Struct xs) \<Longrightarrow> refers types ns t m \<Longrightarrow> has_type types t x \<Longrightarrow>
      has_type types t y \<Longrightarrow> call eq P m x y \<longleftrightarrow> deep_equal eq x y"
  shows "list_all (\<lambda>(m, f). case map_of xs f of
        None \<Rightarrow> False
      | Some x \<Rightarrow> (case map_of ys f of None \<Rightarrow> False | Some y \<Rightarrow> call eq P m x y)) parts \<longleftrightarrow>
    deep_equal eq (Struct xs) (Struct ys)"
proof -
  note xs = has_type_struct [OF assms(3)] and ys = has_type_struct [OF assms(4)]
  have len: "length parts = length fs" "length xs = length fs"
    using list_all2_lengthD [OF assms(1)] list_all2_lengthD [OF assms(3)] by simp_all
  have "map snd parts = map FieldName fs"
    using assms(1) by (auto simp: list_all2_conv_all_nth split_beta intro!: nth_equalityI)
  moreover have "call eq P (fst (parts ! i)) (snd (xs ! i)) (snd (ys ! i)) \<longleftrightarrow> deep_equal eq (snd (xs ! i)) (snd (ys ! i))"
    if "i < length xs" for i
  proof (rule assms(5))
    have "(fst (xs ! i), snd (xs ! i)) \<in> set xs" using that by simp
    then show "size (snd (xs ! i)) < size (Struct xs)" by (rule struct_size)
    show "refers types ns (FieldType (fs ! i)) (fst (parts ! i))"
      using assms(1) that len by (auto simp: list_all2_conv_all_nth split_beta)
    show "has_type types (FieldType (fs ! i)) (snd (xs ! i))" "has_type types (FieldType (fs ! i)) (snd (ys ! i))"
      using xs(2) ys(2) that len by simp_all
  qed
  ultimately show ?thesis
    using struct_compare_iff [of xs ys parts "call eq P" "deep_equal eq"] assms(2) xs(1) ys(1) by simp
qed

text \<open>The cases of a type with one component, given that its function is right on smaller values.\<close>

definition right_below :: "('b \<Rightarrow> 'b \<Rightarrow> bool) \<Rightarrow> type_node list \<Rightarrow> nat list \<Rightarrow> decl list \<Rightarrow> nat \<Rightarrow> bool" where
  "right_below eq types ns P bound \<longleftrightarrow>
     (\<forall>x y t m. size x < bound \<longrightarrow> refers types ns t m \<longrightarrow> has_type types t x \<longrightarrow> has_type types t y \<longrightarrow>
        (call eq P m x y \<longleftrightarrow> deep_equal eq x y))"

lemma right_belowD:
  "right_below eq types ns P bound \<Longrightarrow> size x < bound \<Longrightarrow> refers types ns t m \<Longrightarrow> has_type types t x \<Longrightarrow>
   has_type types t y \<Longrightarrow> call eq P m x y \<longleftrightarrow> deep_equal eq x y"
  by (simp add: right_below_def)

lemma call_slice:
  assumes "right_below eq types ns P (size (Slice xs))" and "refers types ns e m"
    and "list_all (has_type types e) xs" and "list_all (has_type types e) ys"
  shows "length xs = length ys \<and> list_all (\<lambda>(x, y). call eq P m x y) (zip xs ys) \<longleftrightarrow>
    list_all2 (deep_equal eq) xs ys"
  using right_belowD [OF assms(1) _ assms(2)] assms(3,4)
  by (intro list_all_zip_iff) (simp add: list_all_iff value_sizes(2) del: go_value.size)

lemma call_array:
  assumes "right_below eq types ns P (size (Array xs))" and "refers types ns e m"
    and "list_all (has_type types e) xs" and "list_all (has_type types e) ys"
  shows "length xs = length ys \<and> list_all (\<lambda>(x, y). call eq P m x y) (zip xs ys) \<longleftrightarrow>
    list_all2 (deep_equal eq) xs ys"
  using right_belowD [OF assms(1) _ assms(2)] assms(3,4)
  by (intro list_all_zip_iff) (simp add: list_all_iff value_sizes(3) del: go_value.size)

lemma call_map:
  assumes "right_below eq types ns P (size (MapValue xs))" and "refers types ns e m"
    and "distinct (map fst xs)" and "list_all (\<lambda>(k, x). has_type types e x) xs"
    and "distinct (map fst ys)" and "list_all (\<lambda>(k, x). has_type types e x) ys"
  shows "length xs = length ys \<and>
      list_all (\<lambda>(k, x). case map_of ys k of None \<Rightarrow> False | Some y \<Rightarrow> call eq P m x y) xs \<longleftrightarrow>
    fst ` set xs = fst ` set ys \<and>
      (\<forall>(k, x) \<in> set xs. \<forall>y. map_of ys k = Some y \<longrightarrow> deep_equal eq x y)"
proof (rule map_compare_iff [OF assms(3,5)])
  fix k x y assume kx: "(k, x) \<in> set xs" and ky: "map_of ys k = Some y"
  have "has_type types e x" "has_type types e y"
    using assms(4,6) kx map_of_SomeD [OF ky] by (auto simp: list_all_iff)
  then show "call eq P m x y \<longleftrightarrow> deep_equal eq x y"
    using right_belowD [OF assms(1) value_sizes(4) [OF kx] assms(2)] by blast
qed

lemma call_prim:
  assumes "find_body P n = Some ReturnEqual" and "\<exists>x. a = Prim x" and "\<exists>y. b = Prim y"
  shows "call eq P n a b \<longleftrightarrow> deep_equal eq a b"
  using assms by (auto simp: call.simps)

lemma call_array_type:
  assumes "find_body P n = Some (ArrayBody m)" and "refers types ns e m" and "right_below eq types ns P (size a)"
    and "case a of Array xs \<Rightarrow> length xs = l \<and> list_all (has_type types e) xs | _ \<Rightarrow> False"
    and "case b of Array xs \<Rightarrow> length xs = l \<and> list_all (has_type types e) xs | _ \<Rightarrow> False"
  shows "call eq P n a b \<longleftrightarrow> deep_equal eq a b"
proof -
  obtain xs ys where v: "a = Array xs" "b = Array ys" "length xs = length ys"
    "list_all (has_type types e) xs" "list_all (has_type types e) ys"
    using assms(4,5) by (auto split: go_value.splits)
  then show ?thesis
    using call_array [OF assms(3) [unfolded v(1)] assms(2) v(4,5)] assms(1)
    unfolding call.simps [of eq P n a b] by simp
qed

lemma call_struct_type:
  assumes "find_body P n = Some (StructBody parts)" and "right_below eq types ns P (size a)"
    and "list_all2 (\<lambda>f (m, name). name = FieldName f \<and> refers types ns (FieldType f) m) fs parts"
    and "case a of Struct xs \<Rightarrow> distinct (map FieldName fs) \<and>
        list_all2 (\<lambda>f (name, x). name = FieldName f \<and> has_type types (FieldType f) x) fs xs | _ \<Rightarrow> False"
    and "case b of Struct xs \<Rightarrow> distinct (map FieldName fs) \<and>
        list_all2 (\<lambda>f (name, x). name = FieldName f \<and> has_type types (FieldType f) x) fs xs | _ \<Rightarrow> False"
  shows "call eq P n a b \<longleftrightarrow> deep_equal eq a b"
proof -
  obtain xs ys where v: "a = Struct xs" "b = Struct ys" "distinct (map FieldName fs)"
    "list_all2 (\<lambda>f (name, x). name = FieldName f \<and> has_type types (FieldType f) x) fs xs"
    "list_all2 (\<lambda>f (name, x). name = FieldName f \<and> has_type types (FieldType f) x) fs ys"
    using assms(4,5) by (auto split: go_value.splits)
  then show ?thesis
    using call_struct [OF assms(3) v(3-5) right_belowD [OF assms(2) [unfolded v(1)]]] assms(1)
    by (simp add: call.simps)
qed

lemma call_composite:
  assumes "find_body P n = Some body" and "body_ok types ns (Unalias types t) body"
    and "right_below eq types ns P (size a)" and "has_type types t a" and "has_type types t b"
    and netip: "\<not> is_netip (node types (Unalias types t))"
  shows "call eq P n a b \<longleftrightarrow> deep_equal eq a b"
proof -
  note type_a = assms(4) [unfolded has_type.simps [of types t a] Let_def]
    and type_b = assms(5) [unfolded has_type.simps [of types t b] Let_def]
  show ?thesis
  proof (cases "Underlying types (Unalias types t)")
    case (BasicType name)
    then have "body = ReturnEqual" "\<exists>x. a = Prim x" "\<exists>y. b = Prim y"
      using assms(2) type_a type_b netip by (auto simp: body_ok_def split: if_splits go_value.splits)
    then show ?thesis using assms(1) by (intro call_prim) simp_all
  next
    case (PointerType e)
    then obtain m where m: "refers types ns e m" "body = PointerBody m"
      using assms(2) netip by (auto simp: body_ok_def)
    have "call eq P m x y \<longleftrightarrow> deep_equal eq x y" if "a = Pointer x" "b = Pointer y" for x y
      using right_belowD [OF assms(3) _ m(1)] type_a type_b netip PointerType that value_sizes(1) [of x] by simp
    then show ?thesis
      using type_a type_b netip PointerType assms(1) m(2)
      unfolding call.simps [of eq P n a b] by (auto split: go_value.splits)
  next
    case (SliceType e)
    then obtain m where m: "refers types ns e m" "body = SliceBody m"
      using assms(2) netip by (auto simp: body_ok_def)
    then show ?thesis
      using type_a type_b netip SliceType assms(1,3) call_slice [of eq types ns P _ e m]
      unfolding call.simps [of eq P n a b] by (auto split: go_value.splits)
  next
    case (ArrayType l e)
    then obtain m where m: "refers types ns e m" "body = ArrayBody m"
      using assms(2) netip by (auto simp: body_ok_def)
    then show ?thesis
      using call_array_type [of P n m types ns e eq a l b] type_a type_b netip ArrayType assms(1,3) by simp
  next
    case (MapType kt e)
    then obtain m where m: "refers types ns e m" "body = MapBody m"
      using assms(2) netip by (auto simp: body_ok_def)
    then show ?thesis
      using type_a type_b netip MapType assms(1,3) call_map [of eq types ns P _ e m]
      unfolding call.simps [of eq P n a b] by (auto split: go_value.splits)
  next
    case (StructType fs)
    then obtain parts where parts: "body = StructBody parts"
      "list_all2 (\<lambda>f (m, name). name = FieldName f \<and> refers types ns (FieldType f) m) fs parts"
      using assms(2) netip by (auto simp: body_ok_def)
    then show ?thesis
      using call_struct_type [of P n parts eq types ns a fs b] type_a type_b netip StructType assms(1,3) by simp
  qed (use type_a netip in simp_all)
qed

lemma call_deep_equal:
  assumes "complete types ns P"
  shows "refers types ns t n \<Longrightarrow> has_type types t a \<Longrightarrow> has_type types t b \<Longrightarrow>
    call eq P n a b \<longleftrightarrow> deep_equal eq a b"
proof (induction a arbitrary: t n b rule: measure_induct_rule [of size])
  case (less a)
  obtain body where body: "find_body P n = Some body" "body_ok types ns (Unalias types t) body"
    using assms less.prems(1) unfolding complete_def refers_def by auto
  have "right_below eq types ns P (size a)" unfolding right_below_def using less.IH by blast
  note composite = call_composite [OF body this less.prems(2,3)]
  show ?case
  proof (cases "is_netip (node types (Unalias types t))")
    case True
    then have "body = ReturnEqual" "\<exists>x. a = Prim x" "\<exists>y. b = Prim y"
      using body(2) less.prems(2,3) unfolding has_type.simps [of types t] Let_def
      by (auto simp: body_ok_def split: go_value.splits)
    then show ?thesis using body(1) by (intro call_prim) simp_all
  qed (rule composite)
qed


section \<open>Properties\<close>

definition example_value :: "string \<Rightarrow> string go_value \<Rightarrow> string go_value" where
  "example_value label rest =
     Struct [(''Name'', Prim ''web''), (''Labels'', MapValue [(''tier'', Prim label)]), (''Next'', rest)]"

text \<open>
  C6: the generator is correct for every type that it accepts, recursive ones included. The
  function that it generates for a type, run on two values of that type, decides their
  structural equality: no field, element, key or level of indirection is left out.
\<close>

theorem generated_equality:
  assumes "generate env types root = Some (Inr (n, g))" and "has_type types root a" and "has_type types root b"
  shows "call eq (decls g) n a b \<longleftrightarrow> deep_equal eq a b"
  using call_deep_equal [OF func_ok_complete [OF generate_grows(1) [OF assms(1)]] generate_grows(2) [OF assms(1)]]
    assms(2,3) by blast

theorem generated_equality_witness:
  "\<not> call (=) (decls example_generator) 0 (example_value ''front'' (Pointer (example_value ''x'' NilValue)))
     (example_value ''front'' (Pointer (example_value ''y'' NilValue)))"
proof -
  have "has_type example_types 0 (example_value ''front'' (Pointer (example_value ''x'' NilValue)))"
    "has_type example_types 0 (example_value ''front'' (Pointer (example_value ''y'' NilValue)))"
    by code_simp+
  from generated_equality [OF example_generated this] show ?thesis
    by (simp add: example_value_def)
qed

end
