(* ===== verification/Audit_Log.thy ===== *)
theory Audit_Log
  imports Observer Go_Flag
begin

text \<open>
  The text of the audit log: how the JSON handler of \<open>log/slog\<close> writes a record as a line. Times
  and the choice of their format are a parameter. A line is a single line and decodes to the
  attributes that were logged, whatever bytes they have.
\<close>

section \<open>JSON strings\<close>

text \<open>The width of the UTF-8 sequence that a string starts with, 0 if there is no valid one.\<close>

definition in_bytes :: "nat \<Rightarrow> nat \<Rightarrow> char \<Rightarrow> bool" where
  "in_bytes lo hi c \<longleftrightarrow> lo \<le> of_char c \<and> of_char c \<le> hi"

fun rune_width :: "string \<Rightarrow> nat" where
  "rune_width [] = 0"
| "rune_width (a # s) =
     (if in_bytes 0 0x7F a then 1
      else if in_bytes 0xC2 0xDF a then
        (case s of b # _ \<Rightarrow> if in_bytes 0x80 0xBF b then 2 else 0 | _ \<Rightarrow> 0)
      else if in_bytes 0xE0 0xEF a then
        (case s of
           b # c # _ \<Rightarrow>
             if in_bytes (if a = CHR 0xE0 then 0xA0 else 0x80) (if a = CHR 0xED then 0x9F else 0xBF) b
                \<and> in_bytes 0x80 0xBF c then 3 else 0
         | _ \<Rightarrow> 0)
      else if in_bytes 0xF0 0xF4 a then
        (case s of
           b # c # d # _ \<Rightarrow>
             if in_bytes (if a = CHR 0xF0 then 0x90 else 0x80) (if a = CHR 0xF4 then 0x8F else 0xBF) b
                \<and> in_bytes 0x80 0xBF c \<and> in_bytes 0x80 0xBF d then 4 else 0
         | _ \<Rightarrow> 0)
      else 0)"

definition hex_char :: "nat \<Rightarrow> char" where
  "hex_char d = (if d < 10 then char_of (48 + d) else char_of (87 + d))"

text \<open>
  How a byte is escaped. \<open>encoding/json\<close>, which writes the values of named string types, has
  \<open>short\<close> forms for two more bytes than \<open>log/slog\<close>.
\<close>

definition escape_byte :: "bool \<Rightarrow> char \<Rightarrow> string" where
  "escape_byte short c =
     (if c = CHR 0x22 \<or> c = CHR 0x5C then [CHR 0x5C, c]
      else if c = CHR 0x0A then CHR 0x5C # ''n''
      else if c = CHR 0x0D then CHR 0x5C # ''r''
      else if c = CHR 0x09 then CHR 0x5C # ''t''
      else if short \<and> c = CHR 0x08 then CHR 0x5C # ''b''
      else if short \<and> c = CHR 0x0C then CHR 0x5C # ''f''
      else if of_char c < (32::nat)
      then CHR 0x5C # ''u00'' @ [hex_char (of_char c div 16), hex_char (of_char c mod 16)]
      else [c])"

definition separators :: "string list" where
  "separators = [[CHR 0xE2, CHR 0x80, CHR 0xA8], [CHR 0xE2, CHR 0x80, CHR 0xA9]]"

function json_escape :: "bool \<Rightarrow> string \<Rightarrow> string" where
  "json_escape short [] = []"
| "json_escape short (c # s) =
     (let w = rune_width (c # s) in
      if w = 0 then CHR 0x5C # ''ufffd'' @ json_escape short s
      else if w = 1 then escape_byte short c @ json_escape short s
      else let rune = take w (c # s) in
        (if rune \<in> set separators then CHR 0x5C # ''u202'' @ [hex_char (of_char (rune ! 2) mod 16)] else rune)
        @ json_escape short (drop w (c # s)))"
  by pat_completeness auto
termination
  by (relation "measure (\<lambda>(short, s). length s)") auto

definition json_string :: "bool \<Rightarrow> string \<Rightarrow> string" where
  "json_string short s = CHR 0x22 # json_escape short s @ [CHR 0x22]"


section \<open>Lines\<close>

fun print_attr :: "attr \<Rightarrow> string" where
  "print_attr (Attr k typed v) = json_string False k @ '':'' @ json_string typed v"
| "print_attr (Group g as) = json_string False g @ '':{'' @ join_on (CHR '','') (map print_attr as) @ ''}''"

definition level_string :: "int \<Rightarrow> string" where
  "level_string l =
     (let (base, d) = (if l < 0 then (''DEBUG'', l + 4) else if l < 4 then (''INFO'', l)
                       else if l < 8 then (''WARN'', l - 4) else (''ERROR'', l - 8))
      in base @ (if d = 0 then '''' else (if d > 0 then ''+'' else ''-'') @ decimal (nat \<bar>d\<bar>)))"

definition print_line :: "string \<Rightarrow> slog_record \<Rightarrow> string" where
  "print_line time r =
     ''{'' @ join_on (CHR '','')
       (map print_attr
         ([Attr ''time'' False time, Attr ''level'' False (level_string (RecordLevel r)),
           Attr ''msg'' False (Message r)] @ RecordAttrs r))
     @ ''}'' @ [CHR 0x0A]"


section \<open>Reading lines\<close>

text \<open>A reader of JSON objects whose members are all strings, as a consumer of the log has one.\<close>

definition hex_value :: "char \<Rightarrow> nat option" where
  "hex_value c =
     (if CHR ''0'' \<le> c \<and> c \<le> CHR ''9'' then Some (of_char c - 48)
      else if CHR ''a'' \<le> c \<and> c \<le> CHR ''f'' then Some (of_char c - 87) else None)"

fun hex_number :: "nat \<Rightarrow> string \<Rightarrow> nat option" where
  "hex_number n [] = Some n"
| "hex_number n (c # s) = (case hex_value c of None \<Rightarrow> None | Some d \<Rightarrow> hex_number (16 * n + d) s)"

definition utf8_encode :: "nat \<Rightarrow> string" where
  "utf8_encode n =
     (if n < 0x80 then [char_of n]
      else if n < 0x800 then [char_of (0xC0 + n div 64), char_of (0x80 + n mod 64)]
      else [char_of (0xE0 + n div 4096), char_of (0x80 + n div 64 mod 64), char_of (0x80 + n mod 64)])"

definition short_escape :: "char \<Rightarrow> char option" where
  "short_escape e =
     map_of [(CHR 0x22, CHR 0x22), (CHR 0x5C, CHR 0x5C), (CHR ''n'', CHR 0x0A), (CHR ''r'', CHR 0x0D),
             (CHR ''t'', CHR 0x09), (CHR ''b'', CHR 0x08), (CHR ''f'', CHR 0x0C)] e"

text \<open>The rest of a string up to its closing quote, and what follows.\<close>

fun read_string :: "string \<Rightarrow> (string \<times> string) option" where
  "read_string [] = None"
| "read_string (c # s) =
     (if c = CHR 0x22 then Some ([], s)
      else if c = CHR 0x5C then
        (case s of
           e # s' \<Rightarrow>
             if e = CHR ''u'' then
               (case s' of
                  h1 # h2 # h3 # h4 # s'' \<Rightarrow>
                    (case hex_number 0 [h1, h2, h3, h4] of
                       None \<Rightarrow> None
                     | Some n \<Rightarrow> map_option (apfst (append (utf8_encode n))) (read_string s''))
                | _ \<Rightarrow> None)
             else (case short_escape e of
                     None \<Rightarrow> None
                   | Some x \<Rightarrow> map_option (apfst (Cons x)) (read_string s'))
         | [] \<Rightarrow> None)
      else map_option (apfst (Cons c)) (read_string s))"

text \<open>What a string becomes: bytes that are not UTF-8 are replaced by U+FFFD.\<close>

function valid_form :: "string \<Rightarrow> string" where
  "valid_form [] = []"
| "valid_form (c # s) =
     (let w = rune_width (c # s) in
      if w = 0 then [CHR 0xEF, CHR 0xBF, CHR 0xBD] @ valid_form s
      else take w (c # s) @ valid_form (drop w (c # s)))"
  by pat_completeness auto
termination
  by (relation "measure length") auto

lemma rune_width_1: "rune_width (c # s) = 1 \<Longrightarrow> of_char c < (128::nat)"
  by (auto simp: in_bytes_def split: if_splits list.splits)

lemma in_bytes_high: "in_bytes lo hi x \<Longrightarrow> 128 \<le> lo \<Longrightarrow> of_char x \<ge> (128::nat)"
  by (simp add: in_bytes_def)

lemma rune_width_more:
  assumes "rune_width (a # s) \<noteq> 0" and "rune_width (a # s) \<noteq> 1"
  shows "list_all (\<lambda>x. of_char x \<ge> (128::nat)) (take (rune_width (a # s)) (a # s))"
proof -
  have 0: "\<not> in_bytes 0 0x7F a" using assms(2) by (auto simp del: One_nat_def)
  then have a: "of_char a \<ge> (128::nat)" by (simp add: in_bytes_def)
  consider "in_bytes 0xC2 0xDF a" | "\<not> in_bytes 0xC2 0xDF a" "in_bytes 0xE0 0xEF a"
    | "\<not> in_bytes 0xC2 0xDF a" "\<not> in_bytes 0xE0 0xEF a" "in_bytes 0xF0 0xF4 a"
    using assms(1) 0 by (auto split: if_splits)
  then show ?thesis
  proof cases
    case 1
    then obtain b s' where s: "s = b # s'" "in_bytes 0x80 0xBF b"
      using assms(1) 0 by (cases s) (simp_all split: if_splits)
    then show ?thesis using 0 1 a in_bytes_high [OF s(2)] by simp
  next
    case 2
    then obtain b c s' where s: "s = b # c # s'"
      "in_bytes (if a = CHR 0xE0 then 0xA0 else 0x80) (if a = CHR 0xED then 0x9F else 0xBF) b" "in_bytes 0x80 0xBF c"
      using assms(1) 0 by (cases s; cases "tl s") (simp_all split: if_split_asm)
    then show ?thesis using 0 2 a in_bytes_high [OF s(2)] in_bytes_high [OF s(3)] by simp
  next
    case 3
    then obtain b c d s' where s: "s = b # c # d # s'"
      "in_bytes (if a = CHR 0xF0 then 0x90 else 0x80) (if a = CHR 0xF4 then 0x8F else 0xBF) b"
      "in_bytes 0x80 0xBF c" "in_bytes 0x80 0xBF d"
      using assms(1) 0 by (cases s; cases "tl s"; cases "tl (tl s)") (simp_all split: if_split_asm)
    then show ?thesis using 0 3 a in_bytes_high [OF s(2)] in_bytes_high [OF s(3)] in_bytes_high [OF s(4)] by simp
  qed
qed

lemma hex_digits:
  assumes "d < 16"
  shows "hex_value (hex_char d) = Some d" and "of_char (hex_char d) \<ge> (32::nat)"
  using assms by (auto simp: hex_value_def hex_char_def less_eq_char_def)

lemma read_escape_byte:
  assumes "of_char c < (128::nat)"
  shows "read_string (escape_byte short c @ rest) = map_option (apfst (Cons c)) (read_string rest)"
proof (cases "of_char c < (32::nat) \<and> escape_byte short c = CHR 0x5C # ''u00'' @ [hex_char (of_char c div 16), hex_char (of_char c mod 16)]")
  case True
  have small: "of_char c div 16 < (16::nat)" using True by (simp add: div_less_iff_less_mult)
  have "hex_value (CHR ''0'') = Some 0" by (simp add: hex_value_def)
  then have "hex_number 0 [CHR ''0'', CHR ''0'', hex_char (of_char c div 16), hex_char (of_char c mod 16)] = Some (of_char c)"
    using hex_digits(1) [OF small] hex_digits(1) [of "of_char c mod 16"] by simp
  moreover have "append [c] = Cons c" by (simp add: fun_eq_iff)
  ultimately show ?thesis using True assms by (simp add: utf8_encode_def del: hex_number.simps)
next
  case False
  then show ?thesis by (auto simp: escape_byte_def short_escape_def)
qed

lemma read_high:
  assumes "\<forall>c \<in> set xs. of_char c \<ge> (128::nat)"
  shows "read_string (xs @ rest) = map_option (apfst (append xs)) (read_string rest)"
  using assms
proof (induction xs)
  case (Cons x xs)
  then have "x \<noteq> CHR 0x22" "x \<noteq> CHR 0x5C" by auto
  then show ?case using Cons by (cases "read_string rest") auto
qed (cases "read_string rest", auto)

lemma utf8_bytes:
  "char_of (226::nat) = CHR 0xE2" "char_of (128::nat) = CHR 0x80" "char_of (168::nat) = CHR 0xA8"
  "char_of (169::nat) = CHR 0xA9" "char_of (239::nat) = CHR 0xEF" "char_of (191::nat) = CHR 0xBF"
  "char_of (189::nat) = CHR 0xBD"
  by (simp_all add: char_of_def bit_0)

lemma read_separator:
  assumes "rune \<in> set separators"
  shows "read_string (CHR 0x5C # ''u202'' @ hex_char (of_char (rune ! 2) mod 16) # rest) =
    map_option (apfst (append rune)) (read_string rest)"
proof -
  have "hex_char 8 = CHR ''8''" "hex_char 9 = CHR ''9''" by code_simp+
  moreover have "hex_number 0 ''2028'' = Some 0x2028" "hex_number 0 ''2029'' = Some 0x2029"
    by (simp_all add: hex_value_def)
  moreover have "utf8_encode 0x2028 = separators ! 0" "utf8_encode 0x2029 = separators ! 1"
    by (simp_all add: utf8_encode_def separators_def utf8_bytes)
  ultimately show ?thesis
    using assms by (auto simp: separators_def simp del: hex_number.simps)
qed

lemma read_replacement:
  "read_string (CHR 0x5C # ''ufffd'' @ rest) =
     map_option (apfst (append [CHR 0xEF, CHR 0xBF, CHR 0xBD])) (read_string rest)"
proof -
  have "hex_number 0 ''fffd'' = Some 0xFFFD" by (simp add: hex_value_def)
  moreover have "utf8_encode 0xFFFD = [CHR 0xEF, CHR 0xBF, CHR 0xBD]" by (simp add: utf8_encode_def utf8_bytes)
  ultimately show ?thesis by (simp del: hex_number.simps)
qed

text \<open>Reading what was written gives the valid form of the string.\<close>

lemma read_escape: "read_string (json_escape short s @ CHR 0x22 # rest) = Some (valid_form s, rest)"
proof (induction short s rule: json_escape.induct)
  case (2 short c s)
  let ?w = "rune_width (c # s)"
  show ?case
  proof (cases "?w \<le> 1")
    case True
    then consider "?w = 0" | "?w = 1" by linarith
    then show ?thesis
    proof cases
      case 1
      then show ?thesis using 2(1) [OF refl 1] read_replacement by (simp del: rune_width.simps read_string.simps)
    next
      case 2: 2
      then show ?thesis
        using "2.IH"(2) [OF refl] read_escape_byte [OF rune_width_1 [OF 2]]
        by (simp del: rune_width.simps read_string.simps)
    qed
  next
    case False
    let ?rune = "take ?w (c # s)"
    have "?w \<noteq> 0" "?w \<noteq> 1" using False by auto
    note ih = "2.IH"(3) [OF refl this refl] and high = rune_width_more [OF this]
    show ?thesis
    proof (cases "?rune \<in> set separators")
      case True
      then show ?thesis
        using ih False read_separator [OF True] by (simp add: Let_def del: rune_width.simps read_string.simps)
    next
      case low: False
      then show ?thesis
        using ih False read_high [of ?rune] high [unfolded list_all_iff] by (simp add: Let_def del: rune_width.simps read_string.simps)
    qed
  qed
qed simp

lemma escape_visible: "\<forall>c \<in> set (json_escape short s). of_char c \<ge> (32::nat)"
proof (induction short s rule: json_escape.induct)
  case (2 short c s)
  let ?w = "rune_width (c # s)" and ?rune = "take (rune_width (c # s)) (c # s)"
  have byte: "\<forall>x \<in> set (escape_byte short c). of_char x \<ge> (32::nat)"
    using hex_digits(2) [of "of_char c div 16"] hex_digits(2) [of "of_char c mod 16"]
    by (auto simp: escape_byte_def div_less_iff_less_mult)
  have rune: "\<forall>x \<in> set ?rune. of_char x \<ge> (32::nat)" if "?w \<noteq> 0" "?w \<noteq> 1"
    using rune_width_more [OF that] by (fastforce simp: list_all_iff)
  have sep: "of_char (hex_char (of_char (?rune ! 2) mod 16)) \<ge> (32::nat)" by (rule hex_digits(2)) simp
  show ?case
    using 2 byte rune sep by (auto simp: Let_def simp del: rune_width.simps)
qed simp


section \<open>A line is what was logged\<close>

definition read_member :: "string \<Rightarrow> ((string \<times> string) \<times> string) option" where
  "read_member s =
     (case s of
        c # s \<Rightarrow>
          if c \<noteq> CHR 0x22 then None
          else (case read_string s of
                  Some (k, c # d # s) \<Rightarrow>
                    if c = CHR '':'' \<and> d = CHR 0x22
                    then map_option (\<lambda>(v, s). ((k, v), s)) (read_string s) else None
                | _ \<Rightarrow> None)
      | [] \<Rightarrow> None)"

fun read_members :: "nat \<Rightarrow> string \<Rightarrow> ((string \<times> string) list \<times> string) option" where
  "read_members 0 s = None"
| "read_members (Suc n) s =
     (case read_member s of
        Some (m, c # s) \<Rightarrow>
          if c = CHR '','' then map_option (apfst (Cons m)) (read_members n s)
          else if c = CHR ''}'' then Some ([m], s) else None
      | _ \<Rightarrow> None)"

text \<open>One member takes at least one byte, so the length of the line bounds their number.\<close>

definition read_line :: "string \<Rightarrow> (string \<times> string) list option" where
  "read_line s =
     (case s of
        c # s \<Rightarrow>
          if c \<noteq> CHR ''{'' then None
          else (case read_members (length s) s of
                  Some (ms, rest) \<Rightarrow> if rest = [CHR 0x0A] then Some ms else None
                | None \<Rightarrow> None)
      | [] \<Rightarrow> None)"

text \<open>Attributes without groups.\<close>

definition plain_attrs :: "(string \<times> bool \<times> string) list \<Rightarrow> attr list" where
  "plain_attrs as = map (\<lambda>(k, typed, v). Attr k typed v) as"

lemma read_member_print:
  "read_member (print_attr (Attr k typed v) @ rest) = Some ((valid_form k, valid_form v), rest)"
  by (simp add: read_member_def json_string_def read_escape)

lemma read_members_print:
  "length as \<le> n \<Longrightarrow> as \<noteq> [] \<Longrightarrow>
   read_members n (join_on (CHR '','') (map print_attr (plain_attrs as)) @ CHR ''}'' # rest) =
     Some (map (\<lambda>(k, typed, v). (valid_form k, valid_form v)) as, rest)"
proof (induction as arbitrary: n)
  case (Cons a as)
  obtain k typed v where a: "a = (k, typed, v)" by (cases a)
  obtain m where n: "n = Suc m" using Cons.prems(1) by (cases n) auto
  show ?case
  proof (cases as)
    case Nil
    then show ?thesis by (simp add: a n plain_attrs_def read_member_print del: print_attr.simps)
  next
    case (Cons b bs)
    then have "read_members m (join_on (CHR '','') (map print_attr (plain_attrs as)) @ CHR ''}'' # rest) =
        Some (map (\<lambda>(k, typed, v). (valid_form k, valid_form v)) as, rest)"
      using Cons.IH [of m] Cons.prems(1) n by simp
    then show ?thesis using Cons by (simp add: a n plain_attrs_def read_member_print del: print_attr.simps)
  qed
qed simp

lemma print_attr_length: "length (print_attr (Attr k typed v)) \<ge> 1"
  by (simp add: json_string_def)

lemma join_length: "\<forall>p \<in> set ps. length p \<ge> 1 \<Longrightarrow> length ps \<le> length (join_on c ps)"
  by (induction c ps rule: join_on.induct) auto

lemma plain_length: "length as \<le> length (join_on c (map print_attr (plain_attrs as)))"
proof -
  have "\<forall>p \<in> set (map print_attr (plain_attrs as)). length p \<ge> 1"
    using print_attr_length by (auto simp: plain_attrs_def simp del: print_attr.simps)
  from join_length [OF this, of c] show ?thesis by (simp add: plain_attrs_def)
qed

lemma print_line_plain:
  assumes "RecordAttrs r = plain_attrs as"
  shows "read_line (print_line time r) = Some (map (\<lambda>(k, typed, v). (valid_form k, valid_form v))
    ([(''time'', False, time), (''level'', False, level_string (RecordLevel r)), (''msg'', False, Message r)] @ as))"
proof -
  let ?as = "[(''time'', False, time), (''level'', False, level_string (RecordLevel r)), (''msg'', False, Message r)] @ as"
  let ?s = "join_on (CHR '','') (map print_attr (plain_attrs ?as))"
  have line: "print_line time r = CHR ''{'' # ?s @ CHR ''}'' # [CHR 0x0A]"
    by (simp add: print_line_def assms plain_attrs_def del: print_attr.simps)
  have "length ?as \<le> length (?s @ CHR ''}'' # [CHR 0x0A])"
    using plain_length [of ?as "CHR '',''"] by (simp only: length_append)
  from read_members_print [OF this, of "[CHR 0x0A]"] show ?thesis by (simp add: line read_line_def)
qed

lemma join_visible:
  "\<forall>p \<in> set ps. \<forall>x \<in> set p. of_char x \<ge> (32::nat) \<Longrightarrow> of_char c \<ge> (32::nat) \<Longrightarrow>
   \<forall>x \<in> set (join_on c ps). of_char x \<ge> (32::nat)"
  by (induction c ps rule: join_on.induct) auto

lemma print_attr_visible: "\<forall>x \<in> set (print_attr a). of_char x \<ge> (32::nat)"
proof (induction a)
  case (Group g as)
  then have "\<forall>x \<in> set (join_on (CHR '','') (map print_attr as)). of_char x \<ge> (32::nat)"
    by (intro join_visible) auto
  then show ?case using escape_visible by (auto simp: json_string_def)
qed (use escape_visible in \<open>auto simp: json_string_def\<close>)

lemma print_line_single:
  "\<exists>s. print_line time r = s @ [CHR 0x0A] \<and> (\<forall>x \<in> set s. of_char x \<ge> (32::nat))"
proof -
  let ?as = "[Attr ''time'' False time, Attr ''level'' False (level_string (RecordLevel r)),
    Attr ''msg'' False (Message r)] @ RecordAttrs r"
  have "\<forall>p \<in> set (map print_attr as). \<forall>x \<in> set p. of_char x \<ge> (32::nat)" for as
    using print_attr_visible by auto
  then have "\<forall>x \<in> set (join_on (CHR '','') (map print_attr ?as)). of_char x \<ge> (32::nat)"
    by (rule join_visible) simp
  then show ?thesis
    by (intro exI [of _ "''{'' @ join_on (CHR '','') (map print_attr ?as) @ ''}''"])
      (auto simp: print_line_def simp del: print_attr.simps)
qed

lemma valid_form_ascii: "list_all (in_bytes 0 0x7F) s \<Longrightarrow> valid_form s = s"
  by (induction s) auto


section \<open>The audit log\<close>

definition audit_line :: "string \<Rightarrow> slog_record \<Rightarrow> string" where
  "audit_line time r = print_line time r"

lemma audit_line_single:
  "\<exists>s. audit_line time r = s @ [CHR 0x0A] \<and> (\<forall>x \<in> set s. of_char x \<ge> (32::nat))"
  unfolding audit_line_def by (rule print_line_single)

lemma audit_line_read:
  "read_line (audit_line time \<lparr>RecordLevel = LevelInfo, Message = msg, RecordAttrs = call_attrs as\<rparr>) =
     Some ([(''time'', valid_form time), (''level'', ''INFO''), (''msg'', valid_form msg)]
       @ map (map_prod valid_form valid_form) as)"
proof -
  have "valid_form ''time'' = ''time''" "valid_form ''level'' = ''level''" "valid_form ''msg'' = ''msg''"
    "valid_form (level_string LevelInfo) = ''INFO''"
    by (simp_all add: valid_form_ascii in_bytes_def level_string_def LevelInfo_def)
  moreover have plain: "call_attrs as = plain_attrs (map (\<lambda>(k, v). (k, typed_key k, v)) as)"
    by (auto simp: call_attrs_def plain_attrs_def)
  moreover have "map ((\<lambda>(k, typed, v). (valid_form k, valid_form v)) \<circ> (\<lambda>(k, v). (k, typed_key k, v))) as =
      map (map_prod valid_form valid_form) as"
    by (auto simp: map_prod_def)
  ultimately show ?thesis
    unfolding audit_line_def by (subst print_line_plain [of _ "map (\<lambda>(k, v). (k, typed_key k, v)) as"]) simp_all
qed

text \<open>
  C20: what a log call of the program writes. A reader of JSON gets from the text of the call the
  message, the attributes of the call in their order, and then the ids of the trace and the span of
  the context, in this order and only if the context has a span.
\<close>

theorem log_call_correlated:
  "read_line (concat (map (audit_line time) (drop (length (Log w)) (Log (InfoContext ot ctx msg as w))))) =
     Some ([(''time'', valid_form time), (''level'', ''INFO''), (''msg'', valid_form msg)]
       @ map (map_prod valid_form valid_form) as
       @ (case SpanContextFromContext ot ctx of
            None \<Rightarrow> []
          | Some (trace_id, span_id) \<Rightarrow>
              [(''trace_id'', valid_form trace_id), (''span_id'', valid_form span_id)]))"
proof -
  have "valid_form ''trace_id'' = ''trace_id''" "valid_form ''span_id'' = ''span_id''"
    by (simp_all add: valid_form_ascii in_bytes_def)
  then show ?thesis
    by (auto simp: InfoContext_def logger_log_info audit_line_read span_attrs_def split: option.split)
qed

end
