(* ===== verification/Spec2Isabelle.thy ===== *)
theory Spec2Isabelle
  imports Dockauthz Pki_Cli Generated_Code Spec_Equality Audit_Log
begin

text \<open>
  A verification of \<open>dockauthz\<close>, an authorization plugin for the Docker daemon, with the
  certificate tool and the code generator of the same repository.

  \<^bold>\<open>The program.\<close> The Docker daemon sends every API request, with the identity that TLS has
  established, to the plugin over a Unix socket (\<open>internal/transport\<close>). The plugin
  (\<open>internal/authz\<close>) finds out who sends the request (\<open>internal/identity\<close>), which operation it is
  (\<open>internal/operation\<close>), and whether one of the client's permissions, from a YAML document
  (\<open>internal/config\<close>), grants it (\<open>internal/policy\<close>). A permission may demand labels of the object
  as it is now, which the plugin reads from the daemon (\<open>internal/dockerapi\<close>), or that an update of
  a service changes certain fields only (\<open>internal/mutation\<close>). Because the daemon sends the plugin's
  own reads back to it, they carry a secret token. Decisions are audited (\<open>internal/audit\<close>) and
  traced (\<open>internal/telemetry\<close>). \<open>cmd/dockauthz\<close> puts the parts together; \<open>cmd/dockauthz-cert\<close> makes
  certificates (\<open>internal/pki\<close>); \<open>internal/mutation/generate\<close> generates the comparison of service
  specifications.

  \<^bold>\<open>Theories, from the bottom up.\<close>
  \<^item> \<open>Prelude\<close>: how Go values are written in HOL, first errors of loops, readers.
  \<^item> \<open>Steps\<close>: the locales \<open>stable_predicate\<close> and \<open>invariant_predicate\<close>, what the steps of a relation keep;
    interpreted by the invariants of the server and of the error handler.
  \<^item> \<open>Go_Strings\<close>, \<open>Go_Url\<close>, \<open>Go_Duration\<close>, \<open>Go_Flag\<close>: what the code uses of the Go standard library,
    with the lemmas its clients need: splitting, trimming, case folding, \<open>ParseUint\<close> at 64 bits,
    escaping of paths and queries, durations with their rounding, command line flags.
  \<^item> \<open>Identity\<close>: \<open>CommonName\<close>.
  \<^item> \<open>Operation\<close>: \<open>Supports\<close> and \<open>Resolve\<close>; a request line is resolved iff it is the literal print of an
    operation that exists.
  \<^item> \<open>Swarm_Types\<close>, \<open>Equal_Generated\<close>, \<open>Spec_Equality\<close>: the Docker types that the generated file names,
    all its comparison functions, and that they decide equality.
  \<^item> \<open>Go_Types\<close>, \<open>Generator\<close>, \<open>Generated_Code\<close>: the generator of that file. \<open>Go_Types\<close> has the type objects, how
    they are printed and how packages get import aliases; the locale \<open>alias_predicate\<close> carries what is kept
    while aliases are added, and is interpreted twice. \<open>Generator\<close> is the compiler from type objects to
    declarations and their text, \<open>Generated_Code\<close> the semantics of the functions on Go values and their
    correctness for all types.
  \<^item> \<open>Spec_Json\<close>, \<open>Mutation\<close>: strict decoding; \<open>Validate\<close>, which refines the specification \<open>confined\<close>.
  \<^item> \<open>Config\<close>, \<open>Config_Parse\<close>: the document, its validation against \<open>config_ok\<close>, the passes over the YAML
    nodes, \<open>Parse\<close> and \<open>Load\<close>.
  \<^item> \<open>Token\<close>, \<open>Docker_Client\<close>: the token and its check; \<open>New\<close> and \<open>Inspect\<close>. The locale \<open>docker_reader\<close> is what
    a client of the interface \<open>Reader\<close> relies on, \<open>similar_readers\<close> relates two of them; both are
    interpreted by \<open>Inspect\<close>.
  \<^item> \<open>Audit_Handler\<close>: the logger of \<open>internal/audit\<close>, from the arguments of a log call to the record that is
    written. The laws of handlers are the locales \<open>attr_handler\<close> and \<open>group_handler\<close>, interpreted by the
    JSON handler and by the program's wrapper.
  \<^item> \<open>Observer\<close>: spans, metrics and the records of that logger, appended to the world.
  \<^item> \<open>Audit_Log\<close>: the text of a record, one line of JSON, and a reader for it.
  \<^item> \<open>Policy\<close>: \<open>Evaluate\<close> over any reader, against \<open>grants_request\<close>.
  \<^item> \<open>Authz\<close>: \<open>New\<close> and \<open>Authorize\<close>, against \<open>permitted\<close>.
  \<^item> \<open>Transport\<close>: the HTTP adapter \<open>ServeHTTP\<close> and, as a state machine, \<open>ServeUnix\<close>.
  \<^item> \<open>Telemetry_Setup\<close>: \<open>Setup\<close>, the exporters, \<open>Shutdown\<close>, and the error handler under interleaving.
  \<^item> \<open>Dockauthz\<close>: \<open>run\<close> and \<open>main\<close> of the plugin, with a frame that collects the deferred calls and runs
    them on return.
  \<^item> \<open>Pki\<close>, \<open>Pki_Cli\<close>: \<open>Generate\<close> with its output directory; \<open>Run\<close> and \<open>main\<close> of the certificate tool.
  \<^item> This theory: properties of the whole.

  \<^bold>\<open>State.\<close> A call of the plugin passes on a record \<open>world\<close>: the daemon's state, of any type, the
  telemetry emitted so far and the audit log so far. The plugin itself is immutable. The output
  directory of the certificate tool is a map of entries together with the outcomes of the
  operations to come, so that every operation may fail at any point. The concurrent parts are step
  relations: \<open>serve_step\<close> and \<open>environment_step\<close> for \<open>ServeUnix\<close> and the goroutines around it,
  \<open>handler_step\<close> for the calls of the error handler, one step for each atomic action. Calls of
  \<open>Authorize\<close> share nothing but the daemon and the logs, and are modelled one at a time.

  \<^bold>\<open>Results.\<close>
  \<^item> Decisions: \<open>Authorize\<close> allows exactly what the declarative \<open>permitted\<close> says, permissions are never
    merged, and an authenticated but unknown client is denied. The exactness lemmas of \<open>Operation\<close>,
    \<open>Identity\<close>, \<open>Token\<close>, \<open>Policy\<close>, \<open>Mutation\<close> and \<open>Docker_Client\<close> make each part of that specification precise.
  \<^item> Internal requests: judged by the token alone, and the plugin's own reads, with the headers that
    \<open>Inspect\<close> sends, are always allowed without a further read, so that they cannot recurse.
  \<^item> Updates: bound to the identity and the 64-bit version that was read; a mutation rule lets through
    exactly the specifications that differ in the listed fields; and the daemon, which applies only an
    update of the current version, changes only these fields of the state it has by then.
  \<^item> Documents: accepted iff well-formed, whatever the order of the maps; after \<open>Load\<close> neither telemetry nor
    the plugin can fail on them.
  \<^item> Observability: one record for each decision, with a well-formed operation; responses do not depend
    on it; a record is one line that a request cannot forge, and it decodes to what was logged,
    followed by the ids of the trace and the span;
    exporter failures do not stop the start, and their log lines are a minute apart.
  \<^item> The server: only bounded, strictly decoded envelopes reach the plugin; a server that was taken over
    is stopped before \<open>ServeUnix\<close> returns; after a cancellation it returns. On every path through the
    process what was taken is released exactly once, in the reverse order.
  \<^item> Certificates: a bundle appears as a whole or not at all, existing files survive without \<open>--force\<close>,
    a leaf certificate is signed by the loaded CA and cannot sign, lifetimes do not overflow.
  \<^item> The generator: its functions decide structural equality, it terminates on cyclic types, its file
    declares what it calls and prints each type as its imports say; aliases are distinct unless a
    package has the name of another one with digits appended, and \<open>alias_taken_iff\<close> says exactly when
    they can clash.

  \<^bold>\<open>Parameters.\<close> Code outside the repository is an argument of the definitions: the YAML package and
  the JSON decoders of Docker's types (functions from bytes to values), PEM, X.509 and RSA, the
  OpenTelemetry packages, the daemon's answers, the plugin helper, the file system's failures, the
  clock and the randomness, the objects that the loader of Go packages returns, and the order in
  which a map is iterated over. Hypotheses about them are stated in the theorems: a YAML mapping pairs
  every key with a value (\<open>even_mappings\<close>), a daemon ignores trace headers (\<open>ignores_trace_headers\<close>),
  the trace propagator does not touch the token's header (\<open>keeps_internal_headers\<close>), the daemon hands
  on the headers it has received and adds none with that name (\<open>relayed\<close>),
  \<open>os.CreateTemp\<close> returns a fresh name with its prefix (\<open>good_temp\<close>), the helper returns once its server
  is stopped (\<open>helper_stops\<close>), the scheduler is fair (\<open>fair\<close>), an iteration visits every entry
  (\<open>any_order\<close>), and the daemon gives every change of a service a new version (\<open>versioned\<close>), which its
  answers report (\<open>reads_services\<close>). Each such theorem comes with an
  instance that satisfies them.

  \<^bold>\<open>Bounds.\<close> Only \<open>gen_equal\<close> uses fuel; \<open>generate\<close> gives it one unit more than there are type objects,
  which \<open>generator_terminates\<close> shows to be enough. Versions, timestamps and certificate lifetimes are
  64-bit words; the other loops are structural or have a measure.

  \<^bold>\<open>Not modelled.\<close> The generated test doubles of \<open>internal/dockerapi\<close>: they only pass calls to a
  mocking package, and the program does not use them. The JSON text of responses. Type arguments of
  generic types, and the loading of Go packages and the formatting of the generated file, which
  belong to other packages. The time that comparisons take, values of duration histograms, connection
  pools, and timeouts other than as a missing answer. Usage texts of the commands.
\<close>

section \<open>A client that may rotate secrets\<close>

text \<open>The example of the documentation: a client whose only right is a rule on secrets.\<close>

definition secrets_rule :: Permission where
  "secrets_rule =
     \<lparr>Permission.Selector = None, Permission.Request = None,
      Permission.Mutation = Some \<lparr>Only = [''container.secrets'']\<rparr>\<rparr>"

definition secrets_client :: "string \<Rightarrow> client" where
  "secrets_client name =
     \<lparr>client_name = name, client_permissions = [(''service'', [(''update'', secrets_rule)])]\<rparr>"

lemma secrets_client_matching:
  assumes "wf_operation op"
  shows "matching (secrets_client name) op = (if is_service_update op then [secrets_rule] else [])"
proof -
  have "OpResource op \<noteq> ''*''" "OpAction op \<noteq> ''*''"
    using assms Supports_cases [of "OpResource op" "OpAction op"] by (auto simp: wf_operation_def)
  then show ?thesis
    by (simp add: matching_def lookup_permission_def secrets_client_def is_service_update_def)
qed

lemma secrets_rule_grants:
  "grants_request cd secrets_rule op body headers read \<longleftrightarrow>
     (\<exists>s current new. read = Inr s \<and>
        (is_service_update op \<longrightarrow> safeUpdate op secrets_rule headers) \<and> state_bound op s \<and>
        SnapshotServiceSpec s = Some current \<and> Decode (service_decoder cd) body = Inr new \<and>
        confined {''container.secrets''} current new)"
  by (auto simp: grants_request_def satisfies_def needs_state_def Unconditional_def secrets_rule_def)

lemma secrets_client_permits:
  "client_permits ot cd inspect (secrets_client name) ctx req w \<longleftrightarrow>
     (\<exists>op. Resolve (RequestMethod req) (RequestURI req) = Some op \<and> is_service_update op \<and>
        grants_request cd secrets_rule op (RequestBody req) (RequestHeaders req)
          (fst (inspect ctx op w)))"
  (is "?lhs \<longleftrightarrow> ?rhs")
proof
  have no_admin: "\<not> full_administrator (secrets_client name)"
    by (simp add: full_administrator_def lookup_permission_def secrets_client_def)
  have matching: "matching (secrets_client name) op = (if is_service_update op then [secrets_rule] else [])"
    if "Resolve (RequestMethod req) (RequestURI req) = Some op" for op
    using that by (intro secrets_client_matching) (simp add: Resolve_iff)
  show ?rhs if ?lhs
    using that no_admin matching
    by (auto simp: client_permits_def append_eq_Cons_conv split: if_splits)
  show ?lhs if rhs: ?rhs
  proof -
    from rhs obtain op where op: "Resolve (RequestMethod req) (RequestURI req) = Some op" "is_service_update op"
      "grants_request cd secrets_rule op (RequestBody req) (RequestHeaders req) (fst (inspect ctx op w))"
      by blast
    have "matching (secrets_client name) op = [] @ secrets_rule # []" using matching op by simp
    then show ?lhs using op unfolding client_permits_def by (metis tried.simps(1))
  qed
qed

lemma secrets_client_allowed_iff:
  assumes "token_values (RequestHeaders req) = []" and "authenticated_as req cn"
    and "clients p cn = Some (secrets_client name)"
  shows "ResponseAllow (fst (Authorize ot cd ob inspect p ctx req w)) \<longleftrightarrow>
    (\<exists>op s current new.
       Resolve (RequestMethod req) (RequestURI req) = Some op \<and> is_service_update op \<and>
       safeUpdate op secrets_rule (RequestHeaders req) \<and>
       fst (inspect (authorize_context ot ctx req) op (authorize_world w)) = Inr s \<and>
       state_bound op s \<and> SnapshotServiceSpec s = Some current \<and>
       Decode (service_decoder cd) (RequestBody req) = Inr new \<and>
       confined {''container.secrets''} current new)"
proof -
  have "\<not> anonymous req" using assms(2) by (auto simp: anonymous_def authenticated_as_def)
  moreover have "authenticated_as req cn' \<longleftrightarrow> cn' = cn" for cn'
    using assms(2) authenticated_as_unique by blast
  ultimately show ?thesis
    using assms(1,3)
    by (auto simp: Authorize_Allow_iff permitted_def secrets_client_permits secrets_rule_grants)
qed

text \<open>A daemon with one service, and a request that removes the service's secrets.\<close>

definition example_state :: "(unit, int) state_reader" where
  "example_state ctx op w =
     (Inr \<lparr>SnapshotID = ''abc'', SnapshotVersion = 7, SnapshotLabels = None,
           SnapshotServiceSpec = Some (example_service ''nginx'' (Some [None]))\<rparr>, w)"

definition example_update_request :: Request where
  "example_update_request =
     (example_request ''/v1.44/services/abc/update?version=7'' [] ''ci.example'')
       \<lparr>RequestMethod := ''POST'', RequestBody := ''{}''\<rparr>"

lemma example_update_resolves:
  "Resolve (RequestMethod example_update_request) (RequestURI example_update_request) = Some example_update"
  by code_simp

lemma example_client:
  "token_values (RequestHeaders example_update_request) = []"
  "authenticated_as example_update_request ''ci.example''"
  by (simp_all add: token_values_def example_update_request_def example_request_def authenticated_as_def)

lemma example_update_conditions:
  "\<exists>op s current new.
     Resolve (RequestMethod example_update_request) (RequestURI example_update_request) = Some op \<and> is_service_update op \<and>
     safeUpdate op secrets_rule (RequestHeaders example_update_request) \<and>
     fst (example_state (authorize_context no_otel () example_update_request) op (authorize_world example_world)) = Inr s \<and>
     state_bound op s \<and> SnapshotServiceSpec s = Some current \<and>
     Decode (service_decoder example_codecs) (RequestBody example_update_request) = Inr new \<and>
     confined {''container.secrets''} current new"
proof -
  have "is_service_update example_update" "safeUpdate example_update secrets_rule []"
    "parse_uint (query_get (OpQuery example_update) ''version'') = Some 7"
    by code_simp+
  moreover have "confined {''container.secrets''} (example_service ''nginx'' (Some [None]))
      (example_service ''nginx'' None)"
    by (simp add: confined_def supported_fields_def applicable_def equalSpec_iff ratios_ok_def ratio_ok_def
        mask_secrets example_service_def example_container_def mask_container_def)
  ultimately show ?thesis
    unfolding example_update_resolves
    by (auto simp: example_update_request_def example_request_def example_state_def state_bound_def
        example_update_def example_codecs_def)
qed

lemma example_update_allowed:
  "ResponseAllow (fst (Authorize no_otel example_codecs NewObserver example_state
       (example_plugin\<lparr>clients := [''ci.example'' \<mapsto> secrets_client ''ci'']\<rparr>) ()
       example_update_request example_world))"
  using example_update_conditions
  by (subst secrets_client_allowed_iff [where cn = "''ci.example''" and name = "''ci''", OF example_client]) auto

text \<open>
  C4: end to end, a client whose only right is to change the secrets of services. Its request
  is allowed iff it resolves to the update of a service with harmless options and without
  registry credentials, the daemon reports that service under exactly the id of the request
  and in the version of the request, and the submitted specification is strictly decodable
  and confined to the secrets of the container: whatever else the request carries, nothing
  outside the secrets changes.
\<close>

theorem secrets_client_exact:
  assumes "token_values (RequestHeaders req) = []" and "authenticated_as req cn"
    and "clients p cn = Some (secrets_client name)"
  shows "ResponseAllow (fst (Authorize ot cd ob inspect p ctx req w)) \<longleftrightarrow>
    (\<exists>op s current new.
       Resolve (RequestMethod req) (RequestURI req) = Some op \<and> is_service_update op \<and>
       safeUpdate op secrets_rule (RequestHeaders req) \<and>
       fst (inspect (authorize_context ot ctx req) op (authorize_world w)) = Inr s \<and>
       state_bound op s \<and> SnapshotServiceSpec s = Some current \<and>
       Decode (service_decoder cd) (RequestBody req) = Inr new \<and>
       confined {''container.secrets''} current new)"
  using assms by (rule secrets_client_allowed_iff)

theorem secrets_client_exact_witness:
  "ResponseAllow (fst (Authorize no_otel example_codecs NewObserver example_state
       (example_plugin\<lparr>clients := [''ci.example'' \<mapsto> secrets_client ''ci'']\<rparr>) ()
       example_update_request example_world))"
  using example_update_conditions
  by (subst secrets_client_exact [where cn = "''ci.example''" and name = "''ci''", OF example_client]) auto

text \<open>
  What the daemon promises about versions: a global index, never decreasing, from which every
  change of a service takes a new version; and what a reader of its state promises.
\<close>

definition versioned ::
  "('d \<Rightarrow> uint64) \<Rightarrow> ('d \<Rightarrow> string \<Rightarrow> (uint64 \<times> ServiceSpec) option) \<Rightarrow> ('d \<Rightarrow> 'd \<Rightarrow> bool) \<Rightarrow> bool" where
  "versioned index service_of step \<longleftrightarrow>
     (\<forall>d sid v spec. service_of d sid = Some (v, spec) \<longrightarrow> v \<le> index d) \<and>
     (\<forall>d d'. step d d' \<longrightarrow> index d \<le> index d' \<and>
        (\<forall>sid v spec. service_of d' sid = Some (v, spec) \<longrightarrow>
           service_of d sid = Some (v, spec) \<or> index d < v))"

definition reads_services ::
  "('d \<Rightarrow> string \<Rightarrow> (uint64 \<times> ServiceSpec) option) \<Rightarrow> ('c, 'd) state_reader \<Rightarrow> bool" where
  "reads_services service_of inspect \<longleftrightarrow>
     (\<forall>ctx op w s spec. fst (inspect ctx op w) = Inr s \<longrightarrow> SnapshotServiceSpec s = Some spec \<longrightarrow>
        service_of (Daemon w) (SnapshotID s) = Some (SnapshotVersion s, spec))"

lemma Daemon_authorize_world [simp]: "Daemon (authorize_world w) = Daemon w"
  by (simp add: authorize_world_def)

lemma version_stable:
  assumes "versioned index service_of step"
  shows "stable_predicate step (\<lambda>d. v \<le> index d \<and> (\<forall>spec'. service_of d sid = Some (v, spec') \<longrightarrow> spec' = spec))"
proof
  fix d d'
  assume step: "step d d'" and d: "v \<le> index d \<and> (\<forall>spec'. service_of d sid = Some (v, spec') \<longrightarrow> spec' = spec)"
  have "index d \<le> index d'" using assms step by (auto simp: versioned_def)
  moreover have "service_of d sid = Some (v, spec')" if "service_of d' sid = Some (v, spec')" for spec'
    using assms step that d unfolding versioned_def by (meson leD)
  ultimately show "v \<le> index d' \<and> (\<forall>spec'. service_of d' sid = Some (v, spec') \<longrightarrow> spec' = spec)"
    using d by auto
qed

text \<open>As long as a service has its version, it has its specification.\<close>

lemma version_fixes_spec:
  assumes "versioned index service_of step" and "step\<^sup>*\<^sup>* d d'"
    and "service_of d sid = Some (v, spec)" and "service_of d' sid = Some (v, spec')"
  shows "spec' = spec"
  using stable_predicate.stable_steps [OF version_stable [OF assms(1)] assms(2), of v sid spec] assms(1,3,4)
  by (auto simp: versioned_def)

text \<open>
  C5: no race between the check and the update. The daemon applies an update later than the
  plugin has allowed it, after any number of other changes, but only if the service still has the version
  that the request names. Then the update of a client that may only change secrets is
  confined to the secrets of the specification that the service has at that moment.
\<close>

theorem applied_update_confined:
  assumes "versioned index service_of step" and "reads_services service_of inspect"
    and "token_values (RequestHeaders req) = []" and "authenticated_as req cn"
    and "clients p cn = Some (secrets_client name)"
    and "ResponseAllow (fst (Authorize ot cd ob inspect p ctx req w))"
    and "step\<^sup>*\<^sup>* (Daemon w) d"
    and "Resolve (RequestMethod req) (RequestURI req) = Some op"
    and "service_of d (OpID op) = Some (v, spec)"
    and "parse_uint (query_get (OpQuery op) ''version'') = Some v"
  shows "\<exists>new. Decode (service_decoder cd) (RequestBody req) = Inr new \<and> confined {''container.secrets''} spec new"
proof -
  obtain s current new where s: "is_service_update op"
    "fst (inspect (authorize_context ot ctx req) op (authorize_world w)) = Inr s" "state_bound op s"
    "SnapshotServiceSpec s = Some current" "Decode (service_decoder cd) (RequestBody req) = Inr new"
    "confined {''container.secrets''} current new"
    using assms(6,8) unfolding secrets_client_allowed_iff [OF assms(3-5)] by auto
  have "service_of (Daemon w) (OpID op) = Some (v, current)"
  proof -
    have "SnapshotID s = OpID op" "SnapshotVersion s = v" using s(1,3) assms(10) by (auto simp: state_bound_def)
    moreover have "service_of (Daemon (authorize_world w)) (SnapshotID s) = Some (SnapshotVersion s, current)"
      using assms(2) s(2,4) unfolding reads_services_def by blast
    ultimately show ?thesis by simp
  qed
  from version_fixes_spec [OF assms(1,7) this assms(9)] show ?thesis using s(5,6) by blast
qed

definition example_services :: "int \<Rightarrow> string \<Rightarrow> (uint64 \<times> ServiceSpec) option" where
  "example_services d sid =
     (if sid = ''abc'' then Some (7, example_service ''nginx'' (Some [None])) else None)"

theorem applied_update_confined_witness:
  "\<exists>new. Decode (service_decoder example_codecs) (RequestBody example_update_request) = Inr new \<and>
     confined {''container.secrets''} (example_service ''nginx'' (Some [None])) new"
proof (rule applied_update_confined [where p = "example_plugin\<lparr>clients := [''ci.example'' \<mapsto> secrets_client ''ci'']\<rparr>"
      and cn = "''ci.example''" and inspect = example_state and w = example_world and index = "\<lambda>_. 7"
      and service_of = example_services and step = "\<lambda>d d'. d' = d + 1" and d = "Daemon example_world + 1"
      and ot = no_otel and ob = NewObserver and ctx = "()"])
  show "versioned (\<lambda>_. 7) example_services (\<lambda>d d'. d' = d + 1)"
    by (auto simp: versioned_def example_services_def)
  show "reads_services example_services example_state"
    by (auto simp: reads_services_def example_services_def example_state_def)
  show "ResponseAllow (fst (Authorize no_otel example_codecs NewObserver example_state
       (example_plugin\<lparr>clients := [''ci.example'' \<mapsto> secrets_client ''ci'']\<rparr>) () example_update_request example_world))"
    by (rule example_update_allowed)
  show "Resolve (RequestMethod example_update_request) (RequestURI example_update_request) = Some example_update"
    by (rule example_update_resolves)
  show "example_services (Daemon example_world + 1) (OpID example_update) = Some (7, example_service ''nginx'' (Some [None]))"
    by (simp add: example_services_def example_update_def)
  show "parse_uint (query_get (OpQuery example_update) ''version'') = Some 7" by code_simp
qed (auto intro: example_client)


section \<open>The running process\<close>

text \<open>
  C3: the process, from its command line to its answers. A process that serves was started with
  an accepted document, and it answers a callback with an allowing response iff the callback
  is a valid envelope on the response path, or a valid envelope on the request path whose
  request is permitted by the plugin of that document, with the process's own random token.
\<close>

theorem running_service_exact:
  assumes "fst (snd (run h version serve args g)) = Some service"
  shows "\<exists>path cfg bytes. Load (host_yaml h) (host_open h) path = Inr cfg \<and> config_ok cfg \<and>
    host_random h 32 = Some bytes \<and>
    (\<forall>ctx r w. reply_allows (fst (serve_callback ot libs (service_authorize ot cd service) ctx r w)) \<longleftrightarrow>
       InMethod r = ''POST'' \<and>
       (\<exists>req. accept_envelope libs (InPath r) (InBody r) = Some req \<and>
          (InPath r = ''/AuthZPlugin.AuthZRes'' \<or>
           InPath r = ''/AuthZPlugin.AuthZReq'' \<and>
             permitted ot cd (Inspect ot cd (service_client service))
               (plugin_of cfg \<lparr>TokenValue = encode_hex bytes\<rparr>)
               (authorize_context ot (Extract ot ctx (InHeader r)) req) req (authorize_world w))))"
proof -
  obtain path cfg bytes tel where started:
    "Load (host_yaml h) (host_open h) path = Inr cfg" "config_ok cfg" "host_random h 32 = Some bytes"
    "service = started h tel cfg \<lparr>TokenValue = encode_hex bytes\<rparr>"
    using run_service_started [OF assms] by blast
  then have "service_plugin service = plugin_of cfg \<lparr>TokenValue = encode_hex bytes\<rparr>"
    by (simp add: started_def)
  then show ?thesis
    using started(1-3)
    by (intro exI [of _ path] exI [of _ cfg] exI [of _ bytes])
      (simp add: serve_callback_allows_iff service_authorize_def Authorize_Allow_iff)
qed

theorem running_service_exact_witness:
  "\<exists>service. fst (snd (run example_host ''1.0'' (\<lambda>_. None) [''--config=/etc/policy.yaml''] example_globals)) =
     Some service \<and>
   \<not> reply_allows (fst (serve_callback no_otel example_libs (service_authorize no_otel example_codecs service) ()
       \<lparr>InMethod = ''GET'', InPath = ''/AuthZPlugin.AuthZReq'', InHeader = [],
        InBody = \<lparr>ReaderBytes = ''{}'', ReaderFails = False\<rparr>\<rparr> example_world))"
proof -
  obtain service where service: "fst (snd (run example_host ''1.0'' (\<lambda>_. None)
      [''--config=/etc/policy.yaml''] example_globals)) = Some service"
    using example_run_service by blast
  from running_service_exact [OF service, of no_otel example_libs example_codecs] show ?thesis
    using service by auto
qed

text \<open>
  C33: which callbacks are audited. A callback leaves an audit record iff it is a \<open>POST\<close> of a valid
  envelope to the request path, and then exactly one: denials of malformed envelopes are not
  recorded.
\<close>

theorem callback_audit_exact:
  "\<exists>records. Log (snd (serve_callback ot libs (Authorize ot cd ob (Inspect ot cd c) p) ctx r w)) = Log w @ records \<and>
     length records \<le> 1 \<and>
     (records \<noteq> [] \<longleftrightarrow> InMethod r = ''POST'' \<and> InPath r = ''/AuthZPlugin.AuthZReq'' \<and>
        accept_envelope libs (InPath r) (InBody r) \<noteq> None)"
proof (cases "InMethod r = ''POST'' \<and> InPath r = ''/AuthZPlugin.AuthZReq'' \<and>
    accept_envelope libs (InPath r) (InBody r) \<noteq> None")
  case True
  then obtain req where req: "accept_envelope libs (InPath r) (InBody r) = Some req" by auto
  obtain entry where
    "Log (snd (Authorize ot cd ob (Inspect ot cd c) p (Extract ot ctx (InHeader r)) req w)) = Log w @ [entry]"
    using docker.Authorize_Log [where ot = ot and c = c and ctx = "Extract ot ctx (InHeader r)" and w = w] by blast
  then have "Log (snd (serve_callback ot libs (Authorize ot cd ob (Inspect ot cd c) p) ctx r w)) = Log w @ [entry]"
    using True req by (simp add: serve_callback_def split_beta)
  then show ?thesis using True req by (intro exI [of _ "[entry]"]) auto
next
  case False
  then have "snd (serve_callback ot libs (Authorize ot cd ob (Inspect ot cd c) p) ctx r w) = w"
    by (auto simp: serve_callback_def split: option.split)
  then show ?thesis using False by (intro exI [of _ "[]"]) simp
qed


section \<open>The audit log as text\<close>

text \<open>
  C19: the audit log cannot be forged from within a request. Every decision writes one line, whatever
  bytes the request, its certificate and its identifiers have: the line has no control
  character before the final line feed, and a reader of JSON gets the decision and the reason of
  the response from it, bytes that are not UTF-8 being replaced.
\<close>

theorem audit_line_exact:
  "\<exists>r s fields. Log (snd (Authorize ot cd ob (Inspect ot cd c) p ctx req w)) = Log w @ [r] \<and>
     audit_line time r = s @ [CHR 0x0A] \<and> list_all (\<lambda>x. of_char x \<ge> (32::nat)) s \<and>
     read_line (audit_line time r) = Some fields \<and>
     map_of fields ''decision'' =
       Some (if ResponseAllow (fst (Authorize ot cd ob (Inspect ot cd c) p ctx req w))
             then ''allow'' else ''deny'') \<and>
     map_of fields ''reason'' =
       Some (valid_form (Msg (fst (Authorize ot cd ob (Inspect ot cd c) p ctx req w))))"
proof -
  obtain v ctx' where v: "fst (Authorize ot cd ob (Inspect ot cd c) p ctx req w) = respond v"
    "Log (snd (Authorize ot cd ob (Inspect ot cd c) p ctx req w)) = Log w @ [audit_record ot ctx' req v]"
    using docker.Authorize_Log [where ot = ot and c = c and ctx = ctx and w = w] by blast
  let ?fields = "[(''time'', valid_form time), (''level'', ''INFO''), (''msg'', valid_form ''authorization decision'')]
    @ map (map_prod valid_form valid_form) (audit_attrs req v @ span_attrs (SpanContextFromContext ot ctx'))"
  have "map_of ?fields ''decision'' = Some (if ResponseAllow (respond v) then ''allow'' else ''deny'')"
    "map_of ?fields ''reason'' = Some (valid_form (Msg (respond v)))"
    by (simp_all add: respond_def audit_attrs_def valid_form_ascii in_bytes_def)
  moreover obtain s where "audit_line time (audit_record ot ctx' req v) = s @ [CHR 0x0A]"
    "list_all (\<lambda>x. of_char x \<ge> (32::nat)) s"
    using audit_line_single unfolding list_all_iff by blast
  moreover have "read_line (audit_line time (audit_record ot ctx' req v)) = Some ?fields"
    unfolding audit_record_def info_record_def by (rule audit_line_read)
  ultimately show ?thesis unfolding v by blast
qed

end
